(* ===== verification/Py_Base.thy ===== *)
theory Py_Base
  imports Main "HOL-Library.AList" "HOL-Library.Char_ord" "HOL-Library.List_Lexorder"
begin

text \<open>
  The fragment of the Python language and standard library that the modelled sources use
  on values: string methods, \<open>int(...)\<close> and \<open>str(...)\<close>, list indexing and dictionaries.
  Strings are lists of characters (\<open>string\<close>), restricted to code points below 256, which
  covers every literal of the modelled files that takes part in a computation. A
  dictionary is an association list in insertion order (\<open>HOL-Library.AList\<close>): assigning
  to a present key keeps its position and a new key goes last, as in Python 3.7 and later.
\<close>

section \<open>String predicates\<close>

type_synonym settings = "(string \<times> string) list"

definition newline :: string where
  "newline = [CHR 0x0A]"

definition startswith :: "string \<Rightarrow> string \<Rightarrow> bool" where
  "startswith s p \<longleftrightarrow> take (length p) s = p"

definition endswith :: "string \<Rightarrow> string \<Rightarrow> bool" where
  "endswith s p \<longleftrightarrow> startswith (rev s) (rev p)"

text \<open>\<open>sub in s\<close>.\<close>

fun str_in :: "string \<Rightarrow> string \<Rightarrow> bool" where
  "str_in sub [] \<longleftrightarrow> sub = []"
| "str_in sub (c # cs) \<longleftrightarrow> startswith (c # cs) sub \<or> str_in sub cs"

lemma startswith_iff: "startswith s p \<longleftrightarrow> (\<exists>t. s = p @ t)"
proof
  assume "startswith s p"
  then have "s = p @ drop (length p) s"
    by (metis append_take_drop_id startswith_def)
  then show "\<exists>t. s = p @ t" by blast
qed (auto simp: startswith_def)

lemma startswith_append [simp]: "startswith (p @ t) p"
  by (auto simp: startswith_iff)

lemma startswith_Nil [simp]: "startswith s []"
  by (simp add: startswith_def)

lemma startswith_Nil2 [simp]: "startswith [] p \<longleftrightarrow> p = []"
  by (auto simp: startswith_def)

lemma startswith_Cons [simp]: "startswith (c # cs) (d # ds) \<longleftrightarrow> c = d \<and> startswith cs ds"
  by (auto simp: startswith_def)

lemma startswith_same_prefix [simp]: "startswith (p @ s) (p @ q) \<longleftrightarrow> startswith s q"
  by (induction p) auto

lemma endswith_iff: "endswith s p \<longleftrightarrow> (\<exists>t. s = t @ p)"
proof -
  have "(\<exists>t. rev s = rev p @ t) \<longleftrightarrow> (\<exists>t. s = t @ p)"
    by (metis rev_append rev_rev_ident)
  then show ?thesis by (simp add: endswith_def startswith_iff)
qed

lemma endswith_append [simp]: "endswith (t @ p) p"
  by (auto simp: endswith_iff)

lemma endswith_refl [simp]: "endswith s s"
  by (auto simp: endswith_iff)

lemma str_in_Nil [simp]: "str_in [] s"
  by (cases s) auto

lemma str_in_iff: "str_in sub s \<longleftrightarrow> (\<exists>a b. s = a @ sub @ b)"
proof (induction s)
  case Nil
  then show ?case by auto
next
  case (Cons c cs)
  have "(\<exists>a b. c # cs = a @ sub @ b) \<longleftrightarrow>
      (\<exists>b. c # cs = sub @ b) \<or> (\<exists>a b. cs = a @ sub @ b)" (is "?l \<longleftrightarrow> ?r")
  proof
    assume ?l
    then obtain a b where "c # cs = a @ sub @ b" by blast
    then show ?r by (cases a) auto
  next
    assume ?r
    then show ?l by (metis append_Cons append_Nil)
  qed
  then show ?case using Cons.IH by (simp add: startswith_iff)
qed

lemma str_in_appendI1: "str_in sub a \<Longrightarrow> str_in sub (a @ b)"
  unfolding str_in_iff by (metis append_assoc)

lemma str_in_appendI2: "str_in sub b \<Longrightarrow> str_in sub (a @ b)"
  unfolding str_in_iff by (metis append_assoc)

lemma str_in_self [simp]: "str_in s s"
  unfolding str_in_iff by (metis append_Nil append_Nil2)

section \<open>Splitting, joining, replacing\<close>

text \<open>The text before and after the first occurrence of the separator.\<close>

fun find_sep :: "string \<Rightarrow> string \<Rightarrow> (string \<times> string) option" where
  "find_sep sep [] = (if sep = [] then Some ([], []) else None)"
| "find_sep sep (c # cs) =
     (if startswith (c # cs) sep then Some ([], drop (length sep) (c # cs))
      else map_option (\<lambda>(a, b). (c # a, b)) (find_sep sep cs))"

lemma find_sep_eq: "find_sep sep s = Some (a, b) \<Longrightarrow> s = a @ sep @ b"
proof (induction s arbitrary: a)
  case (Cons c cs)
  show ?case
  proof (cases "startswith (c # cs) sep")
    case True
    then have "c # cs = sep @ drop (length sep) (c # cs)"
      by (metis append_take_drop_id startswith_def)
    with True Cons.prems show ?thesis by simp
  next
    case False
    with Cons.prems obtain a' where "find_sep sep cs = Some (a', b)" "a = c # a'" by auto
    with Cons.IH show ?thesis by simp
  qed
qed (simp split: if_splits)

lemma find_sep_None: "find_sep sep s = None \<longleftrightarrow> \<not> str_in sep s"
  by (induction s) auto

lemma find_sep_length: "find_sep sep s = Some (a, b) \<Longrightarrow> sep \<noteq> [] \<Longrightarrow> length b < length s"
  by (drule find_sep_eq) auto

text \<open>
  \<open>s.split(sep)\<close>, \<open>s.split(sep, 1)\<close> and \<open>s.rsplit(sep, 1)\<close>. Python refuses an empty
  separator; no call in the sources has one, and the model then leaves the string whole.
\<close>

function py_split :: "string \<Rightarrow> string \<Rightarrow> string list" where
  "py_split sep s =
     (if sep = [] then [s]
      else case find_sep sep s of None \<Rightarrow> [s] | Some (a, b) \<Rightarrow> a # py_split sep b)"
  by pat_completeness auto
termination
  by (relation "measure (\<lambda>(sep, s). length s)") (auto dest: find_sep_length)

declare py_split.simps [simp del]

definition py_split1 :: "string \<Rightarrow> string \<Rightarrow> string list" where
  "py_split1 sep s = (case find_sep sep s of None \<Rightarrow> [s] | Some (a, b) \<Rightarrow> [a, b])"

definition py_rsplit1 :: "string \<Rightarrow> string \<Rightarrow> string list" where
  "py_rsplit1 sep s =
     (case find_sep (rev sep) (rev s) of None \<Rightarrow> [s] | Some (a, b) \<Rightarrow> [rev b, rev a])"

fun py_join :: "string \<Rightarrow> string list \<Rightarrow> string" where
  "py_join sep [] = []"
| "py_join sep [x] = x"
| "py_join sep (x # y # xs) = x @ sep @ py_join sep (y # xs)"

lemma py_split_nonempty [simp]: "py_split sep s \<noteq> []"
  by (subst py_split.simps) (auto split: option.split)

lemma py_join_Cons: "xs \<noteq> [] \<Longrightarrow> py_join sep (x # xs) = x @ sep @ py_join sep xs"
  by (cases xs) auto

lemma set_py_join: "set (py_join sep xs) \<subseteq> set sep \<union> \<Union> (set ` set xs)"
  by (induction sep xs rule: py_join.induct) auto

lemma py_join_split: "sep \<noteq> [] \<Longrightarrow> py_join sep (py_split sep s) = s"
proof (induction sep s rule: py_split.induct)
  case (1 sep s)
  show ?case
  proof (cases "find_sep sep s")
    case None
    with "1.prems" show ?thesis by (simp add: py_split.simps [of sep s])
  next
    case (Some ab)
    obtain a b where [simp]: "ab = (a, b)" by (cases ab)
    from "1.IH" "1.prems" Some have "py_join sep (py_split sep b) = b" by simp
    then have "py_join sep (py_split sep s) = a @ sep @ b"
      using Some "1.prems" by (simp add: py_split.simps [of sep s] py_join_Cons)
    also have "\<dots> = s" using Some find_sep_eq [of sep s a b] by simp
    finally show ?thesis .
  qed
qed

text \<open>A piece of a split never contains a one-character separator.\<close>

lemma find_sep_char_fst: "find_sep [c] s = Some (a, b) \<Longrightarrow> c \<notin> set a"
  by (induction s arbitrary: a b) (auto split: if_splits)

lemma str_in_char: "str_in [c] s \<longleftrightarrow> c \<in> set s"
  by (induction s) auto

lemma py_split_char_free: "x \<in> set (py_split [c] s) \<Longrightarrow> c \<notin> set x"
proof (induction "[c]" s rule: py_split.induct)
  case (1 s)
  then show ?case
    by (subst (asm) (2) py_split.simps)
       (auto simp: find_sep_None str_in_char dest: find_sep_char_fst split: option.splits)
qed

lemma py_split_char_append:
  "c \<notin> set a \<Longrightarrow> py_split [c] (a @ c # b) = a # py_split [c] b"
proof -
  assume "c \<notin> set a"
  then have "find_sep [c] (a @ c # b) = Some (a, b)"
    by (induction a) auto
  then show ?thesis by (subst py_split.simps) simp
qed

lemma py_split_char_none: "c \<notin> set a \<Longrightarrow> py_split [c] a = [a]"
proof -
  assume "c \<notin> set a"
  then have "find_sep [c] a = None" by (simp add: find_sep_None str_in_char)
  then show ?thesis by (subst py_split.simps) simp
qed

lemma py_split_char_join:
  "xs \<noteq> [] \<Longrightarrow> (\<And>x. x \<in> set xs \<Longrightarrow> c \<notin> set x) \<Longrightarrow> py_split [c] (py_join [c] xs) = xs"
proof (induction "[c]" xs rule: py_join.induct)
  case (3 x y xs)
  then show ?case by (simp add: py_split_char_append)
qed (auto simp: py_split_char_none)

text \<open>\<open>s.replace(c, r)\<close> for a one-character \<open>c\<close>, the only form the sources use.\<close>

definition py_replace :: "char \<Rightarrow> string \<Rightarrow> string \<Rightarrow> string" where
  "py_replace c r s = concat (map (\<lambda>x. if x = c then r else [x]) s)"

lemma py_replace_removes: "c \<notin> set r \<Longrightarrow> c \<notin> set (py_replace c r s)"
  by (auto simp: py_replace_def split: if_splits)

lemma set_py_replace: "set (py_replace c r s) \<subseteq> set s - {c} \<union> set r"
  by (auto simp: py_replace_def split: if_splits)

lemma py_replace_length: "length (py_replace c [d] s) = length s"
  unfolding py_replace_def by (induction s) auto

text \<open>\<open>str.isspace\<close> of one character, \<open>str.strip\<close> and \<open>str.lower\<close>, for code points below 256.\<close>

definition is_space :: "char \<Rightarrow> bool" where
  "is_space c \<longleftrightarrow> (let n = (of_char c :: nat) in
     (9 \<le> n \<and> n \<le> 13) \<or> (28 \<le> n \<and> n \<le> 32) \<or> n = 133 \<or> n = 160)"

definition py_strip :: "string \<Rightarrow> string" where
  "py_strip s = rev (dropWhile is_space (rev (dropWhile is_space s)))"

definition lower_char :: "char \<Rightarrow> char" where
  "lower_char c = (let n = (of_char c :: nat) in
     if (65 \<le> n \<and> n \<le> 90) \<or> (192 \<le> n \<and> n \<le> 222 \<and> n \<noteq> 215) then char_of (n + 32) else c)"

lemma lower_char_punct: "(of_char (lower_char c) :: nat) < 65 \<Longrightarrow> lower_char c = c"
  by (auto simp: lower_char_def Let_def split: if_splits)

definition py_lower :: "string \<Rightarrow> string" where
  "py_lower s = map lower_char s"

section \<open>Numbers and their text\<close>

definition is_digit :: "char \<Rightarrow> bool" where
  "is_digit c \<longleftrightarrow> (let n = (of_char c :: nat) in 48 \<le> n \<and> n \<le> 57)"

definition digit_val :: "char \<Rightarrow> nat" where
  "digit_val c = of_char c - 48"

text \<open>
  \<open>str.isnumeric\<close> also accepts the superscripts and vulgar fractions, which
  \<open>int(...)\<close> refuses.
\<close>

definition is_numeric_char :: "char \<Rightarrow> bool" where
  "is_numeric_char c \<longleftrightarrow>
     is_digit c \<or> (of_char c :: nat) \<in> {178, 179, 185, 188, 189, 190}"

definition isnumeric :: "string \<Rightarrow> bool" where
  "isnumeric s \<longleftrightarrow> s \<noteq> [] \<and> list_all is_numeric_char s"

text \<open>
  \<open>int(s)\<close>: surrounding white space, one sign, and digits that single underscores may
  separate; \<open>None\<close> stands for the \<open>ValueError\<close>. The flag says that the previous
  character was a digit.
\<close>

fun int_digits :: "bool \<Rightarrow> nat \<Rightarrow> string \<Rightarrow> nat option" where
  "int_digits d acc [] = (if d then Some acc else None)"
| "int_digits d acc (c # cs) =
     (if is_digit c then int_digits True (10 * acc + digit_val c) cs
      else if d \<and> c = CHR ''_'' then int_digits False acc cs
      else None)"

definition py_int :: "string \<Rightarrow> int option" where
  "py_int s =
     (case py_strip s of
        [] \<Rightarrow> None
      | c # cs \<Rightarrow>
          if c = CHR ''-'' then map_option (\<lambda>n. - int n) (int_digits False 0 cs)
          else if c = CHR ''+'' then map_option int (int_digits False 0 cs)
          else map_option int (int_digits False 0 (c # cs)))"

definition digit_char :: "nat \<Rightarrow> char" where
  "digit_char n = (if n < 10 then char_of (48 + n) else char_of (87 + n))"

text \<open>Digits of a number in a base up to 36, as \<open>str(n)\<close> and \<open>hex(n)[2:]\<close> write them.\<close>

function nat_in_base :: "nat \<Rightarrow> nat \<Rightarrow> string" where
  "nat_in_base b n =
     (if b < 2 \<or> n < b then [digit_char n] else nat_in_base b (n div b) @ [digit_char (n mod b)])"
  by pat_completeness auto
termination
  by (relation "measure snd") (auto intro: div_less_dividend)

declare nat_in_base.simps [simp del]

definition str_nat :: "nat \<Rightarrow> string" where
  "str_nat n = nat_in_base 10 n"

definition str_int :: "int \<Rightarrow> string" where
  "str_int i = (if i < 0 then CHR ''-'' # str_nat (nat (- i)) else str_nat (nat i))"

definition hex_nat :: "nat \<Rightarrow> string" where
  "hex_nat n = nat_in_base 16 n"

text \<open>\<open>f"{s:>0w}"\<close> on a string: pad with \<open>0\<close> on the left up to the width.\<close>

definition zero_pad :: "nat \<Rightarrow> string \<Rightarrow> string" where
  "zero_pad w s = replicate (w - length s) CHR ''0'' @ s"

lemma is_digit_digit_char: "n < 10 \<Longrightarrow> is_digit (digit_char n)"
  by (simp add: is_digit_def digit_char_def)

lemma digit_val_digit_char: "n < 10 \<Longrightarrow> digit_val (digit_char n) = n"
  by (simp add: digit_val_def digit_char_def)

lemma str_nat_digits: "list_all is_digit (str_nat n)"
proof (induction n rule: less_induct)
  case (less n)
  then show ?case
    unfolding str_nat_def
    by (subst nat_in_base.simps) (auto simp: is_digit_digit_char)
qed

lemma str_nat_nonempty [simp]: "str_nat n \<noteq> []"
  unfolding str_nat_def by (subst nat_in_base.simps) simp

lemma int_digits_append:
  "list_all is_digit s \<Longrightarrow> s \<noteq> [] \<Longrightarrow>
   int_digits d acc (s @ t) =
     (case int_digits d acc s of None \<Rightarrow> None | Some n \<Rightarrow> int_digits True n t)"
proof (induction s arbitrary: d acc)
  case (Cons c s)
  then show ?case by (cases "s = []") auto
qed simp

lemma int_digits_str_nat: "int_digits d 0 (str_nat n) = Some n"
proof (induction n arbitrary: d rule: less_induct)
  case (less n)
  show ?case
  proof (cases "n < 10")
    case True
    then show ?thesis
      unfolding str_nat_def
      by (subst nat_in_base.simps) (simp add: is_digit_digit_char digit_val_digit_char)
  next
    case False
    then have eq: "str_nat n = str_nat (n div 10) @ [digit_char (n mod 10)]"
      unfolding str_nat_def by (subst nat_in_base.simps) simp
    have "int_digits d 0 (str_nat (n div 10)) = Some (n div 10)"
      using False by (intro less.IH) simp
    with eq show ?thesis
      by (simp add: int_digits_append str_nat_digits is_digit_digit_char digit_val_digit_char)
  qed
qed

lemma is_digit_not_space: "is_digit c \<Longrightarrow> \<not> is_space c"
  by (auto simp: is_digit_def is_space_def Let_def)

lemma dropWhile_none: "xs = [] \<or> \<not> P (hd xs) \<Longrightarrow> dropWhile P xs = xs"
  by (cases xs) auto

lemma py_strip_id:
  "s \<noteq> [] \<Longrightarrow> \<not> is_space (hd s) \<Longrightarrow> \<not> is_space (last s) \<Longrightarrow> py_strip s = s"
  unfolding py_strip_def by (simp add: dropWhile_none hd_rev)

lemma py_strip_digits: "list_all is_digit s \<Longrightarrow> py_strip s = s"
proof (cases "s = []")
  case False
  assume "list_all is_digit s"
  with False have "is_digit (hd s)" "is_digit (last s)"
    by (simp_all add: list_all_iff)
  with False show ?thesis by (intro py_strip_id) (auto dest: is_digit_not_space)
qed (simp add: py_strip_def)

lemma py_int_digits:
  assumes "list_all is_digit s"
  shows "py_int s = map_option int (int_digits False 0 s)"
proof (cases s)
  case (Cons c cs)
  with assms have "c \<noteq> CHR ''-''" "c \<noteq> CHR ''+''"
    by (auto simp: is_digit_def)
  then show ?thesis using Cons py_strip_digits [OF assms] by (simp add: py_int_def)
qed (simp add: py_int_def py_strip_def)

lemma py_int_str_nat [simp]: "py_int (str_nat n) = Some (int n)"
  by (simp add: py_int_digits str_nat_digits int_digits_str_nat)

lemma py_int_str_int: "py_int (str_int i) = Some i"
proof (cases "i < 0")
  case True
  have "is_digit (last (str_nat (nat (- i))))"
    using str_nat_digits [of "nat (- i)"] by (simp add: list_all_iff)
  then have "py_strip (CHR ''-'' # str_nat (nat (- i))) = CHR ''-'' # str_nat (nat (- i))"
    by (intro py_strip_id) (auto simp: is_space_def dest: is_digit_not_space)
  with True show ?thesis by (simp add: str_int_def py_int_def int_digits_str_nat)
qed (simp add: str_int_def)

lemma nat_in_base_length:
  assumes "2 \<le> b" and "n < b ^ Suc k"
  shows "length (nat_in_base b n) \<le> Suc k"
  using assms(2)
proof (induction k arbitrary: n)
  case 0
  then show ?case by (subst nat_in_base.simps) simp
next
  case (Suc k)
  from Suc.prems have "n div b < b ^ Suc k"
    by (simp add: less_mult_imp_div_less mult.commute)
  with Suc.IH have "length (nat_in_base b (n div b)) \<le> Suc k" .
  then show ?case by (subst nat_in_base.simps) simp
qed

lemma hex_nat_length: "n < 16 ^ Suc k \<Longrightarrow> length (hex_nat n) \<le> Suc k"
  unfolding hex_nat_def by (rule nat_in_base_length) simp_all

lemma zero_pad_length: "length s \<le> w \<Longrightarrow> length (zero_pad w s) = w"
  by (simp add: zero_pad_def)

text \<open>\<open>os.path.basename\<close>\<close>

definition path_basename :: "string \<Rightarrow> string" where
  "path_basename p = rev (takeWhile (\<lambda>c. c \<noteq> CHR ''/'') (rev p))"

text \<open>\<open>os.path.dirname\<close>\<close>

definition dirname :: "string \<Rightarrow> string" where
  "dirname p =
     (let head = rev (dropWhile (\<lambda>c. c \<noteq> CHR ''/'') (rev p))
      in if list_all (\<lambda>c. c = CHR ''/'') head then head
         else rev (dropWhile (\<lambda>c. c = CHR ''/'') (rev head)))"

section \<open>Lists and dictionaries\<close>

text \<open>\<open>xs[i]\<close> with Python's negative indices; \<open>None\<close> stands for \<open>IndexError\<close>.\<close>

definition py_nth :: "'a list \<Rightarrow> int \<Rightarrow> 'a option" where
  "py_nth xs i =
     (let j = (if i < 0 then int (length xs) + i else i)
      in if 0 \<le> j \<and> j < int (length xs) then Some (xs ! nat j) else None)"

lemma py_nth_nat: "i < length xs \<Longrightarrow> py_nth xs (int i) = Some (xs ! i)"
  by (simp add: py_nth_def)

type_synonym ('k, 'v) pydict = "('k \<times> 'v) list"

definition dict_keys :: "('k, 'v) pydict \<Rightarrow> 'k list" where
  "dict_keys d = map fst d"

lemma dict_keys_update: "set (dict_keys (AList.update k v d)) = insert k (set (dict_keys d))"
  by (auto simp: dict_keys_def update_keys)

lemma dict_keys_delete: "set (dict_keys (AList.delete k d)) = set (dict_keys d) - {k}"
  by (auto simp: dict_keys_def AList.delete_eq)

lemma dict_distinct_update: "distinct (dict_keys d) \<Longrightarrow> distinct (dict_keys (AList.update k v d))"
  by (simp add: dict_keys_def distinct_update)

lemma dict_distinct_delete: "distinct (dict_keys d) \<Longrightarrow> distinct (dict_keys (AList.delete k d))"
  by (simp add: dict_keys_def distinct_delete)

lemma map_of_dict_update: "map_of (AList.update k v d) = (map_of d)(k \<mapsto> v)"
  by (simp add: update_conv')

lemma map_of_dict_delete: "map_of (AList.delete k d) = (map_of d)(k := None)"
  by (simp add: delete_conv')

lemma dict_get_None: "map_of d k = None \<longleftrightarrow> k \<notin> set (dict_keys d)"
  by (simp add: dict_keys_def map_of_eq_None_iff image_image)

lemmas dict_simps = dict_keys_update dict_keys_delete map_of_dict_update map_of_dict_delete
  dict_get_None

end
