(* ===== verification/Py_Effects.thy ===== *)
theory Py_Effects
  imports Py_Base Complex_Main
begin

text \<open>
  Statements with side effects. An effect is a function from the state to an outcome and
  the new state, so that what a statement did before it raised stays done. An outcome is
  the returned value, the raised exception, or \<open>OutOfFuel\<close> for a loop whose bound on
  iterations was used up, which no handler of the source can catch.

  The proof rules come in five collections: \<open>keeps_intro\<close> for "when the effect ends, by a
  return or an exception, this property of the state still holds", and \<open>triple_intro\<close> for a postcondition of
  the normal return together with one of the exceptional exit; \<open>yields_intro\<close> holds
  the rules for "from every state, the effect returns a value with this property", and
  \<open>ends_intro\<close> those for "the effect ends"; \<open>throws_intro\<close> bounds the exceptions it raises.
\<close>

named_theorems keeps_intro
named_theorems triple_intro
named_theorems yields_intro
named_theorems ends_intro
named_theorems throws_intro

section \<open>Exceptions and outcomes\<close>

text \<open>
  \<open>TestFail\<close> and \<open>TestSkip\<close> are what the test framework's \<open>fail\<close> and \<open>skip\<close> raise;
  \<open>OSError\<close> is also \<open>IOError\<close>, its alias. \<open>ExpectTimeoutError\<close> is the exception of the terminals of the
  test framework; \<open>TimeoutError\<close> and \<open>ExpectTimeout\<close> are \<open>TimeoutError\<close> and \<open>ExpectTimeoutError\<close> of \<open>uexpect.py\<close>,
  with their attributes. \<open>PyException\<close> is the class \<open>Exception\<close> itself.
\<close>

datatype exn =
    PyException string
  | AssertionError string
  | RuntimeError string
  | TypeError string
  | ValueError string
  | KeyError string
  | IndexError
  | StopIteration
  | UnboundLocalError string
  | NotImplementedError string
  | OSError string
  | ExpectTimeoutError
  | QueryRuntimeException string
  | TestFail string
  | TestSkip string
  | SystemExit int
  | AttributeError string
  | EOFError string
  | OverflowError string
  | ModuleNotFoundError string
  | NameError string
  | SyntaxError string
  | TimeoutError rat
  | ExpectTimeout string rat "string option"

text \<open>The classes that \<open>except Exception\<close> and \<open>except IOError\<close> catch.\<close>

fun is_Exception :: "exn \<Rightarrow> bool" where
  "is_Exception (SystemExit _) = False"
| "is_Exception _ = True"

fun is_IOError :: "exn \<Rightarrow> bool" where
  "is_IOError (OSError _) = True"
| "is_IOError _ = False"

datatype 'a outcome = Return 'a | Raise exn | OutOfFuel

type_synonym ('s, 'a) eff = "'s \<Rightarrow> 'a outcome \<times> 's"

type_synonym seconds = rat

section \<open>Statements\<close>

definition ret :: "'a \<Rightarrow> ('s, 'a) eff" where
  "ret a = (\<lambda>s. (Return a, s))"

definition raise :: "exn \<Rightarrow> ('s, 'a) eff" where
  "raise e = (\<lambda>s. (Raise e, s))"

definition out_of_fuel :: "('s, 'a) eff" where
  "out_of_fuel = (\<lambda>s. (OutOfFuel, s))"

definition bindE :: "('s, 'a) eff \<Rightarrow> ('a \<Rightarrow> ('s, 'b) eff) \<Rightarrow> ('s, 'b) eff" where
  "bindE m f = (\<lambda>s. case m s of (Return a, s') \<Rightarrow> f a s'
     | (Raise e, s') \<Rightarrow> (Raise e, s') | (OutOfFuel, s') \<Rightarrow> (OutOfFuel, s'))"

definition seqE :: "('s, 'a) eff \<Rightarrow> ('s, 'b) eff \<Rightarrow> ('s, 'b) eff" where
  "seqE m k = bindE m (\<lambda>_. k)"

definition getE :: "('s \<Rightarrow> 'a) \<Rightarrow> ('s, 'a) eff" where
  "getE f = (\<lambda>s. (Return (f s), s))"

definition modifyE :: "('s \<Rightarrow> 's) \<Rightarrow> ('s, unit) eff" where
  "modifyE f = (\<lambda>s. (Return (), f s))"

text \<open>\<open>try: m  except ...: h\<close>; the handler raises again what it does not catch.\<close>

definition catchE :: "('s, 'a) eff \<Rightarrow> (exn \<Rightarrow> ('s, 'a) eff) \<Rightarrow> ('s, 'a) eff" where
  "catchE m h = (\<lambda>s. case m s of (Raise e, s') \<Rightarrow> h e s' | x \<Rightarrow> x)"

text \<open>\<open>try: m  finally: f\<close>; an exception of \<open>f\<close> replaces the pending outcome.\<close>

definition finallyE :: "('s, 'a) eff \<Rightarrow> ('s, 'b) eff \<Rightarrow> ('s, 'a) eff" where
  "finallyE m f = (\<lambda>s. case m s of
      (OutOfFuel, s') \<Rightarrow> (OutOfFuel, s')
    | (r, s') \<Rightarrow> (case f s' of
          (Return _, s'') \<Rightarrow> (r, s'')
        | (Raise e, s'') \<Rightarrow> (Raise e, s'')
        | (OutOfFuel, s'') \<Rightarrow> (OutOfFuel, s'')))"

text \<open>\<open>tryE m\<close> runs \<open>m\<close> and hands the exception, if there was one, on as a value.\<close>

definition tryE :: "('s, 'a) eff \<Rightarrow> ('s, exn + 'a) eff" where
  "tryE m = (\<lambda>s. case m s of (Return a, s') \<Rightarrow> (Return (Inr a), s')
     | (Raise e, s') \<Rightarrow> (Return (Inl e), s') | (OutOfFuel, s') \<Rightarrow> (OutOfFuel, s'))"

definition whenE :: "bool \<Rightarrow> ('s, unit) eff \<Rightarrow> ('s, unit) eff" where
  "whenE b m = (if b then m else ret ())"

definition assertE :: "bool \<Rightarrow> string \<Rightarrow> ('s, unit) eff" where
  "assertE b msg = (if b then ret () else raise (AssertionError msg))"

text \<open>Reading a local variable that may not have been assigned.\<close>

definition local_var :: "string \<Rightarrow> 'a option \<Rightarrow> ('s, 'a) eff" where
  "local_var nm x = (case x of None \<Rightarrow> raise (UnboundLocalError nm) | Some v \<Rightarrow> ret v)"

fun forE :: "'x list \<Rightarrow> ('x \<Rightarrow> ('s, unit) eff) \<Rightarrow> ('s, unit) eff" where
  "forE [] f = ret ()"
| "forE (x # xs) f = seqE (f x) (forE xs f)"

text \<open>A list comprehension whose expression has effects, evaluated from left to right.\<close>

fun mapE :: "('x \<Rightarrow> ('s, 'a) eff) \<Rightarrow> 'x list \<Rightarrow> ('s, 'a list) eff" where
  "mapE f [] = ret []"
| "mapE f (x # xs) = bindE (f x) (\<lambda>y. bindE (mapE f xs) (\<lambda>ys. ret (y # ys)))"

lemma mapE_cong [fundef_cong]:
  "xs = ys \<Longrightarrow> (\<And>x. x \<in> set ys \<Longrightarrow> f x = g x) \<Longrightarrow> mapE f xs = mapE g ys"
  by (induction xs arbitrary: ys) auto

lemmas effect_defs = ret_def raise_def out_of_fuel_def bindE_def seqE_def getE_def modifyE_def
  catchE_def finallyE_def tryE_def whenE_def assertE_def

lemma bindE_ret [simp]: "bindE (ret a) f = f a"
  by (simp add: effect_defs)

lemma bindE_raise [simp]: "bindE (raise e) f = raise e"
  by (simp add: effect_defs)

lemma bindE_step: "m s = (Return a, t) \<Longrightarrow> bindE m f s = f a t"
  by (simp add: bindE_def)

lemma seqE_step: "m s = (Return a, t) \<Longrightarrow> seqE m k s = k t"
  by (simp add: seqE_def bindE_step)

lemma bindE_getE: "bindE (getE f) g s = g (f s) s"
  by (simp add: effect_defs)

lemma seqE_modifyE: "seqE (modifyE f) k s = k (f s)"
  by (simp add: effect_defs)

lemma seqE_ret [simp]: "seqE (ret a) k = k"
  by (simp add: seqE_def)

lemma seqE_raise [simp]: "seqE (raise e) k = raise e"
  by (simp add: seqE_def)

lemma bindE_ret_right [simp]: "bindE m ret = m"
  by (rule ext) (auto simp: effect_defs split: prod.splits outcome.splits)

lemma bindE_assoc: "bindE (bindE m f) g = bindE m (\<lambda>a. bindE (f a) g)"
  by (rule ext) (auto simp: bindE_def split: prod.splits outcome.splits)

lemma seqE_assoc: "seqE (seqE a b) c = seqE a (seqE b c)"
  by (simp add: seqE_def bindE_assoc)

lemma whenE_simps [simp]: "whenE True m = m" "whenE False m = ret ()"
  by (simp_all add: whenE_def)

lemma assertE_simps [simp]: "assertE True msg = ret ()" "assertE False msg = raise (AssertionError msg)"
  by (simp_all add: assertE_def)

lemma forE_append: "forE (xs @ ys) f = seqE (forE xs f) (forE ys f)"
  by (induction xs) (auto simp: seqE_assoc)

section \<open>Partial correctness triples\<close>

definition triple :: "('s \<Rightarrow> bool) \<Rightarrow> ('s, 'a) eff \<Rightarrow> ('a \<Rightarrow> 's \<Rightarrow> bool) \<Rightarrow> (exn \<Rightarrow> 's \<Rightarrow> bool) \<Rightarrow> bool" where
  "triple P m Q E \<longleftrightarrow> (\<forall>s. P s \<longrightarrow> (case m s of
      (Return a, s') \<Rightarrow> Q a s' | (Raise e, s') \<Rightarrow> E e s' | (OutOfFuel, s') \<Rightarrow> True))"

lemma tripleI:
  assumes "\<And>s a s'. P s \<Longrightarrow> m s = (Return a, s') \<Longrightarrow> Q a s'"
    and "\<And>s e s'. P s \<Longrightarrow> m s = (Raise e, s') \<Longrightarrow> E e s'"
  shows "triple P m Q E"
  unfolding triple_def using assms by (auto split: prod.split outcome.split)

lemma triple_Return: "triple P m Q E \<Longrightarrow> P s \<Longrightarrow> m s = (Return a, s') \<Longrightarrow> Q a s'"
  by (auto simp: triple_def dest!: spec [of _ s])

lemma triple_Raise: "triple P m Q E \<Longrightarrow> P s \<Longrightarrow> m s = (Raise e, s') \<Longrightarrow> E e s'"
  by (auto simp: triple_def dest!: spec [of _ s])

lemma triple_conseq:
  assumes "triple P m Q E" and "\<And>s. P' s \<Longrightarrow> P s"
    and "\<And>a s. Q a s \<Longrightarrow> Q' a s" and "\<And>e s. E e s \<Longrightarrow> E' e s"
  shows "triple P' m Q' E'"
proof (rule tripleI)
  fix s a s'
  assume "P' s" "m s = (Return a, s')"
  with assms(1,2) have "Q a s'" by (metis triple_Return)
  then show "Q' a s'" by (rule assms(3))
next
  fix s e s'
  assume "P' s" "m s = (Raise e, s')"
  with assms(1,2) have "E e s'" by (metis triple_Raise)
  then show "E' e s'" by (rule assms(4))
qed

lemma triple_ret [triple_intro]: "(\<And>s. P s \<Longrightarrow> Q a s) \<Longrightarrow> triple P (ret a) Q E"
  by (auto intro!: tripleI simp: ret_def)

lemma triple_raise [triple_intro]: "(\<And>s. P s \<Longrightarrow> E e s) \<Longrightarrow> triple P (raise e) Q E"
  by (auto intro!: tripleI simp: raise_def)

lemma bindE_Return_iff:
  "bindE m f s = (Return b, s') \<longleftrightarrow> (\<exists>a t. m s = (Return a, t) \<and> f a t = (Return b, s'))"
  by (auto simp: bindE_def split: prod.splits outcome.splits)

lemma bindE_Raise_iff:
  "bindE m f s = (Raise e, s') \<longleftrightarrow>
     m s = (Raise e, s') \<or> (\<exists>a t. m s = (Return a, t) \<and> f a t = (Raise e, s'))"
  by (auto simp: bindE_def split: prod.splits outcome.splits)

lemma seqE_Return_iff:
  "seqE m k s = (Return b, s') \<longleftrightarrow> (\<exists>a t. m s = (Return a, t) \<and> k t = (Return b, s'))"
  by (simp add: seqE_def bindE_Return_iff)

lemma seqE_Raise_iff:
  "seqE m k s = (Raise e, s') \<longleftrightarrow>
     m s = (Raise e, s') \<or> (\<exists>a t. m s = (Return a, t) \<and> k t = (Raise e, s'))"
  by (simp add: seqE_def bindE_Raise_iff)

lemma ret_iff [simp]: "ret a s = (r, s') \<longleftrightarrow> r = Return a \<and> s' = s"
  by (auto simp: ret_def)

lemma raise_iff [simp]: "raise e s = (r, s') \<longleftrightarrow> r = Raise e \<and> s' = s"
  by (auto simp: raise_def)

lemma assertE_Return_iff [simp]: "assertE b msg s = (Return u, s') \<longleftrightarrow> b \<and> s' = s"
  by (auto simp: assertE_def)

lemma assertE_Raise_iff [simp]:
  "assertE b msg s = (Raise e, s') \<longleftrightarrow> \<not> b \<and> e = AssertionError msg \<and> s' = s"
  by (auto simp: assertE_def)

lemma getE_iff [simp]: "getE f s = (r, s') \<longleftrightarrow> r = Return (f s) \<and> s' = s"
  by (auto simp: getE_def)

lemma modifyE_iff [simp]: "modifyE f s = (r, s') \<longleftrightarrow> r = Return () \<and> s' = f s"
  by (auto simp: modifyE_def)

lemma catchE_Return_iff:
  "catchE m h s = (Return a, s') \<longleftrightarrow>
     m s = (Return a, s') \<or> (\<exists>e t. m s = (Raise e, t) \<and> h e t = (Return a, s'))"
  by (auto simp: catchE_def split: prod.splits outcome.splits)

lemma catchE_Raise_iff:
  "catchE m h s = (Raise e, s') \<longleftrightarrow> (\<exists>e' t. m s = (Raise e', t) \<and> h e' t = (Raise e, s'))"
  by (auto simp: catchE_def split: prod.splits outcome.splits)

lemma finallyE_Return_iff:
  "finallyE m f s = (Return a, s') \<longleftrightarrow>
     (\<exists>b t. m s = (Return a, t) \<and> f t = (Return b, s'))"
  by (auto simp: finallyE_def split: prod.splits outcome.splits)

text \<open>The \<open>finally\<close> block runs in every case but a loop that never ends.\<close>

lemma finallyE_runs:
  assumes "m s = (r, t)" and "r \<noteq> OutOfFuel"
  shows "snd (finallyE m f s) = snd (f t)"
  using assms by (cases r) (auto simp: finallyE_def split: prod.splits outcome.splits)

lemmas effect_iffs = bindE_Return_iff bindE_Raise_iff seqE_Return_iff seqE_Raise_iff

lemma triple_bind [triple_intro]:
  assumes m: "triple P m R E" and f: "\<And>a. triple (R a) (f a) Q E"
  shows "triple P (bindE m f) Q E"
proof (rule tripleI)
  fix s b s'
  assume "P s" and "bindE m f s = (Return b, s')"
  then obtain a t where "m s = (Return a, t)" and f': "f a t = (Return b, s')"
    by (auto simp: bindE_Return_iff)
  with m \<open>P s\<close> have "R a t" by (metis triple_Return)
  then show "Q b s'" using f f' by (metis triple_Return)
next
  fix s e s'
  assume "P s" and "bindE m f s = (Raise e, s')"
  then consider "m s = (Raise e, s')" | a t where "m s = (Return a, t)" "f a t = (Raise e, s')"
    by (auto simp: bindE_Raise_iff)
  then show "E e s'"
  proof cases
    case 1
    with m \<open>P s\<close> show ?thesis by (metis triple_Raise)
  next
    case 2
    with m \<open>P s\<close> have "R a t" by (metis triple_Return)
    then show ?thesis using f 2 by (metis triple_Raise)
  qed
qed

text \<open>Rules for the remaining statements.\<close>

lemma triple_pre: "(\<And>s. P' s \<Longrightarrow> P s) \<Longrightarrow> triple P m Q E \<Longrightarrow> triple P' m Q E"
  by (rule triple_conseq)

lemma triple_seq: "triple P m (\<lambda>_. R) E \<Longrightarrow> triple R k Q E \<Longrightarrow> triple P (seqE m k) Q E"
  unfolding seqE_def by (rule triple_bind)

lemma triple_get: "(\<And>s. P s \<Longrightarrow> Q (f s) s) \<Longrightarrow> triple P (getE f) Q E"
  by (auto intro!: tripleI simp: getE_def)

lemma triple_modify: "(\<And>s. P s \<Longrightarrow> Q () (f s)) \<Longrightarrow> triple P (modifyE f) Q E"
  by (auto intro!: tripleI simp: modifyE_def)

lemma tryE_Return_iff:
  "tryE m s = (Return x, s') \<longleftrightarrow>
     (\<exists>a. m s = (Return a, s') \<and> x = Inr a) \<or> (\<exists>e. m s = (Raise e, s') \<and> x = Inl e)"
  by (auto simp: tryE_def split: prod.splits outcome.splits)

lemma tryE_not_Raise [simp]: "tryE m s \<noteq> (Raise e, s')"
  by (auto simp: tryE_def split: prod.splits outcome.splits)

lemma triple_try:
  assumes "triple P m (\<lambda>a. Q (Inr a)) (\<lambda>e. Q (Inl e))"
  shows "triple P (tryE m) Q E"
  using assms by (auto simp: triple_def tryE_def split: prod.splits outcome.splits)

lemma triple_catch:
  assumes "triple P m Q E'" and "\<And>e. triple (E' e) (h e) Q E"
  shows "triple P (catchE m h) Q E"
proof (rule tripleI)
  fix s a s'
  assume "P s" "catchE m h s = (Return a, s')"
  then show "Q a s'"
    using assms by (auto simp: catchE_Return_iff dest: triple_Return triple_Raise)
next
  fix s e s'
  assume s: "P s" "catchE m h s = (Raise e, s')"
  then obtain e' t where "m s = (Raise e', t)" "h e' t = (Raise e, s')"
    by (auto simp: catchE_def split: prod.splits outcome.splits)
  with s assms show "E e s'" by (metis triple_Raise)
qed

lemma triple_finally:
  assumes "triple P m R R'" and "\<And>a. triple (R a) f (\<lambda>_. Q a) E" and "\<And>e. triple (R' e) f (\<lambda>_. E e) E"
  shows "triple P (finallyE m f) Q E"
proof (rule tripleI)
  fix s a s'
  assume s: "P s" "finallyE m f s = (Return a, s')"
  then obtain b t where "m s = (Return a, t)" "f t = (Return b, s')" by (auto simp: finallyE_Return_iff)
  with s assms(1,2) show "Q a s'" by (metis triple_Return)
next
  fix s e s'
  assume s: "P s" and fin: "finallyE m f s = (Raise e, s')"
  show "E e s'"
  proof (cases "m s")
    case (Pair r t)
    then show ?thesis
    proof (cases r)
      case (Return a)
      then have "R a t" using assms(1) s Pair by (metis triple_Return)
      with assms(2) show ?thesis
        using Pair Return fin by (auto simp: finallyE_def split: prod.splits outcome.splits dest: triple_Raise)
    next
      case (Raise e')
      then have "R' e' t" using assms(1) s Pair by (metis triple_Raise)
      with assms(3) show ?thesis
        using Pair Raise fin
        by (auto simp: finallyE_def split: prod.splits outcome.splits dest: triple_Raise triple_Return)
    qed (use fin Pair in \<open>simp add: finallyE_def\<close>)
  qed
qed

lemma triple_for:
  assumes "\<And>x. x \<in> set xs \<Longrightarrow> triple P (f x) (\<lambda>_. P) E"
  shows "triple P (forE xs f) (\<lambda>_. P) E"
  using assms
proof (induction xs)
  case Nil
  then show ?case by (auto intro: triple_ret)
next
  case (Cons x xs)
  then show ?case by (auto intro: triple_seq)
qed

section \<open>Properties every ending keeps\<close>

definition keeps :: "('s \<Rightarrow> bool) \<Rightarrow> ('s, 'a) eff \<Rightarrow> bool" where
  "keeps P m \<longleftrightarrow> triple P m (\<lambda>_. P) (\<lambda>_. P)"

lemma keepsI: "(\<And>s r s'. P s \<Longrightarrow> m s = (r, s') \<Longrightarrow> r \<noteq> OutOfFuel \<Longrightarrow> P s') \<Longrightarrow> keeps P m"
  unfolding keeps_def by (rule tripleI) blast+

lemma keepsD: "keeps P m \<Longrightarrow> P s \<Longrightarrow> m s = (r, s') \<Longrightarrow> r \<noteq> OutOfFuel \<Longrightarrow> P s'"
  unfolding keeps_def by (cases r) (auto dest: triple_Return triple_Raise)

lemma keeps_pure [keeps_intro]:
  "keeps P (ret a)" "keeps P (raise e)" "keeps P out_of_fuel" "keeps P (getE f)" "keeps P (assertE b msg)"
  by (auto intro!: keepsI simp: effect_defs split: if_splits)

lemma keeps_modify [keeps_intro]: "(\<And>s. P s \<Longrightarrow> P (f s)) \<Longrightarrow> keeps P (modifyE f)"
  unfolding keeps_def by (rule triple_modify)

lemma keeps_bind [keeps_intro]: "keeps P m \<Longrightarrow> (\<And>a. keeps P (f a)) \<Longrightarrow> keeps P (bindE m f)"
  unfolding keeps_def by (rule triple_bind)

lemma keeps_bind_get: "(\<And>s. keeps P (g (f s))) \<Longrightarrow> keeps P (bindE (getE f) g)"
  by (rule keepsI) (auto simp: bindE_getE dest: keepsD)

lemma keeps_seq [keeps_intro]: "keeps P m \<Longrightarrow> keeps P k \<Longrightarrow> keeps P (seqE m k)"
  unfolding keeps_def by (rule triple_seq)

lemma keeps_catch [keeps_intro]: "keeps P m \<Longrightarrow> (\<And>e. keeps P (h e)) \<Longrightarrow> keeps P (catchE m h)"
  unfolding keeps_def by (rule triple_catch)

lemma keeps_finally [keeps_intro]: "keeps P m \<Longrightarrow> keeps P f \<Longrightarrow> keeps P (finallyE m f)"
  unfolding keeps_def by (rule triple_finally)

lemma keeps_try [keeps_intro]: "keeps P m \<Longrightarrow> keeps P (tryE m)"
  unfolding keeps_def by (rule triple_try)

lemma keeps_when [keeps_intro]: "(b \<Longrightarrow> keeps P m) \<Longrightarrow> keeps P (whenE b m)"
  by (auto simp: whenE_def intro: keeps_intro)

lemma keeps_if [keeps_intro]: "(b \<Longrightarrow> keeps P m) \<Longrightarrow> (\<not> b \<Longrightarrow> keeps P k) \<Longrightarrow> keeps P (if b then m else k)"
  by simp

lemma keeps_case_option [keeps_intro]:
  "(x = None \<Longrightarrow> keeps P m) \<Longrightarrow> (\<And>a. x = Some a \<Longrightarrow> keeps P (f a)) \<Longrightarrow>
   keeps P (case x of None \<Rightarrow> m | Some a \<Rightarrow> f a)"
  by (cases x) auto

lemma keeps_case_sum [keeps_intro]:
  "(\<And>e. x = Inl e \<Longrightarrow> keeps P (f e)) \<Longrightarrow> (\<And>a. x = Inr a \<Longrightarrow> keeps P (g a)) \<Longrightarrow>
   keeps P (case x of Inl e \<Rightarrow> f e | Inr a \<Rightarrow> g a)"
  by (cases x) auto

lemma keeps_case_prod [keeps_intro]:
  "(\<And>a b. x = (a, b) \<Longrightarrow> keeps P (f a b)) \<Longrightarrow> keeps P (case x of (a, b) \<Rightarrow> f a b)"
  by (cases x) auto

lemma keeps_for [keeps_intro]: "(\<And>x. keeps P (f x)) \<Longrightarrow> keeps P (forE xs f)"
  unfolding keeps_def by (rule triple_for)

lemma keeps_map [keeps_intro]: "(\<And>x. keeps P (f x)) \<Longrightarrow> keeps P (mapE f xs)"
  by (induction xs) (auto intro: keeps_intro)

section \<open>Exceptions an effect may raise\<close>

definition throws :: "(exn \<Rightarrow> bool) \<Rightarrow> ('s, 'a) eff \<Rightarrow> bool" where
  "throws E m \<longleftrightarrow> triple (\<lambda>_. True) m (\<lambda>_ _. True) (\<lambda>e _. E e)"

lemma throwsI: "(\<And>s e s'. m s = (Raise e, s') \<Longrightarrow> E e) \<Longrightarrow> throws E m"
  unfolding throws_def by (rule tripleI) auto

lemma throwsD: "throws E m \<Longrightarrow> m s = (Raise e, s') \<Longrightarrow> E e"
  unfolding throws_def by (auto dest: triple_Raise)

lemma throws_pure [throws_intro]:
  "throws E (ret a)" "throws E out_of_fuel" "throws E (getE f)" "throws E (modifyE g)" "throws E (tryE m)"
  by (auto intro!: throwsI simp: out_of_fuel_def)

lemma triple_try_throws:
  assumes "throws F m" and "\<And>e. F e \<Longrightarrow> Q (Inl e)" and "\<And>a. Q (Inr a)"
  shows "triple (\<lambda>_. True) (tryE m) (\<lambda>x _. Q x) E"
  by (rule triple_try, rule triple_conseq [OF assms(1) [unfolded throws_def]]) (auto intro: assms(2,3))

lemma throws_raise [throws_intro]: "E e \<Longrightarrow> throws E (raise e)"
  by (auto intro!: throwsI)

lemma throws_bind [throws_intro]: "throws E m \<Longrightarrow> (\<And>a. throws E (f a)) \<Longrightarrow> throws E (bindE m f)"
  by (rule throwsI) (auto simp: bindE_Raise_iff dest: throwsD)

lemma throws_bind_try:
  assumes "throws F m" and "\<And>a. throws F (f (Inr a))" and "\<And>e. F e \<Longrightarrow> throws F (f (Inl e))"
  shows "throws F (bindE (tryE m) f)"
proof (rule throwsI)
  fix s e s'
  assume "bindE (tryE m) f s = (Raise e, s')"
  then obtain x t where x: "tryE m s = (Return x, t)" and "f x t = (Raise e, s')"
    by (auto simp: bindE_Raise_iff)
  moreover have "throws F (f x)"
    using x assms throwsD [OF assms(1)] by (auto simp: tryE_Return_iff)
  ultimately show "F e" by (auto dest: throwsD)
qed

lemma throws_seq [throws_intro]: "throws E m \<Longrightarrow> throws E k \<Longrightarrow> throws E (seqE m k)"
  by (simp add: seqE_def throws_bind)

lemma throws_catch:
  "throws E' m \<Longrightarrow> (\<And>e. E' e \<Longrightarrow> throws E (h e)) \<Longrightarrow> throws E (catchE m h)"
  by (rule throwsI) (auto simp: catchE_def dest: throwsD split: prod.splits outcome.splits)

lemma throws_finally [throws_intro]: "throws E m \<Longrightarrow> throws E f \<Longrightarrow> throws E (finallyE m f)"
  by (rule throwsI) (auto simp: finallyE_def dest: throwsD split: prod.splits outcome.splits)

lemma throws_when [throws_intro]: "(b \<Longrightarrow> throws E m) \<Longrightarrow> throws E (whenE b m)"
  by (auto simp: whenE_def intro: throws_intro)

lemma throws_if [throws_intro]: "(b \<Longrightarrow> throws E m) \<Longrightarrow> (\<not> b \<Longrightarrow> throws E k) \<Longrightarrow> throws E (if b then m else k)"
  by simp

lemma throws_case_option [throws_intro]:
  "(x = None \<Longrightarrow> throws E m) \<Longrightarrow> (\<And>a. x = Some a \<Longrightarrow> throws E (f a)) \<Longrightarrow>
   throws E (case x of None \<Rightarrow> m | Some a \<Rightarrow> f a)"
  by (cases x) auto

lemma throws_case_prod [throws_intro]:
  "(\<And>a b. x = (a, b) \<Longrightarrow> throws E (f a b)) \<Longrightarrow> throws E (case x of (a, b) \<Rightarrow> f a b)"
  by (cases x) auto

lemma throws_for [throws_intro]: "(\<And>x. throws E (f x)) \<Longrightarrow> throws E (forE xs f)"
  by (induction xs) (auto intro: throws_intro)

section \<open>Effects that end\<close>

text \<open>\<open>ends P m\<close>: from a state with \<open>P\<close> the effect ends.\<close>

definition ends :: "('s \<Rightarrow> bool) \<Rightarrow> ('s, 'a) eff \<Rightarrow> bool" where
  "ends P m \<longleftrightarrow> (\<forall>s r s'. P s \<and> m s = (r, s') \<longrightarrow> r \<noteq> OutOfFuel)"

lemma ends_pure [ends_intro]:
  "ends P (ret a)" "ends P (raise e)" "ends P (getE f)" "ends P (modifyE g)" "ends P (assertE b msg)"
  by (auto simp: ends_def effect_defs split: if_splits)

lemma ends_bind:
  assumes "ends P m" and "triple P m R E" and "\<And>a. ends (R a) (f a)"
  shows "ends P (bindE m f)"
  unfolding ends_def
proof (intro allI impI, elim conjE)
  fix s r s'
  assume "P s" and run: "bindE m f s = (r, s')"
  show "r \<noteq> OutOfFuel"
  proof (cases "m s")
    case (Pair x t)
    with \<open>P s\<close> assms(1) have "x \<noteq> OutOfFuel" by (auto simp: ends_def)
    show ?thesis
    proof (cases x)
      case (Return a)
      then have "R a t" using assms(2) \<open>P s\<close> Pair by (auto dest: triple_Return)
      then show ?thesis using assms(3) run Pair Return by (auto simp: bindE_def ends_def)
    qed (use run Pair \<open>x \<noteq> OutOfFuel\<close> in \<open>auto simp: bindE_def\<close>)
  qed
qed

lemma ends_bind_keeps [ends_intro]:
  "ends P m \<Longrightarrow> keeps P m \<Longrightarrow> (\<And>a. ends P (f a)) \<Longrightarrow> ends P (bindE m f)"
  unfolding keeps_def by (rule ends_bind)

lemma ends_seq_keeps [ends_intro]: "ends P m \<Longrightarrow> keeps P m \<Longrightarrow> ends P k \<Longrightarrow> ends P (seqE m k)"
  unfolding seqE_def by (rule ends_bind_keeps)

lemma ends_seq: "ends P m \<Longrightarrow> triple P m (\<lambda>_. R) E \<Longrightarrow> ends R k \<Longrightarrow> ends P (seqE m k)"
  unfolding seqE_def by (rule ends_bind)

lemma ends_try [ends_intro]: "ends P m \<Longrightarrow> ends P (tryE m)"
  by (auto simp: ends_def tryE_def split: prod.splits outcome.splits)

lemma ends_catch [ends_intro]: "ends P m \<Longrightarrow> keeps P m \<Longrightarrow> (\<And>e. ends P (h e)) \<Longrightarrow> ends P (catchE m h)"
  unfolding ends_def
proof (intro allI impI, elim conjE)
  fix s r s'
  assume "\<forall>s r s'. P s \<and> m s = (r, s') \<longrightarrow> r \<noteq> OutOfFuel" and keeps: "keeps P m"
    and h: "\<And>e. \<forall>s r s'. P s \<and> h e s = (r, s') \<longrightarrow> r \<noteq> OutOfFuel"
    and s: "P s" "catchE m h s = (r, s')"
  moreover have "P t" if "m s = (Raise e, t)" for e t using keepsD [OF keeps s(1) that] by simp
  ultimately show "r \<noteq> OutOfFuel"
    by (cases "m s"; cases "fst (m s)") (fastforce simp: catchE_def)+
qed

lemma ends_finally [ends_intro]: "ends P m \<Longrightarrow> keeps P m \<Longrightarrow> ends P f \<Longrightarrow> ends P (finallyE m f)"
  unfolding ends_def
proof (intro allI impI, elim conjE)
  fix s r s'
  assume m: "\<forall>s r s'. P s \<and> m s = (r, s') \<longrightarrow> r \<noteq> OutOfFuel" and keeps: "keeps P m"
    and f: "\<forall>s r s'. P s \<and> f s = (r, s') \<longrightarrow> r \<noteq> OutOfFuel"
    and s: "P s" "finallyE m f s = (r, s')"
  obtain x t where x: "m s = (x, t)" by (cases "m s")
  with m s have "x \<noteq> OutOfFuel" by blast
  then have "P t" using keepsD [OF keeps s(1) x] by simp
  then have "fst (f t) \<noteq> OutOfFuel" using f by (metis prod.collapse)
  then show "r \<noteq> OutOfFuel"
    using s(2) x \<open>x \<noteq> OutOfFuel\<close> by (auto simp: finallyE_def split: prod.splits outcome.splits)
qed

lemma ends_when [ends_intro]: "(b \<Longrightarrow> ends P m) \<Longrightarrow> ends P (whenE b m)"
  by (auto simp: whenE_def intro: ends_intro)

lemma ends_if [ends_intro]: "(b \<Longrightarrow> ends P m) \<Longrightarrow> (\<not> b \<Longrightarrow> ends P k) \<Longrightarrow> ends P (if b then m else k)"
  by simp

lemma ends_case_option [ends_intro]:
  "(x = None \<Longrightarrow> ends P m) \<Longrightarrow> (\<And>a. x = Some a \<Longrightarrow> ends P (f a)) \<Longrightarrow>
   ends P (case x of None \<Rightarrow> m | Some a \<Rightarrow> f a)"
  by (cases x) auto

lemma ends_case_sum [ends_intro]:
  "(\<And>e. x = Inl e \<Longrightarrow> ends P (f e)) \<Longrightarrow> (\<And>a. x = Inr a \<Longrightarrow> ends P (g a)) \<Longrightarrow>
   ends P (case x of Inl e \<Rightarrow> f e | Inr a \<Rightarrow> g a)"
  by (cases x) auto

lemma ends_for [ends_intro]:
  "(\<And>x. ends P (f x)) \<Longrightarrow> (\<And>x. keeps P (f x)) \<Longrightarrow> ends P (forE xs f)"
  by (induction xs) (auto intro: ends_intro keeps_intro)

section \<open>Effects that always return\<close>

definition yields :: "('s, 'a) eff \<Rightarrow> ('a \<Rightarrow> bool) \<Rightarrow> bool" where
  "yields m P \<longleftrightarrow> (\<forall>s. \<exists>a s'. m s = (Return a, s') \<and> P a)"

lemma yieldsE: "yields m P \<Longrightarrow> (\<And>a s'. m s = (Return a, s') \<Longrightarrow> P a \<Longrightarrow> thesis) \<Longrightarrow> thesis"
  unfolding yields_def by blast

lemma yields_ret [yields_intro]: "P a \<Longrightarrow> yields (ret a) P"
  by (simp add: yields_def)

lemma yields_bind [yields_intro]:
  assumes "yields m Q" and "\<And>a. Q a \<Longrightarrow> yields (f a) P"
  shows "yields (bindE m f) P"
  unfolding yields_def
proof
  fix s
  obtain a t where "m s = (Return a, t)" "Q a" using assms(1) by (rule yieldsE)
  moreover obtain b s' where "f a t = (Return b, s')" "P b"
    using assms(2) [OF \<open>Q a\<close>] by (rule yieldsE)
  ultimately show "\<exists>a s'. bindE m f s = (Return a, s') \<and> P a" by (auto simp: bindE_def)
qed

lemma yields_weaken: "yields m P \<Longrightarrow> (\<And>a. P a \<Longrightarrow> Q a) \<Longrightarrow> yields m Q"
  unfolding yields_def by blast

lemma yields_map:
  assumes "\<And>x. x \<in> set xs \<Longrightarrow> yields (f x) P"
  shows "yields (mapE f xs) (\<lambda>ys. length ys = length xs \<and> (\<forall>y \<in> set ys. P y))"
  using assms
proof (induction xs)
  case Nil
  then show ?case by (auto intro: yields_ret)
next
  case (Cons x xs)
  have "yields (mapE f xs) (\<lambda>ys. length ys = length xs \<and> (\<forall>y \<in> set ys. P y))"
    using Cons by simp
  then have "yields (bindE (mapE f xs) (\<lambda>ys. ret (y # ys)))
      (\<lambda>ys. length ys = length (x # xs) \<and> (\<forall>y \<in> set ys. P y))" if "P y" for y
    by (rule yields_bind) (use that in \<open>auto intro!: yields_ret\<close>)
  moreover have "yields (f x) P" using Cons.prems by simp
  ultimately show ?case
    unfolding mapE.simps by (rule yields_bind [rotated])
qed

section \<open>Scoped steps\<close>

text \<open>
  A step that sets something up, hands it to the code that uses it at its \<open>yield\<close>, and cleans
  up in a \<open>finally\<close> block. A client relies on the cleanup being the last thing done.
\<close>

locale scoped =
  fixes acquire :: "'x \<Rightarrow> ('s, 'u) eff"
    and item :: "'x \<Rightarrow> 'i"
    and release :: "'x \<Rightarrow> ('s, 'v) eff"
    and scope :: "'x \<Rightarrow> ('i \<Rightarrow> ('s, 'a) eff) \<Rightarrow> ('s, 'a) eff"
  assumes scope_eq: "scope x body = finallyE (seqE (acquire x) (body (item x))) (release x)"
begin

lemma release_last:
  assumes "seqE (acquire x) (body (item x)) s = (r, t)" and "r \<noteq> OutOfFuel"
  shows "snd (scope x body s) = snd (release x t)"
  unfolding scope_eq using assms by (rule finallyE_runs)

lemma returns_through:
  "scope x body s = (Return a, s') \<longleftrightarrow>
     (\<exists>u t t' v. acquire x s = (Return u, t) \<and> body (item x) t = (Return a, t') \<and> release x t' = (Return v, s'))"
  unfolding scope_eq by (auto simp: finallyE_Return_iff seqE_Return_iff)

lemma scope_keeps:
  assumes "keeps P (acquire x)" and "keeps P (body (item x))" and "keeps P (release x)"
  shows "keeps P (scope x body)"
  unfolding scope_eq using assms by (intro keeps_finally keeps_seq)

end

end
