(* ===== verification/Versions.thy ===== *)
theory Versions
  imports Py_Effects
begin

text \<open>
  \<open>helpers/common.py\<close>: the comparison of ClickHouse versions that every suite uses to decide
  which tests to skip, the unique identifiers and the snapshot identifiers. The names of
  tests and the UUID generator belong to the test framework and the operating system and
  are arguments here.
\<close>

section \<open>Definitions\<close>

text \<open>
  The \<open>for index, i in enumerate(...)\<close> loop of \<open>check\<close>; \<open>n\<close> is the length of the whole
  list. It stops at the first component that is not numeric, and past the last one when
  all are.
\<close>

fun version_index :: "nat \<Rightarrow> nat \<Rightarrow> string list \<Rightarrow> nat" where
  "version_index n index [] = index"
| "version_index n index (i # is) =
     (if \<not> isnumeric i then index
      else if index = n - 1 then index + 1
      else version_index n (index + 1) is)"

text \<open>\<open>[int(i) for i in ...]\<close>; \<open>None\<close> is the \<open>ValueError\<close> of the first bad component.\<close>

fun int_list :: "string list \<Rightarrow> int list option" where
  "int_list [] = Some []"
| "int_list (x # xs) =
     (case py_int x of None \<Rightarrow> None
      | Some i \<Rightarrow> map_option (\<lambda>is. i # is) (int_list xs))"

definition without_operators :: "string \<Rightarrow> string" where
  "without_operators version = filter (\<lambda>c. c \<notin> set ''<>='') version"

definition compare_versions :: "string \<Rightarrow> int list \<Rightarrow> int list \<Rightarrow> bool" where
  "compare_versions version clickhouse_version_list version_list =
     (if startswith version ''=='' then clickhouse_version_list = version_list
      else if startswith version ''>='' then clickhouse_version_list \<ge> version_list
      else if startswith version ''<='' then clickhouse_version_list \<le> version_list
      else if startswith version ''='' then clickhouse_version_list = version_list
      else if startswith version ''>'' then clickhouse_version_list > version_list
      else if startswith version ''<'' then clickhouse_version_list < version_list
      else clickhouse_version_list = version_list)"

text \<open>The second argument is \<open>test.context.clickhouse_version\<close>.\<close>

definition check_clickhouse_version :: "string \<Rightarrow> string option \<Rightarrow> exn + bool" where
  "check_clickhouse_version version context_version =
     (case context_version of
        None \<Rightarrow> Inr False
      | Some clickhouse_version \<Rightarrow>
          let version_list = py_split ''.'' (without_operators version);
              clickhouse_version_list = py_split ''.'' clickhouse_version;
              index = version_index (length clickhouse_version_list) 0 clickhouse_version_list
          in if index = 0 then Inl (ValueError ''failed to parse version'')
             else case int_list (take index version_list) of
                 None \<Rightarrow> Inl (ValueError ''invalid literal for int'')
               | Some vs \<Rightarrow> (case int_list (take index clickhouse_version_list) of
                     None \<Rightarrow> Inl (ValueError ''invalid literal for int'')
                   | Some cs \<Rightarrow> Inr (compare_versions version cs vs)))"

text \<open>
  \<open>getuid\<close>; \<open>uuid\<close> is the text of a fresh UUID, \<open>is_example\<close> says whether the current test
  is an example, \<open>basename\<close> and \<open>parentname\<close> are the framework's functions on test names.
\<close>

definition uuid_text :: "string \<Rightarrow> string" where
  "uuid_text uuid = py_replace CHR ''-'' ''_'' uuid"

definition test_name_text :: "string \<Rightarrow> string" where
  "test_name_text name = py_replace CHR '','' [] (py_replace CHR '' '' ''_'' name)"

definition getuid ::
  "(string \<Rightarrow> string) \<Rightarrow> (string \<Rightarrow> string) \<Rightarrow> bool \<Rightarrow> string \<Rightarrow> string \<Rightarrow> bool \<Rightarrow> string" where
  "getuid basename parentname is_example current_name uuid with_test_name =
     (if \<not> with_test_name then uuid_text uuid
      else let testname = (if is_example then test_name_text (basename (parentname current_name))
                           else test_name_text (basename current_name))
           in testname @ ''_'' @ uuid_text uuid)"

text \<open>\<open>get_snapshot_id\<close>; an absent and an empty version argument are both false.\<close>

definition get_snapshot_id ::
  "(string \<Rightarrow> string) \<Rightarrow> string \<Rightarrow> string option \<Rightarrow> string option \<Rightarrow> string option \<Rightarrow> exn + string" where
  "get_snapshot_id basename current_name context_version snapshot_id clickhouse_version =
     (let postfix =
        (case clickhouse_version of
           None \<Rightarrow> Inr []
         | Some v \<Rightarrow>
             if v = [] then Inr []
             else (case check_clickhouse_version v context_version of
                 Inl e \<Rightarrow> Inl e
               | Inr b \<Rightarrow> Inr (if b then v else [])))
      in case postfix of
           Inl e \<Rightarrow> Inl e
         | Inr id_postfix \<Rightarrow>
             (case snapshot_id of
                None \<Rightarrow> Inr (basename current_name @ id_postfix)
              | Some i \<Rightarrow> Inr i))"

section \<open>The abstract comparison\<close>

text \<open>
  What a constraint promises: the operator, applied to the numeric components of the
  server's version and to as many components of the constraint, in the lexicographic order
  of number lists.
\<close>

datatype operator = Eq_Eq | Ge | Le | Eq | Gt | Lt

fun operator_text :: "operator \<Rightarrow> string" where
  "operator_text Eq_Eq = ''==''"
| "operator_text Ge = ''>=''"
| "operator_text Le = ''<=''"
| "operator_text Eq = ''=''"
| "operator_text Gt = ''>''"
| "operator_text Lt = ''<''"

fun operator_holds :: "operator \<Rightarrow> nat list \<Rightarrow> nat list \<Rightarrow> bool" where
  "operator_holds Eq_Eq cs vs \<longleftrightarrow> cs = vs"
| "operator_holds Ge cs vs \<longleftrightarrow> cs \<ge> vs"
| "operator_holds Le cs vs \<longleftrightarrow> cs \<le> vs"
| "operator_holds Eq cs vs \<longleftrightarrow> cs = vs"
| "operator_holds Gt cs vs \<longleftrightarrow> cs > vs"
| "operator_holds Lt cs vs \<longleftrightarrow> cs < vs"

definition dotted :: "nat list \<Rightarrow> string list \<Rightarrow> string" where
  "dotted numbers sfx = py_join ''.'' (map str_nat numbers @ sfx)"

section \<open>Lemmas\<close>

lemma map_int_less: "map int xs < map int ys \<longleftrightarrow> xs < ys"
proof (induction xs arbitrary: ys)
  case (Cons x xs)
  then show ?case by (cases ys) auto
next
  case Nil
  then show ?case by (cases ys) auto
qed

lemma map_int_eq: "map int xs = map int ys \<longleftrightarrow> xs = ys"
  by (rule inj_map_eq_map) simp

lemma map_int_le: "map int xs \<le> map int ys \<longleftrightarrow> xs \<le> ys"
  by (auto simp: le_less map_int_less map_int_eq)

lemmas map_int_order = map_int_less map_int_eq map_int_le

lemma isnumeric_str_nat [simp]: "isnumeric (str_nat n)"
  using str_nat_digits [of n] by (auto simp: isnumeric_def is_numeric_char_def list_all_iff)

lemma digit_neq: "is_digit c \<Longrightarrow> c \<noteq> CHR ''.'' \<and> c \<notin> set ''<>=''"
  by (auto simp: is_digit_def)

lemma str_nat_no_dot: "CHR ''.'' \<notin> set (str_nat n)"
  using str_nat_digits [of n] digit_neq by (auto simp: list_all_iff)

lemma version_index_numbers:
  assumes "n = i + length ms + length sfx" and "ms \<noteq> []" and "sfx \<noteq> [] \<longrightarrow> \<not> isnumeric (hd sfx)"
  shows "version_index n i (map str_nat ms @ sfx) = i + length ms"
  using assms
proof (induction ms arbitrary: i)
  case (Cons m ms)
  show ?case
  proof (cases "ms = []")
    case True
    with Cons.prems show ?thesis by (cases sfx) auto
  next
    case False
    then have "i \<noteq> n - 1" using Cons.prems by (cases ms) auto
    with False Cons show ?thesis by simp
  qed
qed simp

lemma int_list_str_nat: "int_list (map str_nat ns) = Some (map int ns)"
  by (induction ns) auto

lemma without_operators_operator [simp]: "without_operators (operator_text r @ s) = without_operators s"
  by (cases r) (simp_all add: without_operators_def)

lemma without_operators_dotted: "without_operators (dotted ns []) = dotted ns []"
proof -
  have "c = CHR ''.'' \<or> is_digit c" if "c \<in> set (dotted ns [])" for c
    using that set_py_join [of "''.''" "map str_nat ns"] str_nat_digits
    by (auto simp: dotted_def list_all_iff)
  then have "\<forall>c \<in> set (dotted ns []). c \<notin> set ''<>=''"
    using digit_neq by fastforce
  then show ?thesis unfolding without_operators_def by (metis filter_True)
qed

lemma py_split_dotted:
  assumes "ms \<noteq> []" and "\<And>x. x \<in> set sfx \<Longrightarrow> CHR ''.'' \<notin> set x"
  shows "py_split ''.'' (dotted ms sfx) = map str_nat ms @ sfx"
  unfolding dotted_def using assms str_nat_no_dot by (intro py_split_char_join) auto

lemma dotted_first:
  "ns \<noteq> [] \<Longrightarrow> \<exists>c t. dotted ns sfx = c # t \<and> is_digit c"
proof -
  assume "ns \<noteq> []"
  then obtain n ns' where [simp]: "ns = n # ns'" by (cases ns) auto
  obtain c t where "str_nat n = c # t" using str_nat_nonempty [of n] by (cases "str_nat n") auto
  moreover have "is_digit c" using calculation str_nat_digits [of n] by simp
  ultimately show ?thesis
    by (cases "map str_nat ns' @ sfx") (auto simp: dotted_def)
qed

lemma compare_versions_operator:
  assumes "ns \<noteq> []"
  shows "compare_versions (operator_text r @ dotted ns sfx) (map int cs) (map int vs)
    \<longleftrightarrow> operator_holds r cs vs"
proof -
  obtain c t where "dotted ns sfx = c # t" "is_digit c" using dotted_first [OF assms] by blast
  then show ?thesis using digit_neq [of c]
    by (cases r) (auto simp: compare_versions_def map_int_order)
qed

lemma check_clickhouse_version_dotted:
  assumes "ms \<noteq> []" and "ns \<noteq> []"
    and "\<And>x. x \<in> set sfx \<Longrightarrow> CHR ''.'' \<notin> set x"
    and "sfx \<noteq> [] \<longrightarrow> \<not> isnumeric (hd sfx)"
  shows "check_clickhouse_version (operator_text r @ dotted ns []) (Some (dotted ms sfx))
    = Inr (operator_holds r ms (take (length ms) ns))"
proof -
  have "version_index (length (map str_nat ms @ sfx)) 0 (map str_nat ms @ sfx) = length ms"
    using version_index_numbers [of "length ms + length sfx" 0 ms sfx] assms by simp
  moreover have "py_split ''.'' (dotted ns []) = map str_nat ns"
    using py_split_dotted [of ns "[]"] assms(2) by simp
  ultimately show ?thesis
    using assms(1,2) py_split_dotted [OF assms(1,3)]
    by (simp add: check_clickhouse_version_def without_operators_dotted int_list_str_nat
        take_map compare_versions_operator)
qed

section \<open>Properties\<close>

text \<open>
  C1. For a constraint that is an operator and dotted numbers, and a server version of
  dotted numbers with or without a suffix such as \<open>altinitystable\<close>, the string code
  computes the abstract comparison: it never raises, ignores the suffix, and compares the
  numbers lexicographically after cutting the constraint to as many components as the
  server's version has.
\<close>

theorem check_clickhouse_version_refines:
  assumes "ms \<noteq> []" and "ns \<noteq> []"
    and "\<And>x. x \<in> set sfx \<Longrightarrow> CHR ''.'' \<notin> set x"
    and "sfx \<noteq> [] \<longrightarrow> \<not> isnumeric (hd sfx)"
  shows "check_clickhouse_version (operator_text r @ dotted ns []) (Some (dotted ms sfx))
    = Inr (operator_holds r ms (take (length ms) ns))"
  using assms by (rule check_clickhouse_version_dotted)

theorem check_clickhouse_version_refines_witness:
  "check_clickhouse_version (operator_text Ge @ dotted [22, 8] []) (Some (dotted [22, 8, 11, 17] [''altinitystable'']))
     = Inr (operator_holds Ge [22, 8, 11, 17] (take 4 [22, 8]))
   \<and> operator_holds Ge [22, 8, 11, 17] (take 4 [22, 8])"
  using check_clickhouse_version_refines [of "[22, 8, 11, 17]" "[22, 8]" "[''altinitystable'']" Ge]
  by (simp add: isnumeric_def is_numeric_char_def is_digit_def)

text \<open>
  \<open>>=v\<close> and \<open><v\<close> are complementary, and so are \<open>>v\<close> and \<open><=v\<close>: whenever the server
  version is known, the two checks both raise the same error or give opposite answers, so a
  pair of such guards covers every server exactly once.
\<close>

theorem check_clickhouse_version_complementary:
  assumes "\<not> startswith v ''=''"
  shows "check_clickhouse_version (''<'' @ v) (Some c) =
      map_sum id Not (check_clickhouse_version (''>='' @ v) (Some c)) \<and>
    check_clickhouse_version (''<='' @ v) (Some c) =
      map_sum id Not (check_clickhouse_version (''>'' @ v) (Some c))"
proof -
  have "without_operators (''<'' @ v) = without_operators (''>='' @ v)"
    "without_operators (''<='' @ v) = without_operators (''>'' @ v)"
    by (simp_all add: without_operators_def)
  moreover have "compare_versions (''<'' @ v) cs vs \<longleftrightarrow> \<not> compare_versions (''>='' @ v) cs vs"
    "compare_versions (''<='' @ v) cs vs \<longleftrightarrow> \<not> compare_versions (''>'' @ v) cs vs" for cs vs
    using assms by (auto simp: compare_versions_def)
  ultimately show ?thesis
    by (auto simp: check_clickhouse_version_def Let_def split: option.splits)
qed

theorem check_clickhouse_version_complementary_witness:
  "\<not> startswith ''22.8'' ''='' \<and>
   check_clickhouse_version ''<22.8'' (Some ''22.3.1'') =
     map_sum id Not (check_clickhouse_version ''>=22.8'' (Some ''22.3.1''))"
  using check_clickhouse_version_complementary [of "''22.8''" "''22.3.1''"] by simp

text \<open>
  A server version with more components than the constraint is strictly greater than
  it: on \<open>22.3.1\<close> the constraint \<open><=22.3\<close> fails and \<open>==22.3\<close> fails, while \<open>>22.3\<close> holds. A
  constraint has to be written as \<open><22.4\<close> to include the patch releases of \<open>22.3\<close>.
\<close>

theorem check_clickhouse_version_patch_release:
  assumes "ns \<noteq> []" and "ps \<noteq> []"
  shows "check_clickhouse_version (''<='' @ dotted ns []) (Some (dotted (ns @ ps) [])) = Inr False \<and>
    check_clickhouse_version (''=='' @ dotted ns []) (Some (dotted (ns @ ps) [])) = Inr False \<and>
    check_clickhouse_version (''>'' @ dotted ns []) (Some (dotted (ns @ ps) [])) = Inr True"
proof -
  have longer: "ns < ns @ ps" using assms(2) by (induction ns) (auto simp: neq_Nil_conv)
  have refines: "check_clickhouse_version (operator_text r @ dotted ns []) (Some (dotted (ns @ ps) []))
      = Inr (operator_holds r (ns @ ps) ns)" for r
    using check_clickhouse_version_dotted [of "ns @ ps" ns "[]" r] assms by simp
  show ?thesis
    using refines [of Le] refines [of Eq_Eq] refines [of Gt] longer assms(2) by simp
qed

theorem check_clickhouse_version_patch_release_witness:
  "check_clickhouse_version (''<='' @ dotted [22, 3] []) (Some (dotted ([22, 3] @ [1]) [])) = Inr False"
  using check_clickhouse_version_patch_release [of "[22, 3]" "[1]"] by simp

end
