(* ===== verification/Datatypes.thy ===== *)
theory Datatypes
  imports Versions
begin

text \<open>
  \<open>helpers/datatypes.py\<close>: the ClickHouse data types, their attributes and the SQL text of
  their extreme, zero and random values. Each class is a constructor of \<open>dtype\<close>; the
  attributes that \<open>__init__\<close> computes are the function \<open>attrs\<close>, written along the chain of
  \<open>super().__init__\<close> calls. The random number generator is an argument: \<open>randint\<close> with the
  bounds it is called with, and \<open>uniform\<close> with the text of its bounds, returning the text
  of the number drawn.
\<close>

section \<open>Attributes\<close>

text \<open>The values the attributes \<open>max\<close> and \<open>min\<close> take, and how \<open>f"{...}"\<close> shows them.\<close>

datatype pyval = PyInt int | PyStr string | PyNone

fun show_pyval :: "pyval \<Rightarrow> string" where
  "show_pyval (PyInt i) = str_int i"
| "show_pyval (PyStr s) = s"
| "show_pyval PyNone = ''None''"

record data_type =
  type_name :: string
  supports_low_cardinality :: bool
  valid_map_key :: bool
  numeric :: bool
  unsigned :: bool
  extended_precision :: bool
  type_max :: pyval
  type_min :: pyval

text \<open>\<open>DataType.__init__\<close> and the constructors of the intermediate classes.\<close>

definition DataType :: "string \<Rightarrow> bool \<Rightarrow> bool \<Rightarrow> bool \<Rightarrow> bool \<Rightarrow> bool \<Rightarrow> pyval \<Rightarrow> pyval \<Rightarrow> data_type" where
  "DataType n low_card map_key num unsig ext mx mn =
     \<lparr>type_name = n, supports_low_cardinality = low_card, valid_map_key = map_key, numeric = num,
      unsigned = unsig, extended_precision = ext, type_max = mx, type_min = mn\<rparr>"

definition Int_init :: "string \<Rightarrow> int \<Rightarrow> int \<Rightarrow> bool \<Rightarrow> bool \<Rightarrow> data_type" where
  "Int_init n mx mn unsig ext = DataType n True True True unsig ext (PyInt mx) (PyInt mn)"

definition UInt_init :: "string \<Rightarrow> int \<Rightarrow> bool \<Rightarrow> data_type" where
  "UInt_init n mx ext = Int_init n mx 0 True ext"

definition Float_init :: "string \<Rightarrow> string \<Rightarrow> string \<Rightarrow> data_type" where
  "Float_init n mx mn = DataType n True False True False False (PyStr mx) (PyStr mn)"

definition Decimal_init :: "string \<Rightarrow> string \<Rightarrow> string \<Rightarrow> bool \<Rightarrow> data_type" where
  "Decimal_init n mx mn ext = DataType n False False True False ext (PyStr mx) (PyStr mn)"

definition Date_init :: "string \<Rightarrow> string \<Rightarrow> string \<Rightarrow> bool \<Rightarrow> bool \<Rightarrow> data_type" where
  "Date_init n mx mn low_card map_key =
     DataType n low_card map_key False False False (PyStr mx) (PyStr mn)"

definition String_init :: "string \<Rightarrow> string \<Rightarrow> string \<Rightarrow> data_type" where
  "String_init n mx mn = DataType n True True False False False (PyStr mx) (PyStr mn)"

text \<open>
  The classes. \<open>DateTime64\<close> reads the server version when it is constructed; the flag
  keeps the answer (see \<open>new_DateTime64\<close>).
\<close>

datatype dtype =
    Int8 | Int16 | Int32 | Int64 | Int128 | Int256
  | UInt8 | UInt16 | UInt32 | UInt64 | UInt128 | UInt256
  | Float32 | Float64
  | Decimal32 int | Decimal64 int | Decimal128 int | Decimal256 int
  | Date | Date32 | DateTime | DateTime64 int bool
  | String | FixedString int
  | Boolean | UUID
  | Nullable dtype | LowCardinality dtype
  | Tuple "dtype list" | Map dtype dtype | Array dtype

definition new_DateTime64 :: "string option \<Rightarrow> int \<Rightarrow> exn + dtype" where
  "new_DateTime64 context_version precision =
     (case check_clickhouse_version ''<22.8'' context_version of
        Inl e \<Rightarrow> Inl e
      | Inr older \<Rightarrow> Inr (DateTime64 precision older))"

text \<open>The limit of a decimal of \<open>digits\<close> digits: the same branch in all four classes.\<close>

definition decimal_limit :: "int \<Rightarrow> int \<Rightarrow> string" where
  "decimal_limit digits scale =
     (if scale = digits then ''0.'' @ replicate (nat (scale - 1)) CHR ''9''
      else replicate (nat (digits - scale)) CHR ''9'' @ ''.'' @ replicate (nat scale) CHR ''9'')"

definition alphabet :: string where
  "alphabet = ''abcdefghijklmnopqrstuvwxyzABCDEFGHIJKLMNOPQRTUVWXYZ''"

definition quoted :: "string \<Rightarrow> string" where
  "quoted s = [CHR 0x27] @ s @ [CHR 0x27]"

text \<open>\<open>s[0:n]\<close>, where a negative bound counts from the end.\<close>

definition slice_to :: "string \<Rightarrow> int \<Rightarrow> string" where
  "slice_to s n = take (nat (if n < 0 then int (length s) + n else n)) s"

definition fixed_string_max :: "int \<Rightarrow> string" where
  "fixed_string_max n =
     (if n \<le> 51 then quoted (slice_to alphabet n)
      else quoted (alphabet @ replicate (nat (n - 51)) CHR ''a''))"

definition paren_name :: "string \<Rightarrow> string \<Rightarrow> string" where
  "paren_name n inner = n @ ''('' @ inner @ '')''"

definition decimal_attrs :: "string \<Rightarrow> int \<Rightarrow> int \<Rightarrow> bool \<Rightarrow> data_type" where
  "decimal_attrs n digits scale ext =
     (let limit = decimal_limit digits scale
      in Decimal_init (paren_name n (str_int scale)) limit (''-'' @ limit) ext)"

fun is_String :: "dtype \<Rightarrow> bool" where
  "is_String String = True"
| "is_String (FixedString _) = True"
| "is_String _ = False"

fun attrs :: "dtype \<Rightarrow> data_type" where
  "attrs Int8 = Int_init ''Int8'' 127 (-128) False False"
| "attrs Int16 = Int_init ''Int16'' 32767 (-32768) False False"
| "attrs Int32 = Int_init ''Int32'' 2147483647 (-2147483648) False False"
| "attrs Int64 = Int_init ''Int64'' 9223372036854775807 (-9223372036854775808) False False"
| "attrs Int128 = Int_init ''Int128'' 170141183460469231731687303715884105727
     (-170141183460469231731687303715884105728) False True"
| "attrs Int256 = Int_init ''Int256''
     57896044618658097711785492504343953926634992332820282019728792003956564819967
     (-57896044618658097711785492504343953926634992332820282019728792003956564819968) False True"
| "attrs UInt8 = UInt_init ''UInt8'' 255 False"
| "attrs UInt16 = UInt_init ''UInt16'' 65535 False"
| "attrs UInt32 = UInt_init ''UInt32'' 4294967295 False"
| "attrs UInt64 = UInt_init ''UInt64'' 18446744073709551615 False"
| "attrs UInt128 = UInt_init ''UInt128'' 340282366920938463463374607431768211455 True"
| "attrs UInt256 = UInt_init ''UInt256''
     115792089237316195423570985008687907853269984665640564039457584007913129639935 True"
| "attrs Float32 = Float_init ''Float32'' ''3.4028235e38'' ''-3.4028235e38''"
| "attrs Float64 = Float_init ''Float64'' ''1.7976909999999999e308'' ''-1.7976909999999999e308''"
| "attrs (Decimal32 scale) = decimal_attrs ''Decimal32'' 9 scale False"
| "attrs (Decimal64 scale) = decimal_attrs ''Decimal64'' 18 scale False"
| "attrs (Decimal128 scale) = decimal_attrs ''Decimal128'' 38 scale False"
| "attrs (Decimal256 scale) = decimal_attrs ''Decimal256'' 76 scale True"
| "attrs Date = Date_init ''Date'' (quoted ''2149-06-06'') (quoted ''1970-01-01'') True True"
| "attrs Date32 = Date_init ''Date32'' (quoted ''2299-12-31'') (quoted ''1900-01-01'') True True"
| "attrs DateTime =
     Date_init ''DateTime'' (quoted ''2106-02-07 06:28:15'') (quoted ''1970-01-01 00:00:00'') True True"
| "attrs (DateTime64 precision older) =
     Date_init (paren_name ''DateTime64'' (str_int precision))
       (if precision \<noteq> 9 then
          (if older then quoted ''2283-11-11 23:59:59.99999999'' else quoted ''2299-12-31 23:59:59.99999999'')
        else quoted ''2262-04-11 23:47:16'')
       (if older then quoted ''1925-01-01 00:00:00.00000000'' else quoted ''1900-01-01 00:00:00.00000000'')
       False False"
| "attrs String = String_init ''String'' (quoted alphabet) (quoted [])"
| "attrs (FixedString n) =
     String_init (paren_name ''FixedString'' (str_int n)) (fixed_string_max n) (quoted [])"
| "attrs Boolean = DataType ''Bool'' True True False False False (PyStr ''true'') (PyStr ''false'')"
| "attrs UUID = DataType ''UUID'' True True False False False
     (PyStr (quoted ''ffffffff-ffff-ffff-ffff-ffffffffffff''))
     (PyStr (quoted ''00000000-0000-0000-0000-000000000000''))"
| "attrs (Nullable d) = (let a = attrs d in
     DataType (paren_name ''Nullable'' (type_name a)) (supports_low_cardinality a) False
       (numeric a) (unsigned a) False (type_max a) (type_min a))"
| "attrs (LowCardinality d) = (let a = attrs d in
     DataType (paren_name ''LowCardinality'' (type_name a)) False (is_String d)
       (numeric a) (unsigned a) False (type_max a) (type_min a))"
| "attrs (Tuple ds) =
     DataType (paren_name ''Tuple'' (py_join '','' (map (\<lambda>d. type_name (attrs d)) ds)))
       False False False False False PyNone PyNone"
| "attrs (Map k v) =
     DataType (paren_name ''Map'' (type_name (attrs k) @ '','' @ type_name (attrs v)))
       False False False False False PyNone PyNone"
| "attrs (Array d) =
     DataType (paren_name ''Array'' (type_name (attrs d))) False False False False False PyNone PyNone"

text \<open>\<open>isinstance\<close> tests of the classes that have subclasses.\<close>

definition is_UInt :: "dtype \<Rightarrow> bool" where
  "is_UInt d \<longleftrightarrow> d \<in> {UInt8, UInt16, UInt32, UInt64, UInt128, UInt256}"

definition is_Int :: "dtype \<Rightarrow> bool" where
  "is_Int d \<longleftrightarrow> d \<in> {Int8, Int16, Int32, Int64, Int128, Int256} \<or> is_UInt d"

fun is_Decimal :: "dtype \<Rightarrow> bool" where
  "is_Decimal (Decimal32 _) = True"
| "is_Decimal (Decimal64 _) = True"
| "is_Decimal (Decimal128 _) = True"
| "is_Decimal (Decimal256 _) = True"
| "is_Decimal _ = False"

fun is_DateTime64 :: "dtype \<Rightarrow> bool" where
  "is_DateTime64 (DateTime64 _ _) = True"
| "is_DateTime64 _ = False"

definition is_DateTime :: "dtype \<Rightarrow> bool" where
  "is_DateTime d \<longleftrightarrow> d = DateTime \<or> is_DateTime64 d"

definition is_Date :: "dtype \<Rightarrow> bool" where
  "is_Date d \<longleftrightarrow> d = Date \<or> d = Date32 \<or> is_DateTime d"

fun is_Nullable :: "dtype \<Rightarrow> bool" where
  "is_Nullable (Nullable _) = True"
| "is_Nullable _ = False"

fun is_LowCardinality :: "dtype \<Rightarrow> bool" where
  "is_LowCardinality (LowCardinality _) = True"
| "is_LowCardinality _ = False"

fun is_Map :: "dtype \<Rightarrow> bool" where
  "is_Map (Map _ _) = True"
| "is_Map _ = False"

section \<open>Values\<close>

text \<open>\<open>f"to{name}({args})"\<close>\<close>

definition to_call :: "string \<Rightarrow> string \<Rightarrow> string" where
  "to_call n args = ''to'' @ n @ ''('' @ args @ '')''"

definition decimal_value :: "dtype \<Rightarrow> int \<Rightarrow> (data_type \<Rightarrow> pyval) \<Rightarrow> string" where
  "decimal_value d scale field =
     to_call (type_name (attrs d)) (show_pyval (field (attrs d)) @ '', '' @ str_int scale)"

text \<open>\<open>max_value\<close> and \<open>min_value\<close> differ in the attribute they show and in the recursion.\<close>

fun limit_value :: "(data_type \<Rightarrow> pyval) \<Rightarrow> dtype \<Rightarrow> string" where
  "limit_value field (Decimal32 scale) = decimal_value (Decimal32 scale) scale field"
| "limit_value field (Decimal64 scale) = decimal_value (Decimal64 scale) scale field"
| "limit_value field (Decimal128 scale) = decimal_value (Decimal128 scale) scale field"
| "limit_value field (Decimal256 scale) = decimal_value (Decimal256 scale) scale field"
| "limit_value field (DateTime64 precision older) =
     to_call ''DateTime64'' (show_pyval (field (attrs (DateTime64 precision older))) @ '','' @ str_int precision)"
| "limit_value field (FixedString n) =
     to_call (type_name (attrs (FixedString n))) (show_pyval (field (attrs (FixedString n))) @ '','' @ str_int n)"
| "limit_value field (Nullable d) = limit_value field d"
| "limit_value field (LowCardinality d) = limit_value field d"
| "limit_value field (Tuple ds) = ''tuple('' @ py_join '','' (map (limit_value field) ds) @ '')''"
| "limit_value field (Map k v) = ''map('' @ limit_value field k @ '','' @ limit_value field v @ '')''"
| "limit_value field (Array d) = ''['' @ limit_value field d @ '']''"
| "limit_value field d = to_call (type_name (attrs d)) (show_pyval (field (attrs d)))"

definition max_value :: "dtype \<Rightarrow> string" where
  "max_value d = limit_value type_max d"

definition min_value :: "dtype \<Rightarrow> string" where
  "min_value d = limit_value type_min d"

definition decimal_zero :: "dtype \<Rightarrow> int \<Rightarrow> string" where
  "decimal_zero d scale = to_call (type_name (attrs d)) (''0,'' @ str_int scale)"

fun zero_or_null_value :: "dtype \<Rightarrow> string" where
  "zero_or_null_value (Decimal32 scale) = decimal_zero (Decimal32 scale) scale"
| "zero_or_null_value (Decimal64 scale) = decimal_zero (Decimal64 scale) scale"
| "zero_or_null_value (Decimal128 scale) = decimal_zero (Decimal128 scale) scale"
| "zero_or_null_value (Decimal256 scale) = decimal_zero (Decimal256 scale) scale"
| "zero_or_null_value Boolean = ''false''"
| "zero_or_null_value (Nullable d) = ''Null''"
| "zero_or_null_value (LowCardinality d) = zero_or_null_value d"
| "zero_or_null_value (Tuple ds) = ''tuple('' @ py_join '','' (map zero_or_null_value ds) @ '')''"
| "zero_or_null_value (Map k v) = ''map('' @ zero_or_null_value k @ '','' @ zero_or_null_value v @ '')''"
| "zero_or_null_value (Array d) = ''['' @ zero_or_null_value d @ '']''"
| "zero_or_null_value d =
     (if is_Date d \<or> is_String d \<or> d = UUID then show_pyval (type_min (attrs d))
      else to_call (type_name (attrs d)) ''0'')"

record 'r rng =
  randint :: "int \<Rightarrow> int \<Rightarrow> ('r, int) eff"
  uniform :: "string \<Rightarrow> string \<Rightarrow> ('r, string) eff"

text \<open>\<open>self.max[randint(1, len(self.max) - 2)] * randint(0, k)\<close>, in quotes.\<close>

definition rand_string :: "'r rng \<Rightarrow> string \<Rightarrow> int \<Rightarrow> ('r, string) eff" where
  "rand_string g mx k =
     bindE (randint g 1 (int (length mx) - 2)) (\<lambda>i.
       case py_nth mx i of
         None \<Rightarrow> raise IndexError
       | Some c \<Rightarrow> bindE (randint g 0 k) (\<lambda>n. ret (quoted (replicate (nat n) c))))"

definition rand_decimal :: "'r rng \<Rightarrow> dtype \<Rightarrow> int \<Rightarrow> ('r, string) eff" where
  "rand_decimal g d scale =
     bindE (uniform g (show_pyval (type_min (attrs d))) (show_pyval (type_max (attrs d)))) (\<lambda>x.
       ret (to_call (type_name (attrs d)) (x @ '','' @ str_int scale)))"

definition hex_field :: "'r rng \<Rightarrow> int \<Rightarrow> nat \<Rightarrow> ('r, string) eff" where
  "hex_field g bound width =
     bindE (randint g 0 bound) (\<lambda>n. ret (zero_pad width (hex_nat (nat n))))"

definition rand_uuid :: "'r rng \<Rightarrow> ('r, string) eff" where
  "rand_uuid g =
     bindE (hex_field g 4294967295 8) (\<lambda>a.
     bindE (hex_field g 65535 4) (\<lambda>b.
     bindE (hex_field g 65535 4) (\<lambda>c.
     bindE (hex_field g 65535 4) (\<lambda>d.
     bindE (hex_field g 281474976710655 12) (\<lambda>e.
     ret (quoted (a @ ''-'' @ b @ ''-'' @ c @ ''-'' @ d @ ''-'' @ e)))))))"

fun int_value :: "pyval \<Rightarrow> int" where
  "int_value (PyInt i) = i"
| "int_value _ = 0"

fun rand_value :: "'r rng \<Rightarrow> dtype \<Rightarrow> ('r, string) eff" where
  "rand_value g Float32 =
     bindE (uniform g (show_pyval (type_min (attrs Float32))) (show_pyval (type_max (attrs Float32)))) (\<lambda>x.
       ret (to_call ''Float32'' x))"
| "rand_value g Float64 =
     bindE (uniform g ''-1.79769'' ''1.79769'') (\<lambda>x.
     bindE (randint g 0 308) (\<lambda>e. ret (to_call ''Float64'' (x @ ''e'' @ str_int e))))"
| "rand_value g (Decimal32 scale) = rand_decimal g (Decimal32 scale) scale"
| "rand_value g (Decimal64 scale) = rand_decimal g (Decimal64 scale) scale"
| "rand_value g (Decimal128 scale) = rand_decimal g (Decimal128 scale) scale"
| "rand_value g (Decimal256 scale) = rand_decimal g (Decimal256 scale) scale"
| "rand_value g (DateTime64 precision older) =
     bindE (randint g 1072549200 1672549200) (\<lambda>i.
       ret (to_call ''DateTime64'' (str_int i @ '','' @ str_int precision)))"
| "rand_value g String = rand_string g (show_pyval (type_max (attrs String))) 100"
| "rand_value g (FixedString n) = rand_string g (show_pyval (type_max (attrs (FixedString n)))) n"
| "rand_value g Boolean = bindE (randint g 0 1) (\<lambda>i. ret (if i \<noteq> 0 then ''true'' else ''false''))"
| "rand_value g UUID = rand_uuid g"
| "rand_value g (Nullable d) = rand_value g d"
| "rand_value g (LowCardinality d) = rand_value g d"
| "rand_value g (Tuple ds) =
     bindE (mapE (rand_value g) ds) (\<lambda>vs. ret (''tuple('' @ py_join '','' vs @ '')''))"
| "rand_value g (Map k v) =
     bindE (rand_value g k) (\<lambda>a. bindE (rand_value g v) (\<lambda>b. ret (''map('' @ a @ '','' @ b @ '')'')))"
| "rand_value g (Array d) = bindE (rand_value g d) (\<lambda>a. ret (''['' @ a @ '']''))"
| "rand_value g d =
     (if is_Date d then
        bindE (randint g 1072549200 1672549200) (\<lambda>i. ret (to_call (type_name (attrs d)) (str_int i)))
      else
        bindE (randint g (int_value (type_min (attrs d))) (int_value (type_max (attrs d)))) (\<lambda>i.
          ret (to_call (type_name (attrs d)) (str_int i))))"

fun unwrap :: "dtype \<Rightarrow> dtype" where
  "unwrap (Nullable d) = unwrap d"
| "unwrap (LowCardinality d) = unwrap d"
| "unwrap d = d"

text \<open>The lists of types; \<open>DateTime64(3)\<close> is constructed against the server version.\<close>

definition basic_datatypes :: "string option \<Rightarrow> exn + dtype list" where
  "basic_datatypes context_version =
     (case new_DateTime64 context_version 3 of
        Inl e \<Rightarrow> Inl e
      | Inr datetime64 \<Rightarrow> Inr
          [UInt8, UInt16, UInt32, UInt64, UInt128, Int8, Int16, Int32, Int64, Int128, Float32, Float64,
           Decimal128 38, Date, DateTime, datetime64, Boolean, String, FixedString 51, UUID])"

definition common_basic_datatypes :: "dtype list" where
  "common_basic_datatypes =
     [String, FixedString 51, Date, DateTime, UInt64, Int64, Float32, Float64, Decimal128 38]"

end
