(* ===== verification/Datatypes_Facts.thy ===== *)
theory Datatypes_Facts
  imports Datatypes
begin

text \<open>
  Facts about the data types of \<open>helpers/datatypes.py\<close>: the bounds of the integer and
  decimal types, what the random values look like, and that every generated name and value
  is a bracketed text that the SQL parser can read as one expression.
\<close>

section \<open>What the code relies on and promises\<close>

text \<open>
  The documented behaviour of the generator: \<open>randint(a, b)\<close> with \<open>a <= b\<close> returns an
  integer of that range, \<open>uniform\<close> returns a number, whose text has digits, a sign, a point
  and an exponent but no bracket.
\<close>

definition rng_ok :: "'r rng \<Rightarrow> bool" where
  "rng_ok g \<longleftrightarrow>
     (\<forall>lo hi s. lo \<le> hi \<longrightarrow> (\<exists>i s'. randint g lo hi s = (Return i, s') \<and> lo \<le> i \<and> i \<le> hi)) \<and>
     (\<forall>lo hi s. \<exists>x s'. uniform g lo hi s = (Return x, s') \<and> set x \<inter> set ''()[]'' = {})"

lemma yields_randint: "rng_ok g \<Longrightarrow> lo \<le> hi \<Longrightarrow> yields (randint g lo hi) (\<lambda>i. lo \<le> i \<and> i \<le> hi)"
  unfolding rng_ok_def yields_def by blast

lemma yields_uniform: "rng_ok g \<Longrightarrow> yields (uniform g lo hi) (\<lambda>x. set x \<inter> set ''()[]'' = {})"
  unfolding rng_ok_def yields_def by blast

text \<open>A generator that always draws the lower bound and the number zero, for closed examples.\<close>

definition zero_rng :: "unit rng" where
  "zero_rng = \<lparr>randint = (\<lambda>lo hi. ret lo), uniform = (\<lambda>lo hi. ret ''0.0'')\<rparr>"

lemma zero_rng_ok: "rng_ok zero_rng"
  by (auto simp: rng_ok_def zero_rng_def ret_def)

text \<open>Signedness and width of the integer types.\<close>

fun int_format :: "dtype \<Rightarrow> (bool \<times> nat) option" where
  "int_format Int8 = Some (True, 8)"
| "int_format Int16 = Some (True, 16)"
| "int_format Int32 = Some (True, 32)"
| "int_format Int64 = Some (True, 64)"
| "int_format Int128 = Some (True, 128)"
| "int_format Int256 = Some (True, 256)"
| "int_format UInt8 = Some (False, 8)"
| "int_format UInt16 = Some (False, 16)"
| "int_format UInt32 = Some (False, 32)"
| "int_format UInt64 = Some (False, 64)"
| "int_format UInt128 = Some (False, 128)"
| "int_format UInt256 = Some (False, 256)"
| "int_format _ = None"

definition int_low :: "bool \<Rightarrow> nat \<Rightarrow> int" where
  "int_low sg w = (if sg then - (2 ^ (w - 1)) else 0)"

definition int_high :: "bool \<Rightarrow> nat \<Rightarrow> int" where
  "int_high sg w = (if sg then 2 ^ (w - 1) - 1 else 2 ^ w - 1)"

lemmas class_inits = DataType_def Int_init_def UInt_init_def Float_init_def Decimal_init_def
  Date_init_def String_init_def decimal_attrs_def Let_def

lemma attrs_int:
  assumes "int_format d = Some (sg, w)"
  shows "type_min (attrs d) = PyInt (int_low sg w) \<and> type_max (attrs d) = PyInt (int_high sg w) \<and>
    unsigned (attrs d) = (\<not> sg) \<and> extended_precision (attrs d) = (64 < w) \<and> numeric (attrs d)"
  using assms by (cases d) (simp_all add: class_inits int_low_def int_high_def)

lemma int_low_high: "0 < w \<Longrightarrow> int_low sg w \<le> int_high sg w"
  using one_le_power [of "2 :: int" "w - 1"] one_le_power [of "2 :: int" w]
  by (simp add: int_low_def int_high_def)

lemma rand_value_int:
  assumes "int_format d = Some (sg, w)"
  shows "rand_value g d = bindE (randint g (int_low sg w) (int_high sg w)) (\<lambda>i.
    ret (to_call (type_name (attrs d)) (str_int i)))"
  using assms attrs_int [OF assms]
  by (cases d) (simp_all add: is_Date_def is_DateTime_def)

section \<open>Brackets\<close>

text \<open>A scan with a stack of open brackets; a text is balanced when it ends with an empty stack.\<close>

fun scan :: "string \<Rightarrow> string \<Rightarrow> string option" where
  "scan st [] = Some st"
| "scan st (c # cs) =
     (if c \<in> set ''(['' then scan (c # st) cs
      else if c = CHR '')'' then (case st of [] \<Rightarrow> None | b # st' \<Rightarrow> if b = CHR ''('' then scan st' cs else None)
      else if c = CHR '']'' then (case st of [] \<Rightarrow> None | b # st' \<Rightarrow> if b = CHR ''['' then scan st' cs else None)
      else scan st cs)"

definition balanced :: "string \<Rightarrow> bool" where
  "balanced s \<longleftrightarrow> scan [] s = Some []"

lemma scan_append: "scan st (a @ b) = Option.bind (scan st a) (\<lambda>st'. scan st' b)"
  by (induction st a rule: scan.induct) (auto split: list.splits)

lemma scan_deeper: "scan st s = Some r \<Longrightarrow> scan (st @ t) s = Some (r @ t)"
  by (induction st s rule: scan.induct) (auto split: list.splits if_splits)

lemma balanced_scan: "balanced s \<Longrightarrow> scan st s = Some st"
  using scan_deeper [of "[]" s "[]" st] by (simp add: balanced_def)

lemma balanced_append [intro]: "balanced a \<Longrightarrow> balanced b \<Longrightarrow> balanced (a @ b)"
  by (simp add: balanced_def scan_append balanced_scan)

lemma balanced_Nil [simp]: "balanced []"
  by (simp add: balanced_def)

lemma balanced_round [intro]: "balanced s \<Longrightarrow> balanced (''('' @ s @ '')'')"
  unfolding balanced_def [of "''('' @ s @ '')''"] by (simp add: scan_append balanced_scan)

lemma balanced_square [intro]: "balanced s \<Longrightarrow> balanced (''['' @ s @ '']'')"
  unfolding balanced_def [of "''['' @ s @ '']''"] by (simp add: scan_append balanced_scan)

lemma balanced_plain: "set s \<inter> set ''()[]'' = {} \<Longrightarrow> balanced s"
proof -
  assume "set s \<inter> set ''()[]'' = {}"
  then have "scan [] s = Some []" by (induction s) auto
  then show ?thesis by (simp add: balanced_def)
qed

lemma balanced_call [intro]: "balanced n \<Longrightarrow> balanced args \<Longrightarrow> balanced (n @ ''('' @ args @ '')'')"
  using balanced_append [OF _ balanced_round] by simp

lemma balanced_join [intro]: "(\<And>x. x \<in> set xs \<Longrightarrow> balanced x) \<Longrightarrow> balanced (py_join '','' xs)"
proof (induction "'',''" xs rule: py_join.induct)
  case (3 x y xs)
  then have "balanced x" "balanced (py_join '','' (y # xs))" by auto
  moreover have "balanced '',''" by (simp add: balanced_def)
  ultimately show ?case by (simp only: py_join.simps) blast
qed auto

lemma balanced_str_nat: "balanced (str_nat n)"
proof (rule balanced_plain)
  have "c \<notin> set ''()[]''" if "is_digit c" for c using that by (auto simp: is_digit_def)
  then show "set (str_nat n) \<inter> set ''()[]'' = {}"
    using str_nat_digits [of n] unfolding list_all_iff by blast
qed

lemma balanced_Cons_plain: "c \<notin> set ''()[]'' \<Longrightarrow> balanced (c # s) \<longleftrightarrow> balanced s"
  by (simp add: balanced_def)

lemma balanced_str_int [simp]: "balanced (str_int i)"
  by (simp add: str_int_def balanced_Cons_plain balanced_str_nat)

lemma balanced_quoted [intro]: "balanced s \<Longrightarrow> balanced (quoted s)"
  unfolding quoted_def by (rule balanced_append [OF _ balanced_append]) (auto simp: balanced_def)

lemma balanced_paren_name [intro]: "balanced n \<Longrightarrow> balanced s \<Longrightarrow> balanced (paren_name n s)"
  unfolding paren_name_def by (rule balanced_call)

lemma balanced_to_call [intro]: "balanced n \<Longrightarrow> balanced s \<Longrightarrow> balanced (to_call n s)"
  using balanced_call [of "''to'' @ n" s] by (simp add: to_call_def balanced_Cons_plain)

lemma balanced_comma [intro]: "balanced a \<Longrightarrow> balanced b \<Longrightarrow> balanced (a @ '','' @ b)"
  by (rule balanced_append) (simp_all add: balanced_Cons_plain)

lemma balanced_replicate: "c \<notin> set ''()[]'' \<Longrightarrow> balanced (replicate n c)"
  by (rule balanced_plain) auto

lemma balanced_decimal_limit: "balanced (decimal_limit digits scale)"
proof -
  have "set (decimal_limit digits scale) \<subseteq> set ''0.9''"
    unfolding decimal_limit_def by (auto split: if_splits)
  then show ?thesis by (intro balanced_plain) auto
qed

lemma alphabet_facts: "length alphabet = 51" "set alphabet \<inter> set ''()[]'' = {}" "CHR 0x27 \<notin> set alphabet"
  by (simp_all add: alphabet_def)

text \<open>The body of the longest \<open>FixedString(n)\<close> literal.\<close>

definition fixed_body :: "int \<Rightarrow> string" where
  "fixed_body n = (if n \<le> 51 then slice_to alphabet n else alphabet @ replicate (nat (n - 51)) CHR ''a'')"

lemma fixed_string_max_body: "fixed_string_max n = quoted (fixed_body n)"
  by (simp add: fixed_string_max_def fixed_body_def)

lemma length_fixed_body: "0 \<le> n \<Longrightarrow> length (fixed_body n) = nat n"
  by (auto simp: fixed_body_def slice_to_def alphabet_facts)

lemma set_fixed_body: "set (fixed_body n) \<subseteq> set alphabet"
proof -
  have "CHR ''a'' \<in> set alphabet" by (simp add: alphabet_def)
  then show ?thesis by (auto simp: fixed_body_def slice_to_def dest: in_set_takeD)
qed

lemma balanced_fixed_string_max: "balanced (fixed_string_max n)"
proof -
  have "set (fixed_body n) \<inter> set ''()[]'' = {}"
    using set_fixed_body [of n] alphabet_facts(2) by blast
  then show ?thesis
    unfolding fixed_string_max_body by (intro balanced_quoted balanced_plain)
qed

lemma balanced_literal:
  "balanced (quoted alphabet)" "balanced (quoted [])"
  by (rule balanced_quoted, rule balanced_plain, rule alphabet_facts(2)) (rule balanced_quoted, simp)

lemma balanced_attrs:
  "balanced (type_name (attrs d)) \<and> balanced (show_pyval (type_max (attrs d))) \<and>
   balanced (show_pyval (type_min (attrs d)))"
proof (induction d)
  case (Tuple ds)
  then have "balanced (paren_name ''Tuple'' (py_join '','' (map (\<lambda>d. type_name (attrs d)) ds)))"
    by (intro balanced_paren_name balanced_join) (auto simp: balanced_def)
  then show ?case by (simp add: class_inits balanced_def)
next
  case (Map k v)
  then have "balanced (paren_name ''Map'' (type_name (attrs k) @ '','' @ type_name (attrs v)))"
    by (intro balanced_paren_name balanced_comma) (auto simp: balanced_def)
  then show ?case by (simp add: class_inits balanced_def)
next
  case (FixedString n)
  have "balanced (paren_name ''FixedString'' (str_int n))" by (auto simp: balanced_Cons_plain)
  then show ?case by (simp add: class_inits balanced_fixed_string_max balanced_literal)
next
  case String
  show ?case using balanced_literal by (simp add: class_inits balanced_Cons_plain)
qed (auto simp: class_inits balanced_decimal_limit balanced_Cons_plain quoted_def)

lemmas balanced_parts = balanced_attrs [THEN conjunct1] balanced_attrs [THEN conjunct2, THEN conjunct1]
  balanced_attrs [THEN conjunct2, THEN conjunct2]

lemma balanced_decimal_value:
  "balanced (show_pyval (field (attrs d))) \<Longrightarrow> balanced (decimal_value d scale field)"
  unfolding decimal_value_def
  by (intro balanced_to_call balanced_append) (auto simp: balanced_parts balanced_Cons_plain)

lemma balanced_limit_value:
  assumes "\<And>d. balanced (show_pyval (field (attrs d)))"
  shows "balanced (limit_value field d)"
proof (induction d)
  case (Tuple ds)
  then have "balanced (''tuple'' @ ''('' @ py_join '','' (map (limit_value field) ds) @ '')'')"
    by (intro balanced_call balanced_join) (auto simp: balanced_def)
  then show ?case by simp
next
  case (Map k v)
  then have "balanced (''map'' @ ''('' @ (limit_value field k @ '','' @ limit_value field v) @ '')'')"
    by (intro balanced_call balanced_comma) (auto simp: balanced_def)
  then show ?case by simp
next
  case (Array d)
  then show ?case using balanced_square by simp
next
  case (DateTime64 precision older)
  have "balanced ''DateTime64''" by (simp add: balanced_def)
  then show ?case
    by (simp only: limit_value.simps) (intro balanced_to_call balanced_comma assms balanced_str_int)
qed (simp_all only: limit_value.simps balanced_decimal_value balanced_to_call balanced_comma assms
      balanced_parts balanced_str_int)

lemma balanced_decimal_zero: "balanced (decimal_zero d scale)"
  unfolding decimal_zero_def
  by (intro balanced_to_call balanced_append) (auto simp: balanced_parts balanced_Cons_plain)

lemma balanced_zero_or_null_value: "balanced (zero_or_null_value d)"
proof (induction d)
  case (Tuple ds)
  then have "balanced (''tuple'' @ ''('' @ py_join '','' (map zero_or_null_value ds) @ '')'')"
    by (intro balanced_call balanced_join) (auto simp: balanced_def)
  then show ?case by simp
next
  case (Map k v)
  then have "balanced (''map'' @ ''('' @ (zero_or_null_value k @ '','' @ zero_or_null_value v) @ '')'')"
    by (intro balanced_call balanced_comma) (auto simp: balanced_def)
  then show ?case by simp
next
  case (Array d)
  then show ?case using balanced_square by simp
next
  case String
  then show ?case using balanced_parts(3) [of String] by (simp only: zero_or_null_value.simps is_String.simps simp_thms if_True)
next
  case (FixedString n)
  then show ?case using balanced_parts(3) [of "FixedString n"] by (simp only: zero_or_null_value.simps is_String.simps simp_thms if_True)
next
  case (DateTime64 precision older)
  then show ?case using balanced_parts(3) [of "DateTime64 precision older"]
    by (simp only: zero_or_null_value.simps is_Date_def is_DateTime_def is_DateTime64.simps simp_thms if_True)
qed (simp_all add: balanced_decimal_zero, (simp_all add: is_Date_def is_DateTime_def class_inits to_call_def
      quoted_def balanced_def)?)

section \<open>Random values\<close>

text \<open>Fixed strings must not be empty: \<open>randint(1, 0)\<close> is outside the generator's contract.\<close>

fun strings_ok :: "dtype \<Rightarrow> bool" where
  "strings_ok (FixedString n) = (1 \<le> n)"
| "strings_ok (Nullable d) = strings_ok d"
| "strings_ok (LowCardinality d) = strings_ok d"
| "strings_ok (Tuple ds) = (\<forall>d \<in> set ds. strings_ok d)"
| "strings_ok (Map k v) = (strings_ok k \<and> strings_ok v)"
| "strings_ok (Array d) = strings_ok d"
| "strings_ok d = True"

text \<open>A random string is some letter of the literal's body, repeated at most \<open>k\<close> times.\<close>

lemma nth_quoted:
  assumes "1 \<le> i" and "i \<le> int (length (quoted s)) - 2"
  shows "\<exists>c \<in> set s. py_nth (quoted s) i = Some c"
proof -
  define j where "j = nat i - 1"
  have j: "j < length s" "nat i = Suc j" using assms by (auto simp: quoted_def j_def)
  then have "quoted s ! nat i = s ! j" by (simp add: quoted_def nth_append)
  then show ?thesis using j assms by (auto simp: py_nth_def Let_def quoted_def)
qed

lemma yields_rand_string:
  assumes "rng_ok g" and "s \<noteq> []" and "0 \<le> k"
  shows "yields (rand_string g (quoted s) k)
    (\<lambda>v. \<exists>c n. c \<in> set s \<and> n \<le> nat k \<and> v = quoted (replicate n c))"
  unfolding rand_string_def
proof (rule yields_bind)
  have "1 \<le> int (length (quoted s)) - 2"
    using assms(2) by (cases s) (auto simp: quoted_def)
  then show "yields (randint g 1 (int (length (quoted s)) - 2))
      (\<lambda>i. 1 \<le> i \<and> i \<le> int (length (quoted s)) - 2)"
    by (rule yields_randint [OF assms(1)])
next
  fix i assume "1 \<le> i \<and> i \<le> int (length (quoted s)) - 2"
  then obtain c where "c \<in> set s" "py_nth (quoted s) i = Some c" using nth_quoted by blast
  moreover have "yields (bindE (randint g 0 k) (\<lambda>n. ret (quoted (replicate (nat n) c))))
      (\<lambda>v. \<exists>c n. c \<in> set s \<and> n \<le> nat k \<and> v = quoted (replicate n c))"
    by (rule yields_bind [OF yields_randint [OF assms(1,3)]])
       (use \<open>c \<in> set s\<close> in \<open>auto intro!: yields_ret exI [of _ c] nat_mono\<close>)
  ultimately show "yields (case py_nth (quoted s) i of None \<Rightarrow> raise IndexError
      | Some c \<Rightarrow> bindE (randint g 0 k) (\<lambda>n. ret (quoted (replicate (nat n) c))))
      (\<lambda>v. \<exists>c n. c \<in> set s \<and> n \<le> nat k \<and> v = quoted (replicate n c))" by simp
qed

lemma yields_hex_field:
  assumes "rng_ok g" and "0 \<le> bound" and "nat bound < 16 ^ width" and "0 < width"
  shows "yields (hex_field g bound width) (\<lambda>v. length v = width)"
  unfolding hex_field_def
proof (rule yields_bind [OF yields_randint [OF assms(1,2)]])
  fix i assume i: "0 \<le> i \<and> i \<le> bound"
  obtain k where k: "width = Suc k" using assms(4) by (cases width) auto
  have "nat i \<le> nat bound" using i by (simp add: nat_mono)
  also have "\<dots> < 16 ^ Suc k" using assms(3) k by simp
  finally have "nat i < 16 ^ Suc k" .
  then have "length (hex_nat (nat i)) \<le> width" unfolding k by (rule hex_nat_length)
  then show "yields (ret (zero_pad width (hex_nat (nat i)))) (\<lambda>v. length v = width)"
    by (auto intro: yields_ret zero_pad_length)
qed

lemma yields_rand_uuid:
  assumes "rng_ok g"
  shows "yields (rand_uuid g) (\<lambda>v. \<exists>u. v = quoted u \<and> length u = 36)"
proof -
  have fields: "yields (hex_field g 4294967295 8) (\<lambda>v. length v = 8)"
    "yields (hex_field g 65535 4) (\<lambda>v. length v = 4)"
    "yields (hex_field g 281474976710655 12) (\<lambda>v. length v = 12)"
    by (rule yields_hex_field [OF assms]; simp)+
  have "yields (ret (quoted (a @ ''-'' @ b @ ''-'' @ c @ ''-'' @ d @ ''-'' @ e)))
      (\<lambda>v. \<exists>u. v = quoted u \<and> length u = 36)"
    if "length a = 8" "length b = 4" "length c = 4" "length d = 4" "length e = 12" for a b c d e
    using that
    by (intro yields_ret exI [of _ "a @ ''-'' @ b @ ''-'' @ c @ ''-'' @ d @ ''-'' @ e"]) simp
  then show ?thesis
    unfolding rand_uuid_def
    by (intro yields_bind [OF fields(1)] yields_bind [OF fields(2)] yields_bind [OF fields(3)])
qed

lemma is_digit_hex: "n < 16 \<Longrightarrow> digit_char n \<notin> set ''()[]''"
proof -
  assume "n < 16"
  then have "(of_char (digit_char n) :: nat) \<in> {48..57} \<union> {97..102}"
    by (auto simp: digit_char_def)
  then show ?thesis by auto
qed

lemma hex_nat_plain: "set (hex_nat n) \<inter> set ''()[]'' = {}"
proof (induction n rule: less_induct)
  case (less n)
  show ?case
  proof (cases "n < 16")
    case True
    then show ?thesis
      unfolding hex_nat_def using is_digit_hex [of n] by (subst nat_in_base.simps) auto
  next
    case False
    then have "set (hex_nat (n div 16)) \<inter> set ''()[]'' = {}" by (intro less.IH) simp
    then show ?thesis
      unfolding hex_nat_def using False is_digit_hex [of "n mod 16"]
      by (subst nat_in_base.simps) auto
  qed
qed

lemma balanced_hex_field:
  assumes "rng_ok g" and "0 \<le> bound"
  shows "yields (hex_field g bound width) balanced"
  unfolding hex_field_def
proof (rule yields_bind [OF yields_randint [OF assms]])
  fix i
  have "balanced (zero_pad width (hex_nat (nat i)))"
    unfolding zero_pad_def using hex_nat_plain
    by (intro balanced_append balanced_replicate balanced_plain) auto
  then show "yields (ret (zero_pad width (hex_nat (nat i)))) balanced" by (rule yields_ret)
qed

lemma balanced_rand_uuid: "rng_ok g \<Longrightarrow> yields (rand_uuid g) balanced"
  unfolding rand_uuid_def
  by (intro yields_bind [OF balanced_hex_field] yields_ret balanced_quoted balanced_append)
     (simp_all add: balanced_def)

lemma balanced_rand_string:
  assumes "rng_ok g" and "s \<noteq> []" and "0 \<le> k" and "set s \<inter> set ''()[]'' = {}"
  shows "yields (rand_string g (quoted s) k) balanced"
proof (rule yields_weaken [OF yields_rand_string [OF assms(1-3)]])
  fix v assume "\<exists>c n. c \<in> set s \<and> n \<le> nat k \<and> v = quoted (replicate n c)"
  then show "balanced v" using assms(4) by (auto intro!: balanced_quoted balanced_replicate)
qed

lemma balanced_rand_decimal: "rng_ok g \<Longrightarrow> yields (rand_decimal g d scale) balanced"
  unfolding rand_decimal_def
  by (intro yields_bind [OF yields_uniform] yields_ret balanced_to_call balanced_comma balanced_parts
      balanced_str_int balanced_plain)

lemma balanced_rand_range:
  assumes "rng_ok g" and "lo \<le> hi" and "balanced n"
  shows "yields (bindE (randint g lo hi) (\<lambda>i. ret (to_call n (str_int i)))) balanced"
  by (intro yields_bind [OF yields_randint [OF assms(1,2)]] yields_ret balanced_to_call assms(3)
      balanced_str_int)

lemma balanced_rand_value:
  assumes "rng_ok g"
  shows "strings_ok d \<Longrightarrow> yields (rand_value g d) balanced"
proof (induction d)
  case (Tuple ds)
  then have vs: "yields (mapE (rand_value g) ds) (\<lambda>vs. length vs = length ds \<and> (\<forall>v \<in> set vs. balanced v))"
    by (intro yields_map) auto
  have "balanced (''tuple('' @ py_join '','' vs @ '')'')" if "\<forall>v \<in> set vs. balanced v" for vs
    using balanced_call [OF _ balanced_join, of "''tuple''" vs] that by (simp add: balanced_Cons_plain)
  then show ?case unfolding rand_value.simps by (intro yields_bind [OF vs] yields_ret) blast
next
  case (Map k v)
  have "balanced (''map('' @ a @ '','' @ b @ '')'')" if "balanced a" "balanced b" for a b
    using that balanced_call [of "''map''" "a @ '','' @ b"] balanced_comma [of a b] by (auto simp: balanced_def)
  then show ?case
    unfolding rand_value.simps using Map
    by (intro yields_bind [OF Map.IH(1)] yields_bind [OF Map.IH(2)] yields_ret) auto
next
  case (Array d)
  then show ?case
    unfolding rand_value.simps
    by (intro yields_bind [OF Array.IH] yields_ret balanced_square) auto
next
  case String
  have "yields (rand_string g (quoted alphabet) 100) balanced"
    by (rule balanced_rand_string [OF assms]) (simp_all add: alphabet_def)
  then show ?case by (simp add: class_inits)
next
  case (FixedString n)
  have "set (fixed_body n) \<inter> set ''()[]'' = {}"
    using set_fixed_body [of n] alphabet_facts(2) by blast
  moreover have "fixed_body n \<noteq> []"
    using FixedString length_fixed_body [of n] by auto
  ultimately have "yields (rand_string g (quoted (fixed_body n)) n) balanced"
    using FixedString by (intro balanced_rand_string [OF assms]) auto
  then show ?case by (simp add: class_inits fixed_string_max_body)
next
  case Float32
  show ?case
    unfolding rand_value.simps
    by (intro yields_bind [OF yields_uniform [OF assms]] yields_ret balanced_to_call balanced_plain) auto
next
  case Float64
  have "balanced (to_call ''Float64'' (x @ ''e'' @ str_int e))" if "set x \<inter> set ''()[]'' = {}" for x e
    using that by (intro balanced_to_call balanced_append balanced_plain [of x])
      (auto simp: balanced_Cons_plain)
  then show ?case
    unfolding rand_value.simps
    by (intro yields_bind [OF yields_uniform [OF assms]] yields_bind [OF yields_randint [OF assms]]
        yields_ret) auto
next
  case (DateTime64 precision older)
  show ?case
    unfolding rand_value.simps
    by (intro yields_bind [OF yields_randint [OF assms]] yields_ret balanced_to_call balanced_comma
        balanced_str_int) (simp_all add: balanced_def)
next
  case Boolean
  show ?case
    unfolding rand_value.simps
    by (intro yields_bind [OF yields_randint [OF assms]] yields_ret) (simp_all add: balanced_def)
qed (use balanced_rand_decimal [OF assms] balanced_rand_uuid [OF assms]
      balanced_rand_range [OF assms] in \<open>simp_all add: is_Date_def is_DateTime_def class_inits balanced_Cons_plain\<close>)

section \<open>Unwrapping and decimals\<close>

lemma unwrap_plain: "\<not> is_Nullable (unwrap d) \<and> \<not> is_LowCardinality (unwrap d)"
  by (induction d rule: unwrap.induct) auto

lemma unwrap_id: "\<not> is_Nullable d \<Longrightarrow> \<not> is_LowCardinality d \<Longrightarrow> unwrap d = d"
  by (cases d) auto

lemma unwrap_numeric: "numeric (attrs (unwrap d)) = numeric (attrs d) \<and> unsigned (attrs (unwrap d)) = unsigned (attrs d)"
  by (induction d rule: unwrap.induct) (auto simp: class_inits)

lemma unwrap_values: "max_value (unwrap d) = max_value d \<and> min_value (unwrap d) = min_value d \<and> rand_value g (unwrap d) = rand_value g d"
  by (induction d rule: unwrap.induct) (auto simp: max_value_def min_value_def)

lemma int_digits_nines: "int_digits d acc (replicate (Suc k) CHR ''9'') = Some (acc * 10 ^ Suc k + (10 ^ Suc k - 1))"
proof (induction k arbitrary: d acc)
  case 0
  then show ?case by (simp add: is_digit_def digit_val_def)
next
  case (Suc k)
  have "int_digits d acc (replicate (Suc (Suc k)) CHR ''9'') =
      int_digits True (10 * acc + 9) (replicate (Suc k) CHR ''9'')"
    by (simp add: is_digit_def digit_val_def)
  also have "\<dots> = Some ((10 * acc + 9) * 10 ^ Suc k + (10 ^ Suc k - 1))" by (rule Suc)
  also have "(10 * acc + 9) * 10 ^ Suc k + (10 ^ Suc k - 1) = acc * 10 ^ Suc (Suc k) + (10 ^ Suc (Suc k) - (1::nat))"
    using one_le_power [of "10::nat" "Suc k"] by (simp add: algebra_simps)
  finally show ?case .
qed

lemma py_int_nines: "0 < k \<Longrightarrow> py_int (replicate k CHR ''9'') = Some (10 ^ k - 1)"
proof -
  assume "0 < k"
  then obtain m where m: "k = Suc m" by (cases k) auto
  have "list_all is_digit (replicate k CHR ''9'')" by (simp add: list_all_iff is_digit_def)
  then show ?thesis
    using int_digits_nines [of False 0 m] unfolding m by (simp only: py_int_digits) (simp add: of_nat_diff)
qed

section \<open>Properties\<close>

text \<open>
  C25. The bounds of the integer classes are those of two's complement and unsigned
  integers of their width, the flags \<open>is_unsigned\<close> and \<open>is_extended_precision\<close> agree with
  the width, and a random value is always the conversion of a number within the bounds.
\<close>

theorem int_types_in_range:
  assumes "rng_ok g" and "int_format d = Some (sg, w)"
  shows "type_min (attrs d) = PyInt (int_low sg w) \<and> type_max (attrs d) = PyInt (int_high sg w) \<and>
    unsigned (attrs d) = (\<not> sg) \<and> extended_precision (attrs d) = (64 < w) \<and>
    (\<exists>i s'. rand_value g d s = (Return (to_call (type_name (attrs d)) (str_int i)), s') \<and>
       int_low sg w \<le> i \<and> i \<le> int_high sg w)"
proof -
  have "0 < w" using assms(2) by (cases d) auto
  then have "yields (randint g (int_low sg w) (int_high sg w)) (\<lambda>i. int_low sg w \<le> i \<and> i \<le> int_high sg w)"
    by (intro yields_randint [OF assms(1)] int_low_high)
  then obtain i s' where "randint g (int_low sg w) (int_high sg w) s = (Return i, s')"
    "int_low sg w \<le> i \<and> i \<le> int_high sg w"
    by (rule yieldsE)
  then show ?thesis
    using attrs_int [OF assms(2)] by (auto simp: rand_value_int [OF assms(2)] bindE_Return_iff)
qed

theorem int_types_in_range_witness:
  "\<exists>i s'. rand_value zero_rng Int8 () = (Return (to_call (type_name (attrs Int8)) (str_int i)), s') \<and>
     int_low True 8 \<le> i \<and> i \<le> int_high True 8"
  using int_types_in_range [OF zero_rng_ok, of Int8 True 8 "()"] by simp



text \<open>
  Strings: the largest \<open>FixedString(n)\<close> is a quoted text of exactly \<open>n\<close> letters, and a
  random \<open>FixedString(n)\<close> is one of those letters repeated at most \<open>n\<close> times, so it always
  fits and never contains a quote.
\<close>

theorem fixed_string_fits:
  assumes "rng_ok g" and "1 \<le> n"
  shows "\<exists>body. type_max (attrs (FixedString n)) = PyStr (quoted body) \<and> length body = nat n \<and>
    CHR 0x27 \<notin> set body \<and>
    (\<exists>c k s'. rand_value g (FixedString n) s = (Return (quoted (replicate k c)), s') \<and>
       k \<le> nat n \<and> c \<in> set body)"
proof -
  have "fixed_body n \<noteq> []" using assms(2) length_fixed_body [of n] by auto
  then have y: "yields (rand_string g (quoted (fixed_body n)) n)
      (\<lambda>v. \<exists>c k. c \<in> set (fixed_body n) \<and> k \<le> nat n \<and> v = quoted (replicate k c))"
    using assms by (intro yields_rand_string) auto
  obtain v s' where "rand_string g (quoted (fixed_body n)) n s = (Return v, s')"
    "\<exists>c k. c \<in> set (fixed_body n) \<and> k \<le> nat n \<and> v = quoted (replicate k c)"
    using y by (rule yieldsE)
  then have "\<exists>c k s'. rand_value g (FixedString n) s = (Return (quoted (replicate k c)), s') \<and>
      k \<le> nat n \<and> c \<in> set (fixed_body n)"
    by (auto simp: class_inits fixed_string_max_body)
  moreover have "CHR 0x27 \<notin> set (fixed_body n)" using set_fixed_body alphabet_facts(3) by blast
  ultimately show ?thesis
    using assms(2) length_fixed_body [of n]
    by (intro exI [of _ "fixed_body n"]) (simp add: class_inits fixed_string_max_body)
qed

theorem fixed_string_fits_witness:
  "\<exists>c k s'. rand_value zero_rng (FixedString 60) () = (Return (quoted (replicate k c)), s') \<and> k \<le> 60"
  using fixed_string_fits [OF zero_rng_ok, of 60 "()"] by auto

text \<open>
  C23. Every name and every value that the classes generate, at any nesting of \<open>Nullable\<close>,
  \<open>LowCardinality\<close>, \<open>Array\<close>, \<open>Map\<close> and \<open>Tuple\<close>, is a text whose brackets are balanced and
  nested properly, and generating a random value never fails.
\<close>

theorem generated_sql_balanced:
  assumes "rng_ok g" and "strings_ok d"
  shows "balanced (type_name (attrs d)) \<and> balanced (max_value d) \<and> balanced (min_value d) \<and>
    balanced (zero_or_null_value d) \<and> (\<exists>v s'. rand_value g d s = (Return v, s') \<and> balanced v)"
proof -
  obtain v s' where "rand_value g d s = (Return v, s')" "balanced v"
    using balanced_rand_value [OF assms] by (rule yieldsE)
  then show ?thesis
    using balanced_parts balanced_zero_or_null_value
    by (auto simp: max_value_def min_value_def intro: balanced_limit_value)
qed

theorem generated_sql_balanced_witness:
  "balanced (max_value (Map String (Array (Nullable (Decimal32 3)))))"
  using generated_sql_balanced [OF zero_rng_ok, of "Map String (Array (Nullable (Decimal32 3)))" "()"]
  by simp

text \<open>
  A random UUID literal always has the canonical length of 36 characters inside its
  quotes: every hexadecimal field is padded to its full width.
\<close>

lemma rand_uuid_width:
  assumes "rng_ok g"
  shows "\<exists>u s'. rand_value g UUID s = (Return (quoted u), s') \<and> length u = 36"
proof -
  obtain v s' where "rand_uuid g s = (Return v, s')" "\<exists>u. v = quoted u \<and> length u = 36"
    using yields_rand_uuid [OF assms] by (rule yieldsE)
  then show ?thesis by auto
qed

lemma rand_uuid_width_witness:
  "\<exists>u s'. rand_value zero_rng UUID () = (Return (quoted u), s') \<and> length u = 36"
  using rand_uuid_width [OF zero_rng_ok, of "()"] .

end
