(* ===== verification/Tables.thy ===== *)
theory Tables
  imports Datatypes_Facts
begin

text \<open>
  \<open>helpers/tables.py\<close>: columns, the generators of column types, and the steps that create,
  attach and fill tables. A node is represented by its \<open>query\<close> method, an argument; a
  column's generator of pseudo-random numbers is an argument as well.
\<close>

section \<open>Columns\<close>

record 's column =
  column_type :: dtype
  column_name :: string
  column_random :: "'s rng"

definition default_column_name :: "dtype \<Rightarrow> string" where
  "default_column_name d =
     py_lower (py_replace CHR '','' ''_'' (py_replace CHR '')'' ''_''
       (py_replace CHR ''('' ''_'' (type_name (attrs d)))))"

text \<open>\<open>seeded\<close> is \<open>random.Random\<close> seeded from the SHA-1 digest of the column's name.\<close>

definition Column :: "(string \<Rightarrow> 's rng) \<Rightarrow> dtype \<Rightarrow> string option \<Rightarrow> 's column" where
  "Column seeded d n =
     (let nm = (case n of Some x \<Rightarrow> x | None \<Rightarrow> default_column_name d)
      in \<lparr>column_type = d, column_name = nm, column_random = seeded nm\<rparr>)"

definition column_eq :: "'s column \<Rightarrow> 's column \<Rightarrow> bool" where
  "column_eq a b \<longleftrightarrow> column_name b = column_name a"

definition column_lt :: "'s column \<Rightarrow> 's column \<Rightarrow> bool" where
  "column_lt a b \<longleftrightarrow> column_name b < column_name a"

definition full_definition :: "'s column \<Rightarrow> string" where
  "full_definition c = column_name c @ '' '' @ type_name (attrs (column_type c))"

text \<open>
  The generator \<open>Column.values\<close>: before the first \<open>next\<close> it has computed nothing; then it
  holds the list of values and the position of the loop over \<open>range(row_count)\<close>.
\<close>

datatype generator = Fresh | Running "string list" nat

definition column_list :: "'s rng \<Rightarrow> dtype \<Rightarrow> int \<Rightarrow> ('s, string list) eff" where
  "column_list g d row_count =
     (let vs = [max_value d, min_value d, zero_or_null_value d] in
      if row_count > 3
      then bindE (mapE (\<lambda>i. rand_value g d) [0..<nat (row_count - 3)]) (\<lambda>rs. ret (vs @ rs))
      else ret vs)"

definition yield_value :: "int \<Rightarrow> string list \<Rightarrow> nat \<Rightarrow> ('s, string \<times> generator) eff" where
  "yield_value row_count vs i =
     (if int i < row_count then
        (case py_nth vs (int i) of
           None \<Rightarrow> raise IndexError
         | Some v \<Rightarrow> ret (v, Running vs (i + 1)))
      else raise StopIteration)"

fun next_value :: "'s rng \<Rightarrow> dtype \<Rightarrow> int \<Rightarrow> int \<Rightarrow> generator \<Rightarrow> ('s, string \<times> generator) eff" where
  "next_value g d row_count cardinality Fresh =
     bindE (column_list g d row_count) (\<lambda>vs.
       yield_value row_count (concat (replicate (nat cardinality) vs)) 0)"
| "next_value g d row_count cardinality (Running vs i) = yield_value row_count vs i"

section \<open>Kinds of types\<close>

record kinds =
  k_decimal :: bool
  k_date :: bool
  k_date32 :: bool
  k_datetime :: bool
  k_datetime64 :: bool
  k_extended_precision :: bool

text \<open>The chain of tests that \<open>is_numeric\<close>, \<open>is_unsigned_integer\<close> and \<open>is_integer\<close> share.\<close>

definition kind_test :: "kinds \<Rightarrow> (dtype \<Rightarrow> bool) \<Rightarrow> dtype \<Rightarrow> bool" where
  "kind_test k final dt =
     (let d = unwrap dt in
      if is_Decimal d then k_decimal k
      else if d = Date32 then k_date32 k
      else if is_DateTime64 d then k_datetime64 k
      else if is_DateTime d then k_datetime k
      else if is_Date d then k_date k
      else if \<not> k_extended_precision k \<and> extended_precision (attrs d) then False
      else final d)"

definition is_numeric :: "kinds \<Rightarrow> dtype \<Rightarrow> bool" where
  "is_numeric k dt = kind_test k (\<lambda>d. numeric (attrs d)) dt"

definition is_unsigned_integer :: "kinds \<Rightarrow> dtype \<Rightarrow> bool" where
  "is_unsigned_integer k dt = kind_test k is_UInt dt"

definition is_integer :: "kinds \<Rightarrow> dtype \<Rightarrow> bool" where
  "is_integer k dt = kind_test k is_Int dt"

definition is_string :: "dtype \<Rightarrow> bool" where
  "is_string dt = is_String (unwrap dt)"

definition is_map :: "dtype \<Rightarrow> bool" where
  "is_map dt = is_Map (unwrap dt)"

definition is_nullable :: "dtype \<Rightarrow> bool" where
  "is_nullable dt = is_Nullable dt"

definition is_low_cardinality :: "dtype \<Rightarrow> bool" where
  "is_low_cardinality dt = is_LowCardinality dt"

section \<open>Generated types\<close>

fun generate_low_card_datatypes :: "string option \<Rightarrow> dtype list \<Rightarrow> exn + dtype list" where
  "generate_low_card_datatypes version [] = Inr []"
| "generate_low_card_datatypes version (d # ds) =
     (let keep = (if supports_low_cardinality (attrs (unwrap d))
                  then map_sum id (\<lambda>old. if old then \<not> is_Nullable d else True)
                    (check_clickhouse_version ''<22.4'' version)
                  else Inr False)
      in case keep of
           Inl e \<Rightarrow> Inl e
         | Inr b \<Rightarrow> map_sum id (\<lambda>r. if b then LowCardinality d # r else r)
             (generate_low_card_datatypes version ds))"

definition generate_nullable_datatypes :: "dtype list \<Rightarrow> dtype list" where
  "generate_nullable_datatypes ds = map Nullable ds"

definition generate_array_datatypes :: "dtype list \<Rightarrow> dtype list" where
  "generate_array_datatypes ds = map Array ds"

definition generate_tuple_datatype :: "dtype list \<Rightarrow> dtype" where
  "generate_tuple_datatype ds = Tuple ds"

definition generate_map_datatypes :: "dtype list \<Rightarrow> dtype list" where
  "generate_map_datatypes ds =
     concat (map (\<lambda>key. if valid_map_key (attrs key) then map (Map key) ds else []) ds)"

definition low_cardinality_common_basic_datatypes :: "string option \<Rightarrow> exn + dtype list" where
  "low_cardinality_common_basic_datatypes version =
     generate_low_card_datatypes version common_basic_datatypes"

definition null_common_basic_datatypes :: "dtype list" where
  "null_common_basic_datatypes = generate_nullable_datatypes common_basic_datatypes"

definition common_complex_datatypes :: "dtype list" where
  "common_complex_datatypes = [Array String, Map String (LowCardinality Float64), Tuple [String]]"

definition common_datatypes :: "string option \<Rightarrow> exn + dtype list" where
  "common_datatypes version =
     map_sum id (\<lambda>low. common_basic_datatypes @ low @ null_common_basic_datatypes @ common_complex_datatypes)
       (low_cardinality_common_basic_datatypes version)"

definition common_columns :: "(string \<Rightarrow> 's rng) \<Rightarrow> string option \<Rightarrow> exn + 's column list" where
  "common_columns seeded version =
     map_sum id (map (\<lambda>d. Column seeded d None)) (common_datatypes version)"

definition all_test_datatypes :: "dtype list \<Rightarrow> dtype list \<Rightarrow> dtype list" where
  "all_test_datatypes basic low =
     (let null = generate_nullable_datatypes basic;
          parts = basic @ null @ low @ common_complex_datatypes
      in basic @ generate_map_datatypes parts @ null @ generate_array_datatypes parts @ low @
         [generate_tuple_datatype parts])"

text \<open>The \<open>exclude\<close> argument is never read. An empty \<open>include\<close> counts as absent.\<close>

definition generate_all_column_types ::
  "(string \<Rightarrow> 's rng) \<Rightarrow> string option \<Rightarrow> dtype list option \<Rightarrow> exn + 's column list" where
  "generate_all_column_types seeded version include =
     (let basics = (case include of
          Some (d # ds) \<Rightarrow> Inr (d # ds) | _ \<Rightarrow> basic_datatypes version)
      in case basics of
           Inl e \<Rightarrow> Inl e
         | Inr basic \<Rightarrow>
             (case generate_low_card_datatypes version (basic @ generate_nullable_datatypes basic) of
                Inl e \<Rightarrow> Inl e
              | Inr low \<Rightarrow> Inr (map (\<lambda>d. Column seeded d None) (all_test_datatypes basic low))))"

definition generate_all_map_column_types ::
  "(string \<Rightarrow> 's rng) \<Rightarrow> string option \<Rightarrow> exn + 's column list" where
  "generate_all_map_column_types seeded version =
     (case basic_datatypes version of
        Inl e \<Rightarrow> Inl e
      | Inr basic \<Rightarrow>
          (let null = generate_nullable_datatypes basic in
           case generate_low_card_datatypes version (basic @ null) of
             Inl e \<Rightarrow> Inl e
           | Inr low \<Rightarrow> Inr (map (\<lambda>d. Column seeded d None)
               (generate_map_datatypes (basic @ null @ low @ common_complex_datatypes)))))"

section \<open>Tables\<close>

record 's Table =
  table_name :: string
  table_columns :: "'s column list"
  table_engine :: string

text \<open>One pass of \<open>[next(column_values) for column_values in columns_values]\<close>.\<close>

fun next_row :: "'s rng option \<Rightarrow> int \<Rightarrow> int \<Rightarrow> 's column list \<Rightarrow> generator list \<Rightarrow>
  ('s, string list \<times> generator list) eff" where
  "next_row random row_count cardinality (c # cs) (gen # gens) =
     bindE (next_value (case random of Some g \<Rightarrow> g | None \<Rightarrow> column_random c) (column_type c)
       row_count cardinality gen) (\<lambda>(v, gen').
     bindE (next_row random row_count cardinality cs gens) (\<lambda>(vs, gens').
       ret (v # vs, gen' # gens')))"
| "next_row random row_count cardinality _ _ = ret ([], [])"

fun row_texts :: "'s rng option \<Rightarrow> int \<Rightarrow> int \<Rightarrow> 's column list \<Rightarrow> nat \<Rightarrow> generator list \<Rightarrow>
  ('s, string list) eff" where
  "row_texts random row_count cardinality cs 0 gens = ret []"
| "row_texts random row_count cardinality cs (Suc k) gens =
     bindE (next_row random row_count cardinality cs gens) (\<lambda>(vs, gens').
     bindE (row_texts random row_count cardinality cs k gens') (\<lambda>rows.
       ret ((''('' @ py_join '','' vs @ '')'') # rows)))"

text \<open>Returns the result of the query and the rows; the caller asks for both or for the first.\<close>

definition insert_test_data ::
  "(string \<Rightarrow> settings option \<Rightarrow> ('s, 'q) eff) \<Rightarrow> 's Table \<Rightarrow> int \<Rightarrow> int \<Rightarrow> settings option \<Rightarrow>
   's rng option \<Rightarrow> ('s, 'q \<times> string list) eff" where
  "insert_test_data query t row_count cardinality query_settings random =
     bindE (row_texts random row_count cardinality (table_columns t) (nat row_count)
       (map (\<lambda>_. Fresh) (table_columns t))) (\<lambda>values.
     bindE (query (''INSERT INTO '' @ table_name t @ '' VALUES '' @ py_join '','' values) query_settings) (\<lambda>r.
       ret (r, values)))"

definition columns_def :: "'s column list \<Rightarrow> string" where
  "columns_def cs = ''('' @ py_join '','' (map full_definition cs) @ '')''"

definition optional_clause :: "string \<Rightarrow> string option \<Rightarrow> string \<Rightarrow> string" where
  "optional_clause before x after =
     (case x of None \<Rightarrow> [] | Some v \<Rightarrow> newline @ before @ v @ after)"

definition create_table_query ::
  "string \<Rightarrow> 's column list \<Rightarrow> string \<Rightarrow> string option \<Rightarrow> string option \<Rightarrow> string option \<Rightarrow> string option \<Rightarrow> string" where
  "create_table_query nm cs engine order_by comment empty_as as_select =
     ''CREATE TABLE '' @ nm @ '' '' @ columns_def cs @ newline @ ''ENGINE = '' @ engine @
     optional_clause ''ORDER BY '' order_by [] @
     optional_clause (''COMMENT '' @ [CHR 0x27]) comment [CHR 0x27] @
     optional_clause ''EMPTY AS '' empty_as [] @
     optional_clause ''AS SELECT '' as_select []"

definition drop_table_query :: "string \<Rightarrow> bool \<Rightarrow> string" where
  "drop_table_query nm drop_sync =
     ''DROP TABLE IF EXISTS '' @ nm @ (if drop_sync then '' SYNC'' else [])"

text \<open>
  The step suspends at its \<open>yield\<close> and runs its \<open>finally\<close> block when the test that uses the
  table ends; \<open>body\<close> is what runs in between. \<open>uid\<close> is the result of \<open>getuid()\<close>.
\<close>

definition create_table ::
  "(string \<Rightarrow> settings option \<Rightarrow> ('s, 'q) eff) \<Rightarrow> string \<Rightarrow> string \<Rightarrow> 's column list \<Rightarrow> string option \<Rightarrow> bool \<Rightarrow>
   string option \<Rightarrow> string option \<Rightarrow> string option \<Rightarrow> settings option \<Rightarrow> string option \<Rightarrow>
   ('s Table \<Rightarrow> ('s, 'a) eff) \<Rightarrow> ('s, 'a) eff" where
  "create_table query uid engine cs nm drop_sync order_by comment as_select settings empty_as body =
     (let settings' = (case settings of None \<Rightarrow> [(''allow_suspicious_low_cardinality_types'', ''1'')] | Some s \<Rightarrow> s);
          nm' = (case nm of None \<Rightarrow> ''table_'' @ uid | Some n \<Rightarrow> n)
      in finallyE
           (seqE (query (create_table_query nm' cs engine order_by comment empty_as as_select) (Some settings'))
             (body \<lparr>table_name = nm', table_columns = cs, table_engine = engine\<rparr>))
           (query (drop_table_query nm' drop_sync) None))"

definition attach_table ::
  "(string \<Rightarrow> settings option \<Rightarrow> ('s, 'q) eff) \<Rightarrow> string \<Rightarrow> string \<Rightarrow> 's column list \<Rightarrow> string option \<Rightarrow>
   string option \<Rightarrow> bool \<Rightarrow> ('s Table \<Rightarrow> ('s, 'a) eff) \<Rightarrow> ('s, 'a) eff" where
  "attach_table query uid engine cs nm file_path drop_sync body =
     (let nm' = (case nm of None \<Rightarrow> ''table_'' @ uid | Some n \<Rightarrow> n);
          pad = newline @ replicate 20 CHR '' ''
      in finallyE
           (seqE (query (pad @ ''ATTACH TABLE '' @ nm' @ '' FROM '' @
               quoted (case file_path of None \<Rightarrow> ''None'' | Some p \<Rightarrow> p) @ '' '' @ columns_def cs @
               pad @ ''Engine = '' @ engine @ pad) None)
             (body \<lparr>table_name = nm', table_columns = cs, table_engine = engine\<rparr>))
           (query (drop_table_query nm' drop_sync) None))"

section \<open>Cardinality\<close>

text \<open>
  The generator of a column with cardinality \<open>n\<close> runs in step with the one of cardinality
  1, on the list repeated \<open>n\<close> times, of which only the first \<open>row_count\<close> values are read.
\<close>

fun lift_gen :: "nat \<Rightarrow> generator \<Rightarrow> generator" where
  "lift_gen n Fresh = Fresh"
| "lift_gen n (Running vs i) = Running (concat (replicate n vs)) i"

fun gen_ok :: "int \<Rightarrow> generator \<Rightarrow> bool" where
  "gen_ok row_count Fresh = True"
| "gen_ok row_count (Running vs i) = (nat row_count \<le> length vs)"

lemma nth_repeat: "0 < n \<Longrightarrow> i < length vs \<Longrightarrow> concat (replicate n vs) ! i = vs ! i"
  by (cases n) (auto simp: nth_append)

lemma length_repeat: "0 < n \<Longrightarrow> length vs \<le> length (concat (replicate n vs))"
  by (cases n) auto

lemma py_nth_repeat:
  assumes "0 < n" and "i < length vs"
  shows "py_nth (concat (replicate n vs)) (int i) = py_nth vs (int i)"
  using assms length_repeat [OF assms(1), of vs] by (simp add: py_nth_nat nth_repeat)

lemma mapE_length: "mapE f xs s = (Return ys, s') \<Longrightarrow> length ys = length xs"
proof (induction xs arbitrary: s ys)
  case (Cons x xs)
  then show ?case by (auto simp: bindE_Return_iff)
qed simp

lemma column_list_length:
  "column_list g d row_count s = (Return vs, s') \<Longrightarrow> nat row_count \<le> length vs"
  by (auto simp: column_list_def Let_def bindE_Return_iff split: if_splits dest: mapE_length)

lemma yield_value_lift:
  assumes "0 < n" and "nat row_count \<le> length vs"
  shows "yield_value row_count (concat (replicate n vs)) i =
    bindE (yield_value row_count vs i) (\<lambda>(v, gen). ret (v, lift_gen n gen))"
proof (cases "int i < row_count")
  case True
  then have i: "i < length vs" using assms(2) by linarith
  then have "py_nth vs (int i) = Some (vs ! i)" by (rule py_nth_nat)
  then show ?thesis
    using True py_nth_repeat [OF assms(1) i] by (simp add: yield_value_def)
qed (simp add: yield_value_def)

lemma yield_value_gen_ok:
  "nat row_count \<le> length vs \<Longrightarrow> yield_value row_count vs i s = (Return (v, gen), s') \<Longrightarrow> gen_ok row_count gen"
  by (auto simp: yield_value_def split: if_splits option.splits)

lemma bindE_cong_Return:
  assumes "\<And>s a s'. m s = (Return a, s') \<Longrightarrow> f a s' = h a s'"
  shows "bindE m f = bindE m h"
  by (rule ext) (auto simp: bindE_def assms split: prod.splits outcome.splits)

lemma next_value_lift:
  assumes "1 \<le> cardinality" and "gen_ok row_count gen"
  shows "next_value g d row_count cardinality (lift_gen (nat cardinality) gen) =
    bindE (next_value g d row_count 1 gen) (\<lambda>(v, gen'). ret (v, lift_gen (nat cardinality) gen'))"
proof (cases gen)
  case Fresh
  have "bindE (column_list g d row_count)
      (\<lambda>vs. yield_value row_count (concat (replicate (nat cardinality) vs)) 0) =
    bindE (column_list g d row_count)
      (\<lambda>vs. bindE (yield_value row_count vs 0) (\<lambda>(v, gen). ret (v, lift_gen (nat cardinality) gen)))"
    using assms(1) by (intro bindE_cong_Return) (simp add: yield_value_lift column_list_length)
  then show ?thesis by (simp add: Fresh bindE_assoc)
next
  case (Running vs i)
  then show ?thesis using assms by (simp add: yield_value_lift)
qed

lemma next_value_gen_ok:
  assumes "gen_ok row_count gen" and "next_value g d row_count 1 gen s = (Return (v, gen'), s')"
  shows "gen_ok row_count gen'"
  using assms by (cases gen)
    (auto simp: bindE_Return_iff dest: column_list_length yield_value_gen_ok)

lemma next_row_gen_ok:
  "list_all (gen_ok row_count) gens \<Longrightarrow>
   next_row random row_count 1 cs gens s = (Return (vs, gens'), s') \<Longrightarrow> list_all (gen_ok row_count) gens'"
proof (induction random row_count "1 :: int" cs gens arbitrary: s vs gens' rule: next_row.induct)
  case (1 random row_count c cs gen gens)
  then show ?case
    by (fastforce simp: bindE_Return_iff dest: next_value_gen_ok)
qed (auto)

lemma next_row_lift:
  assumes "1 \<le> cardinality"
  shows "list_all (gen_ok row_count) gens \<Longrightarrow>
    next_row random row_count cardinality cs (map (lift_gen (nat cardinality)) gens) =
    bindE (next_row random row_count 1 cs gens)
      (\<lambda>(vs, gens'). ret (vs, map (lift_gen (nat cardinality)) gens'))"
proof (induction random row_count "1 :: int" cs gens rule: next_row.induct)
  case (1 random row_count c cs gen gens)
  then show ?case
    using assms by (simp add: next_value_lift bindE_assoc case_prod_beta)
qed (auto)

lemma row_texts_lift:
  assumes "1 \<le> cardinality"
  shows "list_all (gen_ok row_count) gens \<Longrightarrow>
    row_texts random row_count cardinality cs k (map (lift_gen (nat cardinality)) gens) =
    row_texts random row_count 1 cs k gens"
proof (induction k arbitrary: gens)
  case (Suc k)
  have "row_texts random row_count cardinality cs (Suc k) (map (lift_gen (nat cardinality)) gens) =
    bindE (next_row random row_count 1 cs gens) (\<lambda>(vs, gens').
      bindE (row_texts random row_count cardinality cs k (map (lift_gen (nat cardinality)) gens'))
        (\<lambda>rows. ret ((''('' @ py_join '','' vs @ '')'') # rows)))"
    using Suc.prems assms by (simp add: next_row_lift bindE_assoc split_def)
  also have "\<dots> = row_texts random row_count 1 cs (Suc k) gens"
    unfolding row_texts.simps
    by (rule bindE_cong_Return) (use Suc in \<open>auto dest: next_row_gen_ok\<close>)
  finally show ?case .
qed simp

section \<open>Rows\<close>

text \<open>The values of one column: the largest, the smallest, the zero, then random ones.\<close>

definition column_ok :: "int \<Rightarrow> dtype \<Rightarrow> string list \<Rightarrow> bool" where
  "column_ok row_count d vs \<longleftrightarrow>
     (\<exists>rs. vs = [max_value d, min_value d, zero_or_null_value d] @ rs) \<and>
     length vs = max 3 (nat row_count)"

definition row_text :: "string list list \<Rightarrow> nat \<Rightarrow> string" where
  "row_text vss i = ''('' @ py_join '','' (map (\<lambda>vs. vs ! i) vss) @ '')''"

definition column_rng :: "'s rng option \<Rightarrow> 's column \<Rightarrow> 's rng" where
  "column_rng random c = (case random of Some g \<Rightarrow> g | None \<Rightarrow> column_random c)"

lemma column_ok_length: "column_ok row_count d vs \<Longrightarrow> nat row_count \<le> length vs \<and> vs \<noteq> []"
  by (auto simp: column_ok_def)

lemma next_row_running:
  assumes "int i < row_count" and "list_all2 (\<lambda>c vs. nat row_count \<le> length vs) cs vss"
  shows "next_row random row_count n cs (map (\<lambda>vs. Running vs i) vss) =
    ret (map (\<lambda>vs. vs ! i) vss, map (\<lambda>vs. Running vs (Suc i)) vss)"
  using assms(2)
proof (induction cs vss rule: list_all2_induct)
  case (Cons c cs vs vss)
  then have "i < length vs" using assms(1) by linarith
  then have "py_nth vs (int i) = Some (vs ! i)" by (rule py_nth_nat)
  with Cons assms(1) show ?case by (simp add: yield_value_def)
qed simp

lemma row_texts_running:
  assumes "list_all2 (\<lambda>c vs. nat row_count \<le> length vs) cs vss"
  shows "i + k = nat row_count \<Longrightarrow>
    row_texts random row_count n cs k (map (\<lambda>vs. Running vs i) vss) = ret (map (row_text vss) [i..<i + k])"
proof (induction k arbitrary: i)
  case (Suc k)
  then have "int i < row_count" by linarith
  then have "next_row random row_count n cs (map (\<lambda>vs. Running vs i) vss) =
      ret (map (\<lambda>vs. vs ! i) vss, map (\<lambda>vs. Running vs (Suc i)) vss)"
    using assms by (rule next_row_running)
  moreover have "row_texts random row_count n cs k (map (\<lambda>vs. Running vs (Suc i)) vss) =
      ret (map (row_text vss) [Suc i..<Suc i + k])"
    using Suc by simp
  moreover have "[i..<i + Suc k] = i # [Suc i..<Suc i + k]" by (simp add: upt_conv_Cons del: upt_Suc)
  ultimately show ?case
    unfolding row_texts.simps by (simp add: row_text_def [of vss i] del: upt_Suc)
qed simp

lemma yields_column_list:
  assumes "rng_ok g" and "strings_ok d"
  shows "yields (column_list g d row_count) (column_ok row_count d)"
proof (cases "row_count > 3")
  case True
  have "yields (mapE (\<lambda>i. rand_value g d) [0..<nat (row_count - 3)])
      (\<lambda>rs. length rs = length [0..<nat (row_count - 3)] \<and> (\<forall>r \<in> set rs. balanced r))"
    using balanced_rand_value [OF assms] by (rule yields_map)
  then show ?thesis
    unfolding column_list_def Let_def using True
    by (auto intro!: yields_bind intro: yields_ret simp: column_ok_def)
qed (auto simp: column_list_def column_ok_def intro: yields_ret)

lemma yields_first_row:
  assumes "1 \<le> row_count"
    and "\<And>c. c \<in> set cs \<Longrightarrow> rng_ok (column_rng random c) \<and> strings_ok (column_type c)"
  shows "yields (next_row random row_count 1 cs (map (\<lambda>_. Fresh) cs))
    (\<lambda>r. \<exists>vss. list_all2 (\<lambda>c vs. column_ok row_count (column_type c) vs) cs vss \<and>
      r = (map (\<lambda>vs. vs ! 0) vss, map (\<lambda>vs. Running vs 1) vss))"
  using assms(2)
proof (induction cs)
  case Nil
  then show ?case by (auto intro: yields_ret)
next
  case (Cons c cs)
  let ?ok = "\<lambda>c vs. column_ok row_count (column_type c) vs"
  have first: "yield_value row_count (concat (replicate (nat 1) vs)) 0 = ret (vs ! 0, Running vs 1)"
    if "?ok c vs" for vs
    using that assms(1) column_ok_length [OF that] py_nth_nat [of 0 vs] by (simp add: yield_value_def)
  have head: "yields (next_value (column_rng random c) (column_type c) row_count 1 Fresh)
      (\<lambda>r. \<exists>vs. ?ok c vs \<and> r = (vs ! 0, Running vs 1))"
    unfolding next_value.simps
  proof (rule yields_bind [OF yields_column_list])
    show "rng_ok (column_rng random c)" "strings_ok (column_type c)" using Cons.prems by auto
  next
    fix vs assume ok: "?ok c vs"
    show "yields (yield_value row_count (concat (replicate (nat 1) vs)) 0)
        (\<lambda>r. \<exists>vs. ?ok c vs \<and> r = (vs ! 0, Running vs 1))"
      unfolding first [OF ok] by (rule yields_ret) (use ok in blast)
  qed
  have rest: "yields (bindE (next_row random row_count 1 cs (map (\<lambda>_. Fresh) cs))
      (\<lambda>(ws, gens). ret (v # ws, gen # gens)))
      (\<lambda>r. \<exists>vss. list_all2 ?ok (c # cs) vss \<and> r = (map (\<lambda>vs. vs ! 0) vss, map (\<lambda>vs. Running vs 1) vss))"
    if "\<exists>vs. ?ok c vs \<and> v = vs ! 0 \<and> gen = Running vs 1" for v gen
  proof (rule yields_bind [OF Cons.IH])
    show "\<And>c'. c' \<in> set cs \<Longrightarrow> rng_ok (column_rng random c') \<and> strings_ok (column_type c')"
      using Cons.prems by simp
  next
    fix r assume "\<exists>vss. list_all2 ?ok cs vss \<and> r = (map (\<lambda>vs. vs ! 0) vss, map (\<lambda>vs. Running vs 1) vss)"
    then obtain vss where "list_all2 ?ok cs vss" "r = (map (\<lambda>vs. vs ! 0) vss, map (\<lambda>vs. Running vs 1) vss)"
      by blast
    moreover from that obtain vs where "?ok c vs" "v = vs ! 0" "gen = Running vs 1" by blast
    ultimately show "yields (case r of (ws, gens) \<Rightarrow> ret (v # ws, gen # gens))
      (\<lambda>r. \<exists>vss. list_all2 ?ok (c # cs) vss \<and> r = (map (\<lambda>vs. vs ! 0) vss, map (\<lambda>vs. Running vs 1) vss))"
      by (auto intro!: yields_ret exI [of _ "vs # vss"])
  qed
  show ?case
    unfolding next_row.simps list.map column_rng_def [symmetric]
  proof (rule yields_bind [OF head], goal_cases)
    case (1 r)
    then obtain vs where "?ok c vs" "r = (vs ! 0, Running vs 1)" by blast
    then show ?case by (simp only: prod.case) (rule rest, blast)
  qed
qed

lemma yields_row_texts:
  assumes "0 \<le> row_count" and "1 \<le> cardinality"
    and "\<And>c. c \<in> set cs \<Longrightarrow> rng_ok (column_rng random c) \<and> strings_ok (column_type c)"
  shows "yields (row_texts random row_count cardinality cs (nat row_count) (map (\<lambda>_. Fresh) cs))
    (\<lambda>rows. row_count = 0 \<and> rows = [] \<or> (\<exists>vss. list_all2 (\<lambda>c vs. column_ok row_count (column_type c) vs) cs vss \<and>
      rows = map (row_text vss) [0..<nat row_count]))"
proof -
  let ?ok = "\<lambda>c vs. column_ok row_count (column_type c) vs"
  have fresh: "map (lift_gen (nat cardinality)) (map (\<lambda>_. Fresh) cs) = map (\<lambda>_. Fresh) cs" by simp
  have one: "row_texts random row_count cardinality cs (nat row_count) (map (\<lambda>_. Fresh) cs) =
      row_texts random row_count 1 cs (nat row_count) (map (\<lambda>_. Fresh) cs)"
    using row_texts_lift [OF assms(2), of row_count "map (\<lambda>_. Fresh) cs"] by (simp add: list_all_iff comp_def)
  show ?thesis
  proof (cases "row_count = 0")
    case True
    then show ?thesis by (auto intro: yields_ret)
  next
    case False
    then obtain k where k: "nat row_count = Suc k" using assms(1) by (cases "nat row_count") auto
    have rest: "row_texts random row_count 1 cs k (map (\<lambda>vs. Running vs 1) vss) =
        ret (map (row_text vss) [1..<Suc k])" if "list_all2 ?ok cs vss" for vss
    proof -
      have "list_all2 (\<lambda>c vs. nat row_count \<le> length vs) cs vss"
        using that by (rule list_all2_mono) (auto dest: column_ok_length)
      then show ?thesis using row_texts_running [of row_count cs vss 1 k] k by simp
    qed
    show ?thesis
      unfolding one
      unfolding k row_texts.simps
    proof (rule yields_bind [OF yields_first_row])
      show "1 \<le> row_count" using k by linarith
    next
      fix r
      assume "\<exists>vss. list_all2 ?ok cs vss \<and> r = (map (\<lambda>vs. vs ! 0) vss, map (\<lambda>vs. Running vs 1) vss)"
      then show "yields (case r of (vs, gens') \<Rightarrow> bindE (row_texts random row_count 1 cs k gens')
          (\<lambda>rows. ret ((''('' @ py_join '','' vs @ '')'') # rows)))
        (\<lambda>rows. row_count = 0 \<and> rows = [] \<or> (\<exists>vss. list_all2 ?ok cs vss \<and> rows = map (row_text vss) [0..<Suc k]))"
        using rest by (auto simp: row_text_def [of _ 0] upt_conv_Cons intro!: yields_ret simp del: upt_Suc)
    qed (use assms(3) in auto)
  qed
qed


section \<open>Properties of the generators of types\<close>

lemma generate_low_card_datatypes_ok:
  assumes "check_clickhouse_version ''<22.4'' version = Inr old"
  shows "generate_low_card_datatypes version ds =
    Inr (map LowCardinality (filter (\<lambda>d. supports_low_cardinality (attrs (unwrap d)) \<and> (old \<longrightarrow> \<not> is_Nullable d)) ds))"
  using assms by (induction ds) auto

lemma set_generate_map_datatypes:
  "set (generate_map_datatypes ds) =
     {Map k v | k v. k \<in> set ds \<and> v \<in> set ds \<and> valid_map_key (attrs k)}"
  by (auto simp: generate_map_datatypes_def)

lemma length_generate_map_datatypes:
  "length (generate_map_datatypes ds) =
     length (filter (\<lambda>k. valid_map_key (attrs k)) ds) * length ds"
proof -
  have "length (concat (map (\<lambda>key. if valid_map_key (attrs key) then map (Map key) ds else []) ks)) =
      length (filter (\<lambda>k. valid_map_key (attrs k)) ks) * length ds" for ks
    by (induction ks) auto
  then show ?thesis by (simp add: generate_map_datatypes_def)
qed

lemma is_Int_numeric: "is_Int d \<Longrightarrow> numeric (attrs d)"
  by (auto simp: is_Int_def is_UInt_def class_inits)

lemma kind_test_mono: "(\<And>d. P d \<Longrightarrow> Q d) \<Longrightarrow> kind_test k P dt \<Longrightarrow> kind_test k Q dt"
  by (auto simp: kind_test_def Let_def split: if_splits)

lemma default_column_name_plain: "set (default_column_name d) \<inter> set ''(),'' = {}"
proof -
  have "c \<notin> set ''(),''" if c: "c \<in> set (py_lower s)" and s: "set s \<inter> set ''(),'' = {}" for c s
  proof
    assume p: "c \<in> set ''(),''"
    obtain x where x: "x \<in> set s" "c = lower_char x" using c by (auto simp: py_lower_def)
    have "(of_char c :: nat) < 65" using p by auto
    then have "c = x" using lower_char_punct [of x] x(2) by simp
    with p x(1) have "c \<in> set s \<inter> set ''(),''" by (simp only: Int_iff)
    with s show False by (simp only: empty_iff)
  qed
  moreover have "set (py_replace CHR '','' ''_'' (py_replace CHR '')'' ''_'' (py_replace CHR ''('' ''_'' s)))
      \<inter> set ''(),'' = {}" for s
    using set_py_replace [of "CHR '',''" "''_''" "py_replace CHR '')'' ''_'' (py_replace CHR ''('' ''_'' s)"]
      set_py_replace [of "CHR '')''" "''_''" "py_replace CHR ''('' ''_'' s"]
      set_py_replace [of "CHR ''(''" "''_''" s] by auto
  ultimately show ?thesis
    unfolding default_column_name_def by blast
qed

section \<open>Properties\<close>

text \<open>A table for the witnesses, with an \<open>Int8\<close> column and a \<open>Boolean\<close> column.\<close>

definition int8_bool_table :: "unit Table" where
  "int8_bool_table = \<lparr>table_name = ''t'',
     table_columns = [Column (\<lambda>_. zero_rng) Int8 None, Column (\<lambda>_. zero_rng) Boolean None],
     table_engine = ''Memory''\<rparr>"

text \<open>C5. A test inserts exactly \<open>row_count\<close> rows: with generators of random numbers that keep
  their bounds, for a count of at least one and a cardinality of at least one,
  \<open>insert_test_data\<close> always reaches its query, and the statement lists the rows
  \<open>0, ..., row_count - 1\<close>, row \<open>i\<close> holding the \<open>i\<close>-th value of every column, in the order of
  the columns; the values of a column start with its largest, its smallest and its zero
  or null value. The same rows are returned beside the result of the query.\<close>

theorem insert_test_data_rows:
  assumes "1 \<le> row_count" and "1 \<le> cardinality"
    and "\<And>c. c \<in> set (table_columns t) \<Longrightarrow> rng_ok (column_rng random c) \<and> strings_ok (column_type c)"
  shows "\<exists>vss s'. list_all2 (\<lambda>c vs. column_ok row_count (column_type c) vs) (table_columns t) vss \<and>
    insert_test_data query t row_count cardinality query_settings random s =
      (let rows = map (row_text vss) [0..<nat row_count] in
       bindE (query (''INSERT INTO '' @ table_name t @ '' VALUES '' @ py_join '','' rows) query_settings)
         (\<lambda>r. ret (r, rows)) s')"
proof -
  let ?post = "\<lambda>rows. row_count = 0 \<and> rows = [] \<or>
    (\<exists>vss. list_all2 (\<lambda>c vs. column_ok row_count (column_type c) vs) (table_columns t) vss \<and>
      rows = map (row_text vss) [0..<nat row_count])"
  have "yields (row_texts random row_count cardinality (table_columns t) (nat row_count)
      (map (\<lambda>_. Fresh) (table_columns t))) ?post"
    using assms by (intro yields_row_texts) auto
  then obtain rows s' where run: "row_texts random row_count cardinality (table_columns t) (nat row_count)
      (map (\<lambda>_. Fresh) (table_columns t)) s = (Return rows, s')" and "?post rows"
    by (rule yieldsE)
  then obtain vss where vss: "list_all2 (\<lambda>c vs. column_ok row_count (column_type c) vs) (table_columns t) vss"
      "rows = map (row_text vss) [0..<nat row_count]"
    using assms(1) by auto
  have "insert_test_data query t row_count cardinality query_settings random s =
      (let rows = map (row_text vss) [0..<nat row_count] in
       bindE (query (''INSERT INTO '' @ table_name t @ '' VALUES '' @ py_join '','' rows) query_settings)
         (\<lambda>r. ret (r, rows)) s')"
    unfolding insert_test_data_def bindE_def [of "row_texts _ _ _ _ _ _"] run vss(2) Let_def by simp
  with vss(1) show ?thesis by blast
qed

theorem insert_test_data_rows_witness:
  "\<exists>vss s'. list_all2 (\<lambda>c vs. column_ok 4 (column_type c) vs) (table_columns int8_bool_table) vss \<and>
    insert_test_data (\<lambda>q _. ret q) int8_bool_table 4 2 None None () =
      (let rows = map (row_text vss) [0..<nat 4] in
       bindE (ret (''INSERT INTO '' @ table_name int8_bool_table @ '' VALUES '' @ py_join '','' rows))
         (\<lambda>r. ret (r, rows)) s')"
proof (rule insert_test_data_rows)
  fix c assume "c \<in> set (table_columns int8_bool_table)"
  then show "rng_ok (column_rng None c) \<and> strings_ok (column_type c)"
    by (auto simp: int8_bool_table_def Column_def column_rng_def zero_rng_ok)
qed simp_all

text \<open>The cardinality a caller passes to \<open>insert_test_data\<close>, as long as it is positive, does
  not change anything the step does: the statement, the rows, the draws from the random
  generator and every failure are those of cardinality one. The list of values is
  repeated, but only its first \<open>row_count\<close> entries, all of the first copy, are read.\<close>

theorem insert_test_data_cardinality:
  assumes "1 \<le> cardinality"
  shows "insert_test_data query t row_count cardinality query_settings random =
    insert_test_data query t row_count 1 query_settings random"
proof -
  let ?fresh = "map (\<lambda>_. Fresh) (table_columns t)"
  have "row_texts random row_count cardinality (table_columns t) (nat row_count) ?fresh =
      row_texts random row_count 1 (table_columns t) (nat row_count) ?fresh"
    using row_texts_lift [OF assms, of row_count ?fresh] by (simp add: list_all_iff comp_def)
  then show ?thesis by (simp add: insert_test_data_def)
qed

theorem insert_test_data_cardinality_witness:
  "insert_test_data (\<lambda>q _. ret q) int8_bool_table 4 3 None None () =
   insert_test_data (\<lambda>q _. ret q) int8_bool_table 4 1 None None ()"
  by (rule insert_test_data_cardinality [THEN fun_cong]) simp

text \<open>Whatever the server version is, when it can be compared \<open>generate_all_column_types\<close> wraps
  in \<open>LowCardinality\<close> exactly the given types whose unwrapped type supports it, leaving
  out the nullable ones before 22.4; and of the types it is given
  \<open>generate_map_datatypes\<close> builds one map for each valid key and each value, and no other.\<close>

theorem generated_datatypes:
  assumes "check_clickhouse_version ''<22.4'' version = Inr old"
  shows "generate_low_card_datatypes version ds =
      Inr (map LowCardinality (filter (\<lambda>d. supports_low_cardinality (attrs (unwrap d)) \<and> (old \<longrightarrow> \<not> is_Nullable d)) ds)) \<and>
    set (generate_map_datatypes ds) =
      {Map k v | k v. k \<in> set ds \<and> v \<in> set ds \<and> valid_map_key (attrs k)} \<and>
    length (generate_map_datatypes ds) = length (filter (\<lambda>k. valid_map_key (attrs k)) ds) * length ds"
  using generate_low_card_datatypes_ok [OF assms] set_generate_map_datatypes length_generate_map_datatypes
  by blast

theorem generated_datatypes_witness:
  "generate_low_card_datatypes (Some ''22.3'') [Nullable String, Int8, Decimal32 4] = Inr [LowCardinality Int8] \<and>
   length (generate_map_datatypes [Nullable String, Int8, Decimal32 4]) = 3"
proof -
  have "check_clickhouse_version ''<22.4'' (Some ''22.3'') = Inr True" by code_simp
  from generated_datatypes [OF this, of "[Nullable String, Int8, Decimal32 4]"] show ?thesis
    by (simp add: class_inits decimal_attrs_def Let_def)
qed

text \<open>The classification of types is a chain: with the same options, every type that
  \<open>is_unsigned_integer\<close> accepts is accepted by \<open>is_integer\<close>, every one that \<open>is_integer\<close>
  accepts by \<open>is_numeric\<close>, and wrapping a type in \<open>Nullable\<close> or \<open>LowCardinality\<close> changes none
  of the three answers.\<close>

theorem kinds_chain:
  "(is_unsigned_integer k d \<longrightarrow> is_integer k d) \<and> (is_integer k d \<longrightarrow> is_numeric k d) \<and>
   (\<forall>w \<in> {Nullable, LowCardinality}. is_numeric k (w d) = is_numeric k d \<and>
      is_integer k (w d) = is_integer k d \<and> is_unsigned_integer k (w d) = is_unsigned_integer k d)"
proof -
  have "is_unsigned_integer k d \<Longrightarrow> is_integer k d"
    unfolding is_unsigned_integer_def is_integer_def by (rule kind_test_mono) (auto simp: is_Int_def)
  moreover have "is_integer k d \<Longrightarrow> is_numeric k d"
    unfolding is_integer_def is_numeric_def by (rule kind_test_mono) (rule is_Int_numeric)
  ultimately show ?thesis
    by (auto simp: is_numeric_def is_integer_def is_unsigned_integer_def kind_test_def)
qed

theorem kinds_chain_witness:
  "is_numeric \<lparr>k_decimal = False, k_date = False, k_date32 = False, k_datetime = False,
     k_datetime64 = False, k_extended_precision = True\<rparr> (Nullable UInt128)"
proof -
  let ?k = "\<lparr>k_decimal = False, k_date = False, k_date32 = False, k_datetime = False,
     k_datetime64 = False, k_extended_precision = True\<rparr>"
  have "is_unsigned_integer ?k UInt128"
    by (simp add: is_unsigned_integer_def kind_test_def is_UInt_def is_DateTime_def is_Date_def)
  then show ?thesis using kinds_chain [of ?k UInt128] by blast
qed

text \<open>Both steps are scoped: the table is the item that the test body receives.\<close>

record 's create_args =
  c_engine :: string
  c_columns :: "'s column list"
  c_name :: string
  c_drop_sync :: bool
  c_order_by :: "string option"
  c_comment :: "string option"
  c_as_select :: "string option"
  c_settings :: settings
  c_empty_as :: "string option"

definition created :: "'s create_args \<Rightarrow> 's Table" where
  "created x = \<lparr>table_name = c_name x, table_columns = c_columns x, table_engine = c_engine x\<rparr>"

definition create_statement :: "'s create_args \<Rightarrow> string" where
  "create_statement x = create_table_query (c_name x) (c_columns x) (c_engine x) (c_order_by x) (c_comment x)
     (c_empty_as x) (c_as_select x)"

definition create_scope ::
  "(string \<Rightarrow> settings option \<Rightarrow> ('s, 'q) eff) \<Rightarrow> 's create_args \<Rightarrow> ('s Table \<Rightarrow> ('s, 'a) eff) \<Rightarrow> ('s, 'a) eff" where
  "create_scope query x body = create_table query [] (c_engine x) (c_columns x) (Some (c_name x)) (c_drop_sync x)
     (c_order_by x) (c_comment x) (c_as_select x) (Some (c_settings x)) (c_empty_as x) body"

interpretation created_table: scoped "\<lambda>x. query (create_statement x) (Some (c_settings x))" created
  "\<lambda>x. query (drop_table_query (c_name x) (c_drop_sync x)) None" "create_scope query"
  for query :: "string \<Rightarrow> settings option \<Rightarrow> ('s, 'q) eff"
  by unfold_locales (simp add: create_scope_def create_table_def create_statement_def created_def Let_def)



text \<open>The default name of a column holds no bracket and no comma, so that in the column list
  of \<open>CREATE TABLE\<close> the brackets and commas that follow a default name belong to its type.\<close>

lemma default_column_name_ok:
  "set (column_name (Column seeded d None)) \<inter> set ''(),'' = {}"
  using default_column_name_plain [of d] by (simp add: Column_def Let_def)

end
