(* ===== verification/Cluster_State.thy ===== *)
theory Cluster_State
  imports Versions
begin

text \<open>
  The state of a \<open>Cluster\<close> object of \<open>helpers/cluster.py\<close> and the operations of the operating
  system it calls. What is not code of this repository (the \<open>testflows\<close> shell, the clock,
  the threads, the file system, the \<open>retry\<close> helpers) is the record \<open>os\<close>, an argument of every
  operation, over a state \<open>'w\<close> of the world that the operations carry along. The bound
  \<open>fuel\<close> limits the iterations of each loop that waits for the clock.
\<close>

section \<open>State\<close>

text \<open>A shell object, by its identity.\<close>

type_synonym shell = nat

record cmd_result =
  cmd_output :: string
  cmd_exitcode :: int

text \<open>
  The attributes of the object, the attributes of the test context it reads, and the
  world. A shell is kept under the name of the thread and the text of the node's name.
\<close>

record 'w cluster =
  bash_pool :: "((string \<times> string), shell) pydict"
  ctl_shell :: "shell option"
  lock_held :: bool
  environ :: "(string, string) pydict"
  binary_path :: "string option"
  odbc_bridge_path :: "string option"
  configs_dir :: string
  is_local :: bool
  cluster_nodes :: "(string, string list) pydict"
  docker_compose :: string
  project_dir :: string
  thread_fuzzer :: bool
  running :: bool
  collect_service_logs :: bool
  use_zookeeper_nodes :: bool
  context_version :: "string option"
  default_query_settings :: settings
  world :: 'w

type_synonym ('w, 'a) ceff = "('w cluster, 'a) eff"

text \<open>
  Operations of the world. \<open>run\<close> is a call of a shell object with a command and an optional
  timeout; \<open>open_shell\<close> is the constructor with its command and name; \<open>retries\<close> runs the body
  of \<open>for attempt in retries(timeout=..., delay=...): with attempt: ...\<close>, handing it the
  number of the attempt, and \<open>retry\<close> is \<open>retry(f, count)(...)\<close>.
\<close>

record 'w os =
  open_shell :: "string list option \<Rightarrow> string option \<Rightarrow> ('w, shell) eff"
  enter_shell :: "shell \<Rightarrow> ('w, unit) eff"
  child_alive :: "shell \<Rightarrow> 'w \<Rightarrow> bool"
  send :: "shell \<Rightarrow> string \<Rightarrow> ('w, unit) eff"
  base_exit :: "shell \<Rightarrow> ('w, unit) eff"
  set_timeout :: "shell \<Rightarrow> seconds \<Rightarrow> ('w, unit) eff"
  run :: "shell \<Rightarrow> string \<Rightarrow> seconds option \<Rightarrow> ('w, cmd_result) eff"
  now :: "'w \<Rightarrow> seconds"
  sleep :: "seconds \<Rightarrow> ('w, unit) eff"
  current_thread :: "'w \<Rightarrow> string"
  thread_names :: "'w \<Rightarrow> string list"
  path_exists :: "string \<Rightarrow> 'w \<Rightarrow> bool"
  remove_path :: "string \<Rightarrow> ('w, unit) eff"
  make_dir :: "string \<Rightarrow> ('w, unit) eff"
  make_dirs :: "string \<Rightarrow> ('w, unit) eff"
  temp_file_name :: "string \<Rightarrow> ('w, string) eff"
  uuid1 :: "('w, string) eff"
  retries :: "seconds \<Rightarrow> seconds \<Rightarrow> (nat \<Rightarrow> ('w, unit) ceff) \<Rightarrow> ('w, unit) ceff"
  retry :: "nat \<Rightarrow> ('w, cmd_result) ceff \<Rightarrow> ('w, cmd_result) ceff"
  fuel :: nat

section \<open>Access to the world, the lock and dictionaries\<close>

definition inW :: "('w, 'a) eff \<Rightarrow> ('w, 'a) ceff" where
  "inW m = (\<lambda>c. case m (world c) of (r, w) \<Rightarrow> (r, c\<lparr>world := w\<rparr>))"

definition clock :: "'w os \<Rightarrow> ('w, seconds) ceff" where
  "clock os = getE (\<lambda>c. now os (world c))"

text \<open>
  \<open>with self.lock: ...\<close> for a lock that is not reentrant: acquiring it a second time in the
  same thread never returns.
\<close>

definition with_lock :: "('w, 'a) ceff \<Rightarrow> ('w, 'a) ceff" where
  "with_lock m = bindE (getE lock_held) (\<lambda>held.
     if held then out_of_fuel
     else seqE (modifyE (\<lambda>c. c\<lparr>lock_held := True\<rparr>))
       (finallyE m (modifyE (\<lambda>c. c\<lparr>lock_held := False\<rparr>))))"

text \<open>\<open>d[k]\<close>, and the text \<open>f"{node}"\<close> of a node that may be \<open>None\<close>.\<close>

definition getitem :: "('k, 'v) pydict \<Rightarrow> 'k \<Rightarrow> ('s, 'v) eff" where
  "getitem d k = (case map_of d k of None \<Rightarrow> raise (KeyError []) | Some v \<Rightarrow> ret v)"

definition node_text :: "string option \<Rightarrow> string" where
  "node_text node = (case node of None \<Rightarrow> ''None'' | Some n \<Rightarrow> n)"

definition run_in :: "'w os \<Rightarrow> shell \<Rightarrow> string \<Rightarrow> seconds option \<Rightarrow> ('w, cmd_result) ceff" where
  "run_in os sh cmd timeout = inW (run os sh cmd timeout)"

section \<open>Shells\<close>

text \<open>\<open>Shell.__exit__\<close>\<close>

definition shell_exit :: "'w os \<Rightarrow> shell \<Rightarrow> ('w, unit) ceff" where
  "shell_exit os sh = seqE
     (forE [0..<10 :: nat] (\<lambda>_. bindE (getE (\<lambda>c. child_alive os sh (world c))) (\<lambda>alive.
        whenE alive
          (catchE (seqE (inW (send os sh (''exit'' @ [CHR 0x0D]))) (inW (send os sh [CHR 0x04, CHR 0x0D])))
            (\<lambda>e. if is_IOError e then ret () else raise e)))))
     (inW (base_exit os sh))"

text \<open>
  The body of the loop that opens a shell and tries it: the shell is assigned to the local
  variable \<open>shell\<close>, whose value before the attempt is \<open>old\<close>. Returns the variable's value
  and the exception, if one was raised.
\<close>

definition open_attempt :: "'w os \<Rightarrow> string list option \<Rightarrow> string option \<Rightarrow> shell option \<Rightarrow>
  ('w, shell option \<times> exn option) ceff" where
  "open_attempt os cmd nm old =
     bindE (tryE (inW (open_shell os cmd nm))) (\<lambda>x. case x of
       Inl e \<Rightarrow> ret (old, Some e)
     | Inr sh \<Rightarrow>
         bindE (tryE (seqE (inW (set_timeout os sh 30)) (run_in os sh ''echo 1'' None))) (\<lambda>y. case y of
           Inl e \<Rightarrow> ret (Some sh, Some e)
         | Inr _ \<Rightarrow> ret (Some sh, None)))"

text \<open>The loop of \<open>control_shell\<close> and of \<open>shell\<close>, which differ in the command and the message.\<close>

fun open_loop :: "'w os \<Rightarrow> string list option \<Rightarrow> string option \<Rightarrow> string \<Rightarrow> seconds \<Rightarrow> seconds \<Rightarrow> nat \<Rightarrow>
  shell option \<Rightarrow> ('w, shell) ceff" where
  "open_loop os cmd nm msg timeout time_start 0 old = out_of_fuel"
| "open_loop os cmd nm msg timeout time_start (Suc n) old =
     bindE (open_attempt os cmd nm old) (\<lambda>(var, result). case result of
       None \<Rightarrow> (case var of None \<Rightarrow> raise (UnboundLocalError ''shell'') | Some sh \<Rightarrow> ret sh)
     | Some e \<Rightarrow>
         if is_IOError e \<or> \<not> is_Exception e then raise e
         else (case var of
             None \<Rightarrow> raise (UnboundLocalError ''shell'')
           | Some sh \<Rightarrow>
               seqE (shell_exit os sh) (bindE (clock os) (\<lambda>t.
                 if t - time_start > timeout then raise (RuntimeError msg)
                 else open_loop os cmd nm msg timeout time_start n var))))"

definition control_shell :: "'w os \<Rightarrow> ('w, shell) ceff" where
  "control_shell os = bindE (getE ctl_shell) (\<lambda>x. case x of
     Some sh \<Rightarrow> ret sh
   | None \<Rightarrow>
       bindE (clock os) (\<lambda>time_start.
       bindE (open_loop os None None ''failed to open control shell'' 300 time_start (fuel os) None) (\<lambda>sh.
       seqE (modifyE (\<lambda>c. c\<lparr>ctl_shell := Some sh\<rparr>)) (ret sh))))"

definition close_control_shell :: "'w os \<Rightarrow> ('w, unit) ceff" where
  "close_control_shell os = bindE (getE ctl_shell) (\<lambda>x. case x of
     None \<Rightarrow> ret ()
   | Some sh \<Rightarrow> seqE (modifyE (\<lambda>c. c\<lparr>ctl_shell := None\<rparr>)) (shell_exit os sh))"

text \<open>One request for the container's identifier; \<open>None\<close> when the loop has to go on.\<close>

definition container_id_attempt :: "'w os \<Rightarrow> string \<Rightarrow> seconds \<Rightarrow> ('w, string option) ceff" where
  "container_id_attempt os node timeout =
     bindE (tryE (bindE (control_shell os) (\<lambda>sh. bindE (getE docker_compose) (\<lambda>dc.
       run_in os sh (dc @ '' ps -q '' @ node) (Some timeout))))) (\<lambda>x. case x of
       Inr r \<Rightarrow> (let container_id = py_strip (cmd_output r)
                in ret (if cmd_exitcode r = 0 \<and> length container_id > 1 then Some container_id else None))
     | Inl e \<Rightarrow> if e = ExpectTimeoutError then seqE (close_control_shell os) (ret None) else raise e)"

fun container_id_loop :: "'w os \<Rightarrow> string \<Rightarrow> seconds \<Rightarrow> nat \<Rightarrow> seconds \<Rightarrow> ('w, string) ceff" where
  "container_id_loop os node time_start 0 timeout = out_of_fuel"
| "container_id_loop os node time_start (Suc n) timeout =
     bindE (container_id_attempt os node timeout) (\<lambda>x. case x of
       Some container_id \<Rightarrow> ret container_id
     | None \<Rightarrow>
         bindE (clock os) (\<lambda>t.
           let timeout' = timeout - (t - time_start) in
           if timeout' \<le> 0
           then raise (RuntimeError (''failed to get docker container id for the '' @ node @ '' service''))
           else seqE (inW (sleep os 1)) (container_id_loop os node time_start n timeout')))"

definition node_container_id :: "'w os \<Rightarrow> string \<Rightarrow> seconds \<Rightarrow> ('w, string) ceff" where
  "node_container_id os node timeout =
     bindE (clock os) (\<lambda>time_start. container_id_loop os node time_start (fuel os) timeout)"

text \<open>The command of a shell inside a container, and the container of a node, if there is one.\<close>

definition docker_exec :: "string \<Rightarrow> string \<Rightarrow> string list" where
  "docker_exec container_id command =
     [''/bin/bash'', ''--noediting'', ''-c'', ''docker exec -it '' @ container_id @ '' '' @ command]"

definition container_of :: "'w os \<Rightarrow> string option \<Rightarrow> seconds \<Rightarrow> ('w, string option) ceff" where
  "container_of os node timeout = (case node of
     None \<Rightarrow> ret None
   | Some n \<Rightarrow> bindE (node_container_id os n timeout) (\<lambda>i. ret (Some i)))"

definition shell :: "'w os \<Rightarrow> string option \<Rightarrow> seconds \<Rightarrow> ('w, shell) ceff" where
  "shell os node timeout =
     bindE (case node of None \<Rightarrow> ret None | Some n \<Rightarrow> with_lock (container_of os node timeout)) (\<lambda>container.
     bindE (clock os) (\<lambda>time_start.
     bindE (open_loop os (map_option (\<lambda>i. docker_exec i ''bash --noediting'') container) node
         (''failed to open bash to node '' @ node_text node) timeout time_start (fuel os) None) (\<lambda>sh.
     seqE (inW (set_timeout os sh timeout)) (ret sh))))"

section \<open>The pool of shells\<close>

definition pool_set :: "string \<times> string \<Rightarrow> shell \<Rightarrow> ('w, unit) ceff" where
  "pool_set i sh = modifyE (\<lambda>c. c\<lparr>bash_pool := AList.update i sh (bash_pool c)\<rparr>)"

definition pool_del :: "string \<times> string \<Rightarrow> ('w, unit) ceff" where
  "pool_del i = modifyE (\<lambda>c. c\<lparr>bash_pool := AList.delete i (bash_pool c)\<rparr>)"

definition pool_get :: "string \<times> string \<Rightarrow> ('w, shell) ceff" where
  "pool_get i = bindE (getE bash_pool) (\<lambda>d. getitem d i)"

definition bash_attempt :: "'w os \<Rightarrow> string \<times> string \<Rightarrow> string option \<Rightarrow> string list option \<Rightarrow> ('w, unit) ceff" where
  "bash_attempt os i node cmd =
     seqE (case node of
         None \<Rightarrow> bindE (inW (open_shell os None None)) (pool_set i)
       | Some n \<Rightarrow> bindE (inW (open_shell os cmd (Some n))) (\<lambda>sh.
           seqE (inW (enter_shell os sh)) (pool_set i sh)))
     (bindE (pool_get i) (\<lambda>sh.
       seqE (inW (set_timeout os sh 30))
       (bindE (run_in os sh ''echo 1'' None) (\<lambda>_. ret ()))))"

fun bash_loop :: "'w os \<Rightarrow> string \<times> string \<Rightarrow> string option \<Rightarrow> string list option \<Rightarrow> seconds \<Rightarrow> seconds \<Rightarrow> nat \<Rightarrow>
  ('w, unit) ceff" where
  "bash_loop os i node cmd timeout time_start 0 = out_of_fuel"
| "bash_loop os i node cmd timeout time_start (Suc n) =
     bindE (tryE (bash_attempt os i node cmd)) (\<lambda>x. case x of
       Inr _ \<Rightarrow> ret ()
     | Inl e \<Rightarrow>
         if is_IOError e \<or> \<not> is_Exception e then raise e
         else
           bindE (pool_get i) (\<lambda>sh.
           seqE (shell_exit os sh) (bindE (clock os) (\<lambda>t.
             if t - time_start > timeout
             then raise (RuntimeError (''failed to open bash to node '' @ node_text node))
             else bash_loop os i node cmd timeout time_start n))))"

text \<open>Closes the shells of the threads that have ended.\<close>

definition close_stale :: "'w os \<Rightarrow> ('w, unit) ceff" where
  "close_stale os =
     bindE (getE (\<lambda>c. thread_names os (world c))) (\<lambda>active.
     bindE (getE bash_pool) (\<lambda>d.
       forE (dict_keys d) (\<lambda>i.
         whenE (fst i \<notin> set active)
           (bindE (pool_get i) (\<lambda>sh. seqE (shell_exit os sh) (pool_del i))))))"

definition bash_id :: "'w os \<Rightarrow> string option \<Rightarrow> ('w, string \<times> string) ceff" where
  "bash_id os node = getE (\<lambda>c. (current_thread os (world c), node_text node))"

text \<open>The shell of a missing entry, entered into the pool, with the environment variables exported.\<close>

definition prepare_bash :: "'w os \<Rightarrow> string \<times> string \<Rightarrow> string option \<Rightarrow> seconds \<Rightarrow> string \<Rightarrow> ('w, unit) ceff" where
  "prepare_bash os i node timeout command =
     bindE (container_of os node timeout) (\<lambda>container.
     bindE (clock os) (\<lambda>time_start.
     seqE (bash_loop os i node (map_option (\<lambda>cid. docker_exec cid command) container) timeout time_start (fuel os))
     (seqE (whenE (node = None)
        (bindE (getE environ) (\<lambda>env. forE env (\<lambda>(nm, v).
          bindE (pool_get i) (\<lambda>sh. bindE (run_in os sh (''export '' @ nm @ ''='' @ v) None) (\<lambda>_. ret ()))))))
     (bindE (pool_get i) (\<lambda>sh. inW (set_timeout os sh timeout))))))"

definition open_bash :: "'w os \<Rightarrow> string \<times> string \<Rightarrow> string option \<Rightarrow> seconds \<Rightarrow> string \<Rightarrow> ('w, unit) ceff" where
  "open_bash os i node timeout command =
     seqE (prepare_bash os i node timeout command) (close_stale os)"

definition bash :: "'w os \<Rightarrow> string option \<Rightarrow> seconds \<Rightarrow> string \<Rightarrow> ('w, shell) ceff" where
  "bash os node timeout command =
     bindE (bash_id os node) (\<lambda>i.
       with_lock (bindE (getE bash_pool) (\<lambda>d.
         seqE (whenE (map_of d i = None) (open_bash os i node timeout command))
           (pool_get i))))"

definition close_bash :: "'w os \<Rightarrow> string option \<Rightarrow> ('w, unit) ceff" where
  "close_bash os node =
     bindE (bash_id os node) (\<lambda>i.
       with_lock (bindE (getE bash_pool) (\<lambda>d. case map_of d i of
         None \<Rightarrow> ret ()
       | Some sh \<Rightarrow> seqE (shell_exit os sh) (pool_del i))))"

text \<open>\<open>Node.close_bashes\<close>\<close>

definition close_bashes :: "'w os \<Rightarrow> string \<Rightarrow> ('w, unit) ceff" where
  "close_bashes os nm =
     with_lock (bindE (getE bash_pool) (\<lambda>d.
       forE (dict_keys d) (\<lambda>i.
         whenE (endswith (snd i) nm)
           (bindE (pool_get i) (\<lambda>sh. seqE (pool_del i) (shell_exit os sh))))))"

end
