(* ===== verification/Cluster_Pool.thy ===== *)
theory Cluster_Pool
  imports Cluster_State
begin

text \<open>
  What the shell handling of \<open>helpers/cluster.py\<close> guarantees: the lock is always released,
  every wait ends, and the pool keeps exactly the shells it should. The collection
  \<open>keeps_world\<close> holds the rules for properties that the world does not affect.
\<close>

named_theorems keeps_world

section \<open>Fields and the lock\<close>

lemma keeps_inW [keeps_world]: "(\<And>c w. P c \<Longrightarrow> P (c\<lparr>world := w\<rparr>)) \<Longrightarrow> keeps P (inW m)"
  by (auto intro!: keepsI simp: inW_def split: prod.splits)

lemma keeps_clock [keeps_intro]: "keeps P (clock os)"
  by (simp add: clock_def keeps_intro)

lemma keeps_run_in [keeps_world]: "(\<And>c w. P c \<Longrightarrow> P (c\<lparr>world := w\<rparr>)) \<Longrightarrow> keeps P (run_in os sh cmd t)"
  by (simp add: run_in_def keeps_world)

lemma keeps_getitem [keeps_intro]: "keeps P (getitem d k)"
  by (auto simp: getitem_def intro: keeps_intro split: option.split)

lemma keeps_shell_exit [keeps_world]:
  assumes "\<And>c w. P c \<Longrightarrow> P (c\<lparr>world := w\<rparr>)"
  shows "keeps P (shell_exit os sh)"
  unfolding shell_exit_def by (intro keeps_intro keeps_world assms)

text \<open>A property that neither the world nor the two shell fields can change.\<close>

definition steady :: "('w cluster \<Rightarrow> bool) \<Rightarrow> bool" where
  "steady P \<longleftrightarrow> (\<forall>c w sh d. P c \<longrightarrow> P (c\<lparr>world := w\<rparr>) \<and> P (c\<lparr>ctl_shell := sh\<rparr>) \<and> P (c\<lparr>bash_pool := d\<rparr>))"

lemma steadyD: "steady P \<Longrightarrow> P c \<Longrightarrow> P (c\<lparr>world := w\<rparr>)" "steady P \<Longrightarrow> P c \<Longrightarrow> P (c\<lparr>ctl_shell := sh\<rparr>)"
  "steady P \<Longrightarrow> P c \<Longrightarrow> P (c\<lparr>bash_pool := d\<rparr>)"
  by (auto simp: steady_def)

lemma steady_lock_held [simp]: "steady lock_held"
  by (simp add: steady_def)

lemma keeps_open_attempt [keeps_world]: "steady P \<Longrightarrow> keeps P (open_attempt os cmd nm old)"
  unfolding open_attempt_def by (intro keeps_intro keeps_world) (simp_all add: steadyD)

lemma keeps_open_loop [keeps_world]: "steady P \<Longrightarrow> keeps P (open_loop os cmd nm msg timeout t0 n old)"
proof (induction n arbitrary: old)
  case 0
  then show ?case by (simp add: keeps_intro)
next
  case (Suc n)
  then show ?case
    unfolding open_loop.simps by (intro keeps_intro keeps_world) (simp_all add: steadyD)
qed

lemma keeps_control_shell [keeps_world]: "steady P \<Longrightarrow> keeps P (control_shell os)"
  unfolding control_shell_def by (intro keeps_intro keeps_world) (simp_all add: steadyD)

lemma keeps_close_control_shell [keeps_world]: "steady P \<Longrightarrow> keeps P (close_control_shell os)"
  unfolding close_control_shell_def by (intro keeps_intro keeps_world) (simp_all add: steadyD)

lemma keeps_container_id_attempt [keeps_world]: "steady P \<Longrightarrow> keeps P (container_id_attempt os node timeout)"
  unfolding container_id_attempt_def Let_def by (intro keeps_intro keeps_world) (simp_all add: steadyD)

lemma keeps_container_id_loop [keeps_world]: "steady P \<Longrightarrow> keeps P (container_id_loop os node t0 n timeout)"
proof (induction n arbitrary: timeout)
  case 0
  then show ?case by (simp add: keeps_intro)
next
  case (Suc n)
  then show ?case
    unfolding container_id_loop.simps Let_def by (intro keeps_intro keeps_world) (simp_all add: steadyD)
qed

lemma keeps_container_of [keeps_world]: "steady P \<Longrightarrow> keeps P (container_of os node timeout)"
  unfolding container_of_def node_container_id_def by (intro keeps_intro keeps_world)

lemma keeps_pool_get [keeps_intro]: "keeps P (pool_get i)"
  unfolding pool_get_def by (intro keeps_intro)

lemma keeps_pool_ops [keeps_world]:
  "steady P \<Longrightarrow> keeps P (pool_set i sh)" "steady P \<Longrightarrow> keeps P (pool_del i)"
  unfolding pool_set_def pool_del_def by (auto intro!: keeps_intro simp: steadyD)

lemma keeps_bash_attempt [keeps_world]: "steady P \<Longrightarrow> keeps P (bash_attempt os i node cmd)"
  unfolding bash_attempt_def by (intro keeps_intro keeps_world) (simp_all add: steadyD)

lemma keeps_bash_loop [keeps_world]: "steady P \<Longrightarrow> keeps P (bash_loop os i node cmd timeout t0 n)"
proof (induction n)
  case 0
  then show ?case by (simp add: keeps_intro)
next
  case (Suc n)
  then show ?case
    unfolding bash_loop.simps by (intro keeps_intro keeps_world) (simp_all add: steadyD)
qed

lemma keeps_close_stale [keeps_world]: "steady P \<Longrightarrow> keeps P (close_stale os)"
  unfolding close_stale_def by (intro keeps_intro keeps_world) (simp_all add: steadyD)

lemma keeps_open_bash [keeps_world]: "steady P \<Longrightarrow> keeps P (open_bash os i node timeout command)"
  unfolding open_bash_def prepare_bash_def by (intro keeps_intro keeps_world) (simp_all add: steadyD)

lemma keeps_bash_id [keeps_intro]: "keeps P (bash_id os node)"
  unfolding bash_id_def by (rule keeps_intro)

abbreviation lock_free :: "'w cluster \<Rightarrow> bool" where
  "lock_free c \<equiv> \<not> lock_held c"

lemma with_lock_releases:
  assumes "keeps lock_held m"
  shows "keeps lock_free (with_lock m)"
proof -
  have "triple lock_held (finallyE m (modifyE (\<lambda>c. c\<lparr>lock_held := False\<rparr>))) (\<lambda>_. lock_free) (\<lambda>_. lock_free)"
    using assms unfolding keeps_def by (rule triple_finally) (auto intro: triple_modify)
  moreover have "triple lock_free (modifyE (\<lambda>c. c\<lparr>lock_held := True\<rparr>)) (\<lambda>_. lock_held) (\<lambda>_. lock_free)"
    by (rule triple_modify) simp
  ultimately have "keeps lock_free (seqE (modifyE (\<lambda>c. c\<lparr>lock_held := True\<rparr>))
      (finallyE m (modifyE (\<lambda>c. c\<lparr>lock_held := False\<rparr>))))"
    unfolding keeps_def by (rule triple_seq [rotated])
  then show ?thesis
    unfolding with_lock_def by (intro keeps_bind keeps_if) (auto intro: keeps_pure)
qed

lemma lock_free_world [simp]: "lock_free c \<Longrightarrow> lock_free (c\<lparr>world := w\<rparr>)"
  by simp

lemma steady_lock_free [simp]: "steady lock_free"
  by (simp add: steady_def)

lemma bash_releases [keeps_intro]: "keeps lock_free (bash os node timeout command)"
  unfolding bash_def by (intro keeps_intro keeps_world with_lock_releases) simp_all

lemma close_bash_releases [keeps_intro]: "keeps lock_free (close_bash os node)"
  unfolding close_bash_def by (intro keeps_intro keeps_world with_lock_releases) simp_all

lemma close_bashes_releases [keeps_intro]: "keeps lock_free (close_bashes os nm)"
  unfolding close_bashes_def by (intro keeps_intro keeps_world with_lock_releases) simp_all

lemma shell_releases [keeps_intro]: "keeps lock_free (shell os node timeout)"
  unfolding shell_def by (intro keeps_intro keeps_world with_lock_releases) simp_all

section \<open>Time\<close>

text \<open>
  What the code relies on of the world: a call ends, by a return or an exception; the clock
  does not go back, and \<open>sleep\<close> moves it on by its argument at least. A shell that cannot be
  opened, or does not answer its first command, fails with \<open>IOError\<close> or takes time \<open>\<delta>\<close>
  to fail (the timeout of the shell is 30 seconds).
\<close>

definition forward :: "'w os \<Rightarrow> ('w, 'a) eff \<Rightarrow> bool" where
  "forward os m \<longleftrightarrow> (\<forall>w r w'. m w = (r, w') \<longrightarrow> now os w \<le> now os w' \<and> r \<noteq> OutOfFuel)"

definition clock_ok :: "'w os \<Rightarrow> bool" where
  "clock_ok os \<longleftrightarrow>
     (\<forall>cmd nm. forward os (open_shell os cmd nm)) \<and> (\<forall>sh. forward os (enter_shell os sh)) \<and>
     (\<forall>sh t. forward os (send os sh t)) \<and> (\<forall>sh. forward os (base_exit os sh)) \<and>
     (\<forall>sh t. forward os (set_timeout os sh t)) \<and> (\<forall>sh cmd t. forward os (run os sh cmd t)) \<and>
     (\<forall>d \<ge> 0. forward os (sleep os d) \<and>
       (\<forall>w r w'. sleep os d w = (r, w') \<longrightarrow> now os w + d \<le> now os w'))"

definition slow :: "'w os \<Rightarrow> seconds \<Rightarrow> ('w, 'a) eff \<Rightarrow> bool" where
  "slow os d m \<longleftrightarrow> (\<forall>w e w'. m w = (Raise e, w') \<and> \<not> is_IOError e \<longrightarrow> now os w + d \<le> now os w')"

definition slow_failure :: "'w os \<Rightarrow> seconds \<Rightarrow> bool" where
  "slow_failure os d \<longleftrightarrow> 0 < d \<and>
     (\<forall>cmd nm. slow os d (open_shell os cmd nm)) \<and> (\<forall>sh. slow os d (enter_shell os sh)) \<and>
     (\<forall>sh t. slow os d (set_timeout os sh t)) \<and> (\<forall>sh cmd t. slow os d (run os sh cmd t))"

text \<open>The state is not earlier than \<open>t\<close>.\<close>

definition since :: "'w os \<Rightarrow> seconds \<Rightarrow> 'w cluster \<Rightarrow> bool" where
  "since os t c \<longleftrightarrow> t \<le> now os (world c)"

lemma since_fields [simp]:
  "since os t (c\<lparr>ctl_shell := x\<rparr>) = since os t c" "since os t (c\<lparr>bash_pool := d\<rparr>) = since os t c"
  "since os t (c\<lparr>lock_held := b\<rparr>) = since os t c" "since os t (c\<lparr>world := w\<rparr>) \<longleftrightarrow> t \<le> now os w"
  by (simp_all add: since_def)

lemma forward_inW: "forward os m \<Longrightarrow> keeps (since os t) (inW m)" "forward os m \<Longrightarrow> ends P (inW m)"
  by (fastforce intro!: keepsI simp: inW_def forward_def since_def ends_def split: prod.splits)+

lemma clock_okD:
  assumes "clock_ok os"
  shows "forward os (open_shell os cmd nm)" "forward os (enter_shell os sh)" "forward os (send os sh t)"
    "forward os (base_exit os sh)" "forward os (set_timeout os sh d)" "forward os (run os sh c to)"
    "forward os (sleep os 1)"
  using assms by (auto simp: clock_ok_def)

lemma keeps_since_modify [keeps_intro]:
  "(\<And>c. world (f c) = world c) \<Longrightarrow> keeps (since os t) (modifyE f)"
  by (auto intro!: keepsI simp: since_def)

lemma since_pool_ops [keeps_intro]:
  "keeps (since os t) (pool_set i sh)" "keeps (since os t) (pool_del i)"
  unfolding pool_set_def pool_del_def by (auto intro: keeps_since_modify)

lemma ends_pool_ops [ends_intro]:
  "ends P (pool_set i sh)" "ends P (pool_del i)" "ends P (pool_get i)" "ends P (clock os)" "ends P (bash_id os node)"
  unfolding pool_set_def pool_del_def pool_get_def getitem_def clock_def bash_id_def
  by (auto intro: ends_intro simp: ends_def bindE_def getE_def ret_def raise_def split: option.splits)

lemma shell_exit_since:
  assumes "clock_ok os"
  shows "keeps (since os t) (shell_exit os sh)" "ends (since os t) (shell_exit os sh)"
  unfolding shell_exit_def by (intro keeps_intro ends_intro forward_inW [of os] clock_okD assms)+

text \<open>An attempt that fails with an exception other than \<open>IOError\<close> takes at least \<open>d\<close>.\<close>

lemma inW_since:
  assumes "forward os m" and "slow os d m" and "0 \<le> d"
  shows "triple (since os t) (inW m) (\<lambda>_. since os t) (\<lambda>e. if is_IOError e then since os t else since os (t + d))"
proof (rule tripleI)
  fix c a c' assume "since os t c" "inW m c = (Return a, c')"
  then show "since os t c'" using assms(1) by (fastforce simp: inW_def forward_def since_def split: prod.splits)
next
  fix c e c' assume c: "since os t c" "inW m c = (Raise e, c')"
  then obtain w where w: "m (world c) = (Raise e, w)" "c' = c\<lparr>world := w\<rparr>" by (auto simp: inW_def split: prod.splits)
  then have "now os (world c) \<le> now os w" using assms(1) by (auto simp: forward_def)
  moreover have "now os (world c) + d \<le> now os w" if "\<not> is_IOError e" using assms(2) w that by (auto simp: slow_def)
  ultimately show "(if is_IOError e then since os t else since os (t + d)) c'"
    using c(1) w(2) by (auto simp: since_def)
qed

lemma slow_failureD:
  assumes "slow_failure os d"
  shows "slow os d (open_shell os cmd nm)" "slow os d (enter_shell os sh)" "slow os d (set_timeout os sh to)"
    "slow os d (run os sh c u)" "0 < d"
  using assms by (auto simp: slow_failure_def)

lemma since_mono: "since os (t + d) c \<Longrightarrow> 0 \<le> d \<Longrightarrow> since os t c"
  by (simp add: since_def)

lemma open_attempt_since:
  assumes ok: "clock_ok os" and slow: "slow_failure os d"
  shows "triple (since os t) (open_attempt os cmd nm old)
    (\<lambda>(var, result). case result of None \<Rightarrow> since os t
       | Some e \<Rightarrow> if is_IOError e then since os t else since os (t + d)) (\<lambda>_ _. False)"
    (is "triple _ _ ?Q _")
proof -
  let ?E = "\<lambda>e. if is_IOError e then since os t else since os (t + d)"
  note step = inW_since [OF clock_okD(1) [OF ok] slow_failureD(1) [OF slow]]
    inW_since [OF clock_okD(5) [OF ok] slow_failureD(3) [OF slow]]
    inW_since [OF clock_okD(6) [OF ok] slow_failureD(4) [OF slow]]
  have d: "0 \<le> d" using slow_failureD(5) [OF slow] by simp
  have "triple (since os t) (seqE (inW (set_timeout os sh 30)) (run_in os sh ''echo 1'' None)) (\<lambda>_. since os t) ?E" for sh
    unfolding run_in_def by (rule triple_seq) (rule step, rule d)+
  then have first: "triple (since os t) (tryE (seqE (inW (set_timeout os sh 30)) (run_in os sh ''echo 1'' None)))
      (\<lambda>y. case y of Inr _ \<Rightarrow> since os t | Inl e \<Rightarrow> ?E e) (\<lambda>_ _. False)" for sh
    by (intro triple_try) simp
  have opened: "triple (since os t) (tryE (inW (open_shell os cmd nm)))
      (\<lambda>y. case y of Inr _ \<Rightarrow> since os t | Inl e \<Rightarrow> ?E e) (\<lambda>_ _. False)"
    by (rule triple_try) (simp, rule step, rule d)
  show ?thesis
    unfolding open_attempt_def
  proof (rule triple_bind [OF opened])
    fix x
    show "triple (case x of Inr _ \<Rightarrow> since os t | Inl e \<Rightarrow> ?E e) (case x of Inl e \<Rightarrow> ret (old, Some e)
       | Inr sh \<Rightarrow> bindE (tryE (seqE (inW (set_timeout os sh 30)) (run_in os sh ''echo 1'' None)))
           (\<lambda>y. case y of Inl e \<Rightarrow> ret (Some sh, Some e) | Inr _ \<Rightarrow> ret (Some sh, None))) ?Q (\<lambda>_ _. False)"
    proof (cases x)
      case (Inr sh)
      then show ?thesis
        by simp (rule triple_bind [OF first], auto intro: triple_ret split: sum.split)
    qed (auto intro: triple_ret)
  qed
qed

lemma open_attempt_ends: "clock_ok os \<Longrightarrow> ends (since os t) (open_attempt os cmd nm old)"
  unfolding open_attempt_def run_in_def
  by (intro ends_intro keeps_intro forward_inW [of os] clock_okD)

text \<open>
  A loop with \<open>n\<close> iterations left ends, when \<open>n\<close> failing attempts take longer than what is
  left of the timeout.
\<close>

lemma open_loop_ends:
  assumes ok: "clock_ok os" and slow: "slow_failure os d"
  shows "t - t0 \<le> timeout \<Longrightarrow> timeout < t - t0 + of_nat n * d \<Longrightarrow>
    ends (since os t) (open_loop os cmd nm msg timeout t0 n old)"
proof (induction n arbitrary: t old)
  case (Suc n)
  have next_loop: "ends (since os (t + d)) (bindE (clock os) (\<lambda>u.
      if u - t0 > timeout then raise (RuntimeError msg) else open_loop os cmd nm msg timeout t0 n var))" for var
  proof (rule ends_bind [of _ _ "\<lambda>u c. t + d \<le> u \<and> now os (world c) = u"])
    show "triple (since os (t + d)) (clock os) (\<lambda>u c. t + d \<le> u \<and> now os (world c) = u) (\<lambda>_ _. True)"
      unfolding clock_def by (rule triple_get) (simp add: since_def)
  next
    fix u
    have "ends (since os u) (open_loop os cmd nm msg timeout t0 n var)" if "t + d \<le> u" "u - t0 \<le> timeout"
      using that Suc.prems by (intro Suc.IH) (auto simp: algebra_simps)
    then show "ends (\<lambda>c. t + d \<le> u \<and> now os (world c) = u) (if u - t0 > timeout then raise (RuntimeError msg)
        else open_loop os cmd nm msg timeout t0 n var)"
      by (fastforce simp: ends_def since_def)
  qed (rule ends_intro)
  have handler: "ends (since os (t + d)) (seqE (shell_exit os sh) (bindE (clock os) (\<lambda>u.
      if u - t0 > timeout then raise (RuntimeError msg) else open_loop os cmd nm msg timeout t0 n var)))" for sh var
    by (rule ends_seq_keeps [OF shell_exit_since(2) [OF ok] shell_exit_since(1) [OF ok] next_loop])
  show ?case
    unfolding open_loop.simps
  proof (rule ends_bind [OF open_attempt_ends [OF ok] open_attempt_since [OF ok slow]])
    fix x
    show "ends ((\<lambda>(var, result). case result of None \<Rightarrow> since os t
         | Some e \<Rightarrow> if is_IOError e then since os t else since os (t + d)) x)
       ((\<lambda>(var, result). case result of
           None \<Rightarrow> (case var of None \<Rightarrow> raise (UnboundLocalError ''shell'') | Some sh \<Rightarrow> ret sh)
         | Some e \<Rightarrow> if is_IOError e \<or> \<not> is_Exception e then raise e
             else (case var of None \<Rightarrow> raise (UnboundLocalError ''shell'')
               | Some sh \<Rightarrow> seqE (shell_exit os sh) (bindE (clock os) (\<lambda>t.
                   if t - t0 > timeout then raise (RuntimeError msg)
                   else open_loop os cmd nm msg timeout t0 n var)))) x)"
      using handler by (auto intro: ends_intro split: prod.split option.split)
  qed
qed simp

lemma open_loop_since:
  "clock_ok os \<Longrightarrow> keeps (since os t) (open_loop os cmd nm msg timeout t0 n old)"
proof (induction n arbitrary: old)
  case 0
  then show ?case by (simp add: keeps_intro)
next
  case (Suc n)
  then show ?case
    unfolding open_loop.simps open_attempt_def run_in_def
    by (intro keeps_intro forward_inW [of os] shell_exit_since clock_okD) auto
qed

text \<open>The control shell is opened, with the timeout of 300 seconds, in the first \<open>fuel\<close> attempts.\<close>

definition enough_fuel :: "'w os \<Rightarrow> seconds \<Rightarrow> bool" where
  "enough_fuel os d \<longleftrightarrow> 300 < of_nat (fuel os) * d \<and> 25 \<le> fuel os"

lemma ends_mono: "ends P m \<Longrightarrow> (\<And>s. Q s \<Longrightarrow> P s) \<Longrightarrow> ends Q m"
  by (auto simp: ends_def)

lemma ends_since: "(\<And>u. t \<le> u \<Longrightarrow> ends (\<lambda>c. now os (world c) = u) m) \<Longrightarrow> ends (since os t) m"
  by (fastforce simp: ends_def since_def)

lemma ends_clock:
  assumes "\<And>u. t \<le> u \<Longrightarrow> ends (since os u) (f u)"
  shows "ends (since os t) (bindE (clock os) f)"
proof (rule ends_bind [of _ _ "\<lambda>u c. t \<le> u \<and> since os u c" "\<lambda>_ _. True"])
  show "triple (since os t) (clock os) (\<lambda>u c. t \<le> u \<and> since os u c) (\<lambda>_ _. True)"
    unfolding clock_def by (rule triple_get) (simp add: since_def)
next
  fix u
  show "ends (\<lambda>c. t \<le> u \<and> since os u c) (f u)"
    using assms [of u] by (auto simp: ends_def)
qed (rule ends_intro)

lemma control_shell_ends:
  assumes ok: "clock_ok os" and slow: "slow_failure os d" and fuel: "enough_fuel os d"
  shows "ends (since os t) (control_shell os)" "keeps (since os t) (control_shell os)"
proof -
  have "ends (since os u) (open_loop os None None msg 300 u (fuel os) None)" for u msg
    using fuel by (intro open_loop_ends [OF ok slow]) (auto simp: enough_fuel_def)
  then show "ends (since os t) (control_shell os)"
    unfolding control_shell_def
    by (intro ends_bind_keeps ends_case_option ends_clock ends_seq_keeps ends_pure keeps_intro open_loop_since ok) auto
  show "keeps (since os t) (control_shell os)"
    unfolding control_shell_def by (intro keeps_intro open_loop_since ok) auto
qed

lemma close_control_shell_ends:
  assumes ok: "clock_ok os"
  shows "ends (since os t) (close_control_shell os)" "keeps (since os t) (close_control_shell os)"
  unfolding close_control_shell_def by (intro keeps_intro ends_intro shell_exit_since ok; simp)+

lemma container_id_attempt_ends:
  assumes ok: "clock_ok os" and slow: "slow_failure os d" and fuel: "enough_fuel os d"
  shows "ends (since os t) (container_id_attempt os node timeout)"
    "keeps (since os t) (container_id_attempt os node timeout)"
  unfolding container_id_attempt_def run_in_def Let_def
  by (intro keeps_intro ends_intro control_shell_ends [OF ok slow fuel] close_control_shell_ends
      forward_inW [of os] clock_okD ok)+

text \<open>
  After \<open>k\<close> waits of one second the loop has used up at least \<open>0 + 1 + ... + (k - 1)\<close> of the
  timeout, since each round subtracts all of the time passed since the start.
\<close>

definition rounds_budget :: "nat \<Rightarrow> nat \<Rightarrow> seconds" where
  "rounds_budget k n = of_nat n * of_nat k + of_nat (n * (n - 1)) / 2"

lemma rounds_budget_Suc: "rounds_budget k (Suc n) = of_nat k + rounds_budget (Suc k) n"
  by (cases n) (simp_all add: rounds_budget_def field_simps)

lemma sleep_since:
  assumes "clock_ok os" and "0 \<le> d"
  shows "triple (since os t) (inW (sleep os d)) (\<lambda>_. since os (t + d)) (\<lambda>_ _. True)"
proof (rule tripleI)
  fix c a c' assume c: "since os t c" "inW (sleep os d) c = (Return a, c')"
  then obtain w where w: "sleep os d (world c) = (Return a, w)" "c' = c\<lparr>world := w\<rparr>"
    by (auto simp: inW_def split: prod.splits)
  moreover have "now os (world c) + d \<le> now os w" using assms w by (auto simp: clock_ok_def)
  ultimately show "since os (t + d) c'" using c by (simp add: since_def)
qed simp

lemma container_id_loop_ends:
  assumes ok: "clock_ok os" and slow: "slow_failure os d" and fuel: "enough_fuel os d"
  shows "0 < n \<Longrightarrow> timeout \<le> rounds_budget k n \<Longrightarrow>
    ends (since os (t0 + of_nat k)) (container_id_loop os node t0 n timeout)"
proof (induction n arbitrary: k timeout)
  case (Suc n)
  let ?again = "\<lambda>t. if timeout - (t - t0) \<le> 0
       then raise (RuntimeError (''failed to get docker container id for the '' @ node @ '' service''))
       else seqE (inW (sleep os 1)) (container_id_loop os node t0 n (timeout - (t - t0)))"
  have again: "ends (since os u) (?again u)" if u: "t0 + of_nat k \<le> u" for u
  proof (cases "timeout - (u - t0) \<le> 0")
    case False
    have left: "timeout - (u - t0) \<le> rounds_budget (Suc k) n"
      using Suc.prems(2) u by (simp add: rounds_budget_Suc)
    then have "0 < n" using False by (cases n) (auto simp: rounds_budget_def)
    have sleep: "triple (since os u) (inW (sleep os 1)) (\<lambda>_. since os (t0 + of_nat (Suc k))) (\<lambda>_ _. True)"
      by (rule triple_conseq [OF sleep_since [OF ok]]) (use u in \<open>auto simp: since_def\<close>)
    have "ends (since os u) (seqE (inW (sleep os 1)) (container_id_loop os node t0 n (timeout - (u - t0))))"
      by (rule ends_seq [OF _ sleep Suc.IH [OF \<open>0 < n\<close> left]]) (rule forward_inW [OF clock_okD(7) [OF ok]])
    with False show ?thesis by simp
  qed (simp add: ends_pure)
  show ?case
    unfolding container_id_loop.simps Let_def
    by (intro ends_bind_keeps [OF container_id_attempt_ends [OF ok slow fuel]] ends_case_option ends_clock again ends_pure)
qed simp

lemma container_id_loop_since:
  assumes ok: "clock_ok os" and slow: "slow_failure os d" and fuel: "enough_fuel os d"
  shows "keeps (since os t) (container_id_loop os node t0 n timeout)"
proof (induction n arbitrary: timeout)
  case 0
  then show ?case by (simp add: keeps_intro)
next
  case (Suc n)
  then show ?case
    unfolding container_id_loop.simps Let_def
    by (intro keeps_intro container_id_attempt_ends [OF ok slow fuel] forward_inW [of os] clock_okD ok) auto
qed

lemma container_of_ends:
  assumes ok: "clock_ok os" and slow: "slow_failure os d" and fuel: "enough_fuel os d" and "timeout \<le> 300"
  shows "ends (since os t) (container_of os node timeout)" "keeps (since os t) (container_of os node timeout)"
proof -
  note loop = container_id_loop_since [OF ok slow fuel]
  have "rounds_budget 0 25 \<le> rounds_budget 0 n" if "25 \<le> n" for n
  proof -
    have "25 * (25 - 1) \<le> n * (n - 1)" using that by (intro mult_le_mono) auto
    then have "of_nat (25 * (25 - 1)) \<le> (of_nat (n * (n - 1)) :: seconds)" by (simp only: of_nat_le_iff)
    then show ?thesis unfolding rounds_budget_def by (simp del: of_nat_mult)
  qed
  then have "timeout \<le> rounds_budget 0 (fuel os)"
    using assms(4) fuel by (force simp: enough_fuel_def rounds_budget_def)
  then have "ends (since os u) (container_id_loop os n u (fuel os) timeout)" for u n
    using container_id_loop_ends [OF ok slow fuel, of "fuel os" timeout 0 u] fuel by (auto simp: enough_fuel_def)
  then show "ends (since os t) (container_of os node timeout)"
    unfolding container_of_def node_container_id_def
    by (intro ends_intro ends_bind_keeps ends_clock keeps_intro loop)
  show "keeps (since os t) (container_of os node timeout)"
    unfolding container_of_def node_container_id_def by (intro keeps_intro loop)
qed

lemma bash_attempt_ends: "clock_ok os \<Longrightarrow> ends (since os t) (bash_attempt os i node cmd)"
  unfolding bash_attempt_def run_in_def
  by (intro ends_intro keeps_intro forward_inW [of os] clock_okD)

lemma bash_attempt_keeps: "clock_ok os \<Longrightarrow> keeps (since os t) (bash_attempt os i node cmd)"
  unfolding bash_attempt_def run_in_def
  by (intro keeps_intro forward_inW [of os] clock_okD)

text \<open>
  A failing attempt of \<open>bash\<close> takes \<open>d\<close>, or raises \<open>IOError\<close>, or finds no entry of the pool: but
  it reads the entry it has just written.
\<close>

lemma triple_pool_get:
  "triple (\<lambda>c. P c \<and> map_of (bash_pool c) i \<noteq> None) (pool_get i) (\<lambda>_. P) E"
  unfolding pool_get_def getitem_def
  by (rule tripleI) (auto simp: effect_iffs split: option.splits)

lemma bash_attempt_since:
  assumes ok: "clock_ok os" and slow: "slow_failure os d"
  shows "triple (since os t) (bash_attempt os i node cmd) (\<lambda>_. since os t)
    (\<lambda>e. if is_IOError e then since os t else since os (t + d))"
proof -
  let ?E = "\<lambda>e. if is_IOError e then since os t else since os (t + d)"
  let ?in = "\<lambda>c. since os t c \<and> map_of (bash_pool c) i \<noteq> None"
  have d: "0 \<le> d" using slow_failureD(5) [OF slow] by simp
  note step = inW_since [OF clock_okD(1) [OF ok] slow_failureD(1) [OF slow] d]
    inW_since [OF clock_okD(2) [OF ok] slow_failureD(2) [OF slow] d]
    inW_since [OF clock_okD(5) [OF ok] slow_failureD(3) [OF slow] d]
    inW_since [OF clock_okD(6) [OF ok] slow_failureD(4) [OF slow] d]
  have set: "triple (since os t) (pool_set i sh) (\<lambda>_. ?in) ?E" for sh
    unfolding pool_set_def by (rule triple_modify) (simp add: update_conv')
  have "triple (since os t) (case node of
         None \<Rightarrow> bindE (inW (open_shell os None None)) (pool_set i)
       | Some n \<Rightarrow> bindE (inW (open_shell os cmd (Some n))) (\<lambda>sh.
           seqE (inW (enter_shell os sh)) (pool_set i sh))) (\<lambda>_. ?in) ?E"
    by (cases node; simp only: option.case) (rule triple_bind triple_seq step set)+
  moreover have "triple ?in (bindE (pool_get i) (\<lambda>sh. seqE (inW (set_timeout os sh 30))
       (bindE (run_in os sh ''echo 1'' None) (\<lambda>_. ret ())))) (\<lambda>_. since os t) ?E"
    unfolding run_in_def by (rule triple_bind triple_seq triple_pool_get step triple_ret | assumption)+
  ultimately show ?thesis unfolding bash_attempt_def by (rule triple_seq)
qed

lemma bash_loop_ends:
  assumes ok: "clock_ok os" and slow: "slow_failure os d"
  shows "t - t0 \<le> timeout \<Longrightarrow> timeout < t - t0 + of_nat n * d \<Longrightarrow>
    ends (since os t) (bash_loop os i node cmd timeout t0 n)"
proof (induction n arbitrary: t)
  case (Suc n)
  let ?again = "\<lambda>u. if u - t0 > timeout then raise (RuntimeError (''failed to open bash to node '' @ node_text node))
      else bash_loop os i node cmd timeout t0 n"
  have "ends (since os u) (?again u)" if "t + d \<le> u" for u
    using that Suc.prems by (intro ends_if ends_pure Suc.IH) (auto simp: algebra_simps)
  then have handler: "ends (since os (t + d)) (bindE (pool_get i) (\<lambda>sh. seqE (shell_exit os sh) (bindE (clock os) ?again)))"
    by (intro ends_bind_keeps ends_seq_keeps ends_clock shell_exit_since ok ends_pool_ops keeps_pool_get)
  have attempt: "triple (since os t) (tryE (bash_attempt os i node cmd))
      (\<lambda>x. case x of Inr _ \<Rightarrow> since os t | Inl e \<Rightarrow> if is_IOError e then since os t else since os (t + d)) (\<lambda>_ _. True)"
    by (rule triple_try) (simp add: bash_attempt_since [OF ok slow])
  show ?case
    unfolding bash_loop.simps
    by (rule ends_bind [OF ends_try [OF bash_attempt_ends [OF ok]] attempt])
      (use handler in \<open>auto intro: ends_intro split: sum.split\<close>)
qed simp

lemma bash_loop_since: "clock_ok os \<Longrightarrow> keeps (since os t) (bash_loop os i node cmd timeout t0 n)"
proof (induction n)
  case 0
  then show ?case by (simp add: keeps_intro)
next
  case (Suc n)
  then show ?case
    unfolding bash_loop.simps by (intro keeps_intro bash_attempt_keeps shell_exit_since) auto
qed

lemma close_stale_ends:
  assumes ok: "clock_ok os"
  shows "ends (since os t) (close_stale os)" "keeps (since os t) (close_stale os)"
  unfolding close_stale_def by (intro ends_intro keeps_intro shell_exit_since ok)+

lemma ends_case_prod [ends_intro]:
  "(\<And>a b. x = (a, b) \<Longrightarrow> ends P (f a b)) \<Longrightarrow> ends P (case x of (a, b) \<Rightarrow> f a b)"
  by (cases x) auto

lemma open_bash_ends:
  assumes ok: "clock_ok os" and slow: "slow_failure os d" and fuel: "enough_fuel os d"
    and "0 \<le> timeout" "timeout \<le> 300"
  shows "ends (since os t) (open_bash os i node timeout command)"
proof -
  have "ends (since os u) (bash_loop os i node cmd timeout u (fuel os))" for u cmd
    using fuel assms(4,5) by (intro bash_loop_ends [OF ok slow]) (auto simp: enough_fuel_def)
  then show ?thesis
    unfolding open_bash_def prepare_bash_def run_in_def
    by (intro ends_bind_keeps ends_seq_keeps ends_clock ends_when ends_for ends_case_prod keeps_intro
        container_of_ends [OF ok slow fuel] bash_loop_since close_stale_ends forward_inW [of os] clock_okD ok
        ends_pure ends_pool_ops assms(5))
qed

lemma with_lock_ends:
  assumes "ends P m" and "keeps P m" and "\<And>c b. P (c\<lparr>lock_held := b\<rparr>) = P c"
  shows "ends (\<lambda>c. P c \<and> lock_free c) (with_lock m)"
proof -
  let ?locked = "seqE (modifyE (\<lambda>c. c\<lparr>lock_held := True\<rparr>)) (finallyE m (modifyE (\<lambda>c. c\<lparr>lock_held := False\<rparr>)))"
  have "ends P ?locked"
    by (intro ends_intro keeps_intro assms(1,2)) (simp_all add: assms(3))
  then show ?thesis
    by (auto simp: with_lock_def ends_def bindE_def getE_def)
qed

lemma open_bash_since:
  assumes ok: "clock_ok os" and slow: "slow_failure os d" and fuel: "enough_fuel os d" and "timeout \<le> 300"
  shows "keeps (since os t) (open_bash os i node timeout command)"
  unfolding open_bash_def prepare_bash_def run_in_def
  by (intro keeps_intro container_of_ends [OF ok slow fuel] bash_loop_since close_stale_ends
      forward_inW [of os] clock_okD ok assms(4))

section \<open>The entries of the pool\<close>

text \<open>A property of the pool alone.\<close>

lemma keeps_pool_world [keeps_world]: "keeps (\<lambda>c. Q (bash_pool c)) (inW m)"
  by (rule keeps_inW) simp

lemma pool_get_Return: "pool_get i c = (Return sh, c') \<longleftrightarrow> map_of (bash_pool c) i = Some sh \<and> c' = c"
  by (auto simp: pool_get_def getitem_def effect_iffs split: option.splits)

lemma pool_get_Raise: "pool_get i c = (Raise e, c') \<longleftrightarrow> map_of (bash_pool c) i = None \<and> e = KeyError [] \<and> c' = c"
  by (auto simp: pool_get_def getitem_def effect_iffs split: option.splits)

lemma pool_fields [simp]:
  "pool_set i sh c = (r, c') \<longleftrightarrow> r = Return () \<and> c' = c\<lparr>bash_pool := AList.update i sh (bash_pool c)\<rparr>"
  "pool_del i c = (r, c') \<longleftrightarrow> r = Return () \<and> c' = c\<lparr>bash_pool := AList.delete i (bash_pool c)\<rparr>"
  by (auto simp: pool_set_def pool_del_def)

text \<open>The entries other than the one of \<open>i\<close>.\<close>

abbreviation others :: "'k \<Rightarrow> ('k \<Rightarrow> 'v option) \<Rightarrow> ('k, 'v) pydict \<Rightarrow> bool" where
  "others i m d \<equiv> \<forall>j. j \<noteq> i \<longrightarrow> map_of d j = m j"

lemma keeps_others_ops [keeps_intro]:
  "keeps (\<lambda>c. others i m (bash_pool c)) (pool_set i sh)"
  unfolding pool_set_def by (rule keeps_modify) (simp add: update_conv')

lemma keeps_pool_fields:
  "keeps (\<lambda>c. Q (bash_pool c)) (control_shell os)" "keeps (\<lambda>c. Q (bash_pool c)) (close_control_shell os)"
  "keeps (\<lambda>c. Q (bash_pool c)) (shell_exit os sh)"
proof -
  have loop: "keeps (\<lambda>c. Q (bash_pool c)) (open_loop os cmd nm msg timeout t0 n old)" for cmd nm msg timeout t0 n old
  proof (induction n arbitrary: old)
    case 0
    then show ?case by (simp add: keeps_intro)
  next
    case (Suc n)
    then show ?case
      unfolding open_loop.simps open_attempt_def
      by (intro keeps_intro keeps_inW keeps_run_in keeps_shell_exit) auto
  qed
  show "keeps (\<lambda>c. Q (bash_pool c)) (control_shell os)"
    unfolding control_shell_def by (intro keeps_intro loop) auto
  show "keeps (\<lambda>c. Q (bash_pool c)) (close_control_shell os)" "keeps (\<lambda>c. Q (bash_pool c)) (shell_exit os sh)"
    unfolding close_control_shell_def by (intro keeps_intro keeps_shell_exit; simp)+
qed

lemma keeps_pool_container_of: "keeps (\<lambda>c. Q (bash_pool c)) (container_of os node timeout)"
proof -
  have "keeps (\<lambda>c. Q (bash_pool c)) (container_id_loop os n t0 k timeout)" for n t0 k timeout
  proof (induction k arbitrary: timeout)
    case 0
    then show ?case by (simp add: keeps_intro)
  next
    case (Suc k)
    then show ?case
      unfolding container_id_loop.simps container_id_attempt_def Let_def
      by (intro keeps_intro keeps_pool_fields keeps_pool_world keeps_run_in) auto
  qed
  then show ?thesis unfolding container_of_def node_container_id_def by (intro keeps_intro)
qed

lemma keeps_others_loop: "keeps (\<lambda>c. others i m (bash_pool c)) (bash_loop os i node cmd timeout t0 n)"
proof (induction n)
  case 0
  then show ?case by (simp add: keeps_intro)
next
  case (Suc n)
  have "keeps (\<lambda>c. others i m (bash_pool c)) (bash_attempt os i node cmd)"
    unfolding bash_attempt_def by (intro keeps_intro keeps_pool_world keeps_run_in) auto
  with Suc show ?case
    unfolding bash_loop.simps by (intro keeps_intro keeps_pool_fields) auto
qed

text \<open>Closing stale shells removes the entries of the ended threads and no other.\<close>

lemma close_entries:
  "triple (\<lambda>c. map_of (bash_pool c) = m)
     (forE ks (\<lambda>i. whenE (stale i) (bindE (pool_get i) (\<lambda>sh. seqE (shell_exit os sh) (pool_del i)))))
     (\<lambda>_ c. map_of (bash_pool c) = (\<lambda>j. if j \<in> set ks \<and> stale j then None else m j)) (\<lambda>_ _. True)"
proof (induction ks arbitrary: m)
  case Nil
  then show ?case by (auto intro: triple_ret)
next
  case (Cons k ks)
  let ?m = "if stale k then m(k := None) else m"
  have exit: "triple (\<lambda>c. map_of (bash_pool c) = m) (shell_exit os sh) (\<lambda>_ c. map_of (bash_pool c) = m) (\<lambda>_ _. True)" for sh
    by (rule triple_conseq [OF keeps_pool_fields(3) [unfolded keeps_def]]) auto
  have del: "triple (\<lambda>c. map_of (bash_pool c) = m) (pool_del k)
      (\<lambda>_ c. map_of (bash_pool c) = m(k := None)) (\<lambda>_ _. True)"
    unfolding pool_del_def by (rule triple_modify) (simp add: delete_conv')
  have get: "triple (\<lambda>c. map_of (bash_pool c) = m) (pool_get k) (\<lambda>_ c. map_of (bash_pool c) = m) (\<lambda>_ _. True)"
    by (rule tripleI) (auto simp: pool_get_Return)
  have "triple (\<lambda>c. map_of (bash_pool c) = m)
      (whenE (stale k) (bindE (pool_get k) (\<lambda>sh. seqE (shell_exit os sh) (pool_del k))))
      (\<lambda>_ c. map_of (bash_pool c) = ?m) (\<lambda>_ _. True)"
    by (cases "stale k") (auto intro!: triple_bind [OF get] triple_seq [OF exit] del triple_ret)
  then have "triple (\<lambda>c. map_of (bash_pool c) = m)
     (forE (k # ks) (\<lambda>i. whenE (stale i) (bindE (pool_get i) (\<lambda>sh. seqE (shell_exit os sh) (pool_del i)))))
     (\<lambda>_ c. map_of (bash_pool c) = (\<lambda>j. if j \<in> set ks \<and> stale j then None else ?m j)) (\<lambda>_ _. True)"
    unfolding forE.simps by (rule triple_seq) (rule Cons.IH)
  then show ?case by (rule triple_conseq) auto
qed

lemma close_stale_Return:
  assumes "close_stale os c = (Return (), c')"
  shows "map_of (bash_pool c') = (\<lambda>j. if fst j \<in> set (thread_names os (world c)) then map_of (bash_pool c) j else None)"
proof -
  have "forE (dict_keys (bash_pool c)) (\<lambda>i. whenE (fst i \<notin> set (thread_names os (world c)))
      (bindE (pool_get i) (\<lambda>sh. seqE (shell_exit os sh) (pool_del i)))) c = (Return (), c')"
    using assms by (simp add: close_stale_def bindE_def getE_def)
  from triple_Return [OF close_entries refl this]
  have "map_of (bash_pool c') = (\<lambda>j. if j \<in> set (dict_keys (bash_pool c)) \<and> fst j \<notin> set (thread_names os (world c))
      then None else map_of (bash_pool c) j)" .
  moreover have "map_of (bash_pool c) j = None" if "j \<notin> set (dict_keys (bash_pool c))" for j
    using that by (auto simp: dict_keys_def map_of_eq_None_iff)
  ultimately show ?thesis by auto
qed

text \<open>What a call of \<open>bash\<close> that returns leaves in the pool.\<close>

lemma with_lock_Return:
  "with_lock m c = (Return a, c') \<longleftrightarrow>
     lock_free c \<and> (\<exists>t. m (c\<lparr>lock_held := True\<rparr>) = (Return a, t) \<and> c' = t\<lparr>lock_held := False\<rparr>)"
  by (auto simp: with_lock_def effect_iffs finallyE_Return_iff out_of_fuel_def)

lemma finallyE_Raise_simple:
  "finallyE m (modifyE f) s = (Raise e, s') \<longleftrightarrow> (\<exists>t. m s = (Raise e, t) \<and> s' = f t)"
  by (auto simp: finallyE_def modifyE_def split: prod.splits outcome.splits)

lemma with_lock_Raise:
  "with_lock m c = (Raise e, c') \<longleftrightarrow>
     lock_free c \<and> (\<exists>t. m (c\<lparr>lock_held := True\<rparr>) = (Raise e, t) \<and> c' = t\<lparr>lock_held := False\<rparr>)"
  by (auto simp: with_lock_def effect_iffs finallyE_Raise_simple out_of_fuel_def)

lemma keeps_others_ends:
  assumes "keeps (\<lambda>c. others i (map_of (bash_pool c0)) (bash_pool c)) m" and "m c0 = (Return a, c)"
  shows "others i (map_of (bash_pool c0)) (bash_pool c)"
  using keepsD [OF assms(1) _ assms(2)] by simp

lemma keeps_others_prepare: "keeps (\<lambda>c. others i m (bash_pool c)) (prepare_bash os i node timeout command)"
  unfolding prepare_bash_def
  by (intro keeps_intro keeps_others_loop keeps_pool_container_of keeps_inW keeps_run_in) auto

lemma open_bash_Return:
  assumes "open_bash os i node timeout command c = (Return u, c')"
  shows "\<exists>w. \<forall>j. j \<noteq> i \<longrightarrow>
    map_of (bash_pool c') j = (if fst j \<in> set (thread_names os w) then map_of (bash_pool c) j else None)"
proof -
  let ?P = "\<lambda>c1. others i (map_of (bash_pool c)) (bash_pool c1)"
  obtain v c1 where c1: "prepare_bash os i node timeout command c = (Return v, c1)"
    and stale: "close_stale os c1 = (Return u, c')"
    using assms unfolding open_bash_def seqE_Return_iff by blast
  have "?P c1" using keepsD [OF keeps_others_prepare [of i "map_of (bash_pool c)"] _ c1] by simp
  with stale show ?thesis using close_stale_Return [of os c1 c'] by auto
qed

section \<open>Failure to open a shell\<close>

text \<open>
  What the world's operations raise: \<open>IOError\<close>, or the timeout of a shell.
\<close>

definition shell_error :: "exn \<Rightarrow> bool" where
  "shell_error e \<longleftrightarrow> is_IOError e \<or> e = ExpectTimeoutError"

definition shell_errors_only :: "'w os \<Rightarrow> bool" where
  "shell_errors_only os \<longleftrightarrow>
     (\<forall>cmd nm. throws shell_error (open_shell os cmd nm)) \<and> (\<forall>sh. throws shell_error (enter_shell os sh)) \<and>
     (\<forall>sh t. throws shell_error (send os sh t)) \<and> (\<forall>sh. throws shell_error (base_exit os sh)) \<and>
     (\<forall>sh t. throws shell_error (set_timeout os sh t)) \<and> (\<forall>sh cmd t. throws shell_error (run os sh cmd t)) \<and>
     (\<forall>d. throws shell_error (sleep os d))"

lemma throws_inW: "throws E m \<Longrightarrow> throws E (inW m)"
  by (rule throwsI) (auto simp: inW_def dest: throwsD split: prod.splits)

lemma throws_weaken: "throws E m \<Longrightarrow> (\<And>e. E e \<Longrightarrow> F e) \<Longrightarrow> throws F m"
  by (rule throwsI) (auto dest: throwsD)

lemma os_throws:
  assumes "shell_errors_only os" and "\<And>e. shell_error e \<Longrightarrow> F e"
  shows "throws F (inW (open_shell os cmd nm))" "throws F (inW (enter_shell os sh))" "throws F (inW (send os sh t))"
    "throws F (inW (base_exit os sh))" "throws F (inW (set_timeout os sh d))" "throws F (inW (run os sh c u))"
    "throws F (inW (sleep os d))"
  using assms(1) unfolding shell_errors_only_def
  by (blast intro: throws_weaken throws_inW assms(2))+

lemma throws_getitem: "F (KeyError []) \<Longrightarrow> throws F (getitem d k)"
  unfolding getitem_def by (intro throws_intro)

lemma throws_pool_ops:
  "F (KeyError []) \<Longrightarrow> throws F (pool_get i)" "throws F (pool_set i sh)" "throws F (pool_del i)" "throws F (clock os)"
  unfolding pool_get_def pool_set_def pool_del_def clock_def by (intro throws_intro throws_getitem; simp)+

lemma throws_shell_exit: "shell_errors_only os \<Longrightarrow> (\<And>e. shell_error e \<Longrightarrow> F e) \<Longrightarrow> throws F (shell_exit os sh)"
  unfolding shell_exit_def
  by (intro throws_intro throws_catch [of shell_error] os_throws) (auto simp: shell_error_def)

lemma bash_loop_Raise:
  assumes "shell_errors_only os"
  shows "bash_loop os i node cmd timeout t0 n c = (Raise (RuntimeError msg), c') \<Longrightarrow>
    \<exists>sh c1. shell_exit os sh c1 = (Return (), c') \<and> map_of (bash_pool c') i = Some sh"
proof (induction n arbitrary: c)
  case (Suc n)
  obtain x c0 where x: "tryE (bash_attempt os i node cmd) c = (Return x, c0)"
    and rest: "(case x of Inr _ \<Rightarrow> ret () | Inl e \<Rightarrow> if is_IOError e \<or> \<not> is_Exception e then raise e
         else bindE (pool_get i) (\<lambda>sh. seqE (shell_exit os sh) (bindE (clock os) (\<lambda>t.
             if t - t0 > timeout then raise (RuntimeError (''failed to open bash to node '' @ node_text node))
             else bash_loop os i node cmd timeout t0 n)))) c0 = (Raise (RuntimeError msg), c')"
    using Suc.prems unfolding bash_loop.simps bindE_Raise_iff by auto
  obtain e where "x = Inl e" and "\<not> (is_IOError e \<or> \<not> is_Exception e)"
    using rest by (cases x) (auto split: if_splits)
  with rest obtain sh where sh: "map_of (bash_pool c0) i = Some sh" and "seqE (shell_exit os sh) (bindE (clock os) (\<lambda>t.
      if t - t0 > timeout then raise (RuntimeError (''failed to open bash to node '' @ node_text node))
      else bash_loop os i node cmd timeout t0 n)) c0 = (Raise (RuntimeError msg), c')"
    by (auto simp: bindE_Raise_iff pool_get_Raise pool_get_Return)
  moreover have "shell_exit os sh c0 \<noteq> (Raise (RuntimeError msg), c')"
    using throwsD [OF throws_shell_exit [OF assms, of shell_error]] by (fastforce simp: shell_error_def)
  ultimately obtain c1 where exit: "shell_exit os sh c0 = (Return (), c1)"
    and last: "(if now os (world c1) - t0 > timeout then raise (RuntimeError (''failed to open bash to node '' @ node_text node))
      else bash_loop os i node cmd timeout t0 n) c1 = (Raise (RuntimeError msg), c')"
    by (auto simp: seqE_Raise_iff clock_def bindE_def getE_def)
  have "map_of (bash_pool c1) i = Some sh"
    using keepsD [OF keeps_pool_fields(3) [of "\<lambda>d. map_of d i = Some sh"] sh exit] by simp
  with exit last Suc.IH show ?case by (auto split: if_splits)
qed (simp add: out_of_fuel_def)

lemma throws_control_shell:
  assumes "shell_errors_only os" and "\<And>e. shell_error e \<Longrightarrow> F e"
    and "F (UnboundLocalError ''shell'')" and "F (RuntimeError ''failed to open control shell'')"
  shows "throws F (control_shell os)"
proof -
  have attempt: "triple (\<lambda>_. True) (open_attempt os cmd nm old)
      (\<lambda>(var, x) _. case x of None \<Rightarrow> True | Some e \<Rightarrow> F e) (\<lambda>e _. F e)" for cmd nm old
  proof -
    let ?Q = "\<lambda>x _. case x of Inl e \<Rightarrow> F e | Inr _ \<Rightarrow> True"
    have opened: "triple (\<lambda>_. True) (tryE (inW (open_shell os cmd nm))) ?Q (\<lambda>e _. F e)"
      by (rule triple_try_throws [OF os_throws(1) [OF assms(1,2)]]) simp_all
    have "throws F (seqE (inW (set_timeout os sh 30)) (inW (run os sh ''echo 1'' None)))" for sh
      by (intro throws_intro os_throws assms(1,2))
    then have first: "triple (\<lambda>_. True) (tryE (seqE (inW (set_timeout os sh 30)) (inW (run os sh ''echo 1'' None)))) ?Q (\<lambda>e _. F e)" for sh
      by (rule triple_try_throws) simp_all
    have tried: "triple (\<lambda>_. True) (bindE (tryE (seqE (inW (set_timeout os sh 30)) (inW (run os sh ''echo 1'' None))))
        (\<lambda>y. case y of Inl e \<Rightarrow> ret (Some sh, Some e) | Inr _ \<Rightarrow> ret (Some sh, None)))
        (\<lambda>(var, x) _. case x of None \<Rightarrow> True | Some e \<Rightarrow> F e) (\<lambda>e _. F e)" for sh
      by (rule triple_bind [OF first]) (auto intro: triple_ret split: sum.split)
    show ?thesis
      unfolding open_attempt_def run_in_def
      by (rule triple_bind [OF opened]) (auto intro: triple_ret triple_pre [OF _ tried] split: sum.split)
  qed
  have "throws F (open_loop os cmd nm ''failed to open control shell'' timeout t0 n old)" for cmd nm timeout t0 n old
  proof (induction n arbitrary: old)
    case (Suc n)
    have step: "triple (\<lambda>_. case x of None \<Rightarrow> True | Some e \<Rightarrow> F e)
        (case x of None \<Rightarrow> (case var of None \<Rightarrow> raise (UnboundLocalError ''shell'') | Some sh \<Rightarrow> ret sh)
         | Some e \<Rightarrow> if is_IOError e \<or> \<not> is_Exception e then raise e
             else (case var of None \<Rightarrow> raise (UnboundLocalError ''shell'')
               | Some sh \<Rightarrow> seqE (shell_exit os sh) (bindE (clock os) (\<lambda>t.
                   if t - t0 > timeout then raise (RuntimeError ''failed to open control shell'')
                   else open_loop os cmd nm ''failed to open control shell'' timeout t0 n var))))
        (\<lambda>_ _. True) (\<lambda>e _. F e)" for var x
    proof (cases "case x of None \<Rightarrow> True | Some e \<Rightarrow> F e")
      case True
      then show ?thesis
        unfolding throws_def [symmetric] using assms(3,4) Suc
        by (auto intro!: throws_intro throws_shell_exit throws_pool_ops assms(1,2) simp: throws_def [symmetric]
            split: option.splits)
    qed (auto intro: tripleI)
    show ?case
      unfolding open_loop.simps throws_def
    proof (rule triple_bind [OF attempt], goal_cases)
      case (1 p)
      show ?case by (cases p) (simp only: prod.case, rule step)
    qed
  qed (simp add: throws_intro)
  then show ?thesis
    unfolding control_shell_def by (intro throws_intro throws_pool_ops)
qed

lemma throws_container_of:
  assumes "shell_errors_only os" and F: "\<And>e. shell_error e \<Longrightarrow> F e"
    and "F (UnboundLocalError ''shell'')" and "F (RuntimeError ''failed to open control shell'')"
    and "\<And>n. F (RuntimeError (''failed to get docker container id for the '' @ n @ '' service''))"
  shows "throws F (container_of os node timeout)"
proof -
  note control = throws_control_shell [OF assms(1-4)]
  have close: "throws F (close_control_shell os)"
    unfolding close_control_shell_def by (intro throws_intro throws_shell_exit [OF assms(1) F])
  have attempt: "throws F (container_id_attempt os n timeout')" for n timeout'
    unfolding container_id_attempt_def run_in_def Let_def sum.case
  proof (rule throws_bind_try)
    show "throws F (bindE (control_shell os) (\<lambda>sh. bindE (getE docker_compose) (\<lambda>dc.
        inW (run os sh (dc @ '' ps -q '' @ n) (Some timeout')))))"
      by (intro throws_intro control os_throws [OF assms(1) F])
  qed (use close in \<open>auto intro!: throws_intro\<close>)
  have "throws F (container_id_loop os n t0 k timeout')" for n t0 k timeout'
  proof (induction k arbitrary: timeout')
    case (Suc k)
    then show ?case
      unfolding container_id_loop.simps Let_def
      by (intro throws_intro attempt throws_pool_ops os_throws [OF assms(1) F] assms(5))
  qed (simp add: throws_intro)
  then show ?thesis
    unfolding container_of_def node_container_id_def by (intro throws_intro throws_pool_ops)
qed

lemma prepare_bash_Raise:
  assumes "shell_errors_only os"
    and "prepare_bash os i node timeout command c = (Raise (RuntimeError (''failed to open bash to node '' @ nm)), c')"
  shows "\<exists>sh c1. shell_exit os sh c1 = (Return (), c') \<and> map_of (bash_pool c') i = Some sh"
proof -
  define E where "E = RuntimeError (''failed to open bash to node '' @ nm)"
  let ?F = "\<lambda>e. e \<noteq> E"
  have F: "?F e" if "shell_error e" for e using that by (auto simp: shell_error_def E_def)
  have other: "?F (KeyError [])" "?F (UnboundLocalError ''shell'')" "?F (RuntimeError ''failed to open control shell'')"
    "?F (RuntimeError (''failed to get docker container id for the '' @ n @ '' service''))" for n
    by (simp_all add: E_def)
  have container: "container_of os node timeout s \<noteq> (Raise E, s')" for s s'
    using throwsD [OF throws_container_of [OF assms(1) F other(2-4)]] by fastforce
  have "throws ?F (seqE (whenE (node = None)
        (bindE (getE environ) (\<lambda>env. forE env (\<lambda>(nm, v).
          bindE (pool_get i) (\<lambda>sh. bindE (run_in os sh (''export '' @ nm @ ''='' @ v) None) (\<lambda>_. ret ()))))))
     (bindE (pool_get i) (\<lambda>sh. inW (set_timeout os sh timeout))))" (is "throws _ ?after")
    unfolding run_in_def by (intro throws_intro throws_pool_ops os_throws [OF assms(1) F] other)
  then have after: "?after s \<noteq> (Raise E, s')" for s s' by (fastforce dest: throwsD)
  obtain cmd t0 c0 where "bash_loop os i node cmd timeout t0 (fuel os) c0 = (Raise E, c')"
    using assms(2) container after
    unfolding prepare_bash_def E_def [symmetric] bindE_Raise_iff [of "container_of _ _ _"] clock_def
      bindE_Raise_iff [of "getE _"] seqE_Raise_iff [of "bash_loop _ _ _ _ _ _ _"] getE_iff
    by blast
  then show ?thesis unfolding E_def by (rule bash_loop_Raise [OF assms(1)])
qed

section \<open>Closing shells\<close>

lemma pop_entries:
  "triple (\<lambda>c. map_of (bash_pool c) = m)
     (forE ks (\<lambda>i. whenE (sel i) (bindE (pool_get i) (\<lambda>sh. seqE (pool_del i) (shell_exit os sh)))))
     (\<lambda>_ c. map_of (bash_pool c) = (\<lambda>j. if j \<in> set ks \<and> sel j then None else m j)) (\<lambda>_ _. True)"
proof (induction ks arbitrary: m)
  case Nil
  then show ?case by (auto intro: triple_ret)
next
  case (Cons k ks)
  let ?m = "if sel k then m(k := None) else m"
  have exit: "triple (\<lambda>c. map_of (bash_pool c) = m') (shell_exit os sh) (\<lambda>_ c. map_of (bash_pool c) = m') (\<lambda>_ _. True)" for sh m'
    by (rule triple_conseq [OF keeps_pool_fields(3) [unfolded keeps_def]]) auto
  have del: "triple (\<lambda>c. map_of (bash_pool c) = m) (pool_del k)
      (\<lambda>_ c. map_of (bash_pool c) = m(k := None)) (\<lambda>_ _. True)"
    unfolding pool_del_def by (rule triple_modify) (simp add: delete_conv')
  have get: "triple (\<lambda>c. map_of (bash_pool c) = m) (pool_get k) (\<lambda>_ c. map_of (bash_pool c) = m) (\<lambda>_ _. True)"
    by (rule tripleI) (auto simp: pool_get_Return)
  have "triple (\<lambda>c. map_of (bash_pool c) = m)
      (whenE (sel k) (bindE (pool_get k) (\<lambda>sh. seqE (pool_del k) (shell_exit os sh))))
      (\<lambda>_ c. map_of (bash_pool c) = ?m) (\<lambda>_ _. True)"
    by (cases "sel k") (auto intro!: triple_bind [OF get] triple_seq [OF del] exit triple_ret)
  then have "triple (\<lambda>c. map_of (bash_pool c) = m)
     (forE (k # ks) (\<lambda>i. whenE (sel i) (bindE (pool_get i) (\<lambda>sh. seqE (pool_del i) (shell_exit os sh)))))
     (\<lambda>_ c. map_of (bash_pool c) = (\<lambda>j. if j \<in> set ks \<and> sel j then None else ?m j)) (\<lambda>_ _. True)"
    unfolding forE.simps by (rule triple_seq) (rule Cons.IH)
  then show ?case by (rule triple_conseq) auto
qed

lemma map_of_absent_key: "j \<notin> set (dict_keys d) \<Longrightarrow> map_of d j = None"
  by (auto simp: dict_keys_def map_of_eq_None_iff)

lemma close_bashes_Return:
  assumes "close_bashes os nm c = (Return u, c')"
  shows "map_of (bash_pool c') = (\<lambda>j. if endswith (snd j) nm then None else map_of (bash_pool c) j)"
proof -
  let ?c = "c\<lparr>lock_held := True\<rparr>"
  obtain t where c': "c' = t\<lparr>lock_held := False\<rparr>" and "forE (dict_keys (bash_pool c)) (\<lambda>i. whenE (endswith (snd i) nm)
      (bindE (pool_get i) (\<lambda>sh. seqE (pool_del i) (shell_exit os sh)))) ?c = (Return u, t)"
    using assms by (auto simp: close_bashes_def with_lock_Return bindE_getE)
  from triple_Return [OF pop_entries refl this(2)] c'
  have "map_of (bash_pool c') = (\<lambda>j. if j \<in> set (dict_keys (bash_pool c)) \<and> endswith (snd j) nm then None
      else map_of (bash_pool c) j)" by (simp cong: if_cong)
  then show ?thesis using map_of_absent_key by fastforce
qed

section \<open>A simulated world\<close>

text \<open>
  A world for the witnesses: a clock, the next shell, the shells that were closed and the
  commands run. A command for which \<open>reply\<close> has no answer times out after 30 seconds.
\<close>

record sim =
  sim_clock :: seconds
  sim_next :: nat
  sim_closed :: "nat list"
  sim_log :: "(nat \<times> string) list"

definition sim_os :: "(string \<Rightarrow> cmd_result option) \<Rightarrow> sim os" where
  "sim_os reply = \<lparr>
     open_shell = (\<lambda>_ _ w. (Return (sim_next w), w\<lparr>sim_next := sim_next w + 1\<rparr>)),
     enter_shell = (\<lambda>_. ret ()),
     child_alive = (\<lambda>_ _. False),
     send = (\<lambda>_ _. ret ()),
     base_exit = (\<lambda>sh. modifyE (\<lambda>w. w\<lparr>sim_closed := sh # sim_closed w\<rparr>)),
     set_timeout = (\<lambda>_ _. ret ()),
     run = (\<lambda>sh cmd _ w. (case reply cmd of
         None \<Rightarrow> (Raise ExpectTimeoutError, w\<lparr>sim_clock := sim_clock w + 30\<rparr>)
       | Some r \<Rightarrow> (Return r, w\<lparr>sim_log := sim_log w @ [(sh, cmd)]\<rparr>))),
     now = sim_clock,
     sleep = (\<lambda>d. modifyE (\<lambda>w. w\<lparr>sim_clock := sim_clock w + d\<rparr>)),
     current_thread = (\<lambda>_. ''main''),
     thread_names = (\<lambda>_. [''main'']),
     path_exists = (\<lambda>_ _. True),
     remove_path = (\<lambda>_. ret ()),
     make_dir = (\<lambda>_. ret ()),
     make_dirs = (\<lambda>_. ret ()),
     temp_file_name = (\<lambda>_. ret ''/tmp/query''),
     uuid1 = ret ''uuid'',
     retries = (\<lambda>_ _ body. body 0),
     retry = (\<lambda>_ m. m),
     fuel = 30\<rparr>"

definition sim_start :: sim where
  "sim_start = \<lparr>sim_clock = 0, sim_next = 0, sim_closed = [], sim_log = []\<rparr>"

definition sim_cluster :: "sim cluster" where
  "sim_cluster = \<lparr>bash_pool = [((''old'', ''clickhouse1''), 7)], ctl_shell = None, lock_held = False, environ = [],
     binary_path = None, odbc_bridge_path = None, configs_dir = ''configs'', is_local = True,
     cluster_nodes = [(''clickhouse'', [''clickhouse1''])], docker_compose = ''dc'', project_dir = ''env'',
     thread_fuzzer = False, running = False, collect_service_logs = False, use_zookeeper_nodes = False,
     context_version = None, default_query_settings = [], world = sim_start\<rparr>"

definition sim_answers :: "string \<Rightarrow> cmd_result option" where
  "sim_answers cmd = Some \<lparr>cmd_output = ''c0ffee'' @ newline, cmd_exitcode = 0\<rparr>"

definition sim_mute :: "string \<Rightarrow> cmd_result option" where
  "sim_mute cmd = (if cmd = ''echo 1'' then None else sim_answers cmd)"

lemmas sim_defs = sim_os_def sim_start_def sim_cluster_def sim_answers_def sim_mute_def

lemma sim_laws:
  "clock_ok (sim_os reply)" "slow_failure (sim_os reply) 30" "enough_fuel (sim_os reply) 30"
  "shell_errors_only (sim_os reply)"
  by (auto simp: clock_ok_def slow_failure_def enough_fuel_def shell_errors_only_def shell_error_def sim_os_def
      forward_def slow_def intro!: throwsI split: option.splits)

section \<open>Properties\<close>

text \<open>C3. \<open>Cluster.bash\<close> always ends, whatever the containers do: with a world whose calls end
  and whose clock advances, in which a shell that does not answer takes \<open>d\<close> seconds to
  fail, called with a timeout of at most its default of 300 seconds and with the lock
  free, none of its four nested waits runs forever, it never blocks on the lock, and
  the lock is free again when it returns or raises.\<close>

theorem bash_always_ends:
  assumes "clock_ok os" and "slow_failure os d" and "enough_fuel os d"
    and "0 \<le> timeout" and "timeout \<le> 300" and "lock_free c"
  shows "fst (bash os node timeout command c) \<noteq> OutOfFuel \<and> lock_free (snd (bash os node timeout command c))"
proof -
  let ?t = "now os (world c)"
  let ?body = "\<lambda>i. bindE (getE bash_pool) (\<lambda>d.
      seqE (whenE (map_of d i = None) (open_bash os i node timeout command)) (pool_get i))"
  have "ends (since os ?t) (?body i)" "keeps (since os ?t) (?body i)" for i
    by (intro ends_intro keeps_intro open_bash_ends [of os d] open_bash_since [of os d] assms(1-5))+
  then have "ends (\<lambda>c. since os ?t c \<and> lock_free c) (with_lock (?body i))" for i
    by (rule with_lock_ends) simp
  then have "ends (\<lambda>c. since os ?t c \<and> lock_free c) (bash os node timeout command)"
    unfolding bash_def by (intro ends_bind_keeps ends_pool_ops keeps_bash_id)
  then have ends: "fst (bash os node timeout command c) \<noteq> OutOfFuel"
    using assms(6) by (cases "bash os node timeout command c") (auto simp: ends_def since_def)
  then show ?thesis
    using keepsD [OF bash_releases assms(6)] by (metis prod.collapse)
qed

theorem bash_always_ends_witness:
  "fst (bash (sim_os sim_mute) (Some ''clickhouse1'') 300 ''bash --noediting'' sim_cluster) \<noteq> OutOfFuel \<and>
   lock_free (snd (bash (sim_os sim_mute) (Some ''clickhouse1'') 300 ''bash --noediting'' sim_cluster))"
  by (rule bash_always_ends [OF sim_laws(1,2,3)]) (simp_all add: sim_cluster_def)

text \<open>C10. A call of \<open>Cluster.bash\<close> that returns gives the shell that the pool holds for this
  thread and node; if the pool had one already, nothing at all changes, and otherwise
  every other entry is kept, apart from those of the threads that have ended, whose
  shells are removed.\<close>

theorem bash_pool_contract:
  assumes "bash os node timeout command c = (Return sh, c')"
  defines "i \<equiv> (current_thread os (world c), node_text node)"
  shows "map_of (bash_pool c') i = Some sh \<and>
    (map_of (bash_pool c) i = Some sh \<and> c' = c \<or>
     map_of (bash_pool c) i = None \<and>
     (\<exists>w. \<forall>j. j \<noteq> i \<longrightarrow>
        map_of (bash_pool c') j = (if fst j \<in> set (thread_names os w) then map_of (bash_pool c) j else None)))"
proof -
  obtain t where free: "lock_free c" and c': "c' = t\<lparr>lock_held := False\<rparr>" and
    run: "seqE (whenE (map_of (bash_pool c) i = None) (open_bash os i node timeout command)) (pool_get i)
      (c\<lparr>lock_held := True\<rparr>) = (Return sh, t)"
    using assms(1) unfolding bash_def bash_id_def i_def
    by (auto simp: bindE_getE with_lock_Return)
  obtain u c1 where c1: "whenE (map_of (bash_pool c) i = None) (open_bash os i node timeout command)
      (c\<lparr>lock_held := True\<rparr>) = (Return u, c1)" and get: "map_of (bash_pool c1) i = Some sh" "t = c1"
    using run by (auto simp: seqE_Return_iff pool_get_Return)
  show ?thesis
  proof (cases "map_of (bash_pool c) i")
    case None
    with c1 have "open_bash os i node timeout command (c\<lparr>lock_held := True\<rparr>) = (Return u, c1)" by simp
    from open_bash_Return [OF this] obtain w where "\<forall>j. j \<noteq> i \<longrightarrow> map_of (bash_pool c1) j =
        (if fst j \<in> set (thread_names os w) then map_of (bash_pool (c\<lparr>lock_held := True\<rparr>)) j else None)" by blast
    then have "\<forall>j. j \<noteq> i \<longrightarrow> map_of (bash_pool c') j =
        (if fst j \<in> set (thread_names os w) then map_of (bash_pool c) j else None)" using get c' by simp
    with get c' None show ?thesis by auto
  next
    case (Some sh')
    with c1 have "c1 = c\<lparr>lock_held := True\<rparr>" by simp
    with get c' Some free show ?thesis by (auto intro: cluster.equality)
  qed
qed

text \<open>In the witness the pool has a shell of a thread that has ended, which is removed.\<close>

lemma sim_bash:
  "bash (sim_os sim_answers) (Some ''clickhouse1'') 300 ''bash --noediting'' sim_cluster =
     (Return 1, sim_cluster\<lparr>bash_pool := [((''main'', ''clickhouse1''), 1)], ctl_shell := Some 0,
       world := \<lparr>sim_clock = 0, sim_next = 2, sim_closed = [7],
         sim_log = [(0, ''echo 1''), (0, ''dc ps -q clickhouse1''), (1, ''echo 1'')]\<rparr>\<rparr>)"
  by code_simp

theorem bash_pool_contract_witness:
  "map_of (bash_pool (snd (bash (sim_os sim_answers) (Some ''clickhouse1'') 300 ''bash --noediting'' sim_cluster)))
     (''main'', ''clickhouse1'') = Some 1"
  using bash_pool_contract [OF sim_bash] unfolding sim_bash by (simp add: sim_os_def node_text_def)

text \<open>When \<open>Cluster.bash\<close> gives up on a node with its \<open>RuntimeError\<close>, it leaves the shell it
  has just closed in the pool: the next call from the same thread, with any timeout,
  returns that closed shell at once, without an attempt to open a working one.\<close>

theorem bash_failure_leaves_closed_shell:
  assumes "shell_errors_only os"
    and "bash os node timeout command c = (Raise (RuntimeError (''failed to open bash to node '' @ node_text node)), c')"
    and "current_thread os (world c') = current_thread os (world c)"
  shows "\<exists>sh c1 c2. shell_exit os sh c1 = (Return (), c2) \<and> c' = c2\<lparr>lock_held := False\<rparr> \<and>
    bash os node timeout' command' c' = (Return sh, c')"
proof -
  define i where "i = (current_thread os (world c), node_text node)"
  let ?E = "RuntimeError (''failed to open bash to node '' @ node_text node)"
  obtain t where c': "c' = t\<lparr>lock_held := False\<rparr>" and
    run: "seqE (whenE (map_of (bash_pool c) i = None) (open_bash os i node timeout command)) (pool_get i)
      (c\<lparr>lock_held := True\<rparr>) = (Raise ?E, t)"
    using assms(2) unfolding bash_def bash_id_def i_def
    by (auto simp: bindE_getE with_lock_Raise)
  have stale: "close_stale os s \<noteq> (Raise ?E, s')" for s s'
  proof -
    have "throws (\<lambda>e. e \<noteq> ?E) (close_stale os)"
      unfolding close_stale_def
      by (intro throws_intro throws_pool_ops throws_shell_exit [OF assms(1)]) (auto simp: shell_error_def)
    then show ?thesis by (fastforce dest: throwsD)
  qed
  obtain t' where "prepare_bash os i node timeout command (c\<lparr>lock_held := True\<rparr>) = (Raise ?E, t)"
    using run stale unfolding seqE_Raise_iff pool_get_Raise open_bash_def
    by (cases "map_of (bash_pool c) i = None") (auto simp: seqE_Raise_iff)
  from prepare_bash_Raise [OF assms(1) this]
  obtain sh c1 where sh: "shell_exit os sh c1 = (Return (), t)" "map_of (bash_pool t) i = Some sh" by blast
  have "bash os node timeout' command' c' = (Return sh, c')"
    using sh(2) assms(3) c' unfolding bash_def bash_id_def i_def
    by (simp add: bindE_getE with_lock_Return pool_get_Return)
  with sh(1) c' show ?thesis by blast
qed

lemma sim_bash_mute:
  "\<exists>c'. bash (sim_os sim_mute) None 300 ''bash --noediting'' sim_cluster =
      (Raise (RuntimeError (''failed to open bash to node '' @ node_text None)), c') \<and>
    current_thread (sim_os sim_mute) (world c') = current_thread (sim_os sim_mute) (world sim_cluster)"
proof -
  have "fst (bash (sim_os sim_mute) None 300 ''bash --noediting'' sim_cluster) =
      Raise (RuntimeError (''failed to open bash to node '' @ node_text None))" by code_simp
  moreover have "current_thread (sim_os sim_mute) w = ''main''" for w by (simp add: sim_os_def)
  ultimately show ?thesis
    by (cases "bash (sim_os sim_mute) None 300 ''bash --noediting'' sim_cluster") simp
qed

theorem bash_failure_leaves_closed_shell_witness:
  "\<exists>c' sh c1 c2. shell_exit (sim_os sim_mute) sh c1 = (Return (), c2) \<and> c' = c2\<lparr>lock_held := False\<rparr> \<and>
    bash (sim_os sim_mute) None 300 ''bash --noediting'' c' = (Return sh, c')"
proof -
  obtain c' where c': "bash (sim_os sim_mute) None 300 ''bash --noediting'' sim_cluster =
      (Raise (RuntimeError (''failed to open bash to node '' @ node_text None)), c')"
    "current_thread (sim_os sim_mute) (world c') = current_thread (sim_os sim_mute) (world sim_cluster)"
    using sim_bash_mute by blast
  show ?thesis
    using bash_failure_leaves_closed_shell [OF sim_laws(4) c', of 300 "''bash --noediting''"] by blast
qed

text \<open>However the requests for the identifier of a container end, \<open>node_container_id\<close> makes at
  most 25 of them with the default timeout of 300 seconds, and then returns or raises:
  every round subtracts the whole time since the start, not the time since the last
  round, so that a service that answers at once with no container is given up after 24
  seconds instead of 300.\<close>

theorem node_container_id_rounds:
  assumes "clock_ok os" and "slow_failure os d" and "enough_fuel os d" and "timeout \<le> 300"
  shows "fst (container_id_loop os node (now os (world c)) 25 timeout c) \<noteq> OutOfFuel"
proof -
  have "ends (since os (now os (world c) + of_nat 0)) (container_id_loop os node (now os (world c)) 25 timeout)"
    by (rule container_id_loop_ends [OF assms(1,2,3)]) (use assms(4) in \<open>simp_all add: rounds_budget_def\<close>)
  then show ?thesis
    by (cases "container_id_loop os node (now os (world c)) 25 timeout c") (auto simp: ends_def since_def)
qed

text \<open>In the witness \<open>docker-compose ps\<close> fails at once, and the clock shows 24 seconds at the end.\<close>

theorem node_container_id_rounds_witness:
  "let reply = (\<lambda>_. Some \<lparr>cmd_output = [], cmd_exitcode = 1\<rparr>);
       result = container_id_loop (sim_os reply) ''clickhouse1'' (now (sim_os reply) (world sim_cluster)) 25 300 sim_cluster
   in fst result \<noteq> OutOfFuel \<and> sim_clock (world (snd result)) = 24"
proof -
  let ?r = "\<lambda>_. Some \<lparr>cmd_output = [], cmd_exitcode = 1\<rparr>"
  have "sim_clock (world (snd (container_id_loop (sim_os ?r) ''clickhouse1''
      (now (sim_os ?r) (world sim_cluster)) 25 300 sim_cluster))) = 24"
    by code_simp
  then show ?thesis
    using node_container_id_rounds [OF sim_laws(1,2,3), of 300 ?r "''clickhouse1''" sim_cluster] by simp
qed

text \<open>\<open>Node.close_bashes\<close> removes from the pool the shells of every thread for every node whose
  name ends in the name of this node, and leaves all other entries; the shells of a
  second node are closed too if its name ends in the name of the first.\<close>

theorem close_bashes_contract:
  assumes "close_bashes os nm c = (Return u, c')"
  shows "lock_free c' \<and>
    map_of (bash_pool c') = (\<lambda>j. if endswith (snd j) nm then None else map_of (bash_pool c) j)"
  using close_bashes_Return [OF assms] assms by (auto simp: close_bashes_def with_lock_Return)

theorem close_bashes_contract_witness:
  "map_of (bash_pool (snd (close_bashes (sim_os sim_answers) ''clickhouse1'' sim_cluster))) (''old'', ''clickhouse1'') = None"
proof -
  have "fst (close_bashes (sim_os sim_answers) ''clickhouse1'' sim_cluster) = Return ()" by code_simp
  then obtain c' where "close_bashes (sim_os sim_answers) ''clickhouse1'' sim_cluster = (Return (), c')"
    by (cases "close_bashes (sim_os sim_answers) ''clickhouse1'' sim_cluster") simp
  moreover from close_bashes_contract [OF this] have "map_of (bash_pool c') (''old'', ''clickhouse1'') = None"
    by (simp add: endswith_def)
  ultimately show ?thesis by simp
qed

end
