(* ===== verification/Cluster_Command.thy ===== *)
theory Cluster_Command
  imports Cluster_Pool
begin

text \<open>
  Commands and queries of \<open>helpers/cluster.py\<close>: \<open>Cluster.command\<close>, the methods of \<open>Node\<close>, and
  the queries of \<open>ClickHouseNode\<close>. The \<open>steps\<close>, \<open>step\<close> and \<open>use_error\<close> arguments only choose
  how the test report shows the work and are left out; of the arguments that are passed
  on to the shell, the \<open>timeout\<close> is kept. An assertion carries the output it reports.
\<close>

section \<open>Commands\<close>

text \<open>\<open>exitcode\<close> is a number or a text such as \<open>"!=0"\<close>.\<close>

datatype exit_spec = ExitCode int | ExitText string

record command_args =
  arg_message :: "string option"
  arg_messages :: "string list option"
  arg_exitcode :: "exit_spec option"
  arg_bash :: "shell option"
  arg_no_checks :: bool
  arg_timeout :: "seconds option"

definition default_args :: command_args where
  "default_args = \<lparr>arg_message = None, arg_messages = None, arg_exitcode = None, arg_bash = None,
     arg_no_checks = False, arg_timeout = None\<rparr>"

fun check_exitcode :: "exit_spec \<Rightarrow> cmd_result \<Rightarrow> ('s, unit) eff" where
  "check_exitcode (ExitCode n) r = assertE (cmd_exitcode r = n) (cmd_output r)"
| "check_exitcode (ExitText t) r =
     (if startswith t ''!='' then
        (case py_int (py_strip (last (py_split1 ''!='' t))) of
           None \<Rightarrow> raise (ValueError ''invalid literal for int'')
         | Some n \<Rightarrow> assertE (cmd_exitcode r \<noteq> n) (cmd_output r))
      else assertE False (cmd_output r))"

definition expected_messages :: "command_args \<Rightarrow> string list" where
  "expected_messages a =
     (let messages = (case arg_messages a of None \<Rightarrow> [] | Some ms \<Rightarrow> ms)
      in case arg_message a of
           Some m \<Rightarrow> (if m \<noteq> [] then m # messages else messages)
         | None \<Rightarrow> messages)"

definition check_command :: "command_args \<Rightarrow> cmd_result \<Rightarrow> ('s, cmd_result) eff" where
  "check_command a r =
     (if arg_no_checks a then ret r
      else
        seqE (case arg_exitcode a of None \<Rightarrow> ret () | Some x \<Rightarrow> check_exitcode x r)
        (seqE (forE (expected_messages a) (\<lambda>m. assertE (str_in m (cmd_output r)) (cmd_output r)))
          (ret r)))"

definition bash_default :: "'w os \<Rightarrow> string option \<Rightarrow> ('w, shell) ceff" where
  "bash_default os node = bash os node 300 ''bash --noediting''"

text \<open>\<open>except ExpectTimeoutError: self.close_bash(node); raise\<close>\<close>

definition closing_on_timeout :: "'w os \<Rightarrow> string option \<Rightarrow> ('w, 'a) ceff \<Rightarrow> ('w, 'a) ceff" where
  "closing_on_timeout os node m = catchE m (\<lambda>e.
     if e = ExpectTimeoutError then seqE (close_bash os node) (raise e) else raise e)"

definition command :: "'w os \<Rightarrow> string option \<Rightarrow> string \<Rightarrow> command_args \<Rightarrow> ('w, cmd_result) ceff" where
  "command os node cmd a =
     bindE (case arg_bash a of Some sh \<Rightarrow> ret sh | None \<Rightarrow> bash_default os node) (\<lambda>sh.
     bindE (closing_on_timeout os node (run_in os sh cmd (arg_timeout a)))
       (check_command a))"

section \<open>Generic nodes\<close>

text \<open>\<open>Node.command\<close> and \<open>Node.cmd\<close>\<close>

definition node_command :: "'w os \<Rightarrow> string \<Rightarrow> string \<Rightarrow> command_args \<Rightarrow> ('w, cmd_result) ceff" where
  "node_command os nm cmd a = command os (Some nm) cmd a"

definition node_cmd :: "'w os \<Rightarrow> string \<Rightarrow> string \<Rightarrow> string option \<Rightarrow> int option \<Rightarrow> string \<Rightarrow> bool \<Rightarrow> seconds option \<Rightarrow>
  ('w, cmd_result) ceff" where
  "node_cmd os nm cmd message exitcode shell_command no_checks timeout =
     bindE (closing_on_timeout os (Some nm)
       (bindE (bash os (Some nm) 300 shell_command) (\<lambda>sh. run_in os sh cmd timeout))) (\<lambda>r.
     if no_checks then ret r
     else
       seqE (case exitcode of None \<Rightarrow> ret () | Some n \<Rightarrow> assertE (cmd_exitcode r = n) (cmd_output r))
       (seqE (case message of None \<Rightarrow> ret () | Some m \<Rightarrow> assertE (str_in m (cmd_output r)) (cmd_output r))
         (ret r)))"

definition no_checks :: command_args where
  "no_checks = default_args\<lparr>arg_no_checks := True\<rparr>"

definition exit_zero :: command_args where
  "exit_zero = default_args\<lparr>arg_exitcode := Some (ExitCode 0)\<rparr>"

definition wait_healthy :: "'w os \<Rightarrow> string \<Rightarrow> seconds \<Rightarrow> ('w, unit) ceff" where
  "wait_healthy os nm timeout = retries os timeout 1 (\<lambda>_.
     bindE (node_command os nm ''echo 1'' no_checks) (\<lambda>r.
       whenE (cmd_exitcode r \<noteq> 0) (raise (TestFail ''container is not healthy''))))"

text \<open>\<open>docker-compose restart\<close>, \<open>start\<close> and \<open>stop\<close> of the node's service.\<close>

definition compose_service :: "'w os \<Rightarrow> string \<Rightarrow> string \<Rightarrow> seconds \<Rightarrow> nat \<Rightarrow> ('w, cmd_result) ceff" where
  "compose_service os action nm timeout retry_count =
     bindE (getE docker_compose) (\<lambda>dc.
       retry os retry_count (command os None (dc @ '' '' @ action @ '' '' @ nm)
         (exit_zero\<lparr>arg_timeout := Some timeout\<rparr>)))"

definition node_restart :: "'w os \<Rightarrow> string \<Rightarrow> seconds \<Rightarrow> nat \<Rightarrow> ('w, unit) ceff" where
  "node_restart os nm timeout retry_count =
     seqE (close_bashes os nm) (seqE (compose_service os ''restart'' nm timeout retry_count) (ret ()))"

definition node_start :: "'w os \<Rightarrow> string \<Rightarrow> seconds \<Rightarrow> nat \<Rightarrow> ('w, unit) ceff" where
  "node_start os nm timeout retry_count = seqE (compose_service os ''start'' nm timeout retry_count) (ret ())"

definition node_stop :: "'w os \<Rightarrow> string \<Rightarrow> seconds \<Rightarrow> nat \<Rightarrow> ('w, unit) ceff" where
  "node_stop os nm timeout retry_count =
     seqE (close_bashes os nm) (seqE (compose_service os ''stop'' nm timeout retry_count) (ret ()))"

section \<open>Queries\<close>

definition MESSAGES_TO_RETRY :: "string list" where
  "MESSAGES_TO_RETRY =
    [''DB::Exception: ZooKeeper session has been expired'',
     ''DB::Exception: Connection loss'',
     ''Coordination::Exception: Session expired'',
     ''Coordination::Exception: Connection loss'',
     ''Coordination::Exception: Operation timeout'',
     ''DB::Exception: Operation timeout'',
     ''Operation timed out'',
     ''ConnectionPoolWithFailover: Connection failed at try'',
     ''DB::Exception: New table appeared in database being dropped or detached. Try again'',
     ''is already started to be removing by another replica right now'',
     ''Shutdown is called for table'',
     ''is executing longer than distributed_ddl_task_timeout'']"

record query_args =
  q_message :: "string option"
  q_exitcode :: "int option"
  q_no_checks :: bool
  q_raise_on_exception :: bool
  q_ignore_exception :: bool
  q_settings :: settings
  q_messages_to_retry :: "string list option"
  q_retry_delay :: seconds
  q_secure :: bool
  q_max_output :: string
  q_query_id :: "string option"
  q_use_file :: bool
  q_hash_output :: bool
  q_file_output :: "string option"
  q_pipe_cmd :: string
  q_timeout :: "seconds option"

definition default_query :: query_args where
  "default_query = \<lparr>q_message = None, q_exitcode = None, q_no_checks = False, q_raise_on_exception = False,
     q_ignore_exception = False, q_settings = [], q_messages_to_retry = None, q_retry_delay = 5, q_secure = False,
     q_max_output = ''-0'', q_query_id = None, q_use_file = False, q_hash_output = False, q_file_output = None,
     q_pipe_cmd = ''echo -e'', q_timeout = None\<rparr>"

definition dquoted :: "string \<Rightarrow> string" where
  "dquoted s = [CHR 0x22] @ s @ [CHR 0x22]"

definition single_quoted :: "string \<Rightarrow> string" where
  "single_quoted s = [CHR 0x27] @ s @ [CHR 0x27]"

text \<open>The settings of the call, of the test context, and the query identifier, in this order.\<close>

definition all_settings :: "settings \<Rightarrow> settings \<Rightarrow> string option \<Rightarrow> settings" where
  "all_settings settings context_settings query_id =
     settings @ context_settings @ (case query_id of None \<Rightarrow> [] | Some i \<Rightarrow> [(''query_id'', i)])"

fun client_options :: "settings \<Rightarrow> string" where
  "client_options [] = []"
| "client_options ((nm, v) # rest) = '' --'' @ nm @ '' '' @ dquoted v @ client_options rest"

definition client :: "bool \<Rightarrow> string" where
  "client secure = ''clickhouse client -n'' @ (if secure then '' -s'' else [])"

text \<open>The pipe behind the client: \<open>head\<close>, a hash, a file, or nothing.\<close>

definition file_query_command :: "string \<Rightarrow> string \<Rightarrow> query_args \<Rightarrow> settings \<Rightarrow> string \<Rightarrow> string" where
  "file_query_command dc nm a settings file =
     (let invocation = client (q_secure a) @ client_options settings @ '' 2>&1'';
          start = ''cat '' @ dquoted file @ '' | '' @ dc @ '' exec -T '' @ nm @ '' bash -c ''
      in if q_max_output a \<noteq> ''-0'' then
           start @ dquoted (''(set -o pipefail && '' @ invocation @ '' | head -c '' @ q_max_output a @ '')'')
         else if q_hash_output a then
           start @ dquoted (''(set -o pipefail && '' @ invocation @ '' | sha512sum)'')
         else case q_file_output a of
             Some (ch # rest) \<Rightarrow>
               start @ dquoted (''(set -o pipefail && '' @ invocation @ '' > '' @ single_quoted (ch # rest) @ '')'')
           | _ \<Rightarrow> start @ dquoted invocation)"

definition pipe_query_command :: "string \<Rightarrow> query_args \<Rightarrow> settings \<Rightarrow> string" where
  "pipe_query_command sql a settings =
     (let pipeline = q_pipe_cmd a @ '' '' @ dquoted sql @ '' | '' @ client (q_secure a) @ client_options settings @ '' 2>&1''
      in if q_max_output a \<noteq> ''-0'' then ''(set -o pipefail && '' @ pipeline @ '' | head -c '' @ q_max_output a @ '')''
         else if q_hash_output a then ''(set -o pipefail && '' @ pipeline @ '' | sha512sum)''
         else pipeline)"

text \<open>Runs a command in a shell to the node, or on the host when \<open>node\<close> is \<open>None\<close>.\<close>

definition run_on :: "'w os \<Rightarrow> string option \<Rightarrow> string \<Rightarrow> seconds option \<Rightarrow> ('w, cmd_result) ceff" where
  "run_on os node cmd timeout = bindE (bash_default os node) (\<lambda>sh. run_in os sh cmd timeout)"

definition query_run :: "'w os \<Rightarrow> string \<Rightarrow> string \<Rightarrow> query_args \<Rightarrow> ('w, cmd_result) ceff" where
  "query_run os nm sql a =
     bindE (getE default_query_settings) (\<lambda>context_settings.
     let settings = all_settings (q_settings a) context_settings (q_query_id a) in
     if length sql > 1024 \<or> q_use_file a then
       bindE (inW (temp_file_name os sql)) (\<lambda>file.
       bindE (getE docker_compose) (\<lambda>dc.
         closing_on_timeout os None (run_on os None (file_query_command dc nm a settings file) (q_timeout a))))
     else
       closing_on_timeout os (Some nm) (run_on os (Some nm) (pipe_query_command sql a settings) (q_timeout a)))"

definition check_query :: "query_args \<Rightarrow> cmd_result \<Rightarrow> ('s, cmd_result) eff" where
  "check_query a r =
     (if q_no_checks a then ret r
      else
        seqE (case q_exitcode a of None \<Rightarrow> ret () | Some n \<Rightarrow> assertE (cmd_exitcode r = n) (cmd_output r))
        (seqE (case q_message a of None \<Rightarrow> ret () | Some m \<Rightarrow> assertE (str_in m (cmd_output r)) (cmd_output r))
        (seqE (whenE (\<not> q_ignore_exception a \<and>
              (case q_message a of None \<Rightarrow> True | Some m \<Rightarrow> \<not> str_in ''Exception:'' m) \<and>
              str_in ''Exception:'' (cmd_output r))
            (if q_raise_on_exception a then raise (QueryRuntimeException (cmd_output r))
             else raise (AssertionError (cmd_output r))))
          (ret r))))"

definition should_retry :: "query_args \<Rightarrow> cmd_result \<Rightarrow> bool" where
  "should_retry a r \<longleftrightarrow>
     (\<exists>m \<in> set (case q_messages_to_retry a of None \<Rightarrow> MESSAGES_TO_RETRY | Some ms \<Rightarrow> ms). str_in m (cmd_output r))"

text \<open>The arguments the recursive call names; it leaves the others to their defaults.\<close>

definition retry_args :: "query_args \<Rightarrow> query_args" where
  "retry_args a = default_query\<lparr>q_message := q_message a, q_exitcode := q_exitcode a, q_no_checks := q_no_checks a,
     q_raise_on_exception := q_raise_on_exception a, q_settings := q_settings a,
     q_messages_to_retry := Some (case q_messages_to_retry a of None \<Rightarrow> MESSAGES_TO_RETRY | Some ms \<Rightarrow> ms),
     q_timeout := q_timeout a\<rparr>"

fun query :: "'w os \<Rightarrow> string \<Rightarrow> string \<Rightarrow> nat \<Rightarrow> query_args \<Rightarrow> ('w, cmd_result) ceff" where
  "query os nm sql 0 a = bindE (query_run os nm sql a) (check_query a)"
| "query os nm sql (Suc n) a =
     bindE (query_run os nm sql a) (\<lambda>r.
       if should_retry a r
       then seqE (inW (sleep os (max 0 (q_retry_delay a)))) (query os nm sql n (retry_args a))
       else check_query a r)"

text \<open>
  \<open>hash_query\<close> and \<open>diff_query\<close> append the settings to the end of the command. Their handlers of
  \<open>ExpectTimeoutError\<close> do not raise again, and the next line reads \<open>r\<close>, which has no value then.
\<close>

definition swallowing_timeout :: "'w os \<Rightarrow> string option \<Rightarrow> ('w, cmd_result) ceff \<Rightarrow> ('w, cmd_result) ceff" where
  "swallowing_timeout os node m = catchE m (\<lambda>e.
     if e = ExpectTimeoutError then seqE (close_bash os node) (raise (UnboundLocalError ''r'')) else raise e)"

definition hash_command :: "string \<Rightarrow> string \<Rightarrow> string \<Rightarrow> string \<Rightarrow> bool \<Rightarrow> string \<Rightarrow> settings \<Rightarrow> string option \<Rightarrow> string" where
  "hash_command dc nm sql hash_utility secure pipe_cmd settings file =
     (case file of
        Some f \<Rightarrow> ''set -o pipefail && cat '' @ dquoted f @ '' | '' @ dc @ '' exec -T '' @ nm @ '' '' @ client secure @
          '' | '' @ hash_utility
      | None \<Rightarrow> ''set -o pipefail && '' @ pipe_cmd @ '' '' @ dquoted sql @ '' | '' @ client secure @ '' | '' @ hash_utility)
     @ client_options settings"

definition diff_command :: "string \<Rightarrow> string \<Rightarrow> string \<Rightarrow> string \<Rightarrow> bool \<Rightarrow> string \<Rightarrow> settings \<Rightarrow> string option \<Rightarrow> string" where
  "diff_command dc nm sql expected_output secure pipe_cmd settings file =
     ''diff <('' @
     (case file of Some f \<Rightarrow> ''cat '' @ dquoted f | None \<Rightarrow> pipe_cmd @ '' '' @ dquoted sql) @
     '' | '' @ dc @ '' exec -T '' @ nm @ '' '' @ client secure @ '') '' @ expected_output @ client_options settings"

text \<open>\<open>NamedTemporaryFile\<close> for a long query.\<close>

definition query_file :: "'w os \<Rightarrow> string \<Rightarrow> ('w, string option) ceff" where
  "query_file os sql =
     (if length sql > 1024 then bindE (inW (temp_file_name os sql)) (\<lambda>f. ret (Some f)) else ret None)"

definition hash_query :: "'w os \<Rightarrow> string \<Rightarrow> string \<Rightarrow> string \<Rightarrow> settings \<Rightarrow> bool \<Rightarrow> string option \<Rightarrow> string \<Rightarrow>
  seconds option \<Rightarrow> ('w, string) ceff" where
  "hash_query os nm sql hash_utility settings secure query_id pipe_cmd timeout =
     bindE (getE default_query_settings) (\<lambda>context_settings.
     bindE (getE docker_compose) (\<lambda>dc.
     bindE (query_file os sql) (\<lambda>file.
     let node = (case file of Some _ \<Rightarrow> None | None \<Rightarrow> Some nm);
         cmd = hash_command dc nm sql hash_utility secure pipe_cmd (all_settings settings context_settings query_id) file
     in bindE (swallowing_timeout os node (run_on os node cmd timeout)) (\<lambda>r.
        seqE (assertE (cmd_exitcode r = 0) (cmd_output r)) (ret (cmd_output r))))))"

definition diff_query :: "'w os \<Rightarrow> string \<Rightarrow> string \<Rightarrow> string \<Rightarrow> settings \<Rightarrow> bool \<Rightarrow> string option \<Rightarrow> string \<Rightarrow>
  seconds option \<Rightarrow> ('w, unit) ceff" where
  "diff_query os nm sql expected_output settings secure query_id pipe_cmd timeout =
     bindE (getE default_query_settings) (\<lambda>context_settings.
     bindE (getE docker_compose) (\<lambda>dc.
     bindE (query_file os sql) (\<lambda>file.
     let cmd = diff_command dc nm sql expected_output secure pipe_cmd (all_settings settings context_settings query_id) file
     in bindE (swallowing_timeout os None (run_on os None cmd timeout)) (\<lambda>r.
        assertE (cmd_exitcode r = 0) (cmd_output r)))))"

section \<open>The lock\<close>

lemma bash_default_releases [keeps_intro]: "keeps lock_free (bash_default os node)"
  unfolding bash_default_def by (rule keeps_intro)

lemma closing_on_timeout_releases [keeps_intro]:
  "keeps lock_free m \<Longrightarrow> keeps lock_free (closing_on_timeout os node m)"
  unfolding closing_on_timeout_def by (intro keeps_intro)

lemma keeps_check_exitcode [keeps_intro]: "keeps P (check_exitcode x r)"
  by (cases x) (auto intro!: keeps_intro)

lemma keeps_check_command [keeps_intro]: "keeps P (check_command a r)"
  unfolding check_command_def by (intro keeps_intro)

lemma command_releases [keeps_intro]: "keeps lock_free (command os node cmd a)"
  unfolding command_def by (intro keeps_intro keeps_run_in) simp

lemma keeps_check_query [keeps_intro]: "keeps P (check_query a r)"
  unfolding check_query_def by (intro keeps_intro)

lemma run_on_releases [keeps_intro]: "keeps lock_free (run_on os node cmd timeout)"
  unfolding run_on_def by (intro keeps_intro keeps_run_in) simp

lemma query_run_releases [keeps_intro]: "keeps lock_free (query_run os nm sql a)"
  unfolding query_run_def Let_def by (intro keeps_intro keeps_inW) simp

lemma query_releases [keeps_intro]: "keeps lock_free (query os nm sql n a)"
proof (induction n arbitrary: a)
  case 0
  then show ?case by (auto intro!: keeps_intro)
next
  case (Suc n)
  then show ?case unfolding query.simps by (intro keeps_intro keeps_inW) auto
qed

text \<open>
  The interface every method that talks to a node offers to its callers: called with the
  lock free, it ends with the lock free. Callers may run such methods one after the other,
  and in the handlers and \<open>finally\<close> blocks of each other.
\<close>

locale lock_respecting =
  fixes operation :: "'x \<Rightarrow> ('w cluster, 'a) eff"
  assumes respects: "keeps lock_free (operation x)"
begin

lemma sequence: "keeps lock_free (mapE operation xs)"
  by (intro keeps_map respects)

lemma loop: "keeps lock_free (forE xs (\<lambda>x. seqE (operation x) (ret ())))"
  by (intro keeps_for keeps_seq keeps_pure respects)

lemma guarded:
  assumes "keeps lock_free m"
  shows "keeps lock_free (finallyE m (operation x))" "keeps lock_free (catchE m (\<lambda>e. seqE (operation x) (raise e)))"
  by (intro keeps_finally keeps_catch keeps_seq keeps_pure respects assms)+

lemma ends_free: "lock_free c \<Longrightarrow> operation x c = (r, c') \<Longrightarrow> r \<noteq> OutOfFuel \<Longrightarrow> lock_free c'"
  by (rule keepsD [OF respects])

end

interpretation commands: lock_respecting "\<lambda>(node, cmd, a). command os node cmd a" for os
  by unfold_locales (auto intro: keeps_intro)

interpretation queries: lock_respecting "\<lambda>(nm, sql, n, a). query os nm sql n a" for os
  by unfold_locales (auto intro: keeps_intro)

section \<open>Results\<close>

lemma forE_assert_Return:
  "forE ms (\<lambda>m. assertE (P m) msg) s = (Return u, s') \<longleftrightarrow> (\<forall>m \<in> set ms. P m) \<and> s' = s"
  by (induction ms) (auto simp: seqE_Return_iff)

lemma forE_assert_Raise:
  "forE ms (\<lambda>m. assertE (P m) msg) s = (Raise e, s') \<longleftrightarrow>
     (\<exists>m \<in> set ms. \<not> P m) \<and> e = AssertionError msg \<and> s' = s"
  by (induction ms) (auto simp: seqE_Raise_iff)

fun exit_ok :: "exit_spec \<Rightarrow> int \<Rightarrow> bool" where
  "exit_ok (ExitCode n) k \<longleftrightarrow> k = n"
| "exit_ok (ExitText t) k \<longleftrightarrow> startswith t ''!='' \<and>
     (case py_int (py_strip (last (py_split1 ''!='' t))) of None \<Rightarrow> False | Some n \<Rightarrow> k \<noteq> n)"

lemma check_exitcode_Return: "check_exitcode x r s = (Return u, s') \<longleftrightarrow> exit_ok x (cmd_exitcode r) \<and> s' = s"
  by (cases x) (auto split: option.splits)

lemma check_command_Return:
  "check_command a r s = (Return r', s') \<longleftrightarrow> r' = r \<and> s' = s \<and> (arg_no_checks a \<or>
     (\<forall>x. arg_exitcode a = Some x \<longrightarrow> exit_ok x (cmd_exitcode r)) \<and>
     (\<forall>m \<in> set (expected_messages a). str_in m (cmd_output r)))"
  by (cases "arg_exitcode a")
    (auto simp: check_command_def seqE_Return_iff forE_assert_Return check_exitcode_Return)

definition query_ok :: "query_args \<Rightarrow> cmd_result \<Rightarrow> bool" where
  "query_ok a r \<longleftrightarrow> q_no_checks a \<or>
     (\<forall>n. q_exitcode a = Some n \<longrightarrow> cmd_exitcode r = n) \<and>
     (\<forall>m. q_message a = Some m \<longrightarrow> str_in m (cmd_output r)) \<and>
     (str_in ''Exception:'' (cmd_output r) \<longrightarrow>
        q_ignore_exception a \<or> (\<exists>m. q_message a = Some m \<and> str_in ''Exception:'' m))"

lemma check_query_Return: "check_query a r s = (Return r', s') \<longleftrightarrow> r' = r \<and> s' = s \<and> query_ok a r"
  by (cases "q_exitcode a"; cases "q_message a")
    (auto simp: check_query_def query_ok_def seqE_Return_iff whenE_def)

text \<open>The run that a call of \<open>query\<close> reports, and the arguments it is checked against.\<close>

lemma query_Return:
  "query os nm sql n a c = (Return r, c') \<Longrightarrow>
     query_ok a r \<and> (n = 0 \<or> \<not> should_retry a r) \<or> 0 < n \<and> query_ok (retry_args a) r"
proof (induction n arbitrary: a c)
  case 0
  then show ?case by (auto simp: bindE_Return_iff check_query_Return)
next
  case (Suc n)
  have idem: "retry_args (retry_args a) = retry_args a"
    by (simp add: retry_args_def default_query_def)
  from Suc.prems obtain r1 c1 where run: "query_run os nm sql a c = (Return r1, c1)"
    and rest: "(if should_retry a r1
       then seqE (inW (sleep os (max 0 (q_retry_delay a)))) (query os nm sql n (retry_args a))
       else check_query a r1) c1 = (Return r, c')"
    by (auto simp: bindE_Return_iff)
  show ?case
  proof (cases "should_retry a r1")
    case True
    with rest obtain c2 where "query os nm sql n (retry_args a) c2 = (Return r, c')"
      by (auto simp: seqE_Return_iff)
    from Suc.IH [OF this] show ?thesis by (auto simp: idem)
  next
    case False
    with rest show ?thesis by (auto simp: check_query_Return)
  qed
qed

section \<open>Timeouts\<close>

text \<open>
  Closing a shell, sleeping and writing a file raise nothing but \<open>IOError\<close>, and closing a shell
  does not change the thread that runs.
\<close>

definition exit_quiet :: "'w os \<Rightarrow> bool" where
  "exit_quiet os \<longleftrightarrow>
     (\<forall>sh t. throws is_IOError (send os sh t)) \<and> (\<forall>sh. throws is_IOError (base_exit os sh)) \<and>
     (\<forall>d. throws is_IOError (sleep os d)) \<and> (\<forall>t. throws is_IOError (temp_file_name os t)) \<and>
     (\<forall>sh t w. current_thread os (snd (send os sh t w)) = current_thread os w) \<and>
     (\<forall>sh w. current_thread os (snd (base_exit os sh w)) = current_thread os w)"

lemma exit_quiet_throws: "exit_quiet os \<Longrightarrow> throws is_IOError (shell_exit os sh)"
  unfolding shell_exit_def
  by (intro throws_intro throws_catch [of is_IOError] throws_inW) (auto simp: exit_quiet_def intro: throws_intro)

lemma exit_quiet_thread: "exit_quiet os \<Longrightarrow> keeps (\<lambda>c. current_thread os (world c) = n) (shell_exit os sh)"
proof -
  assume q: "exit_quiet os"
  have "keeps (\<lambda>c. current_thread os (world c) = n) (inW (send os sh t))"
    "keeps (\<lambda>c. current_thread os (world c) = n) (inW (base_exit os sh))" for t
    using q by (auto intro!: keepsI simp: inW_def exit_quiet_def split: prod.splits) (metis snd_conv)+
  then show ?thesis unfolding shell_exit_def by (intro keeps_intro)
qed

text \<open>A call of \<open>close_bash\<close> that does not raise leaves no shell of this thread and node.\<close>

lemma close_bash_Return:
  assumes q: "exit_quiet os" and "close_bash os node c = (Return u, c')"
  shows "map_of (bash_pool c') (current_thread os (world c'), node_text node) = None"
proof -
  let ?i = "(current_thread os (world c), node_text node)"
  have run: "(case map_of (bash_pool c) ?i of None \<Rightarrow> ret ()
      | Some sh \<Rightarrow> seqE (shell_exit os sh) (pool_del ?i)) (c\<lparr>lock_held := True\<rparr>) = (Return u, t)"
    and c': "c' = t\<lparr>lock_held := False\<rparr>" if "t = c'\<lparr>lock_held := True\<rparr>" for t
  proof -
    obtain t' where t': "(case map_of (bash_pool c) ?i of None \<Rightarrow> ret ()
      | Some sh \<Rightarrow> seqE (shell_exit os sh) (pool_del ?i)) (c\<lparr>lock_held := True\<rparr>) = (Return u, t')"
      "c' = t'\<lparr>lock_held := False\<rparr>"
      using assms(2) unfolding close_bash_def bash_id_def by (auto simp: bindE_getE with_lock_Return)
    have "keeps lock_held (case map_of (bash_pool c) ?i of None \<Rightarrow> ret ()
      | Some sh \<Rightarrow> seqE (shell_exit os sh) (pool_del ?i))"
      by (intro keeps_intro keeps_world) simp_all
    from keepsD [OF this _ t'(1)] have "lock_held t'" by simp
    then have "t' = t" using t'(2) that by simp
    with t' show "(case map_of (bash_pool c) ?i of None \<Rightarrow> ret ()
      | Some sh \<Rightarrow> seqE (shell_exit os sh) (pool_del ?i)) (c\<lparr>lock_held := True\<rparr>) = (Return u, t)"
      "c' = t\<lparr>lock_held := False\<rparr>" by simp_all
  qed
  show ?thesis
  proof (cases "map_of (bash_pool c) ?i")
    case None
    with run [OF refl] c' [OF refl] show ?thesis by auto
  next
    case (Some sh)
    with run [OF refl] obtain c1 where exit: "shell_exit os sh (c\<lparr>lock_held := True\<rparr>) = (Return (), c1)"
      and del: "c'\<lparr>lock_held := True\<rparr> = c1\<lparr>bash_pool := AList.delete ?i (bash_pool c1)\<rparr>"
      by (auto simp: seqE_Return_iff)
    have "current_thread os (world c1) = current_thread os (world c)"
      using keepsD [OF exit_quiet_thread [OF q, of "current_thread os (world c)"] _ exit] by simp
    moreover have "world c' = world c1" "bash_pool c' = AList.delete ?i (bash_pool c1)"
      using arg_cong [OF del, of world] arg_cong [OF del, of bash_pool] by simp_all
    ultimately show ?thesis by (simp add: delete_conv')
  qed
qed

lemma throws_with_lock: "throws E m \<Longrightarrow> throws E (with_lock m)"
  unfolding with_lock_def by (intro throws_intro)

lemma throws_close_bash: "exit_quiet os \<Longrightarrow> throws is_IOError (close_bash os node)"
  unfolding close_bash_def bash_id_def
  by (intro throws_intro throws_with_lock exit_quiet_throws throws_pool_ops)

lemma quiet_not_timeout: "throws is_IOError m \<Longrightarrow> m c \<noteq> (Raise ExpectTimeoutError, c')"
  by (auto dest: throwsD)

abbreviation no_shell :: "'w os \<Rightarrow> string option \<Rightarrow> 'w cluster \<Rightarrow> bool" where
  "no_shell os node c \<equiv> map_of (bash_pool c) (current_thread os (world c), node_text node) = None"

lemma closing_on_timeout_Raise:
  fixes m :: "('w, 'a) ceff"
  assumes q: "exit_quiet os" and "closing_on_timeout os node m c = (Raise ExpectTimeoutError, c')"
  shows "no_shell os node c'"
proof -
  obtain e c1 where h: "(if e = ExpectTimeoutError then seqE (close_bash os node) (raise e)
      else raise e :: ('w, 'a) ceff) c1 = (Raise ExpectTimeoutError, c')"
    using assms(2) unfolding closing_on_timeout_def catchE_Raise_iff by blast
  then obtain u where "close_bash os node c1 = (Return u, c')"
    using quiet_not_timeout [OF throws_close_bash [OF q]] by (auto simp: seqE_Raise_iff split: if_splits)
  then show ?thesis by (rule close_bash_Return [OF q])
qed

lemma query_run_timeout:
  assumes q: "exit_quiet os" and "query_run os nm sql a c = (Raise ExpectTimeoutError, c')"
  shows "\<exists>node \<in> {None, Some nm}. no_shell os node c'"
proof -
  have tmp: "inW (temp_file_name os sql) c1 \<noteq> (Raise ExpectTimeoutError, c')" for c1
    using q by (intro quiet_not_timeout throws_inW) (simp add: exit_quiet_def)
  note run = assms(2) [unfolded query_run_def Let_def bindE_getE]
  show ?thesis
  proof (cases "length sql > 1024 \<or> q_use_file a")
    case True
    with run tmp obtain f c1 where "closing_on_timeout os None (run_on os None
        (file_query_command (docker_compose c1) nm a (all_settings (q_settings a) (default_query_settings c) (q_query_id a)) f)
        (q_timeout a)) c1 = (Raise ExpectTimeoutError, c')"
      unfolding if_P [OF True] bindE_Raise_iff [of "inW _"] bindE_getE by blast
    from closing_on_timeout_Raise [OF q this] show ?thesis by blast
  next
    case False
    show ?thesis using closing_on_timeout_Raise [OF q run [unfolded if_not_P [OF False]]] by blast
  qed
qed

lemma check_query_throws: "throws (\<lambda>e. e \<noteq> ExpectTimeoutError) (check_query a r)"
  unfolding check_query_def by (intro throws_intro) (auto intro!: throwsI)

lemma query_timeout:
  assumes q: "exit_quiet os"
  shows "query os nm sql n a c = (Raise ExpectTimeoutError, c') \<Longrightarrow> \<exists>node \<in> {None, Some nm}. no_shell os node c'"
proof (induction n arbitrary: a c)
  case 0
  then have "query_run os nm sql a c = (Raise ExpectTimeoutError, c')"
    using throwsD [OF check_query_throws] by (fastforce simp: bindE_Raise_iff)
  then show ?case by (rule query_run_timeout [OF q])
next
  case (Suc n)
  have sleep: "inW (sleep os d) c1 \<noteq> (Raise ExpectTimeoutError, c')" for d c1
    using q by (intro quiet_not_timeout throws_inW) (simp add: exit_quiet_def)
  have check: "check_query a r c1 \<noteq> (Raise ExpectTimeoutError, c')" for r c1
    by (rule notI, drule throwsD [OF check_query_throws]) simp
  from Suc.prems consider "query_run os nm sql a c = (Raise ExpectTimeoutError, c')"
    | r c1 where "(if should_retry a r
       then seqE (inW (sleep os (max 0 (q_retry_delay a)))) (query os nm sql n (retry_args a))
       else check_query a r) c1 = (Raise ExpectTimeoutError, c')"
    unfolding query.simps bindE_Raise_iff by blast
  then show ?case
  proof cases
    case 1
    then show ?thesis by (rule query_run_timeout [OF q])
  next
    case 2
    then obtain c2 where "query os nm sql n (retry_args a) c2 = (Raise ExpectTimeoutError, c')"
      using sleep check by (cases "should_retry a r") (auto simp: seqE_Raise_iff)
    then show ?thesis by (rule Suc.IH)
  qed
qed

lemma sim_quiet: "exit_quiet (sim_os reply)"
  by (auto simp: exit_quiet_def sim_os_def modifyE_def ret_def intro!: throwsI)

section \<open>Properties\<close>

text \<open>C11. \<open>Cluster.command\<close> returns a result exactly when a shell was found, the command ran in it, and
  the result passes every check the caller asked for: the exit code, which must equal a
  number or, given as a text \<open>"!=n"\<close>, differ from it, and each of the expected messages,
  which must all occur in the output. Without checks it returns what the shell returned.\<close>

theorem command_returns_checked:
  "command os node cmd a c = (Return r, c') \<longleftrightarrow>
     (\<exists>sh c1. (case arg_bash a of Some sh \<Rightarrow> ret sh | None \<Rightarrow> bash_default os node) c = (Return sh, c1) \<and>
        run_in os sh cmd (arg_timeout a) c1 = (Return r, c')) \<and>
     (arg_no_checks a \<or>
        (\<forall>x. arg_exitcode a = Some x \<longrightarrow> exit_ok x (cmd_exitcode r)) \<and>
        (\<forall>m \<in> set (expected_messages a). str_in m (cmd_output r)))"
proof -
  have "closing_on_timeout os node (run_in os sh cmd t) c1 = (Return x, c2) \<longleftrightarrow> run_in os sh cmd t c1 = (Return x, c2)"
    for sh t c1 c2 x
    by (auto simp: closing_on_timeout_def catchE_Return_iff seqE_Return_iff split: if_splits)
  then show ?thesis
    unfolding command_def bindE_Return_iff check_command_Return by blast
qed

theorem command_returns_checked_witness:
  "exit_ok (ExitText ''!= 1'') 0 \<and> str_in ''c0ffee'' (''c0ffee'' @ newline)"
proof -
  let ?a = "default_args\<lparr>arg_exitcode := Some (ExitText ''!= 1''), arg_message := Some ''c0ffee''\<rparr>"
  let ?run = "command (sim_os sim_answers) (Some ''clickhouse1'') ''ls'' ?a sim_cluster"
  have "fst ?run = Return \<lparr>cmd_output = ''c0ffee'' @ newline, cmd_exitcode = 0\<rparr>" by code_simp
  then have "?run = (Return \<lparr>cmd_output = ''c0ffee'' @ newline, cmd_exitcode = 0\<rparr>, snd ?run)" by (metis prod.collapse)
  from this [unfolded command_returns_checked] show ?thesis
    by (simp add: default_args_def expected_messages_def)
qed

text \<open>C4. A result of \<open>ClickHouseNode.query\<close> has passed the checks: its exit code and message are the
  expected ones, and it holds the text \<open>Exception:\<close> only if the caller ignores exceptions
  or expects a message with that text. While retries were left its output held none of
  the messages that call for one; after a retry the check is that of \<open>retry_args\<close>, which
  never ignores exceptions.\<close>

theorem query_result_ok:
  assumes "query os nm sql n a c = (Return r, c')"
  shows "query_ok a r \<and> (n = 0 \<or> \<not> should_retry a r) \<or> 0 < n \<and> query_ok (retry_args a) r"
  using assms by (rule query_Return)

lemma sim_query:
  "query (sim_os sim_answers) ''clickhouse1'' ''SELECT 1'' 5 default_query sim_cluster =
     (Return \<lparr>cmd_output = ''c0ffee'' @ newline, cmd_exitcode = 0\<rparr>,
      snd (query (sim_os sim_answers) ''clickhouse1'' ''SELECT 1'' 5 default_query sim_cluster))"
proof -
  have "fst (query (sim_os sim_answers) ''clickhouse1'' ''SELECT 1'' 5 default_query sim_cluster) =
      Return \<lparr>cmd_output = ''c0ffee'' @ newline, cmd_exitcode = 0\<rparr>"
    by code_simp
  then show ?thesis by (metis prod.collapse)
qed

theorem query_result_ok_witness:
  "query_ok default_query \<lparr>cmd_output = ''c0ffee'' @ newline, cmd_exitcode = 0\<rparr> \<or>
   query_ok (retry_args default_query) \<lparr>cmd_output = ''c0ffee'' @ newline, cmd_exitcode = 0\<rparr>"
  using query_result_ok [OF sim_query] by blast


text \<open>The shell of the witness answers \<open>echo 1\<close> and \<open>docker-compose\<close>, and hangs on the query.\<close>

definition sim_hang :: "string \<Rightarrow> cmd_result option" where
  "sim_hang cmd = (if cmd = ''echo 1'' \<or> startswith cmd ''dc'' then sim_answers cmd else None)"


text \<open>A retried query forgets options: when the output calls for a retry, the call goes on exactly
  as a call with the same message, exit code, checks, settings and messages, but with the
  defaults for the rest, so that exceptions are no longer ignored, the connection is not
  secure, there is no query identifier, file, hash or output limit, and the delay is five
  seconds again.\<close>

theorem query_retry_forgets:
  assumes "query_run os nm sql a c = (Return r, c1)" and "should_retry a r"
    and "inW (sleep os (max 0 (q_retry_delay a))) c1 = (Return (), c2)"
  shows "query os nm sql (Suc n) a c = query os nm sql n (retry_args a) c2 \<and>
    q_message (retry_args a) = q_message a \<and> q_settings (retry_args a) = q_settings a \<and>
    \<not> q_ignore_exception (retry_args a) \<and> \<not> q_secure (retry_args a) \<and> q_query_id (retry_args a) = None \<and>
    \<not> q_use_file (retry_args a) \<and> \<not> q_hash_output (retry_args a) \<and> q_file_output (retry_args a) = None \<and>
    q_max_output (retry_args a) = ''-0'' \<and> q_pipe_cmd (retry_args a) = ''echo -e'' \<and> q_retry_delay (retry_args a) = 5"
  using assms by (simp add: bindE_def seqE_def retry_args_def default_query_def)

text \<open>In the witness a caller that ignores exceptions gets an assertion error after the retry.\<close>

definition sim_expired :: "string \<Rightarrow> cmd_result option" where
  "sim_expired cmd = (if str_in ''SELECT'' cmd
     then Some \<lparr>cmd_output = ''DB::Exception: Connection loss'', cmd_exitcode = 0\<rparr> else sim_answers cmd)"

theorem query_retry_forgets_witness:
  "let a = default_query\<lparr>q_ignore_exception := True\<rparr>
   in fst (query (sim_os sim_expired) ''clickhouse1'' ''SELECT 1'' (Suc 0) a sim_cluster) =
        Raise (AssertionError ''DB::Exception: Connection loss'')"
proof -
  let ?os = "sim_os sim_expired" and ?a = "default_query\<lparr>q_ignore_exception := True\<rparr>"
  let ?r = "\<lparr>cmd_output = ''DB::Exception: Connection loss'', cmd_exitcode = 0\<rparr>"
  let ?run = "query_run ?os ''clickhouse1'' ''SELECT 1'' ?a sim_cluster"
  have "fst ?run = Return ?r" by code_simp
  then have run: "?run = (Return ?r, snd ?run)" by (metis prod.collapse)
  let ?sl = "inW (sleep ?os (max 0 (q_retry_delay ?a))) (snd ?run)"
  have "should_retry ?a ?r" by code_simp
  moreover have "fst ?sl = Return ()" by (simp add: inW_def sim_os_def modifyE_def)
  then have "?sl = (Return (), snd ?sl)" by (metis prod.collapse)
  moreover have "fst (query ?os ''clickhouse1'' ''SELECT 1'' 0 (retry_args ?a) (snd ?sl)) =
      Raise (AssertionError ''DB::Exception: Connection loss'')"
    by code_simp
  ultimately show ?thesis using query_retry_forgets [OF run] by (simp only: Let_def)
qed

text \<open>\<open>hash_query\<close> and \<open>diff_query\<close> never let the timeout of the shell through to the test: a command
  that times out ends in an \<open>UnboundLocalError\<close> for the variable \<open>r\<close> that was never
  assigned, after the shell has been closed.\<close>

theorem hash_query_timeout:
  assumes "exit_quiet os"
    and "run_on os node cmd timeout c = (Raise ExpectTimeoutError, c1)" and "close_bash os node c1 = (Return (), c2)"
  shows "swallowing_timeout os node (run_on os node cmd timeout) c = (Raise (UnboundLocalError ''r''), c2) \<and>
    throws (\<lambda>e. e \<noteq> ExpectTimeoutError) (hash_query os nm sql utility settings secure query_id pipe_cmd timeout) \<and>
    throws (\<lambda>e. e \<noteq> ExpectTimeoutError) (diff_query os nm sql expected settings secure query_id pipe_cmd timeout)"
proof -
  let ?F = "\<lambda>e. e \<noteq> ExpectTimeoutError"
  have close: "throws ?F (close_bash os node')" for node'
    by (rule throws_weaken [OF throws_close_bash [OF assms(1)]]) auto
  have swallow: "throws ?F (swallowing_timeout os node' m)" for node' m
    unfolding swallowing_timeout_def
    by (rule throws_catch [of "\<lambda>_. True"], simp add: throwsI, intro throws_intro close) simp_all
  have "throws ?F (temp_file_name os sql)"
    by (rule throws_weaken [of is_IOError]) (use assms(1) in \<open>auto simp: exit_quiet_def\<close>)
  then have tmp: "throws ?F (query_file os sql)"
    unfolding query_file_def by (intro throws_intro throws_inW)
  have check: "throws ?F (assertE b msg)" for b msg by (auto intro!: throwsI)
  have "throws ?F (hash_query os nm sql utility settings secure query_id pipe_cmd timeout)"
    "throws ?F (diff_query os nm sql expected settings secure query_id pipe_cmd timeout)"
    unfolding hash_query_def diff_query_def Let_def by (intro throws_intro tmp swallow check)+
  moreover have "swallowing_timeout os node (run_on os node cmd timeout) c = (Raise (UnboundLocalError ''r''), c2)"
    using assms(2,3) by (simp add: swallowing_timeout_def catchE_Raise_iff seqE_Raise_iff)
  ultimately show ?thesis by blast
qed

theorem hash_query_timeout_witness:
  "fst (swallowing_timeout (sim_os sim_hang) (Some ''clickhouse1'')
     (run_on (sim_os sim_hang) (Some ''clickhouse1'') ''sha1sum'' None) sim_cluster) = Raise (UnboundLocalError ''r'')"
proof -
  let ?os = "sim_os sim_hang" and ?node = "Some ''clickhouse1''"
  let ?run = "run_on ?os ?node ''sha1sum'' None sim_cluster"
  let ?close = "close_bash ?os ?node (snd ?run)"
  have "fst ?run = Raise ExpectTimeoutError" by code_simp
  then have run: "?run = (Raise ExpectTimeoutError, snd ?run)" by (metis prod.collapse)
  have "fst ?close = Return ()" by code_simp
  then have "?close = (Return (), snd ?close)" by (metis prod.collapse)
  from hash_query_timeout [OF sim_quiet run this] show ?thesis by simp
qed

end
