(* ===== verification/Node_Lifecycle.thy ===== *)
theory Node_Lifecycle
  imports Cluster_Command
begin

text \<open>
  Starting and stopping the servers of a cluster: \<open>ZooKeeperNode\<close> and \<open>ClickHouseNode\<close> of
  \<open>helpers/cluster.py\<close>. A pid is the text of the pid file, or \<open>None\<close>; like \<open>None\<close>, an empty text
  is false. Both classes give the same interface, the locale \<open>server_node\<close>.
\<close>

section \<open>ZooKeeper nodes\<close>

definition truthy :: "string option \<Rightarrow> bool" where
  "truthy x \<longleftrightarrow> (case x of None \<Rightarrow> False | Some s \<Rightarrow> s \<noteq> [])"

definition SERVER_ENV :: string where
  "SERVER_ENV = []"

text \<open>\<open>fail(msg)\<close> inside an attempt when the command's exit code is not \<open>0\<close>.\<close>

definition fail_unless_zero :: "('w, cmd_result) ceff \<Rightarrow> string \<Rightarrow> ('w, unit) ceff" where
  "fail_unless_zero m msg = bindE m (\<lambda>r. whenE (cmd_exitcode r \<noteq> 0) (raise (TestFail msg)))"

definition wait_zookeeper_healthy :: "'w os \<Rightarrow> string \<Rightarrow> seconds \<Rightarrow> ('w, unit) ceff" where
  "wait_zookeeper_healthy os nm timeout = retries os timeout 1 (\<lambda>_.
     fail_unless_zero (node_command os nm (SERVER_ENV @ ''zkServer.sh status'') no_checks)
       ''ZooKeeper server is not healthy'')"

text \<open>The pid in a file, if the file exists: \<open>zookeeper_pid\<close> and \<open>clickhouse_pid\<close>.\<close>

definition pid_in_file :: "'w os \<Rightarrow> string \<Rightarrow> string \<Rightarrow> ('w, string option) ceff" where
  "pid_in_file os nm file =
     bindE (node_command os nm (''ls '' @ file) default_args) (\<lambda>r.
     if cmd_exitcode r = 0 then
       bindE (node_command os nm (''cat '' @ file) default_args) (\<lambda>r'. ret (Some (py_strip (cmd_output r'))))
     else ret None)"

definition zookeeper_pid :: "'w os \<Rightarrow> string \<Rightarrow> ('w, string option) ceff" where
  "zookeeper_pid os nm = pid_in_file os nm ''/data/zookeeper_server.pid''"

definition zk_server :: "'w os \<Rightarrow> string \<Rightarrow> string \<Rightarrow> ('w, unit) ceff" where
  "zk_server os nm action =
     seqE (node_command os nm (SERVER_ENV @ ''zkServer.sh '' @ action) exit_zero) (ret ())"

definition stop_zookeeper :: "'w os \<Rightarrow> string \<Rightarrow> ('w, unit) ceff" where
  "stop_zookeeper os nm = zk_server os nm ''stop''"

definition start_zookeeper :: "'w os \<Rightarrow> string \<Rightarrow> ('w, unit) ceff" where
  "start_zookeeper os nm = zk_server os nm ''start''"

definition restart_zookeeper :: "'w os \<Rightarrow> string \<Rightarrow> ('w, unit) ceff" where
  "restart_zookeeper os nm = zk_server os nm ''restart''"

definition zookeeper_node_stop :: "'w os \<Rightarrow> string \<Rightarrow> seconds \<Rightarrow> nat \<Rightarrow> ('w, unit) ceff" where
  "zookeeper_node_stop os nm timeout retry_count =
     bindE (zookeeper_pid os nm) (\<lambda>pid.
       seqE (whenE (truthy pid) (stop_zookeeper os nm)) (node_stop os nm timeout retry_count))"

definition zookeeper_node_start :: "'w os \<Rightarrow> string \<Rightarrow> seconds \<Rightarrow> bool \<Rightarrow> nat \<Rightarrow> ('w, unit) ceff" where
  "zookeeper_node_start os nm timeout start_server retry_count =
     seqE (node_start os nm timeout retry_count) (whenE start_server (start_zookeeper os nm))"

definition zookeeper_node_restart :: "'w os \<Rightarrow> string \<Rightarrow> seconds \<Rightarrow> bool \<Rightarrow> nat \<Rightarrow> ('w, unit) ceff" where
  "zookeeper_node_restart os nm timeout start_server retry_count =
     bindE (zookeeper_pid os nm) (\<lambda>pid.
       seqE (whenE (truthy pid) (stop_zookeeper os nm))
       (seqE (node_restart os nm timeout retry_count) (whenE start_server (start_zookeeper os nm))))"

section \<open>ClickHouse nodes\<close>

definition thread_fuzzer_exports :: "string list" where
  "thread_fuzzer_exports =
    [''export THREAD_FUZZER_CPU_TIME_PERIOD_US=1000'',
     ''export THREAD_FUZZER_SLEEP_PROBABILITY=0.1'',
     ''export THREAD_FUZZER_SLEEP_TIME_US=100000'',
     ''export THREAD_FUZZER_pthread_mutex_lock_BEFORE_MIGRATE_PROBABILITY=1'',
     ''export THREAD_FUZZER_pthread_mutex_lock_AFTER_MIGRATE_PROBABILITY=1'',
     ''export THREAD_FUZZER_pthread_mutex_unlock_BEFORE_MIGRATE_PROBABILITY=1'',
     ''export THREAD_FUZZER_pthread_mutex_unlock_AFTER_MIGRATE_PROBABILITY=1'',
     ''export THREAD_FUZZER_pthread_mutex_lock_BEFORE_SLEEP_PROBABILITY=0.001'',
     ''export THREAD_FUZZER_pthread_mutex_lock_AFTER_SLEEP_PROBABILITY=0.001'',
     ''export THREAD_FUZZER_pthread_mutex_unlock_BEFORE_SLEEP_PROBABILITY=0.001'',
     ''export THREAD_FUZZER_pthread_mutex_unlock_AFTER_SLEEP_PROBABILITY=0.001'',
     ''export THREAD_FUZZER_pthread_mutex_lock_BEFORE_SLEEP_TIME_US=10000'',
     ''export THREAD_FUZZER_pthread_mutex_lock_AFTER_SLEEP_TIME_US=10000'',
     ''export THREAD_FUZZER_pthread_mutex_unlock_BEFORE_SLEEP_TIME_US=10000'',
     ''export THREAD_FUZZER_pthread_mutex_unlock_AFTER_SLEEP_TIME_US=10000'']"

definition enable_thread_fuzzer :: "'w os \<Rightarrow> string \<Rightarrow> ('w, unit) ceff" where
  "enable_thread_fuzzer os nm =
     forE thread_fuzzer_exports (\<lambda>cmd. seqE (node_command os nm cmd default_args) (ret ()))"

definition select_version :: "'w os \<Rightarrow> string \<Rightarrow> ('w, cmd_result) ceff" where
  "select_version os nm = query os nm ''SELECT version()'' 5 (default_query\<lparr>q_no_checks := True\<rparr>)"

text \<open>\<open>assert check_clickhouse_version(f"={node_version}")(current())\<close>, or the first version seen.\<close>

definition record_version :: "string \<Rightarrow> ('w, unit) ceff" where
  "record_version node_version =
     bindE (getE context_version) (\<lambda>v. case v of
       None \<Rightarrow> modifyE (\<lambda>c. c\<lparr>context_version := Some node_version\<rparr>)
     | Some _ \<Rightarrow> (case check_clickhouse_version (''='' @ node_version) v of
           Inl e \<Rightarrow> raise e
         | Inr ok \<Rightarrow> assertE ok []))"

definition wait_clickhouse_healthy :: "'w os \<Rightarrow> string \<Rightarrow> seconds \<Rightarrow> ('w, unit) ceff" where
  "wait_clickhouse_healthy os nm timeout =
     seqE (retries os timeout 1 (\<lambda>_. fail_unless_zero (select_version os nm) ''ClickHouse server is not healthy''))
     (bindE (select_version os nm) (\<lambda>r. record_version (cmd_output r)))"

definition clickhouse_pid :: "'w os \<Rightarrow> string \<Rightarrow> ('w, string option) ceff" where
  "clickhouse_pid os nm = pid_in_file os nm ''/tmp/clickhouse-server.pid''"

text \<open>The body of the loop that waits for the process to end; every twentieth attempt kills it.\<close>

definition check_pid_gone :: "'w os \<Rightarrow> string \<Rightarrow> string \<Rightarrow> nat \<Rightarrow> ('w, unit) ceff" where
  "check_pid_gone os nm pid i =
     seqE (whenE (i > 0 \<and> i mod 20 = 0) (seqE (node_command os nm (''kill -KILL '' @ pid) default_args) (ret ())))
     (bindE (node_command os nm (''ps '' @ pid) no_checks) (\<lambda>r.
       whenE (cmd_exitcode r \<noteq> 1) (raise (TestFail ''pid still alive''))))"

definition flush_to_disk :: "'w os \<Rightarrow> string \<Rightarrow> ('w, unit) ceff" where
  "flush_to_disk os nm =
     seqE (query os nm ''SYSTEM STOP MOVES'' 5 default_query)
     (seqE (query os nm ''SYSTEM STOP MERGES'' 5 default_query)
     (seqE (query os nm ''SYSTEM FLUSH LOGS'' 5 default_query)
     (seqE (inW (sleep os 5))
     (seqE (node_command os nm ''sync'' (exit_zero\<lparr>arg_timeout := Some 300\<rparr>)) (ret ())))))"

definition stop_clickhouse :: "'w os \<Rightarrow> string \<Rightarrow> bool \<Rightarrow> ('w, unit) ceff" where
  "stop_clickhouse os nm safe =
     seqE (whenE safe (flush_to_disk os nm))
     (bindE (clickhouse_pid os nm) (\<lambda>p. let pid = node_text p in
       seqE (node_command os nm (''kill -TERM '' @ pid) exit_zero)
       (seqE (retries os 100 3 (check_pid_gone os nm pid))
         (seqE (node_command os nm ''rm -rf /tmp/clickhouse-server.pid'' exit_zero) (ret ())))))"

definition server_command :: string where
  "server_command =
     ''clickhouse server --config-file=/etc/clickhouse-server/config.xml'' @
     '' --log-file=/var/log/clickhouse-server/clickhouse-server.log'' @
     '' --errorlog-file=/var/log/clickhouse-server/clickhouse-server.err.log'' @
     '' --pidfile=/tmp/clickhouse-server.pid --daemon''"

definition launch_command :: "string option \<Rightarrow> string" where
  "launch_command user = (case user of
     None \<Rightarrow> server_command
   | Some u \<Rightarrow> ''su '' @ u @ '' -c'' @ dquoted server_command)"

definition start_clickhouse :: "'w os \<Rightarrow> string \<Rightarrow> seconds \<Rightarrow> bool \<Rightarrow> string option \<Rightarrow> bool \<Rightarrow> ('w, unit) ceff" where
  "start_clickhouse os nm timeout healthy user fuzzer =
     bindE (clickhouse_pid os nm) (\<lambda>pid.
     if truthy pid then raise (RuntimeError (''ClickHouse server already running with pid '' @ node_text pid))
     else
       seqE (whenE fuzzer (enable_thread_fuzzer os nm))
       (seqE (node_command os nm (launch_command user) exit_zero)
       (seqE (retries os timeout 1 (\<lambda>_.
           fail_unless_zero (node_command os nm ''ls /tmp/clickhouse-server.pid'' no_checks) ''no pid file yet''))
         (whenE healthy (wait_clickhouse_healthy os nm timeout)))))"

definition restart_clickhouse :: "'w os \<Rightarrow> string \<Rightarrow> seconds \<Rightarrow> bool \<Rightarrow> bool \<Rightarrow> string option \<Rightarrow> ('w, unit) ceff" where
  "restart_clickhouse os nm timeout safe healthy user =
     bindE (clickhouse_pid os nm) (\<lambda>pid.
       seqE (whenE (truthy pid) (stop_clickhouse os nm safe))
         (start_clickhouse os nm timeout healthy user False))"

definition clickhouse_node_stop :: "'w os \<Rightarrow> string \<Rightarrow> seconds \<Rightarrow> bool \<Rightarrow> nat \<Rightarrow> ('w, unit) ceff" where
  "clickhouse_node_stop os nm timeout safe retry_count =
     bindE (clickhouse_pid os nm) (\<lambda>pid.
       seqE (whenE (truthy pid) (stop_clickhouse os nm safe)) (node_stop os nm timeout retry_count))"

definition clickhouse_node_start :: "'w os \<Rightarrow> string \<Rightarrow> seconds \<Rightarrow> bool \<Rightarrow> bool \<Rightarrow> nat \<Rightarrow> string option \<Rightarrow> ('w, unit) ceff" where
  "clickhouse_node_start os nm timeout start_server healthy retry_count user =
     seqE (node_start os nm timeout retry_count)
       (whenE start_server (start_clickhouse os nm timeout healthy user False))"

definition clickhouse_node_restart ::
  "'w os \<Rightarrow> string \<Rightarrow> seconds \<Rightarrow> bool \<Rightarrow> bool \<Rightarrow> bool \<Rightarrow> nat \<Rightarrow> string option \<Rightarrow> ('w, unit) ceff" where
  "clickhouse_node_restart os nm timeout safe start_server healthy retry_count user =
     bindE (clickhouse_pid os nm) (\<lambda>pid.
       seqE (whenE (truthy pid) (stop_clickhouse os nm safe))
       (seqE (node_restart os nm timeout retry_count)
         (whenE start_server (start_clickhouse os nm timeout healthy user False))))"

section \<open>The interface of a node with a server\<close>

locale server_node =
  fixes pid :: "('w, string option) ceff"
    and stop_server :: "('w, unit) ceff"
    and start_server :: "('w, unit) ceff"
    and base_stop base_start base_restart :: "('w, unit) ceff"
    and stop :: "('w, unit) ceff"
    and start restart :: "bool \<Rightarrow> ('w, unit) ceff"
  assumes stop_eq: "stop = bindE pid (\<lambda>p. seqE (whenE (truthy p) stop_server) base_stop)"
    and start_eq: "start b = seqE base_start (whenE b start_server)"
    and restart_eq: "restart b = bindE pid (\<lambda>p. seqE (whenE (truthy p) stop_server)
      (seqE base_restart (whenE b start_server)))"
begin

text \<open>The container is stopped last, and only after a running server was.\<close>

lemma stop_Return:
  "stop c = (Return (), c') \<longleftrightarrow> (\<exists>p c1 c2. pid c = (Return p, c1) \<and>
     (if truthy p then stop_server c1 = (Return (), c2) else c2 = c1) \<and> base_stop c2 = (Return (), c'))"
  unfolding stop_eq by (auto simp: bindE_Return_iff seqE_Return_iff whenE_def split: if_splits) metis+

text \<open>A failure of the server's own stop leaves the container running.\<close>

lemma stop_server_Raise:
  "pid c = (Return p, c1) \<Longrightarrow> truthy p \<Longrightarrow> stop_server c1 = (Raise e, c2) \<Longrightarrow> stop c = (Raise e, c2)"
  unfolding stop_eq by (auto simp: bindE_Raise_iff seqE_Raise_iff)

lemma restart_without_server:
  "pid c = (Return p, c1) \<Longrightarrow> \<not> truthy p \<Longrightarrow> restart False c = seqE base_restart (ret ()) c1"
  unfolding restart_eq by (simp add: bindE_def)

lemma operations_keep:
  assumes "keeps P pid" "keeps P stop_server" "keeps P start_server"
    and "keeps P base_stop" "keeps P base_start" "keeps P base_restart"
  shows "keeps P stop" "keeps P (start b)" "keeps P (restart b)"
  unfolding stop_eq start_eq restart_eq by (intro keeps_intro assms)+

end

interpretation zookeeper: server_node "zookeeper_pid os nm" "stop_zookeeper os nm" "start_zookeeper os nm"
  "node_stop os nm timeout retry_count" "node_start os nm timeout retry_count" "node_restart os nm timeout retry_count"
  "zookeeper_node_stop os nm timeout retry_count" "\<lambda>b. zookeeper_node_start os nm timeout b retry_count"
  "\<lambda>b. zookeeper_node_restart os nm timeout b retry_count" for os nm timeout retry_count
  by unfold_locales (auto simp: zookeeper_node_stop_def zookeeper_node_start_def zookeeper_node_restart_def)

interpretation clickhouse: server_node "clickhouse_pid os nm" "stop_clickhouse os nm safe"
  "start_clickhouse os nm timeout healthy user False"
  "node_stop os nm timeout retry_count" "node_start os nm timeout retry_count" "node_restart os nm timeout retry_count"
  "clickhouse_node_stop os nm timeout safe retry_count"
  "\<lambda>b. clickhouse_node_start os nm timeout b healthy retry_count user"
  "\<lambda>b. clickhouse_node_restart os nm timeout safe b healthy retry_count user"
  for os nm timeout retry_count safe healthy user
  by unfold_locales (auto simp: clickhouse_node_stop_def clickhouse_node_start_def clickhouse_node_restart_def)

section \<open>What the other operations leave alone\<close>

text \<open>
  What the code relies on of the test framework's helpers: \<open>retries\<close> and \<open>retry\<close> do nothing to the
  object but run the body, and \<open>retries\<close> returns only after an attempt that did not fail.
\<close>

definition only_runs :: "('w, 'a) ceff \<Rightarrow> (nat \<Rightarrow> ('w, 'b) ceff) \<Rightarrow> bool" where
  "only_runs m body \<longleftrightarrow> (\<forall>P. (\<forall>c w. P c \<longrightarrow> P (c\<lparr>world := w\<rparr>)) \<longrightarrow> (\<forall>n. keeps P (body n)) \<longrightarrow> keeps P m)"

definition retries_law :: "'w os \<Rightarrow> bool" where
  "retries_law os \<longleftrightarrow>
     (\<forall>t d body. only_runs (retries os t d body) body \<and>
        (\<forall>c c'. retries os t d body c = (Return (), c') \<longrightarrow> (\<exists>n c1. body n c1 = (Return (), c')))) \<and>
     (\<forall>n m. only_runs (retry os n m) (\<lambda>_. m))"

lemma only_runsD:
  assumes "only_runs m body" and "\<And>c w. P c \<Longrightarrow> P (c\<lparr>world := w\<rparr>)" and "\<And>n. keeps P (body n)"
  shows "keeps P m"
  using assms(1) [unfolded only_runs_def, THEN spec, of P] assms(2,3) by simp

lemma retries_lawD:
  assumes "retries_law os"
  shows "only_runs (retries os t d body) body" "only_runs (retry os n m) (\<lambda>_. m)"
    "retries os t d body c = (Return (), c') \<Longrightarrow> \<exists>n c1. body n c1 = (Return (), c')"
  using assms unfolding retries_law_def by (elim conjE, simp)+

lemma sim_retries: "retries_law (sim_os reply)"
  unfolding retries_law_def only_runs_def sim_os_def by auto

text \<open>A property of the attributes that commands and queries do not assign.\<close>

definition calm :: "('w cluster \<Rightarrow> bool) \<Rightarrow> bool" where
  "calm P \<longleftrightarrow> steady P \<and> (\<forall>c b. P c \<longrightarrow> P (c\<lparr>lock_held := b\<rparr>))"

lemma calmD: "calm P \<Longrightarrow> steady P" "calm P \<Longrightarrow> P c \<Longrightarrow> P (c\<lparr>lock_held := b\<rparr>)" "calm P \<Longrightarrow> P c \<Longrightarrow> P (c\<lparr>world := w\<rparr>)"
  by (auto simp: calm_def steadyD)

lemma calm_context_version: "calm (\<lambda>c. context_version c = v)"
  by (simp add: calm_def steady_def)

lemma keeps_with_lock: "calm P \<Longrightarrow> keeps P m \<Longrightarrow> keeps P (with_lock m)"
  unfolding with_lock_def by (intro keeps_intro) (simp_all add: calmD)

named_theorems calm_intro

lemma calm_bash [calm_intro]: "calm P \<Longrightarrow> keeps P (bash os node timeout cmd)"
  unfolding bash_def by (intro keeps_intro keeps_with_lock keeps_world) (simp_all add: calmD)

lemma calm_close_bash [calm_intro]: "calm P \<Longrightarrow> keeps P (close_bash os node)"
  unfolding close_bash_def by (intro keeps_intro keeps_with_lock keeps_world) (simp_all add: calmD)

lemma calm_close_bashes [calm_intro]: "calm P \<Longrightarrow> keeps P (close_bashes os nm)"
  unfolding close_bashes_def by (intro keeps_intro keeps_with_lock keeps_world) (simp_all add: calmD)

lemma calm_world [calm_intro]: "calm P \<Longrightarrow> keeps P (inW m)" "calm P \<Longrightarrow> keeps P (run_in os sh cmd t)"
  by (intro keeps_inW keeps_run_in, simp add: calmD)+

lemma calm_closing [calm_intro]: "calm P \<Longrightarrow> keeps P m \<Longrightarrow> keeps P (closing_on_timeout os node m)"
  unfolding closing_on_timeout_def by (intro keeps_intro calm_intro)

lemma calm_command [calm_intro]: "calm P \<Longrightarrow> keeps P (command os node cmd a)"
  unfolding command_def bash_default_def by (intro keeps_bind keeps_check_command keeps_case_option keeps_pure calm_intro)

lemma calm_node_command [calm_intro]: "calm P \<Longrightarrow> keeps P (node_command os nm cmd a)"
  unfolding node_command_def by (rule calm_intro)

lemma calm_query [calm_intro]: "calm P \<Longrightarrow> keeps P (query os nm sql n a)"
proof -
  assume calm: "calm P"
  have run: "keeps P (query_run os nm sql a)" for a
    unfolding query_run_def run_on_def bash_default_def Let_def
    by (intro keeps_bind keeps_if keeps_pure calm_intro calm)
  show ?thesis
  proof (induction n arbitrary: a)
    case 0
    then show ?case unfolding query.simps by (intro keeps_bind run keeps_check_query)
  next
    case (Suc n)
    then show ?case unfolding query.simps by (intro keeps_bind keeps_if keeps_seq run keeps_check_query calm_intro calm)
  qed
qed

lemma calm_retries: "retries_law os \<Longrightarrow> calm P \<Longrightarrow> (\<And>n. keeps P (body n)) \<Longrightarrow> keeps P (retries os t d body)"
  by (rule only_runsD [OF retries_lawD(1)]) (auto dest: calmD(3))

lemma calm_compose [calm_intro]: "retries_law os \<Longrightarrow> calm P \<Longrightarrow> keeps P (compose_service os action nm t n)"
proof -
  assume law: "retries_law os" and calm: "calm P"
  have "keeps P (retry os n (command os None cmd a))" for cmd a
    by (rule only_runsD [OF retries_lawD(2) [OF law]]) (auto intro: calmD(3) [OF calm] calm_command [OF calm])
  then show ?thesis unfolding compose_service_def by (intro keeps_intro)
qed

lemma calm_pid [calm_intro]: "calm P \<Longrightarrow> keeps P (pid_in_file os nm f)"
  unfolding pid_in_file_def by (intro keeps_intro calm_intro)

lemma calm_fail [calm_intro]: "keeps P m \<Longrightarrow> keeps P (fail_unless_zero m msg)"
  unfolding fail_unless_zero_def by (intro keeps_intro)

lemma calm_node_ops [calm_intro]:
  assumes "retries_law os" and "calm P"
  shows "keeps P (node_stop os nm t n)" "keeps P (node_start os nm t n)" "keeps P (node_restart os nm t n)"
    "keeps P (stop_clickhouse os nm safe)" "keeps P (wait_healthy os nm t)"
  unfolding node_stop_def node_start_def node_restart_def stop_clickhouse_def flush_to_disk_def check_pid_gone_def
    wait_healthy_def clickhouse_pid_def Let_def
  by (intro keeps_intro calm_intro calm_retries assms)+

section \<open>Versions\<close>

lemma record_version_Return:
  "record_version v c = (Return (), c') \<longleftrightarrow>
     context_version c = None \<and> c' = c\<lparr>context_version := Some v\<rparr> \<or>
     (\<exists>w. context_version c = Some w \<and> c' = c \<and> check_clickhouse_version (''='' @ v) (Some w) = Inr True)"
  unfolding record_version_def
  by (cases "context_version c"; cases "check_clickhouse_version (''='' @ v) (context_version c)")
    (auto simp: bindE_getE)

lemma healthy_version:
  assumes "retries_law os" and "wait_clickhouse_healthy os nm timeout c = (Return (), c')"
  shows "\<exists>r c1 c2. select_version os nm c1 = (Return r, c2) \<and>
    (context_version c = None \<and> c' = c2\<lparr>context_version := Some (cmd_output r)\<rparr> \<or>
     (\<exists>v. context_version c = Some v \<and> c' = c2 \<and> context_version c' = Some v \<and>
        check_clickhouse_version (''='' @ cmd_output r) (Some v) = Inr True))"
proof -
  let ?wait = "retries os timeout 1 (\<lambda>_. fail_unless_zero (select_version os nm) ''ClickHouse server is not healthy'')"
  obtain c1 r c2 where wait: "?wait c = (Return (), c1)" and sel: "select_version os nm c1 = (Return r, c2)"
    and rec: "record_version (cmd_output r) c2 = (Return (), c')"
    using assms(2) unfolding wait_clickhouse_healthy_def by (auto simp: seqE_Return_iff bindE_Return_iff)
  note calm = calm_context_version [of "context_version c"]
  have keeps: "keeps (\<lambda>s. context_version s = context_version c) (select_version os nm)"
    unfolding select_version_def by (rule calm_query [OF calm])
  have "context_version c1 = context_version c"
    using keepsD [OF calm_retries [OF assms(1) calm calm_fail [OF keeps]] refl wait] by simp
  then have "context_version c2 = context_version c"
    using keepsD [OF keeps _ sel] by simp
  with rec sel show ?thesis
    by (intro exI [of _ r] exI [of _ c1] exI [of _ c2]) (auto simp: record_version_Return)
qed

section \<open>Shells of a stopped node\<close>

text \<open>No thread has a shell to a node whose name ends in \<open>nm\<close>.\<close>

definition unreachable :: "string \<Rightarrow> 'w cluster \<Rightarrow> bool" where
  "unreachable nm c \<longleftrightarrow> (\<forall>j. endswith (snd j) nm \<longrightarrow> map_of (bash_pool c) j = None)"

lemma unreachable_fields [simp]:
  "unreachable nm (c\<lparr>world := w\<rparr>) = unreachable nm c" "unreachable nm (c\<lparr>lock_held := b\<rparr>) = unreachable nm c"
  "unreachable nm (c\<lparr>ctl_shell := x\<rparr>) = unreachable nm c"
  by (simp_all add: unreachable_def)

lemma unreachable_pool:
  "\<not> endswith (snd i) nm \<Longrightarrow> keeps (unreachable nm) (pool_set i sh)" "keeps (unreachable nm) (pool_del i)"
  unfolding pool_set_def pool_del_def
  by (rule keeps_modify, auto simp: unreachable_def update_conv' delete_conv')+

lemma unreachable_container: "keeps (unreachable nm) (container_of os node t)"
  using keeps_pool_container_of [of "\<lambda>d. \<forall>j. endswith (snd j) nm \<longrightarrow> map_of d j = None" os node t]
  by (simp add: unreachable_def [abs_def])

lemma unreachable_host_command:
  assumes host: "\<not> endswith ''None'' nm"
  shows "keeps (unreachable nm) (command os None cmd a)"
proof -
  note ops = keeps_intro unreachable_pool keeps_inW keeps_run_in keeps_shell_exit unreachable_container
  have loop: "keeps (unreachable nm) (bash_loop os (t, node_text None) None cmd' timeout t0 n)" for t cmd' timeout t0 n
    by (induction n) (auto simp: bash_attempt_def node_text_def host intro!: ops)
  have opened: "keeps (unreachable nm) (open_bash os (t, node_text None) None timeout cmd')" for t timeout cmd'
    unfolding open_bash_def prepare_bash_def close_stale_def by (intro ops loop) auto
  have "keeps (unreachable nm) (bash os None timeout cmd')" for timeout cmd'
    unfolding bash_def bash_id_def with_lock_def by (rule keeps_bind_get) (intro ops opened, auto)
  moreover have "keeps (unreachable nm) (close_bash os None)"
    unfolding close_bash_def bash_id_def with_lock_def by (intro ops) auto
  ultimately show ?thesis
    unfolding command_def bash_default_def closing_on_timeout_def by (intro ops) auto
qed

section \<open>Properties\<close>

text \<open>
  Worlds for the witnesses: one without a pid, whose pid file is empty, and one in which the
  process has ended when it is looked for.
\<close>

definition sim_no_pid :: "string \<Rightarrow> cmd_result option" where
  "sim_no_pid cmd = (if startswith cmd ''cat'' then Some \<lparr>cmd_output = newline, cmd_exitcode = 0\<rparr> else sim_answers cmd)"

definition sim_stopping :: "string \<Rightarrow> cmd_result option" where
  "sim_stopping cmd = (if startswith cmd ''ps'' then Some \<lparr>cmd_output = [], cmd_exitcode = 1\<rparr> else sim_answers cmd)"

text \<open>All nodes of a cluster run the same version: when \<open>wait_clickhouse_healthy\<close> returns, the test
  context has a version; if it had none before it is the version the node reports, and
  if it had one it is unchanged and the node's report compares equal to it.\<close>

theorem healthy_node_version:
  assumes "retries_law os" and "wait_clickhouse_healthy os nm timeout c = (Return (), c')"
  shows "\<exists>r c1 c2. select_version os nm c1 = (Return r, c2) \<and>
    (context_version c = None \<and> c' = c2\<lparr>context_version := Some (cmd_output r)\<rparr> \<or>
     (\<exists>v. context_version c = Some v \<and> c' = c2 \<and> context_version c' = Some v \<and>
        check_clickhouse_version (''='' @ cmd_output r) (Some v) = Inr True))"
  using assms by (rule healthy_version)

lemma sim_healthy:
  "wait_clickhouse_healthy (sim_os sim_answers) ''clickhouse1'' 300 sim_cluster =
     (Return (), snd (wait_clickhouse_healthy (sim_os sim_answers) ''clickhouse1'' 300 sim_cluster))"
proof -
  have "fst (wait_clickhouse_healthy (sim_os sim_answers) ''clickhouse1'' 300 sim_cluster) = Return ()" by code_simp
  then show ?thesis by (metis prod.collapse)
qed

theorem healthy_node_version_witness:
  "context_version (snd (wait_clickhouse_healthy (sim_os sim_answers) ''clickhouse1'' 300 sim_cluster)) \<noteq> None"
  using healthy_node_version [OF sim_retries sim_healthy] by auto

lemma start_contract:
  assumes "retries_law os"
  shows "(clickhouse_pid os nm c = (Return (Some p), c1) \<and> p \<noteq> [] \<longrightarrow>
      start_clickhouse os nm timeout healthy user fuzzer c =
        (Raise (RuntimeError (''ClickHouse server already running with pid '' @ p)), c1)) \<and>
    (start_clickhouse os nm timeout healthy user fuzzer c = (Return (), c') \<longrightarrow>
      (\<exists>pid c1. clickhouse_pid os nm c = (Return pid, c1) \<and> \<not> truthy pid) \<and>
      (\<exists>r c2 c3. node_command os nm ''ls /tmp/clickhouse-server.pid'' no_checks c2 = (Return r, c3) \<and> cmd_exitcode r = 0 \<and>
        (if healthy then wait_clickhouse_healthy os nm timeout c3 = (Return (), c') else c' = c3)) \<and>
      (healthy \<longrightarrow> context_version c' \<noteq> None))"
proof -
  have "(\<exists>pid c1. clickhouse_pid os nm c = (Return pid, c1) \<and> \<not> truthy pid) \<and>
      (\<exists>r c2 c3. node_command os nm ''ls /tmp/clickhouse-server.pid'' no_checks c2 = (Return r, c3) \<and> cmd_exitcode r = 0 \<and>
        (if healthy then wait_clickhouse_healthy os nm timeout c3 = (Return (), c') else c' = c3)) \<and>
      (healthy \<longrightarrow> context_version c' \<noteq> None)"
    if ret: "start_clickhouse os nm timeout healthy user fuzzer c = (Return (), c')"
  proof -
    let ?ls = "\<lambda>_. fail_unless_zero (node_command os nm ''ls /tmp/clickhouse-server.pid'' no_checks) ''no pid file yet''"
    obtain pid c1 c2 c3 where pid: "clickhouse_pid os nm c = (Return pid, c1)" "\<not> truthy pid"
      and ls: "retries os timeout 1 ?ls c2 = (Return (), c3)"
      and up: "whenE healthy (wait_clickhouse_healthy os nm timeout) c3 = (Return (), c')"
      using ret unfolding start_clickhouse_def bindE_Return_iff by (auto simp: seqE_Return_iff split: if_splits)
    from retries_lawD(3) [OF assms ls] obtain n c4 where "?ls n c4 = (Return (), c3)" by blast
    then obtain r where "node_command os nm ''ls /tmp/clickhouse-server.pid'' no_checks c4 = (Return r, c3)" "cmd_exitcode r = 0"
      by (auto simp: fail_unless_zero_def bindE_Return_iff whenE_def split: if_splits)
    moreover have "if healthy then wait_clickhouse_healthy os nm timeout c3 = (Return (), c') else c' = c3"
      using up by (auto simp: whenE_def)
    moreover have "context_version c' \<noteq> None" if healthy
      using healthy_version [OF assms, of nm timeout c3 c'] up that by auto
    ultimately show ?thesis using pid by blast
  qed
  then show ?thesis
    by (auto simp: start_clickhouse_def bindE_def truthy_def node_text_def raise_def)
qed

text \<open>C29. \<open>start_clickhouse\<close> never starts a second server: it raises when a pid file with a pid exists, before
  any other command; and when it returns there was none before, and the command that
  looks for the new pid file has succeeded, and after it, unless the caller waived the
  health check, the server was found healthy and the version of the server is known to the test context.\<close>

theorem start_clickhouse_contract:
  assumes "retries_law os"
  shows "(clickhouse_pid os nm c = (Return (Some p), c1) \<and> p \<noteq> [] \<longrightarrow>
      start_clickhouse os nm timeout healthy user fuzzer c =
        (Raise (RuntimeError (''ClickHouse server already running with pid '' @ p)), c1)) \<and>
    (start_clickhouse os nm timeout healthy user fuzzer c = (Return (), c') \<longrightarrow>
      (\<exists>pid c1. clickhouse_pid os nm c = (Return pid, c1) \<and> \<not> truthy pid) \<and>
      (\<exists>r c2 c3. node_command os nm ''ls /tmp/clickhouse-server.pid'' no_checks c2 = (Return r, c3) \<and> cmd_exitcode r = 0 \<and>
        (if healthy then wait_clickhouse_healthy os nm timeout c3 = (Return (), c') else c' = c3)) \<and>
      (healthy \<longrightarrow> context_version c' \<noteq> None))"
  using assms by (rule start_contract)

lemma sim_start:
  "start_clickhouse (sim_os sim_no_pid) ''clickhouse1'' 300 True None False sim_cluster =
     (Return (), snd (start_clickhouse (sim_os sim_no_pid) ''clickhouse1'' 300 True None False sim_cluster))"
proof -
  have "fst (start_clickhouse (sim_os sim_no_pid) ''clickhouse1'' 300 True None False sim_cluster) = Return ()" by code_simp
  then show ?thesis by (metis prod.collapse)
qed

theorem start_clickhouse_contract_witness:
  "context_version (snd (start_clickhouse (sim_os sim_no_pid) ''clickhouse1'' 300 True None False sim_cluster)) \<noteq> None"
  using start_clickhouse_contract [OF sim_retries] sim_start by blast

text \<open>C30. When \<open>stop_clickhouse\<close> returns, the logs were flushed first if the caller asked for a safe stop, and
  the server process is gone: the last \<open>ps\<close> for the pid of the
  pid file had the exit code of a process that does not exist, and only then was the pid
  file removed.\<close>

theorem stop_clickhouse_contract:
  assumes "retries_law os" and "stop_clickhouse os nm safe c = (Return (), c')"
  shows "\<exists>p r c1 c2 c3 r'. (if safe then flush_to_disk os nm c = (Return (), c1) else c1 = c) \<and>
    clickhouse_pid os nm c1 = (Return p, c2) \<and>
    (\<exists>c4. node_command os nm (''ps '' @ node_text p) no_checks c4 = (Return r, c3)) \<and> cmd_exitcode r = 1 \<and>
    node_command os nm ''rm -rf /tmp/clickhouse-server.pid'' exit_zero c3 = (Return r', c')"
proof -
  obtain p c1 c2 c4 c3 r' where flush: "whenE safe (flush_to_disk os nm) c = (Return (), c1)"
    and pid: "clickhouse_pid os nm c1 = (Return p, c2)"
    and gone: "retries os 100 3 (check_pid_gone os nm (node_text p)) c4 = (Return (), c3)"
    and rm: "node_command os nm ''rm -rf /tmp/clickhouse-server.pid'' exit_zero c3 = (Return r', c')"
    using assms(2) unfolding stop_clickhouse_def Let_def by (auto simp: seqE_Return_iff bindE_Return_iff)
  from retries_lawD(3) [OF assms(1) gone]
  obtain n c5 where "check_pid_gone os nm (node_text p) n c5 = (Return (), c3)" by blast
  then obtain r c6 where "node_command os nm (''ps '' @ node_text p) no_checks c6 = (Return r, c3)" "cmd_exitcode r = 1"
    unfolding check_pid_gone_def by (auto simp: seqE_Return_iff bindE_Return_iff whenE_def split: if_splits)
  moreover have "if safe then flush_to_disk os nm c = (Return (), c1) else c1 = c"
    using flush by (auto simp: whenE_def)
  ultimately show ?thesis using pid rm by blast
qed

lemma sim_stop:
  "stop_clickhouse (sim_os sim_stopping) ''clickhouse1'' False sim_cluster =
     (Return (), snd (stop_clickhouse (sim_os sim_stopping) ''clickhouse1'' False sim_cluster))"
proof -
  have "fst (stop_clickhouse (sim_os sim_stopping) ''clickhouse1'' False sim_cluster) = Return ()" by code_simp
  then show ?thesis by (metis prod.collapse)
qed

theorem stop_clickhouse_contract_witness:
  "\<exists>p r c3 c4. node_command (sim_os sim_stopping) ''clickhouse1'' (''ps '' @ node_text p) no_checks c4 = (Return r, c3) \<and>
     cmd_exitcode r = 1"
  using stop_clickhouse_contract [OF sim_retries sim_stop] by blast

text \<open>Stopping a ClickHouse or a ZooKeeper node closes it for every thread: when the call returns, the
  server in it had been stopped first if it had a pid, the container was stopped last,
  and no thread has a shell to the node any more.\<close>

theorem node_stop_contract:
  assumes "retries_law os" and "\<not> endswith ''None'' nm"
    and "clickhouse_node_stop os nm timeout safe retry_count c = (Return (), c') \<or>
      zookeeper_node_stop os nm timeout retry_count c = (Return (), c')"
  shows "unreachable nm c' \<and> (\<exists>p c1 c2.
    (clickhouse_pid os nm c = (Return p, c1) \<and> (if truthy p then stop_clickhouse os nm safe c1 = (Return (), c2) else c2 = c1) \<or>
     zookeeper_pid os nm c = (Return p, c1) \<and> (if truthy p then stop_zookeeper os nm c1 = (Return (), c2) else c2 = c1)) \<and>
    node_stop os nm timeout retry_count c2 = (Return (), c'))"
proof -
  have "unreachable nm c'" if ends: "node_stop os nm timeout retry_count c2 = (Return (), c')" for c2
  proof -
    obtain u c3 v where close: "close_bashes os nm c2 = (Return u, c3)"
      and stop: "compose_service os ''stop'' nm timeout retry_count c3 = (Return v, c')"
      using ends unfolding node_stop_def seqE_Return_iff ret_iff by blast
    have closed: "unreachable nm c3" using close_bashes_Return [OF close] by (simp add: unreachable_def)
    have "keeps (unreachable nm) (compose_service os ''stop'' nm timeout retry_count)"
      unfolding compose_service_def
      by (intro keeps_intro only_runsD [OF retries_lawD(2) [OF assms(1)]] unreachable_host_command assms(2)) simp
    from keepsD [OF this closed stop] show ?thesis by simp
  qed
  with assms(3) show ?thesis unfolding clickhouse.stop_Return zookeeper.stop_Return by blast
qed

theorem node_stop_contract_witness:
  "unreachable ''clickhouse1'' (snd (clickhouse_node_stop (sim_os sim_no_pid) ''clickhouse1'' 300 True 5 sim_cluster))"
proof -
  let ?run = "clickhouse_node_stop (sim_os sim_no_pid) ''clickhouse1'' 300 True 5 sim_cluster"
  have "fst ?run = Return ()" by code_simp
  then have "?run = (Return (), snd ?run)" by (metis prod.collapse)
  moreover have "\<not> endswith ''None'' ''clickhouse1''" by code_simp
  ultimately show ?thesis using node_stop_contract [OF sim_retries] by blast
qed

end
