(* ===== verification/Xml_Config.thy ===== *)
theory Xml_Config
  imports Versions
begin

text \<open>
  \<open>helpers/common.py\<close>: server configuration files built from nested dictionaries. The tree
  is the part of \<open>xml.etree.ElementTree\<close> the code uses: elements with attributes, text,
  tail and children, comments, and the serializer with \<open>short_empty_elements=False\<close>. Tags
  carry no namespaces, which no configuration of the repository has.
\<close>

section \<open>Trees\<close>

datatype xml_tag = Tag string | CommentTag

datatype xml = Xml (tag_of: xml_tag) (attribs_of: "(string, string) pydict")
  (text_of: "string option") (tail_of: "string option") (children_of: "xml list")

definition Element :: "string \<Rightarrow> xml" where
  "Element tag = Xml (Tag tag) [] None None []"

definition Comment :: "string \<Rightarrow> xml" where
  "Comment text = Xml CommentTag [] (Some text) None []"

fun set_text :: "string \<Rightarrow> xml \<Rightarrow> xml" where
  "set_text t (Xml tag ats text tail ch) = Xml tag ats (Some t) tail ch"

fun set_tail :: "string \<Rightarrow> xml \<Rightarrow> xml" where
  "set_tail t (Xml tag ats text tail ch) = Xml tag ats text (Some t) ch"

fun append_child :: "xml \<Rightarrow> xml \<Rightarrow> xml" where
  "append_child (Xml tag ats text tail ch) c = Xml tag ats text tail (ch @ [c])"

fun set_attribute :: "xml \<Rightarrow> string \<times> string \<Rightarrow> xml" where
  "set_attribute (Xml tag ats text tail ch) (k, v) = Xml tag (AList.update k v ats) text tail ch"

text \<open>\<open>not x or not x.strip()\<close>\<close>

definition blank :: "string option \<Rightarrow> bool" where
  "blank x \<longleftrightarrow> (case x of None \<Rightarrow> True | Some t \<Rightarrow> py_strip t = [])"

text \<open>The element that the loop variable is bound to after \<open>for elem in elem\<close> is the last child.\<close>

fun dedent_last :: "string \<Rightarrow> xml list \<Rightarrow> xml list" where
  "dedent_last i [] = []"
| "dedent_last i [x] = [if blank (tail_of x) then set_tail i x else x]"
| "dedent_last i (x # y # xs) = x # dedent_last i (y # xs)"

definition indentation :: "nat \<Rightarrow> string \<Rightarrow> string" where
  "indentation level by = CHR 0x0A # concat (replicate level by)"

text \<open>The recursive call does not pass \<open>by\<close> on, so nested levels use the default of two blanks.\<close>

fun xml_indent :: "nat \<Rightarrow> string \<Rightarrow> xml \<Rightarrow> xml" where
  "xml_indent level by (Xml tag ats text tail ch) =
     (let i = indentation level by in
      if ch \<noteq> [] then
        Xml tag ats
          (if blank text then Some (i @ by) else text)
          (if blank tail then Some i else tail)
          (dedent_last i (map (xml_indent (level + 1) ''  '') ch))
      else
        Xml tag ats text (if level \<noteq> 0 \<and> blank tail then Some i else tail) ch)"

definition xml_append :: "xml \<Rightarrow> string \<Rightarrow> string \<Rightarrow> xml" where
  "xml_append root_elem tag text = append_child root_elem (set_text text (Element tag))"

section \<open>Serialization\<close>

fun escape_cdata :: "string \<Rightarrow> string" where
  "escape_cdata [] = []"
| "escape_cdata (c # cs) =
     (if c = CHR ''&'' then ''&amp;'' else if c = CHR ''<'' then ''&lt;''
      else if c = CHR ''>'' then ''&gt;'' else [c]) @ escape_cdata cs"

fun escape_attrib :: "string \<Rightarrow> string" where
  "escape_attrib [] = []"
| "escape_attrib (c # cs) =
     (if c = CHR ''&'' then ''&amp;'' else if c = CHR ''<'' then ''&lt;''
      else if c = CHR ''>'' then ''&gt;'' else if c = CHR 0x22 then ''&quot;''
      else if c = CHR 0x0D then ''&#13;'' else if c = CHR 0x0A then ''&#10;''
      else if c = CHR 0x09 then ''&#09;'' else [c]) @ escape_attrib cs"

definition tail_text :: "string option \<Rightarrow> string" where
  "tail_text tail = (case tail of None \<Rightarrow> [] | Some t \<Rightarrow> escape_cdata t)"

fun attribs_text :: "(string, string) pydict \<Rightarrow> string" where
  "attribs_text [] = []"
| "attribs_text ((k, v) # ats) = '' '' @ k @ ''=\"'' @ escape_attrib v @ ''\"'' @ attribs_text ats"

fun tostring :: "xml \<Rightarrow> string" where
  "tostring (Xml CommentTag ats text tail ch) =
     ''<!--'' @ (case text of None \<Rightarrow> ''None'' | Some t \<Rightarrow> t) @ ''-->'' @ tail_text tail"
| "tostring (Xml (Tag tag) ats text tail ch) =
     ''<'' @ tag @ attribs_text ats @ ''>'' @ tail_text text @ concat (map tostring ch) @
     ''</'' @ tag @ ''>'' @ tail_text tail"

section \<open>Configurations\<close>

record config =
  config_content :: string
  config_path :: string
  config_name :: string
  config_uid :: string
  config_preprocessed_name :: string

datatype entry_key = Key string | KeyWithAttributes string "(string, string) pydict"

text \<open>A value is a text, a dictionary, or a list (or tuple) of dictionaries.\<close>

datatype entry = Text string | Dict "(entry_key \<times> entry) list"
  | Entries "(entry_key \<times> entry) list list"

type_synonym entries = "(entry_key \<times> entry) list"

fun create_xml_tree :: "entries \<Rightarrow> xml \<Rightarrow> xml"
  and create_entry :: "entry_key \<Rightarrow> entry \<Rightarrow> xml \<Rightarrow> xml"
  and create_each :: "entries list \<Rightarrow> xml \<Rightarrow> xml" where
  "create_xml_tree [] root_elem = root_elem"
| "create_xml_tree ((k, v) # es) root_elem = create_xml_tree es (create_entry k v root_elem)"
| "create_entry (KeyWithAttributes n ats) (Dict d) root_elem =
     append_child root_elem (create_xml_tree d (foldl set_attribute (Element n) ats))"
| "create_entry (KeyWithAttributes n ats) (Entries ds) root_elem =
     append_child root_elem (create_each ds (foldl set_attribute (Element n) ats))"
| "create_entry (KeyWithAttributes n ats) (Text t) root_elem =
     append_child root_elem (set_text t (foldl set_attribute (Element n) ats))"
| "create_entry (Key n) (Dict d) root_elem = append_child root_elem (create_xml_tree d (Element n))"
| "create_entry (Key n) (Entries ds) root_elem = append_child root_elem (create_each ds (Element n))"
| "create_entry (Key n) (Text t) root_elem = xml_append root_elem n t"
| "create_each [] root_elem = root_elem"
| "create_each (e # es) root_elem = create_each es (create_xml_tree e root_elem)"

text \<open>\<open>os.path.join\<close> of two parts.\<close>

definition path_join :: "string \<Rightarrow> string \<Rightarrow> string" where
  "path_join a b =
     (if startswith b ''/'' then b
      else if a = [] \<or> endswith a ''/'' then a @ b
      else a @ ''/'' @ b)"

definition xml_with_utf8 :: string where
  "xml_with_utf8 = ''<?xml version=\"1.0\" encoding=\"utf-8\"?>'' @ [CHR 0x0A]"

text \<open>The tree before indentation; \<open>uid\<close> is the result of \<open>getuid()\<close>.\<close>

definition config_tree :: "string \<Rightarrow> entries \<Rightarrow> string \<Rightarrow> xml" where
  "config_tree uid entries root_elem =
     create_xml_tree entries (append_child (Element root_elem) (Comment (''config uid: '' @ uid)))"

definition create_xml_config_content ::
  "string \<Rightarrow> entries \<Rightarrow> string \<Rightarrow> string \<Rightarrow> string \<Rightarrow> config" where
  "create_xml_config_content uid entries config_file config_d_dir root_elem =
     \<lparr>config_content = xml_with_utf8 @ tostring (xml_indent 0 ''  '' (config_tree uid entries root_elem)),
      config_path = path_join config_d_dir config_file,
      config_name = config_file,
      config_uid = uid,
      config_preprocessed_name = ''config.xml''\<rparr>"

section \<open>Reading a tree back\<close>

text \<open>
  The dictionary that a tree stands for: comments and layout are skipped, an element
  without children is its text (or the empty dictionary), an element with children is the
  dictionary of its children. A list of dictionaries is written into one element, so it
  reads back as their concatenation.
\<close>

datatype plain = PText string | PDict "((string \<times> (string, string) pydict) \<times> plain) list"

fun plain_key :: "entry_key \<Rightarrow> string \<times> (string, string) pydict" where
  "plain_key (Key n) = (n, [])"
| "plain_key (KeyWithAttributes n ats) = (n, ats)"

fun plain_of :: "entry \<Rightarrow> plain" and plain_entries :: "entries \<Rightarrow> ((string \<times> (string, string) pydict) \<times> plain) list"
  and plain_each :: "entries list \<Rightarrow> ((string \<times> (string, string) pydict) \<times> plain) list" where
  "plain_of (Text t) = PText t"
| "plain_of (Dict d) = PDict (plain_entries d)"
| "plain_of (Entries ds) = PDict (plain_each ds)"
| "plain_entries [] = []"
| "plain_entries ((k, v) # es) = (plain_key k, plain_of v) # plain_entries es"
| "plain_each [] = []"
| "plain_each (e # es) = plain_entries e @ plain_each es"

fun read_xml :: "xml \<Rightarrow> ((string \<times> (string, string) pydict) \<times> plain) list" where
  "read_xml (Xml CommentTag ats text tail ch) = []"
| "read_xml (Xml (Tag n) ats text tail ch) =
     [((n, ats), if ch = [] then (case text of None \<Rightarrow> PDict [] | Some t \<Rightarrow> PText t)
                 else PDict (concat (map read_xml ch)))]"

definition read_children :: "xml \<Rightarrow> ((string \<times> (string, string) pydict) \<times> plain) list" where
  "read_children x = concat (map read_xml (children_of x))"

section \<open>Lemmas\<close>

lemma children_append_child [simp]: "children_of (append_child x c) = children_of x @ [c]"
  by (cases x) simp

lemma tag_append_child [simp]: "tag_of (append_child x c) = tag_of x"
  by (cases x) simp

lemma children_set_text [simp]: "children_of (set_text t x) = children_of x"
  by (cases x) simp

lemma tag_set_attributes [simp]:
  "tag_of (foldl set_attribute x ats) = tag_of x \<and> text_of (foldl set_attribute x ats) = text_of x
   \<and> children_of (foldl set_attribute x ats) = children_of x
   \<and> tail_of (foldl set_attribute x ats) = tail_of x"
proof (induction ats arbitrary: x)
  case (Cons a ats)
  then show ?case by (cases x; cases a) simp
qed simp

lemma update_fresh: "k \<notin> set (map fst al) \<Longrightarrow> AList.update k v al = al @ [(k, v)]"
  by (induction al) auto

lemma attribs_set_attributes:
  "distinct (map fst ats) \<Longrightarrow> set (map fst ats) \<inter> set (map fst (attribs_of x)) = {} \<Longrightarrow>
   attribs_of (foldl set_attribute x ats) = attribs_of x @ ats"
proof (induction ats arbitrary: x)
  case (Cons a ats)
  obtain k v where a: "a = (k, v)" by (cases a)
  obtain g al tx tl cs where x: "x = Xml g al tx tl cs" by (cases x)
  have "attribs_of (set_attribute x a) = al @ [(k, v)]"
    using Cons.prems by (simp add: a x update_fresh)
  with Cons show ?case by (auto simp: a x)
qed simp

lemma set_attributes_Element:
  assumes "distinct (map fst ats)"
  shows "foldl set_attribute (Xml (Tag n) [] None None []) ats = Xml (Tag n) ats None None []"
proof -
  have "attribs_of (foldl set_attribute (Xml (Tag n) [] None None []) ats) = ats"
    using attribs_set_attributes [of ats "Xml (Tag n) [] None None []"] assms by simp
  then show ?thesis
    using tag_set_attributes [of "Xml (Tag n) [] None None []" ats] by (intro xml.expand) simp
qed

text \<open>The attributes of a key are a dictionary: its names are distinct, at every depth.\<close>

fun key_ok :: "entry_key \<Rightarrow> bool" where
  "key_ok (Key n) = True"
| "key_ok (KeyWithAttributes n ats) = distinct (map fst ats)"

fun entry_ok :: "entry \<Rightarrow> bool" and entries_ok :: "entries \<Rightarrow> bool" and each_ok :: "entries list \<Rightarrow> bool" where
  "entry_ok (Text t) = True"
| "entry_ok (Dict d) = entries_ok d"
| "entry_ok (Entries ds) = each_ok ds"
| "entries_ok [] = True"
| "entries_ok ((k, v) # es) = (key_ok k \<and> entry_ok v \<and> entries_ok es)"
| "each_ok [] = True"
| "each_ok (e # es) = (entries_ok e \<and> each_ok es)"

text \<open>
  Building changes nothing of the element but its children, and the new children read back
  as the dictionary. \<open>grows x ps y\<close> says so for one step.
\<close>

definition grows :: "xml \<Rightarrow> ((string \<times> (string, string) pydict) \<times> plain) list \<Rightarrow> xml \<Rightarrow> bool" where
  "grows x ps y \<longleftrightarrow> tag_of y = tag_of x \<and> attribs_of y = attribs_of x \<and> text_of y = text_of x \<and>
     tail_of y = tail_of x \<and> (\<exists>cs. children_of y = children_of x @ cs \<and> concat (map read_xml cs) = ps
       \<and> (ps = [] \<longrightarrow> cs = []))"

lemma grows_refl: "grows x [] x"
  by (simp add: grows_def)

lemma grows_trans: "grows x ps y \<Longrightarrow> grows y qs z \<Longrightarrow> grows x (ps @ qs) z"
  unfolding grows_def by fastforce

lemma grows_append: "read_xml c = ps \<Longrightarrow> ps \<noteq> [] \<Longrightarrow> grows x ps (append_child x c)"
  by (cases x) (simp add: grows_def)

lemma read_grown:
  assumes "grows (Xml (Tag n) ats None None []) ps y"
  shows "read_xml y = [((n, ats), PDict ps)]"
  using assms by (cases y) (auto simp: grows_def)

lemma create_grows:
  "entries_ok es \<Longrightarrow> grows x (plain_entries es) (create_xml_tree es x)"
  "key_ok k \<Longrightarrow> entry_ok v \<Longrightarrow> grows x [(plain_key k, plain_of v)] (create_entry k v x)"
  "each_ok ds \<Longrightarrow> grows x (plain_each ds) (create_each ds x)"
proof (induction es x and k v x and ds x
    rule: create_xml_tree_create_entry_create_each.induct)
  case (2 k v es x)
  then show ?case using grows_trans [of x "[(plain_key k, plain_of v)]"] by fastforce
next
  case (10 e es x)
  then show ?case by (auto intro: grows_trans)
qed (auto simp: grows_refl xml_append_def set_attributes_Element Element_def
      intro!: grows_append read_grown)

lemma read_set_tail [simp]: "read_xml (set_tail t x) = read_xml x"
  by (cases x rule: read_xml.cases) auto

lemma read_dedent_last: "map read_xml (dedent_last i xs) = map read_xml xs"
  by (induction i xs rule: dedent_last.induct) auto

lemma dedent_last_Nil [simp]: "dedent_last i xs = [] \<longleftrightarrow> xs = []"
  by (induction i xs rule: dedent_last.induct) auto

lemma read_indent: "read_xml (xml_indent level by x) = read_xml x"
proof (induction level "by" x rule: xml_indent.induct)
  case (1 level "by" tag ats tx tail ch)
  have "map read_xml (map (xml_indent (level + 1) ''  '') ch) = map read_xml ch" if "ch \<noteq> []"
    using "1.IH" [OF refl that] by simp
  then show ?case
    by (cases tag) (auto simp: Let_def read_dedent_last simp del: map_map)
qed

lemma blank_spaces: "list_all is_space s \<Longrightarrow> blank (Some s)"
  by (auto simp: blank_def py_strip_def list_all_iff dropWhile_eq_Nil_conv dest: set_dropWhileD)

lemma blank_indentation: "list_all is_space by \<Longrightarrow> blank (Some (indentation level by))"
proof -
  assume "list_all is_space by"
  then have "list_all is_space (indentation level by)"
    by (induction level) (auto simp: indentation_def is_space_def list_all_iff)
  then show ?thesis by (rule blank_spaces)
qed

lemma blank_indentation_by: "list_all is_space by \<Longrightarrow> blank (Some (indentation level by @ by))"
proof -
  assume a: "list_all is_space by"
  then have "list_all is_space (indentation level by @ by)"
    by (induction level) (auto simp: indentation_def is_space_def list_all_iff)
  then show ?thesis by (rule blank_spaces)
qed

text \<open>The layout of one element as \<open>xml_indent\<close> leaves it, and a second pass over it.\<close>

lemma indent_set_tail:
  "children_of x = [] \<Longrightarrow> blank (Some t) \<Longrightarrow>
   xml_indent (Suc level) by (set_tail t x) = set_tail (indentation (Suc level) by) x"
  by (cases x) (auto simp: Let_def)

lemma tail_indent_blank:
  "blank (tail_of x) \<Longrightarrow> list_all is_space by \<Longrightarrow> blank (tail_of (xml_indent level by x))"
  by (cases x) (auto simp: Let_def blank_indentation)

lemma xml_indent_set_tail:
  "blank (Some t) \<Longrightarrow> blank (tail_of x) \<Longrightarrow>
   xml_indent (Suc level) by (set_tail t x) = xml_indent (Suc level) by x"
  by (cases x) (auto simp: Let_def)

lemma set_tail_twice [simp]: "set_tail t (set_tail u x) = set_tail t x"
  by (cases x) simp

lemma tail_set_tail [simp]: "tail_of (set_tail t x) = Some t"
  by (cases x) simp

lemma dedent_last_indent_again:
  assumes "\<And>x. x \<in> set xs \<Longrightarrow> xml_indent (Suc level) by x = x" and "blank (Some i)"
  shows "dedent_last i (map (xml_indent (Suc level) by) (dedent_last i xs)) = dedent_last i xs"
  using assms
proof (induction i xs rule: dedent_last.induct)
  case (2 i x)
  then show ?case by (auto simp: xml_indent_set_tail)
next
  case (3 i x y xs)
  have ne: "map (xml_indent (Suc level) by) (dedent_last i (y # xs)) \<noteq> []" by simp
  then obtain z zs where z: "map (xml_indent (Suc level) by) (dedent_last i (y # xs)) = z # zs"
    by (meson neq_Nil_conv)
  with 3 show ?case by simp
qed simp

lemma xml_indent_idem:
  "list_all is_space by \<Longrightarrow> xml_indent level by (xml_indent level by x) = xml_indent level by x"
proof (induction level "by" x rule: xml_indent.induct)
  case (1 level "by" tag ats tx tail ch)
  show ?case
  proof (cases "ch = []")
    case True
    then show ?thesis using "1.prems" by (auto simp: Let_def blank_indentation)
  next
    case False
    have sp: "list_all is_space ''  ''" by (simp add: is_space_def)
    have kids: "xml_indent (Suc level) ''  '' y = y"
      if "y \<in> set (map (xml_indent (Suc level) ''  '') ch)" for y
      using that "1.IH" [OF refl False _ sp] by auto
    have "dedent_last (indentation level by) (map (xml_indent (Suc level) ''  '')
        (dedent_last (indentation level by) (map (xml_indent (Suc level) ''  '') ch)))
      = dedent_last (indentation level by) (map (xml_indent (Suc level) ''  '') ch)"
      using kids blank_indentation [OF "1.prems"] by (rule dedent_last_indent_again)
    then show ?thesis
      using False "1.prems" by (auto simp: Let_def blank_indentation blank_indentation_by)
  qed
qed

lemma escape_cdata_safe: "CHR ''<'' \<notin> set (escape_cdata s) \<and> CHR ''>'' \<notin> set (escape_cdata s)"
  by (induction s) auto

lemma create_frame:
  "tag_of (create_xml_tree es x) = tag_of x \<and> (\<exists>cs. children_of (create_xml_tree es x) = children_of x @ cs)"
  "tag_of (create_entry k v x) = tag_of x \<and> (\<exists>cs. children_of (create_entry k v x) = children_of x @ cs)"
  "tag_of (create_each ds x) = tag_of x \<and> (\<exists>cs. children_of (create_each ds x) = children_of x @ cs)"
proof (induction es x and k v x and ds x
    rule: create_xml_tree_create_entry_create_each.induct)
qed (auto simp: xml_append_def)

text \<open>The shape of the serialized tree: the root element, with the comment as first child.\<close>

lemma config_tree_shape:
  "\<exists>ats tx tl cs. config_tree u es r =
     Xml (Tag r) ats tx tl (Comment (''config uid: '' @ u) # cs)"
proof -
  let ?c = "Comment (''config uid: '' @ u)"
  obtain cs where "children_of (config_tree u es r) = ?c # cs"
    using create_frame(1) [of es "append_child (Element r) ?c"]
    by (auto simp: config_tree_def Element_def)
  moreover have "tag_of (config_tree u es r) = Tag r"
    using create_frame(1) [of es "append_child (Element r) ?c"]
    by (simp add: config_tree_def Element_def)
  ultimately show ?thesis by (metis xml.collapse)
qed

lemma read_children_indent: "read_children (xml_indent level by x) = read_children x"
proof (cases x)
  case (Xml g ats tx tl cs)
  have "map read_xml (map (xml_indent (level + 1) ''  '') cs) = map read_xml cs"
    by (simp add: read_indent)
  then show ?thesis
    using Xml by (simp add: read_children_def Let_def read_dedent_last del: map_map)
qed

lemma dedent_last_head:
  "\<exists>tl' xs'. dedent_last i (Xml g ats tx tail ch # xs) = Xml g ats tx tl' ch # xs'"
  by (cases xs) auto

lemma indent_comment: "\<exists>tl. xml_indent level by (Comment t) = Xml CommentTag [] (Some t) tl []"
  by (simp add: Comment_def Let_def)

lemma str_in_concat: "x \<in> set xs \<Longrightarrow> str_in s x \<Longrightarrow> str_in s (concat xs)"
  by (induction xs) (auto intro: str_in_appendI1 str_in_appendI2)

lemma str_in_tostring_child:
  assumes "tag_of x = Tag n" and "c \<in> set (children_of x)" and "str_in s (tostring c)"
  shows "str_in s (tostring x)"
proof -
  have "str_in s (concat (map tostring (children_of x)))"
    using assms(2,3) by (intro str_in_concat [of "tostring c"]) auto
  then have "str_in s (''<'' @ n @ attribs_text (attribs_of x) @ ''>'' @ tail_text (text_of x) @
      concat (map tostring (children_of x)) @ ''</'' @ n @ ''>'' @ tail_text (tail_of x))"
    by (blast intro: str_in_appendI1 str_in_appendI2)
  then show ?thesis using assms(1) by (cases x) simp
qed

section \<open>Properties\<close>

text \<open>
  C2. Round trip of a configuration: the tree that is serialized, comment and indentation
  included, reads back as the dictionary it was built from, with every key, attribute,
  value and the order kept.
\<close>

theorem config_tree_roundtrip:
  assumes "entries_ok es"
  shows "read_children (xml_indent 0 ''  '' (config_tree u es r)) = plain_entries es"
proof -
  let ?t = "config_tree u es r"
  have "grows (append_child (Element r) (Comment (''config uid: '' @ u))) (plain_entries es) ?t"
    unfolding config_tree_def by (rule create_grows(1) [OF assms])
  then have "read_children ?t = plain_entries es"
    by (auto simp: grows_def read_children_def Element_def Comment_def)
  then show ?thesis by (simp add: read_children_indent)
qed

theorem config_tree_roundtrip_witness:
  "read_children (xml_indent 0 ''  '' (config_tree ''u1''
      [(Key ''users'', Dict [(KeyWithAttributes ''default'' [(''replace'', ''1'')], Text ''x'')])] ''clickhouse''))
   = [((''users'', []), PDict [((''default'', [(''replace'', ''1'')]), PText ''x'')])]"
  using config_tree_roundtrip [of "[(Key ''users'', Dict [(KeyWithAttributes ''default'' [(''replace'', ''1'')], Text ''x'')])]"
      "''u1''" "''clickhouse''"] by simp

text \<open>
  Every generated configuration file carries its unique identifier in the comment that
  the reload check of \<open>add_config\<close> greps for, whatever the entries are.
\<close>

theorem config_content_has_uid:
  "str_in (''<!--config uid: '' @ u @ ''-->'')
     (config_content (create_xml_config_content u es config_file config_d_dir r))"
proof -
  let ?c = "Comment (''config uid: '' @ u)"
  obtain ats tx tl cs where t: "config_tree u es r = Xml (Tag r) ats tx tl (?c # cs)"
    using config_tree_shape by blast
  obtain tl0 where "xml_indent 1 ''  '' ?c = Xml CommentTag [] (Some (''config uid: '' @ u)) tl0 []"
    using indent_comment by blast
  then obtain tl' cs' where "dedent_last (indentation 0 ''  '') (map (xml_indent 1 ''  '') (?c # cs))
      = Xml CommentTag [] (Some (''config uid: '' @ u)) tl' [] # cs'"
    using dedent_last_head [of "indentation 0 ''  ''"] by fastforce
  then have child: "Xml CommentTag [] (Some (''config uid: '' @ u)) tl' []
      \<in> set (children_of (xml_indent 0 ''  '' (config_tree u es r)))"
    unfolding t by (simp add: Let_def del: list.map)
  have "str_in (''<!--config uid: '' @ u @ ''-->'')
      (tostring (Xml CommentTag [] (Some (''config uid: '' @ u)) tl' []))"
    using str_in_appendI1 [OF str_in_self, of "''<!--config uid: '' @ u @ ''-->''" "tail_text tl'"]
    by simp
  then have "str_in (''<!--config uid: '' @ u @ ''-->'')
      (tostring (xml_indent 0 ''  '' (config_tree u es r)))"
    by (rule str_in_tostring_child [OF _ child, rotated]) (simp add: t Let_def del: list.map)
  then show ?thesis
    unfolding create_xml_config_content_def by (simp add: str_in_appendI2 del: str_in.simps)
qed

end
