(* ===== verification/Cluster_Lifecycle.thy ===== *)
theory Cluster_Lifecycle
  imports Node_Lifecycle Xml_Config
begin

text \<open>
  The life of a \<open>Cluster\<close> object of \<open>helpers/cluster.py\<close>: its construction, bringing the services
  up and down, and its use as a context manager. The record \<open>host\<close> holds the facts about
  the host that the code asks libraries for.
\<close>

record 'w host =
  host_cpu :: string
  sha1_hex :: "string \<Rightarrow> string"
  abspath :: "string \<Rightarrow> string"
  temp_dir :: string
  caller_dir :: string
  debug_setting :: bool
  xfail_step :: "string \<Rightarrow> ('w, unit) ceff"

section \<open>Construction\<close>

record init_args =
  i_local :: bool
  i_binary_path :: "string option"
  i_odbc_bridge_path :: "string option"
  i_configs_dir :: "string option"
  i_nodes :: "(string, string list) pydict option"
  i_docker_compose :: string
  i_project_dir :: "string option"
  i_compose_file :: string
  i_environ :: "(string, string) pydict option"
  i_thread_fuzzer :: bool
  i_collect_service_logs :: bool
  i_use_zookeeper_nodes :: bool

definition short_hash :: "'w host \<Rightarrow> string \<Rightarrow> string" where
  "short_hash h s = take 10 (sha1_hex h s)"

text \<open>\<open>with Shell() as bash: bash.timeout = 300; ...\<close>\<close>

definition with_shell :: "'w os \<Rightarrow> (shell \<Rightarrow> ('w, 'a) ceff) \<Rightarrow> ('w, 'a) ceff" where
  "with_shell os body =
     bindE (inW (open_shell os None None)) (\<lambda>sh.
     seqE (inW (enter_shell os sh)) (finallyE (body sh) (shell_exit os sh)))"

definition with_slow_shell :: "'w os \<Rightarrow> (shell \<Rightarrow> ('w, 'a) ceff) \<Rightarrow> ('w, 'a) ceff" where
  "with_slow_shell os body = with_shell os (\<lambda>sh. seqE (inW (set_timeout os sh 300)) (body sh))"

definition sh_run :: "'w os \<Rightarrow> shell \<Rightarrow> string \<Rightarrow> ('w, unit) ceff" where
  "sh_run os sh cmd = seqE (run_in os sh cmd None) (ret ())"

definition exists_path :: "'w os \<Rightarrow> string \<Rightarrow> ('w, bool) ceff" where
  "exists_path os path = getE (\<lambda>c. path_exists os path (world c))"

definition last_part :: "string \<Rightarrow> string \<Rightarrow> string" where
  "last_part sep s = last (py_rsplit1 sep s)"

text \<open>The download of a binary, which removes a partial file when it fails.\<close>

definition download_binary :: "'w os \<Rightarrow> 'w host \<Rightarrow> string \<Rightarrow> ('w, string) ceff" where
  "download_binary os h url =
     (let filename = short_hash h url @ ''-'' @ last_part ''/'' url in
      bindE (exists_path os (''./'' @ filename)) (\<lambda>present.
      seqE (whenE (\<not> present) (with_slow_shell os (\<lambda>sh.
          catchE
            (bindE (run_in os sh (''wget --progress dot '' @ dquoted url @ '' -O '' @ filename) None) (\<lambda>r.
               assertE (cmd_exitcode r = 0) []))
            (\<lambda>e. bindE (exists_path os filename) (\<lambda>partial.
               seqE (whenE partial (inW (remove_path os filename))) (raise e))))))
        (ret (''./'' @ filename))))"

text \<open>The leading digits and dots of the tag of a docker image.\<close>

definition parsed_version :: "string \<Rightarrow> string" where
  "parsed_version path = takeWhile (\<lambda>c. c \<in> set ''.0123456789'') (last_part '':'' path)"

definition version_from_tag :: "string \<Rightarrow> ('w, unit) ceff" where
  "version_from_tag path =
     bindE (getE context_version) (\<lambda>v.
       let parsed = parsed_version path in
       whenE (v = None \<and> parsed \<noteq> [] \<and> \<not> (startswith parsed ''.'' \<or> endswith parsed ''.''))
         (modifyE (\<lambda>c. c\<lparr>context_version := Some parsed\<rparr>)))"

definition get_clickhouse_binary_from_docker_container ::
  "'w os \<Rightarrow> 'w host \<Rightarrow> string \<Rightarrow> string \<Rightarrow> string \<Rightarrow> string option \<Rightarrow> string option \<Rightarrow> ('w, string \<times> string) ceff" where
  "get_clickhouse_binary_from_docker_container os h docker_image container_binary container_bridge host_binary host_bridge =
     (let image = last (py_split1 ''docker://'' docker_image) in
      bindE (inW (uuid1 os)) (\<lambda>container.
      let binary = (case host_binary of Some p \<Rightarrow> p
            | None \<Rightarrow> path_join (temp_dir h) (py_replace CHR '':'' ''_'' (last_part ''/'' image)));
          bridge = (case host_bridge of Some p \<Rightarrow> p | None \<Rightarrow> binary @ ''_odbc_bridge'') in
      seqE (with_slow_shell os (\<lambda>sh.
        seqE (sh_run os sh (''docker run -d --name '' @ dquoted container @ '' '' @ image @ '' | tee''))
        (seqE (sh_run os sh (''docker cp '' @ dquoted (container @ '':'' @ container_binary) @ '' '' @ dquoted binary))
        (seqE (sh_run os sh (''docker cp '' @ dquoted (container @ '':'' @ container_bridge) @ '' '' @ dquoted bridge))
          (sh_run os sh (''docker stop '' @ dquoted container))))))
      (seqE (with_slow_shell os (\<lambda>sh. sh_run os sh (''ls -la '' @ binary)))
        (ret (binary, bridge)))))"

definition unpack_deb :: "'w os \<Rightarrow> string \<Rightarrow> ('w, string) ceff" where
  "unpack_deb os path =
     (let dir = hd (py_rsplit1 ''.deb'' path);
          extract = (\<lambda>sh nm. seqE
            (sh_run os sh (''tar -vxzf '' @ dquoted (dir @ ''/data.tar.gz'') @ '' ./usr/bin/'' @ nm @ '' -O > '' @
              dquoted (dir @ ''/'' @ nm)))
            (sh_run os sh (''chmod +x '' @ dquoted (dir @ ''/'' @ nm)))) in
      seqE (inW (make_dirs os dir))
      (seqE (with_slow_shell os (\<lambda>sh.
         bindE (exists_path os (dir @ ''/clickhouse'')) (\<lambda>server.
         bindE (if server then exists_path os (dir @ ''/clickhouse-odbc-bridge'') else ret False) (\<lambda>both.
           whenE (\<not> both)
             (seqE (sh_run os sh (''ar x '' @ dquoted path @ '' --output '' @ dquoted dir))
             (seqE (extract sh ''clickhouse'') (extract sh ''clickhouse-odbc-bridge'')))))))
        (ret (''./'' @ dir @ ''/clickhouse''))))"

definition set_binary :: "string \<Rightarrow> ('w, unit) ceff" where
  "set_binary path = modifyE (\<lambda>c. c\<lparr>binary_path := Some path\<rparr>)"

text \<open>The branch of \<open>__init__\<close> for a given binary path: fetch it, unpack it, make it executable.\<close>

definition prepare_binary :: "'w os \<Rightarrow> 'w host \<Rightarrow> string \<Rightarrow> ('w, unit) ceff" where
  "prepare_binary os h path =
     bindE (if startswith path ''http://'' \<or> startswith path ''https://'' then download_binary os h path
            else if startswith path ''docker://'' then
              seqE (version_from_tag path)
              (bindE (get_clickhouse_binary_from_docker_container os h path ''/usr/bin/clickhouse''
                  ''/usr/bin/clickhouse-odbc-bridge'' None None) (\<lambda>(binary, bridge).
                seqE (modifyE (\<lambda>c. c\<lparr>odbc_bridge_path := Some bridge\<rparr>)) (ret binary)))
            else ret path) (\<lambda>fetched.
     seqE (set_binary fetched)
     (bindE (if endswith fetched ''.deb'' then unpack_deb os fetched else ret fetched) (\<lambda>unpacked.
     seqE (set_binary (abspath h unpacked))
       (with_slow_shell os (\<lambda>sh. sh_run os sh (''chmod +x '' @ abspath h unpacked))))))"

definition arm_dir :: "'w host \<Rightarrow> string \<Rightarrow> string" where
  "arm_dir h dir = (if host_cpu h = ''aarch64'' \<and> \<not> endswith dir ''_arm64'' then dir @ ''_arm64'' else dir)"

text \<open>The attributes as the first statements of \<open>__init__\<close> assign them.\<close>

definition fresh_cluster :: "init_args \<Rightarrow> string \<Rightarrow> 'w cluster \<Rightarrow> 'w cluster" where
  "fresh_cluster a configs c = c\<lparr>bash_pool := [], ctl_shell := None, lock_held := False,
     environ := (case i_environ a of None \<Rightarrow> [] | Some e \<Rightarrow> e), binary_path := i_binary_path a,
     odbc_bridge_path := i_odbc_bridge_path a, configs_dir := configs, is_local := i_local a,
     cluster_nodes := (case i_nodes a of None \<Rightarrow> [] | Some n \<Rightarrow> n), docker_compose := i_docker_compose a,
     thread_fuzzer := i_thread_fuzzer a, running := False, collect_service_logs := i_collect_service_logs a,
     use_zookeeper_nodes := i_use_zookeeper_nodes a\<rparr>"

definition cluster_init :: "'w os \<Rightarrow> 'w host \<Rightarrow> init_args \<Rightarrow> ('w, unit) ceff" where
  "cluster_init os h a =
     bindE (exists_path os (caller_dir h)) (\<lambda>caller_exists.
     case (case i_configs_dir a of Some d \<Rightarrow> Some d | None \<Rightarrow> if caller_exists then Some (caller_dir h) else None) of
       None \<Rightarrow> raise (TypeError ''stat: path should be string'')
     | Some configs \<Rightarrow>
       seqE (modifyE (fresh_cluster a configs))
       (bindE (exists_path os configs) (\<lambda>configs_exist.
        if \<not> configs_exist then raise (TypeError (''configs directory '' @ single_quoted configs @ '' does not exist''))
        else if \<not> truthy (i_project_dir a) then raise (TypeError ''docker compose directory must be specified.'')
        else
          let dir = arm_dir h (the (i_project_dir a)); file = path_join dir (i_compose_file a) in
          bindE (exists_path os dir) (\<lambda>dir_exists.
          if \<not> dir_exists then raise (TypeError (''docker compose project directory '' @ single_quoted dir @ '' does not exist''))
          else
            seqE (modifyE (\<lambda>c. c\<lparr>project_dir := dir\<rparr>))
            (bindE (exists_path os file) (\<lambda>file_exists.
             if \<not> file_exists then raise (TypeError (''docker compose file '' @ single_quoted file @ '' does not exist''))
             else
               seqE (whenE (truthy (i_binary_path a)) (prepare_binary os h (the (i_binary_path a))))
                 (modifyE (\<lambda>c. c\<lparr>docker_compose := docker_compose c @ '' --ansi never --project-directory '' @ dquoted dir @
                    '' --file '' @ dquoted file, lock_held := False\<rparr>))))))))"

section \<open>Nodes and files\<close>

datatype node_kind = Generic | ClickHouse | ZooKeeper

definition node :: "'w cluster \<Rightarrow> string option \<Rightarrow> node_kind" where
  "node c nm = (case nm of
     None \<Rightarrow> Generic
   | Some n \<Rightarrow>
       if use_zookeeper_nodes c \<and> startswith n ''zookeeper'' then ZooKeeper
       else if startswith n ''clickhouse'' then ClickHouse
       else Generic)"

definition temp_path :: "'w os \<Rightarrow> ('w, string) ceff" where
  "temp_path os =
     bindE (getE environ) (\<lambda>env. bindE (getitem env ''CLICKHOUSE_TESTS_DIR'') (\<lambda>dir.
       let p = dir @ ''/_temp'' in
       bindE (exists_path os p) (\<lambda>present.
         seqE (whenE (\<not> present) (inW (make_dir os p))) (ret p))))"

definition temp_file :: "'w os \<Rightarrow> string \<Rightarrow> ('w, string) ceff" where
  "temp_file os nm = bindE (temp_path os) (\<lambda>p. ret (path_join p nm))"

section \<open>Bringing the services up\<close>

definition set_environ :: "string \<Rightarrow> string \<Rightarrow> ('w, unit) ceff" where
  "set_environ k v = modifyE (\<lambda>c. c\<lparr>environ := AList.update k v (environ c)\<rparr>)"

definition host_command :: "'w os \<Rightarrow> string \<Rightarrow> seconds option \<Rightarrow> ('w, cmd_result) ceff" where
  "host_command os cmd timeout = command os None cmd (default_args\<lparr>arg_timeout := timeout\<rparr>)"

definition compose :: "'w os \<Rightarrow> string \<Rightarrow> seconds option \<Rightarrow> ('w, cmd_result) ceff" where
  "compose os action timeout = bindE (getE docker_compose) (\<lambda>dc. host_command os (dc @ '' '' @ action) timeout)"

definition local_environment :: "'w os \<Rightarrow> ('w, unit) ceff" where
  "local_environment os =
     bindE (getE binary_path) (\<lambda>path.
     seqE (assertE (truthy path) ''when running in local mode then --clickhouse-binary-path must be specified'')
     (let binary = node_text path in
      bindE (exists_path os binary) (\<lambda>present.
      seqE (assertE present [])
      (bindE (getE odbc_bridge_path) (\<lambda>bridge.
       bindE (getE configs_dir) (\<lambda>configs.
       seqE (set_environ ''COMPOSE_HTTP_TIMEOUT'' ''600'')
       (seqE (set_environ ''CLICKHOUSE_TESTS_SERVER_BIN_PATH'' binary)
       (seqE (set_environ ''CLICKHOUSE_TESTS_ODBC_BRIDGE_BIN_PATH''
          (if truthy bridge then node_text bridge else path_join (dirname binary) ''clickhouse-odbc-bridge''))
       (seqE (set_environ ''CLICKHOUSE_TESTS_DIR'' configs)
       (seqE (host_command os ''env | grep CLICKHOUSE'' None) (ret ())))))))))))"

definition unhealthy :: "cmd_result \<Rightarrow> bool" where
  "unhealthy r = str_in ''is unhealthy'' (cmd_output r)"

definition exited :: "cmd_result \<Rightarrow> bool" where
  "exited r = str_in ''Exit'' (cmd_output r)"

text \<open>
  One attempt to bring the services up: the new value of \<open>cmd\<close>, that of \<open>ps_cmd\<close> if it was
  assigned, and whether the attempt ends the loop.
\<close>

definition up_attempt :: "'w os \<Rightarrow> seconds \<Rightarrow> ('w, cmd_result \<times> cmd_result option \<times> bool) ceff" where
  "up_attempt os timeout =
     bindE (compose os ''pull 2>&1 | tee'' (Some timeout)) (\<lambda>pull.
     if cmd_exitcode pull \<noteq> 0 then ret (pull, None, False)
     else
       seqE (compose os ''ps | tee'' None)
       (bindE (compose os ''down 2>&1 | tee'' (Some timeout)) (\<lambda>down.
        if cmd_exitcode down \<noteq> 0 then ret (down, None, False)
        else
          seqE (compose os ''ps | tee'' None)
          (bindE (compose os ''up --renew-anon-volumes --force-recreate --timeout 600 -d 2>&1 | tee'' (Some timeout)) (\<lambda>cmd.
           bindE (compose os (''ps | tee | grep -v '' @ dquoted ''Exit 0'') None) (\<lambda>ps_cmd.
           if unhealthy cmd \<or> exited ps_cmd then
             seqE (compose os ''logs | tee'' None) (ret (cmd, Some ps_cmd, False))
           else ret (cmd, Some ps_cmd, cmd_exitcode cmd = 0 \<and> \<not> unhealthy cmd \<and> \<not> exited ps_cmd)))))))"

text \<open>The loop over the attempts, with the values of \<open>cmd\<close> and \<open>ps_cmd\<close> after it.\<close>

fun up_loop :: "'w os \<Rightarrow> seconds \<Rightarrow> nat \<Rightarrow> cmd_result option \<Rightarrow> cmd_result option \<Rightarrow>
  ('w, cmd_result option \<times> cmd_result option) ceff" where
  "up_loop os timeout 0 cmd ps_cmd = ret (cmd, ps_cmd)"
| "up_loop os timeout (Suc n) cmd ps_cmd =
     bindE (up_attempt os timeout) (\<lambda>(cmd', ps_cmd', finished).
       let ps = (case ps_cmd' of None \<Rightarrow> ps_cmd | Some r \<Rightarrow> Some r) in
       if finished then ret (Some cmd', ps) else up_loop os timeout n (Some cmd') ps)"

definition compose_up :: "'w os \<Rightarrow> seconds \<Rightarrow> ('w, unit) ceff" where
  "compose_up os timeout =
     bindE (up_loop os timeout 5 None None) (\<lambda>(cmd, ps_cmd).
     bindE (local_var ''cmd'' cmd) (\<lambda>r.
     bindE (if cmd_exitcode r \<noteq> 0 \<or> unhealthy r then ret True
            else bindE (local_var ''ps_cmd'' ps_cmd) (\<lambda>ps. ret (exited ps))) (\<lambda>failed.
       whenE failed (raise (TestFail ''could not bring up docker-compose cluster'')))))"

definition start_nodes :: "'w os \<Rightarrow> ('w, unit) ceff" where
  "start_nodes os =
     bindE (getE cluster_nodes) (\<lambda>ns.
     bindE (getE use_zookeeper_nodes) (\<lambda>zk.
     bindE (getE thread_fuzzer) (\<lambda>fuzzer.
     seqE (whenE zk (bindE (getitem ns ''zookeeper'') (\<lambda>names. forE names (\<lambda>nm.
        seqE (wait_healthy os nm 300)
          (whenE (startswith nm ''zookeeper'') (start_zookeeper os nm))))))
     (bindE (getitem ns ''clickhouse'') (\<lambda>names. forE names (\<lambda>nm.
        seqE (wait_healthy os nm 300)
          (whenE (startswith nm ''clickhouse'') (start_clickhouse os nm 300 True None fuzzer))))))))"

definition up :: "'w os \<Rightarrow> seconds \<Rightarrow> ('w, unit) ceff" where
  "up os timeout =
     bindE (getE is_local) (\<lambda>loc.
     seqE (whenE loc (local_environment os))
     (seqE (compose_up os timeout)
     (seqE (start_nodes os)
       (modifyE (\<lambda>c. c\<lparr>running := True\<rparr>)))))"

section \<open>Taking the services down\<close>

text \<open>Closes every shell but \<open>keep\<close>; the entries of \<open>keep\<close> move to the end of the dictionary.\<close>

definition close_other_shells :: "'w os \<Rightarrow> shell \<Rightarrow> ('w, unit) ceff" where
  "close_other_shells os keep =
     with_lock (bindE (getE bash_pool) (\<lambda>d. forE (dict_keys d) (\<lambda>i.
       bindE (pool_get i) (\<lambda>sh. seqE (pool_del i)
         (if sh \<noteq> keep then shell_exit os sh else pool_set i sh)))))"

definition close_control :: "'w os \<Rightarrow> ('w, unit) ceff" where
  "close_control os =
     with_lock (bindE (getE ctl_shell) (\<lambda>x. case x of
       None \<Rightarrow> ret ()
     | Some sh \<Rightarrow> seqE (shell_exit os sh) (modifyE (\<lambda>c. c\<lparr>ctl_shell := None\<rparr>))))"

text \<open>
  The \<open>finally\<close> block reads \<open>bash\<close>, which has no value when \<open>self.bash(None)\<close> raised, and ends in
  a \<open>return\<close>, which drops an exception of the \<open>try\<close> block.
\<close>

definition down :: "'w os \<Rightarrow> 'w host \<Rightarrow> seconds \<Rightarrow> ('w, cmd_result) ceff" where
  "down os h timeout =
     bindE (getE running) (\<lambda>run.
     seqE (whenE (debug_setting h \<and> run) (bindE (getE cluster_nodes) (\<lambda>ns. bindE (getitem ns ''clickhouse'') (\<lambda>names.
        forE names (\<lambda>nm. seqE (command os (Some nm) (''echo -e '' @ dquoted (newline @ ''-- sending stop to: '' @ nm @ '' --'' @ newline) @
          '' >> /var/log/clickhouse-server/clickhouse-server.log'') default_args) (ret ()))))))
     (bindE (tryE (bash_default os None)) (\<lambda>x.
      bindE (case x of Inl e \<Rightarrow> ret () | Inr sh \<Rightarrow> bindE (tryE (close_other_shells os sh)) (\<lambda>_. ret ())) (\<lambda>_.
      bindE (getE docker_compose) (\<lambda>dc.
      bindE (local_var ''bash'' (case x of Inl e \<Rightarrow> None | Inr sh \<Rightarrow> Some sh)) (\<lambda>sh.
      bindE (command os None (dc @ '' down -v --remove-orphans --timeout 60'')
          (default_args\<lparr>arg_bash := Some sh, arg_timeout := Some timeout\<rparr>)) (\<lambda>cmd.
      seqE (close_control os) (ret cmd))))))))"

definition service_logs :: "'w os \<Rightarrow> 'w host \<Rightarrow> ('w, unit) ceff" where
  "service_logs os h =
     bindE (getE project_dir) (\<lambda>dir.
     with_shell os (\<lambda>sh.
       seqE (run_in os sh (''cd '' @ dir) (Some 1000))
       (bindE (run_in os sh ''docker-compose ps --services'' None) (\<lambda>r.
         forE (py_split newline (cmd_output r)) (\<lambda>nm.
           bindE (run_in os sh (''docker-compose logs '' @ nm @ '' > ../_instances/'' @ nm @ ''.log'') (Some 1000)) (\<lambda>snode.
             whenE (cmd_exitcode snode \<noteq> 0)
               (xfail_step h (''failed to get service log - exitcode '' @ str_int (cmd_exitcode snode)))))))))"

definition close_all :: "'w os \<Rightarrow> ('w, unit) ceff" where
  "close_all os = with_lock (bindE (getE bash_pool) (\<lambda>d. forE (map snd d) (shell_exit os)))"

text \<open>\<open>__enter__\<close> and \<open>__exit__\<close>\<close>

definition cluster_enter :: "'w os \<Rightarrow> ('w, unit) ceff" where
  "cluster_enter os = up os 1800"

definition cluster_exit :: "'w os \<Rightarrow> 'w host \<Rightarrow> ('w, unit) ceff" where
  "cluster_exit os h =
     finallyE
       (bindE (getE collect_service_logs) (\<lambda>logs.
        seqE (whenE logs (service_logs os h)) (seqE (down os h 300) (ret ()))))
       (close_all os)"

text \<open>The step \<open>create_cluster\<close>, with the code that uses the cluster as \<open>body\<close>.\<close>

definition create_cluster :: "'w os \<Rightarrow> 'w host \<Rightarrow> init_args \<Rightarrow> ('w, 'a) ceff \<Rightarrow> ('w, 'a) ceff" where
  "create_cluster os h a body =
     seqE (cluster_init os h (a\<lparr>i_use_zookeeper_nodes := False\<rparr>))
     (seqE (cluster_enter os) (finallyE body (cluster_exit os h)))"

section \<open>The attempts\<close>

text \<open>The last attempt succeeded, or what the loop left says that it did not.\<close>

definition attempt_good :: "'w os \<Rightarrow> seconds \<Rightarrow> cmd_result option \<Rightarrow> cmd_result option \<Rightarrow> 'w cluster \<Rightarrow> bool" where
  "attempt_good os timeout cmd ps c \<longleftrightarrow> (\<exists>r p c1. cmd = Some r \<and> ps = Some p \<and> cmd_exitcode r = 0 \<and> \<not> unhealthy r \<and>
     \<not> exited p \<and> up_attempt os timeout c1 = (Return (r, Some p, True), c))"

definition attempt_bad :: "cmd_result option \<Rightarrow> cmd_result option \<Rightarrow> bool" where
  "attempt_bad cmd ps \<longleftrightarrow> (\<exists>r. cmd = Some r \<and> (cmd_exitcode r \<noteq> 0 \<or> unhealthy r \<or> (\<exists>p. ps = Some p \<and> exited p)))"

lemma up_attempt_Return:
  assumes "up_attempt os timeout c = (Return (r, p, finished), c')"
  shows "if finished then cmd_exitcode r = 0 \<and> \<not> unhealthy r \<and> (\<exists>q. p = Some q \<and> \<not> exited q)
    else cmd_exitcode r \<noteq> 0 \<or> unhealthy r \<or> (\<exists>q. p = Some q \<and> exited q)"
  using assms unfolding up_attempt_def
  by (auto simp: bindE_Return_iff seqE_Return_iff split: if_splits)

lemma up_loop_Return:
  "up_loop os timeout n cmd0 ps0 c = (Return (cmd, ps), c') \<Longrightarrow> 0 < n \<or> attempt_bad cmd0 ps0 \<Longrightarrow>
   attempt_good os timeout cmd ps c' \<or> attempt_bad cmd ps"
proof (induction n arbitrary: cmd0 ps0 c)
  case (Suc n)
  from Suc.prems(1) obtain r p finished c1 where att: "up_attempt os timeout c = (Return (r, p, finished), c1)"
    and rest: "(let ps = (case p of None \<Rightarrow> ps0 | Some q \<Rightarrow> Some q) in
       if finished then ret (Some r, ps) else up_loop os timeout n (Some r) ps) c1 = (Return (cmd, ps), c')"
    by (auto simp: bindE_Return_iff)
  note facts = up_attempt_Return [OF att]
  show ?case
  proof (cases finished)
    case True
    with att rest facts show ?thesis by (auto simp: attempt_good_def)
  next
    case False
    have "attempt_bad (Some r) (case p of None \<Rightarrow> ps0 | Some q \<Rightarrow> Some q)"
      using facts False by (auto simp: attempt_bad_def)
    moreover have "up_loop os timeout n (Some r) (case p of None \<Rightarrow> ps0 | Some q \<Rightarrow> Some q) c1 = (Return (cmd, ps), c')"
      using rest False by (simp add: Let_def)
    ultimately show ?thesis using Suc.IH by blast
  qed
qed simp

lemma compose_up_ends:
  assumes "up_loop os timeout 5 None None c = (Return (cmd, ps), c1)"
  shows "compose_up os timeout c = (if attempt_bad cmd ps
    then (Raise (TestFail ''could not bring up docker-compose cluster''), c1) else (Return (), c1))"
    "attempt_bad cmd ps \<or> attempt_good os timeout cmd ps c1"
proof -
  show ends: "attempt_bad cmd ps \<or> attempt_good os timeout cmd ps c1"
    using up_loop_Return [OF assms] by auto
  have "compose_up os timeout c = bindE (local_var ''cmd'' cmd) (\<lambda>r.
     bindE (if cmd_exitcode r \<noteq> 0 \<or> unhealthy r then ret True
            else bindE (local_var ''ps_cmd'' ps) (\<lambda>ps. ret (exited ps))) (\<lambda>failed.
       whenE failed (raise (TestFail ''could not bring up docker-compose cluster'')))) c1"
    by (simp add: compose_up_def bindE_def [of "up_loop _ _ _ _ _"] assms)
  also have "\<dots> = (if attempt_bad cmd ps
    then (Raise (TestFail ''could not bring up docker-compose cluster''), c1) else (Return (), c1))"
    using ends by (cases "attempt_bad cmd ps") (auto simp: attempt_bad_def attempt_good_def local_var_def)
  finally show "compose_up os timeout c = (if attempt_bad cmd ps
    then (Raise (TestFail ''could not bring up docker-compose cluster''), c1) else (Return (), c1))" .
qed

lemma compose_up_Return:
  assumes "compose_up os timeout c = (Return (), c')"
  shows "\<exists>cmd ps. attempt_good os timeout cmd ps c'"
proof -
  obtain cmd ps c1 where loop: "up_loop os timeout 5 None None c = (Return (cmd, ps), c1)"
    using assms unfolding compose_up_def bindE_Return_iff [of "up_loop _ _ _ _ _"] by fast
  from compose_up_ends [OF loop] assms show ?thesis by (auto split: if_splits)
qed

section \<open>Nodes that were started\<close>

abbreviation versioned :: "'w cluster \<Rightarrow> bool" where
  "versioned c \<equiv> context_version c \<noteq> None"

lemma calm_versioned: "calm versioned"
  by (simp add: calm_def steady_def)

text \<open>A property that holds for every version the context may get.\<close>

definition any_version :: "('w cluster \<Rightarrow> bool) \<Rightarrow> bool" where
  "any_version P \<longleftrightarrow> calm P \<and> (\<forall>c v. P c \<longrightarrow> P (c\<lparr>context_version := Some v\<rparr>))"

lemma any_version_examples: "any_version versioned" "any_version (\<lambda>c. cluster_nodes c = ns)"
  by (simp_all add: any_version_def calm_def steady_def)

lemma record_version_keeps: "any_version P \<Longrightarrow> keeps P (record_version v)"
  unfolding record_version_def by (intro keeps_intro) (auto simp: any_version_def)

lemma start_clickhouse_keeps:
  assumes "retries_law os" and "any_version P"
  shows "keeps P (start_clickhouse os nm timeout healthy user fuzzer)"
proof -
  have calm: "calm P" using assms(2) by (simp add: any_version_def)
  show ?thesis
    unfolding start_clickhouse_def enable_thread_fuzzer_def wait_clickhouse_healthy_def select_version_def clickhouse_pid_def
    by (intro keeps_intro calm_intro calm_retries record_version_keeps calm assms)
qed

lemma start_zookeeper_keeps: "calm P \<Longrightarrow> keeps P (start_zookeeper os nm)"
  unfolding start_zookeeper_def zk_server_def by (intro keeps_intro calm_intro)

lemma start_nodes_keeps:
  assumes "retries_law os" and "any_version P"
  shows "keeps P (start_nodes os)"
proof -
  have calm: "calm P" using assms(2) by (simp add: any_version_def)
  show ?thesis
    unfolding start_nodes_def
    by (intro keeps_intro start_clickhouse_keeps start_zookeeper_keeps calm_node_ops(5) calm assms)
qed

lemma start_each_Return:
  assumes law: "retries_law os"
  shows "forE names (\<lambda>nm. seqE (wait_healthy os nm 300)
      (whenE (startswith nm ''clickhouse'') (start_clickhouse os nm 300 True None fuzzer))) c = (Return u, c') \<Longrightarrow>
    versioned c \<or> (\<exists>nm \<in> set names. startswith nm ''clickhouse'') \<Longrightarrow> versioned c'"
proof (induction names arbitrary: c)
  case (Cons nm names)
  let ?one = "\<lambda>nm. seqE (wait_healthy os nm 300)
      (whenE (startswith nm ''clickhouse'') (start_clickhouse os nm 300 True None fuzzer))"
  obtain v c1 where one: "?one nm c = (Return v, c1)" and rest: "forE names ?one c1 = (Return u, c')"
    using Cons.prems(1) unfolding forE.simps seqE_Return_iff [of "?one nm"] by blast
  have keeps: "keeps versioned (?one nm)"
    by (intro keeps_seq keeps_when start_clickhouse_keeps calm_node_ops(5) calm_versioned any_version_examples(1) law)
  have "versioned c1" if ch: "startswith nm ''clickhouse''"
  proof -
    obtain c2 where "start_clickhouse os nm 300 True None fuzzer c2 = (Return (), c1)"
      using one ch by (auto simp: seqE_Return_iff)
    then show ?thesis using start_contract [OF law] by blast
  qed
  moreover have "versioned c1" if "versioned c" using keepsD [OF keeps that one] by simp
  ultimately show ?case using Cons.IH [OF rest] Cons.prems(2) by auto
qed simp

section \<open>Attributes after construction\<close>

text \<open>The attributes that fetching a binary leaves alone.\<close>

abbreviation newly_made :: "init_args \<Rightarrow> string \<Rightarrow> 'w cluster \<Rightarrow> bool" where
  "newly_made a dir c \<equiv> bash_pool c = [] \<and> ctl_shell c = None \<and> lock_free c \<and> \<not> running c \<and>
     docker_compose c = i_docker_compose a \<and> project_dir c = dir"

lemma keeps_newly_made_shell:
  assumes "\<And>sh. keeps (newly_made a dir) (body sh)"
  shows "keeps (newly_made a dir) (with_slow_shell os body)"
  unfolding with_slow_shell_def with_shell_def by (intro keeps_intro keeps_inW keeps_shell_exit assms) auto

lemma keeps_sh_run: "keeps (newly_made a dir) (sh_run os sh cmd)"
  unfolding sh_run_def by (intro keeps_intro keeps_run_in) auto

lemma keeps_exists_path [keeps_intro]: "keeps P (exists_path os p)"
  unfolding exists_path_def by (rule keeps_intro)

lemma keeps_prepare_binary: "keeps (newly_made a dir) (prepare_binary os h path)"
proof -
  note ops = keeps_intro keeps_newly_made_shell keeps_sh_run keeps_inW keeps_run_in
  have "keeps (newly_made a dir) (download_binary os h url)" for url
    unfolding download_binary_def Let_def by (intro ops) auto
  moreover have "keeps (newly_made a dir) (get_clickhouse_binary_from_docker_container os h i x y b1 b2)" for i x y b1 b2
    unfolding get_clickhouse_binary_from_docker_container_def Let_def by (intro ops) auto
  moreover have "keeps (newly_made a dir) (unpack_deb os p)" for p
    unfolding unpack_deb_def Let_def by (intro ops) auto
  moreover have "keeps (newly_made a dir) (version_from_tag p)" for p
    unfolding version_from_tag_def Let_def by (intro ops) auto
  ultimately show ?thesis
    unfolding prepare_binary_def set_binary_def by (intro ops) auto
qed

lemma exists_path_Return: "exists_path os p c = (r, c') \<longleftrightarrow> r = Return (path_exists os p (world c)) \<and> c' = c"
  by (auto simp: exists_path_def)

lemma bindE_exists: "bindE (exists_path os p) f c = f (path_exists os p (world c)) c"
  by (simp add: exists_path_def bindE_getE)

lemma cluster_init_Return:
  assumes "cluster_init os h a c = (Return (), c')"
  defines "dir \<equiv> arm_dir h (the (i_project_dir a))"
  shows "truthy (i_project_dir a) \<and> path_exists os dir (world c) \<and>
    path_exists os (path_join dir (i_compose_file a)) (world c) \<and>
    bash_pool c' = [] \<and> ctl_shell c' = None \<and> lock_free c' \<and> \<not> running c' \<and> project_dir c' = dir \<and>
    docker_compose c' = i_docker_compose a @ '' --ansi never --project-directory '' @ dquoted dir @
      '' --file '' @ dquoted (path_join dir (i_compose_file a))"
proof -
  obtain configs where conf: "(case i_configs_dir a of Some d \<Rightarrow> Some d
      | None \<Rightarrow> if path_exists os (caller_dir h) (world c) then Some (caller_dir h) else None) = Some configs"
    using assms(1) unfolding cluster_init_def bindE_exists by (auto split: option.splits if_splits)
  let ?c = "(fresh_cluster a configs c)\<lparr>project_dir := dir\<rparr>"
  have world: "world (fresh_cluster a configs c) = world c" by (simp add: fresh_cluster_def)
  have facts: "truthy (i_project_dir a)" "path_exists os dir (world c)"
    "path_exists os (path_join dir (i_compose_file a)) (world c)"
    and prep: "seqE (whenE (truthy (i_binary_path a)) (prepare_binary os h (the (i_binary_path a))))
      (modifyE (\<lambda>c. c\<lparr>docker_compose := docker_compose c @ '' --ansi never --project-directory '' @ dquoted dir @
        '' --file '' @ dquoted (path_join dir (i_compose_file a)), lock_held := False\<rparr>)) ?c = (Return (), c')"
    using assms(1) unfolding cluster_init_def bindE_exists conf option.case seqE_modifyE world Let_def dir_def [symmetric]
    by (simp_all split: if_splits add: world)
  obtain u c1 where c1: "whenE (truthy (i_binary_path a)) (prepare_binary os h (the (i_binary_path a))) ?c = (Return u, c1)"
    and c': "c' = c1\<lparr>docker_compose := docker_compose c1 @ '' --ansi never --project-directory '' @ dquoted dir @
        '' --file '' @ dquoted (path_join dir (i_compose_file a)), lock_held := False\<rparr>"
    using prep unfolding seqE_Return_iff modifyE_iff by blast
  have "newly_made a dir ?c" by (simp add: fresh_cluster_def)
  then have "newly_made a dir c1"
    using keepsD [OF keeps_when [OF keeps_prepare_binary] _ c1] by simp
  with facts c' show ?thesis by simp
qed

section \<open>Properties\<close>

text \<open>A cluster that was constructed can be used: when \<open>Cluster.__init__\<close> returns, the compose directory
  (with the suffix \<open>_arm64\<close>, added once, on that architecture) and the compose file exist,
  the docker-compose command names both, and the object starts with no shells, the lock
  free, and not running; whatever binary was downloaded, copied from a container or
  unpacked on the way.\<close>

theorem cluster_init_contract:
  assumes "cluster_init os h a c = (Return (), c')"
  shows "\<exists>dir. dir = arm_dir h (the (i_project_dir a)) \<and> truthy (i_project_dir a) \<and>
    path_exists os dir (world c) \<and> path_exists os (path_join dir (i_compose_file a)) (world c) \<and>
    bash_pool c' = [] \<and> ctl_shell c' = None \<and> lock_free c' \<and> \<not> running c' \<and> project_dir c' = dir \<and>
    docker_compose c' = i_docker_compose a @ '' --ansi never --project-directory '' @ dquoted dir @
      '' --file '' @ dquoted (path_join dir (i_compose_file a))"
  using cluster_init_Return [OF assms] by blast

text \<open>A host and arguments for the witnesses: a local binary on an ARM machine.\<close>

definition sim_host :: "sim host" where
  "sim_host = \<lparr>host_cpu = ''aarch64'', sha1_hex = (\<lambda>_. ''0123456789abcdef''), abspath = (\<lambda>p. ''/work/'' @ p),
     temp_dir = ''/tmp'', caller_dir = ''/suite'', debug_setting = False, xfail_step = (\<lambda>_. ret ())\<rparr>"

definition sim_init :: init_args where
  "sim_init = \<lparr>i_local = True, i_binary_path = Some ''/usr/bin/clickhouse'',
     i_odbc_bridge_path = None, i_configs_dir = None, i_nodes = Some [(''clickhouse'', [''clickhouse1''])],
     i_docker_compose = ''docker-compose'', i_project_dir = Some ''env'', i_compose_file = ''docker-compose.yml'',
     i_environ = None, i_thread_fuzzer = False, i_collect_service_logs = True, i_use_zookeeper_nodes = False\<rparr>"

lemma sim_init_runs:
  "fst (cluster_init (sim_os sim_answers) sim_host sim_init sim_cluster) = Return ()"
  by code_simp

theorem cluster_init_contract_witness:
  "docker_compose (snd (cluster_init (sim_os sim_answers) sim_host sim_init sim_cluster)) =
     ''docker-compose --ansi never --project-directory '' @ dquoted ''env_arm64'' @
     '' --file '' @ dquoted ''env_arm64/docker-compose.yml''"
proof -
  let ?run = "cluster_init (sim_os sim_answers) sim_host sim_init sim_cluster"
  have "?run = (Return (), snd ?run)" using sim_init_runs by (metis prod.collapse)
  from cluster_init_contract [OF this] obtain dir where "dir = arm_dir sim_host ''env''"
    "docker_compose (snd ?run) = ''docker-compose'' @ '' --ansi never --project-directory '' @ dquoted dir @
      '' --file '' @ dquoted (path_join dir ''docker-compose.yml'')"
    by (auto simp: sim_init_def)
  moreover have "arm_dir sim_host ''env'' = ''env_arm64''" "path_join ''env_arm64'' ''docker-compose.yml'' = ''env_arm64/docker-compose.yml''"
    by code_simp+
  ultimately show ?thesis by simp
qed

lemma start_nodes_Return:
  assumes "retries_law os" and "start_nodes os c = (Return (), c')"
    and "map_of (cluster_nodes c') ''clickhouse'' = Some names" and "nm \<in> set names" and "startswith nm ''clickhouse''"
  shows "versioned c'"
proof -
  have nodes: "cluster_nodes c' = cluster_nodes c"
    using keepsD [OF start_nodes_keeps [OF assms(1) any_version_examples(2)] refl assms(2)] by simp
  let ?one = "\<lambda>nm. seqE (wait_healthy os nm 300)
      (whenE (startswith nm ''clickhouse'') (start_clickhouse os nm 300 True None (thread_fuzzer c)))"
  have get: "getitem (cluster_nodes c) ''clickhouse'' = ret names"
    using assms(3) nodes by (simp add: getitem_def)
  obtain c1 where "forE names ?one c1 = (Return (), c')"
    using assms(2) unfolding start_nodes_def bindE_getE get bindE_ret seqE_Return_iff [of "whenE _ _"] by blast
  then show ?thesis using start_each_Return [OF assms(1)] assms(4,5) by blast
qed

lemma up_Return:
  assumes "up os timeout c = (Return (), c')"
  obtains c1 c2 c3 where "compose_up os timeout c1 = (Return (), c2)" "start_nodes os c2 = (Return (), c3)"
    "c' = c3\<lparr>running := True\<rparr>"
  using assms unfolding up_def by (auto simp: bindE_getE seqE_Return_iff)

text \<open>C6. \<open>Cluster.up\<close> returns only after an attempt in which every docker-compose command succeeded, no
  container was unhealthy and none had exited; the nodes are started from the state of that
  attempt and only then is the cluster marked as running; if the cluster has a ClickHouse node, the version of its server is known. When the
  attempts are used up without a good one the code fails the test, and it never reads the variable \<open>ps_cmd\<close>
  before it has a value, although two of the branches skip its assignment.\<close>

theorem up_contract:
  assumes "retries_law os"
  shows "(up os timeout c = (Return (), c') \<longrightarrow> running c' \<and>
      (\<exists>cmd ps c1 c2. attempt_good os timeout cmd ps c1 \<and> start_nodes os c1 = (Return (), c2) \<and> c' = c2\<lparr>running := True\<rparr>) \<and>
      (\<forall>names nm. map_of (cluster_nodes c') ''clickhouse'' = Some names \<and> nm \<in> set names \<and> startswith nm ''clickhouse'' \<longrightarrow>
        context_version c' \<noteq> None)) \<and>
    (\<forall>cmd ps c1. up_loop os timeout 5 None None c = (Return (cmd, ps), c1) \<longrightarrow>
      compose_up os timeout c = (if attempt_bad cmd ps
        then (Raise (TestFail ''could not bring up docker-compose cluster''), c1) else (Return (), c1)) \<and>
      (attempt_bad cmd ps \<or> attempt_good os timeout cmd ps c1))"
proof -
  have "running c' \<and> (\<exists>cmd ps c1 c2. attempt_good os timeout cmd ps c1 \<and> start_nodes os c1 = (Return (), c2) \<and> c' = c2\<lparr>running := True\<rparr>) \<and>
      (\<forall>names nm. map_of (cluster_nodes c') ''clickhouse'' = Some names \<and> nm \<in> set names \<and> startswith nm ''clickhouse'' \<longrightarrow>
        versioned c')" if "up os timeout c = (Return (), c')"
    using up_Return [OF that]
  proof cases
    case (1 c1 c2 c3)
    then show ?thesis
      using compose_up_Return [OF 1(1)] start_nodes_Return [OF assms 1(2)] by auto
  qed
  then show ?thesis using compose_up_ends by blast
qed

lemma sim_up_runs: "fst (up (sim_os sim_no_pid) 1800 (sim_cluster\<lparr>is_local := False\<rparr>)) = Return ()"
  by code_simp

theorem up_contract_witness:
  "running (snd (up (sim_os sim_no_pid) 1800 (sim_cluster\<lparr>is_local := False\<rparr>)))"
proof -
  let ?run = "up (sim_os sim_no_pid) 1800 (sim_cluster\<lparr>is_local := False\<rparr>)"
  have "?run = (Return (), snd ?run)" using sim_up_runs by (metis prod.collapse)
  then show ?thesis using up_contract [OF sim_retries] by blast
qed





end
