(* ===== verification/Node_Steps.thy ===== *)
theory Node_Steps
  imports Cluster_Lifecycle
begin

text \<open>
  The steps of \<open>helpers/common.py\<close> that prepare a node for a test and clean up after it: copying and
  creating files, users, groups, environment variables, and the marks in the server log.
  A step that yields takes the code of the test after the step as its argument \<open>body\<close>. All but
  the last have the shape of the locale \<open>scoped\<close>. The default of the argument \<open>node\<close> is the node of the
  test context; the steps here take the name of the node that this gives.
\<close>

section \<open>Files\<close>

text \<open>\<open>cat <<HEREDOC > path\<close> with the content on the next lines\<close>

definition write_file :: "string \<Rightarrow> string \<Rightarrow> string" where
  "write_file path content = ''cat <<HEREDOC > '' @ path @ newline @ content @ newline @ ''HEREDOC''"

definition copy :: "'w os \<Rightarrow> string \<Rightarrow> string \<Rightarrow> string \<Rightarrow> bool \<Rightarrow> string \<Rightarrow> string option \<Rightarrow>
  (string \<Rightarrow> ('w, 'a) ceff) \<Rightarrow> ('w, 'a) ceff" where
  "copy os dest_node src_path dest_path binary eof src_node body =
     (if binary then raise (NotImplementedError ''not yet implemented; need to use base64 encoding'')
      else
        bindE (bash_default os src_node) (\<lambda>sh.
        bindE (run_in os sh (''cat '' @ src_path) None) (\<lambda>cmd.
        seqE (assertE (cmd_exitcode cmd = 0) [])
          (finallyE
            (seqE (node_command os dest_node
                (''cat << '' @ eof @ '' > '' @ dest_path @ newline @ cmd_output cmd @ newline @ eof) default_args)
              (body dest_path))
            (node_command os dest_node (''rm -rf '' @ dest_path) default_args)))))"

definition create_file_on_node :: "'w os \<Rightarrow> string \<Rightarrow> string \<Rightarrow> string \<Rightarrow> (string \<Rightarrow> ('w, 'a) ceff) \<Rightarrow> ('w, 'a) ceff" where
  "create_file_on_node os nm path content body =
     finallyE (seqE (node_command os nm (write_file path content) exit_zero) (body path))
       (node_command os nm (''rm -rf '' @ path) exit_zero)"

section \<open>Users, groups and environment variables\<close>

definition add_user_to_group_on_node :: "'w os \<Rightarrow> string \<Rightarrow> string \<Rightarrow> string \<Rightarrow> ('w, unit) ceff" where
  "add_user_to_group_on_node os nm grp username =
     seqE (node_command os nm (''usermode -g '' @ grp @ '' '' @ username) exit_zero) (ret ())"

definition change_user_on_node :: "'w os \<Rightarrow> string \<Rightarrow> string \<Rightarrow> ('w, 'a) ceff \<Rightarrow> ('w, 'a) ceff" where
  "change_user_on_node os nm username body =
     finallyE (seqE (node_command os nm (''su '' @ username) exit_zero) body)
       (node_command os nm ''exit'' exit_zero)"

definition useradd :: "string option \<Rightarrow> string \<Rightarrow> string" where
  "useradd groupname username = (case groupname of
     None \<Rightarrow> ''useradd -s /bin/bash '' @ username
   | Some g \<Rightarrow> ''useradd -g '' @ g @ '' -s /bin/bash '' @ username)"

definition add_user_on_node :: "'w os \<Rightarrow> string \<Rightarrow> string option \<Rightarrow> string \<Rightarrow> ('w, 'a) ceff \<Rightarrow> ('w, 'a) ceff" where
  "add_user_on_node os nm groupname username body =
     finallyE (seqE (node_command os nm (useradd groupname username) exit_zero) body)
       (node_command os nm (''deluser '' @ username) exit_zero)"

definition add_group_on_node :: "'w os \<Rightarrow> string \<Rightarrow> string \<Rightarrow> ('w, 'a) ceff \<Rightarrow> ('w, 'a) ceff" where
  "add_group_on_node os nm groupname body =
     finallyE (seqE (node_command os nm (''groupadd '' @ groupname) exit_zero) body)
       (node_command os nm ''delgroup clickhouse'' default_args)"

definition export_env :: "'w os \<Rightarrow> string \<Rightarrow> string \<times> string \<Rightarrow> ('w, unit) ceff" where
  "export_env os nm kv = seqE (node_command os nm (''export '' @ fst kv @ ''='' @ snd kv) exit_zero) (ret ())"

definition unset_env :: "'w os \<Rightarrow> string \<Rightarrow> string \<Rightarrow> ('w, unit) ceff" where
  "unset_env os nm k = seqE (node_command os nm (''unset '' @ k) exit_zero) (ret ())"

definition set_envs_on_node :: "'w os \<Rightarrow> string \<Rightarrow> (string, string) pydict \<Rightarrow> ('w, 'a) ceff \<Rightarrow> ('w, 'a) ceff" where
  "set_envs_on_node os nm envs body =
     finallyE (seqE (forE envs (export_env os nm)) body) (forE (dict_keys envs) (unset_env os nm))"

section \<open>Marks in the server log\<close>

text \<open>The attributes of a test object that the step reads, and the result of its parent.\<close>

record 'w test =
  test_name :: string
  terminating :: "'w \<Rightarrow> bool"
  parent_passed :: "'w \<Rightarrow> bool"

definition backslash_n :: string where
  "backslash_n = [CHR 0x5C, CHR ''n'']"

definition log_mark :: "string \<Rightarrow> string \<Rightarrow> string \<Rightarrow> string" where
  "log_mark word nm logfile =
     ''echo -e '' @ dquoted (backslash_n @ ''-- '' @ word @ '': '' @ nm @ '' --'' @ backslash_n) @ '' >> '' @ logfile"

text \<open>\<open>cmd.output.split(" ")[0].strip()\<close>\<close>

definition first_word :: "string \<Rightarrow> string" where
  "first_word s = py_strip (hd (py_split '' '' s))"

definition log_size :: "'w os \<Rightarrow> string \<Rightarrow> string \<Rightarrow> ('w, cmd_result) ceff" where
  "log_size os nm logfile = node_command os nm (''stat --format=%s '' @ logfile) default_args"

text \<open>\<open>start_logsize\<close>: the number \<open>0\<close>, whose text is \<open>0\<close>, when there is no log file yet.\<close>

definition start_logsize :: "string \<Rightarrow> cmd_result \<Rightarrow> string" where
  "start_logsize logfile r =
     (if cmd_output r = ''stat: cannot stat '' @ single_quoted logfile @ '': No such file or directory''
      then ''0'' else first_word (cmd_output r))"

definition int_arg :: "string \<Rightarrow> ('s, int) eff" where
  "int_arg s = (case py_int s of None \<Rightarrow> raise (ValueError ''invalid literal for int'') | Some n \<Rightarrow> ret n)"

definition dump_log :: "'w os \<Rightarrow> string \<Rightarrow> string \<Rightarrow> string \<Rightarrow> string \<Rightarrow> ('w, unit) ceff" where
  "dump_log os nm logfile start finish =
     bindE (int_arg finish) (\<lambda>e. bindE (int_arg start) (\<lambda>s.
       seqE (node_command os nm (''tail -c +'' @ start @ '' '' @ logfile @ '' | head -c '' @ str_int (e - s)) default_args)
         (ret ())))"

text \<open>The \<open>finally\<close> block, when the test is not being terminated.\<close>

definition end_of_test :: "'w os \<Rightarrow> 'w host \<Rightarrow> string \<Rightarrow> 'w test \<Rightarrow> string \<Rightarrow> bool \<Rightarrow> string \<Rightarrow> ('w, unit) ceff" where
  "end_of_test os h nm test logfile always_dump start =
     seqE (node_command os nm (log_mark ''end'' (test_name test) logfile) default_args)
     (bindE (log_size os nm logfile) (\<lambda>r.
      bindE (getE (\<lambda>c. parent_passed test (world c))) (\<lambda>passed.
        whenE (always_dump \<or> debug_setting h \<and> \<not> passed)
          (dump_log os nm logfile start (first_word (cmd_output r))))))"

text \<open>
  When the test is being terminated the \<open>finally\<close> block returns at once. If the command that
  writes the first mark raised, this \<open>return\<close> drops the exception and the test goes on.
\<close>

definition instrument_clickhouse_server_log ::
  "'w os \<Rightarrow> 'w host \<Rightarrow> string \<Rightarrow> 'w test \<Rightarrow> string \<Rightarrow> bool \<Rightarrow> ('w, 'a) ceff \<Rightarrow> ('w, 'a) ceff" where
  "instrument_clickhouse_server_log os h nm test logfile always_dump body =
     bindE (log_size os nm logfile) (\<lambda>r.
     let finish = end_of_test os h nm test logfile always_dump (start_logsize logfile r);
         stopping = getE (\<lambda>c. terminating test (world c)) in
     bindE (tryE (node_command os nm (log_mark ''start'' (test_name test) logfile) default_args)) (\<lambda>x. case x of
       Inl e \<Rightarrow> bindE stopping (\<lambda>stop. if stop then body else seqE finish (raise e))
     | Inr _ \<Rightarrow> finallyE body (bindE stopping (\<lambda>stop. whenE (\<not> stop) finish))))"

section \<open>The steps as scoped steps\<close>

interpretation created_file: scoped "\<lambda>(nm, path, content). node_command os nm (write_file path content) exit_zero"
  "\<lambda>(nm, path, content). path" "\<lambda>(nm, path, content). node_command os nm (''rm -rf '' @ path) exit_zero"
  "\<lambda>(nm, path, content). create_file_on_node os nm path content" for os
  by unfold_locales (auto simp: create_file_on_node_def)

interpretation switched_user: scoped "\<lambda>(nm, username). node_command os nm (''su '' @ username) exit_zero" "\<lambda>_. ()"
  "\<lambda>(nm, username). node_command os nm ''exit'' exit_zero"
  "\<lambda>(nm, username) body. change_user_on_node os nm username (body ())" for os
  by unfold_locales (auto simp: change_user_on_node_def)

interpretation added_user: scoped "\<lambda>(nm, g, username). node_command os nm (useradd g username) exit_zero" "\<lambda>_. ()"
  "\<lambda>(nm, g, username). node_command os nm (''deluser '' @ username) exit_zero"
  "\<lambda>(nm, g, username) body. add_user_on_node os nm g username (body ())" for os
  by unfold_locales (auto simp: add_user_on_node_def)

interpretation added_group: scoped "\<lambda>(nm, groupname). node_command os nm (''groupadd '' @ groupname) exit_zero" "\<lambda>_. ()"
  "\<lambda>(nm, groupname). node_command os nm ''delgroup clickhouse'' default_args"
  "\<lambda>(nm, groupname) body. add_group_on_node os nm groupname (body ())" for os
  by unfold_locales (auto simp: add_group_on_node_def)

interpretation set_envs: scoped "\<lambda>(nm, envs). forE envs (export_env os nm)" "\<lambda>_. ()"
  "\<lambda>(nm, envs). forE (dict_keys envs) (unset_env os nm)"
  "\<lambda>(nm, envs) body. set_envs_on_node os nm envs (body ())" for os
  by unfold_locales (auto simp: set_envs_on_node_def)

text \<open>Every step keeps the lock free, if the test does.\<close>

lemma steps_keep_lock:
  assumes "keeps lock_free body"
  shows "keeps lock_free (set_envs_on_node os nm envs body)" "keeps lock_free (add_group_on_node os nm g body)"
    "keeps lock_free (add_user_on_node os nm g' u body)" "keeps lock_free (change_user_on_node os nm u body)"
  unfolding set_envs_on_node_def add_group_on_node_def add_user_on_node_def change_user_on_node_def
    export_env_def unset_env_def node_command_def
  by (intro keeps_intro assms)+

section \<open>Commands in a shell that is open\<close>

text \<open>The thread of the test has the shell \<open>sh\<close> to the node in the pool.\<close>

definition attached :: "'w os \<Rightarrow> string \<Rightarrow> shell \<Rightarrow> 'w cluster \<Rightarrow> bool" where
  "attached os nm sh c \<longleftrightarrow> lock_free c \<and> map_of (bash_pool c) (current_thread os (world c), nm) = Some sh"

text \<open>A command does not move the test to another thread.\<close>

definition same_thread :: "'w os \<Rightarrow> bool" where
  "same_thread os \<longleftrightarrow> (\<forall>sh cmd t w r w'. run os sh cmd t w = (r, w') \<longrightarrow> current_thread os w' = current_thread os w)"

lemma bash_attached: "attached os nm sh c \<Longrightarrow> bash_default os (Some nm) c = (Return sh, c)"
  unfolding attached_def bash_default_def bash_def bash_id_def
  by (auto simp: bindE_getE with_lock_Return seqE_Return_iff pool_get_Return node_text_def intro: cluster.equality)

lemma node_command_attached:
  assumes "attached os nm sh c" and "same_thread os" and "arg_bash a = None" and "node_command os nm cmd a c = (Return r, c')"
  shows "\<exists>w. run os sh cmd (arg_timeout a) (world c) = (Return r, w) \<and> c' = c\<lparr>world := w\<rparr> \<and> attached os nm sh c'"
proof -
  let ?run = "closing_on_timeout os (Some nm) (run_in os sh cmd (arg_timeout a))"
  have "node_command os nm cmd a c = bindE ?run (check_command a) c"
    unfolding node_command_def command_def assms(3) bindE_def [of "case _ of _ \<Rightarrow> _"]
    by (simp add: bash_attached [OF assms(1)])
  with assms(4) have "bindE ?run (check_command a) c = (Return r, c')" by simp
  then have "?run c = (Return r, c')" by (auto simp: bindE_Return_iff check_command_Return)
  then have "run_in os sh cmd (arg_timeout a) c = (Return r, c')"
    by (auto simp: closing_on_timeout_def catchE_Return_iff seqE_Return_iff split: if_splits)
  then show ?thesis
    using assms(1,2) by (auto simp: run_in_def inW_def attached_def same_thread_def split: prod.splits)
qed

lemma node_command_exit_zero: "node_command os nm cmd exit_zero c = (Return r, c') \<Longrightarrow> cmd_exitcode r = 0"
  unfolding node_command_def command_def
  by (auto simp: bindE_Return_iff check_command_Return exit_zero_def default_args_def)

section \<open>Environment variables and groups of a node\<close>

text \<open>Words that the shell does not expand.\<close>

definition plain_word :: "string \<Rightarrow> bool" where
  "plain_word s \<longleftrightarrow> s \<noteq> [] \<and> list_all (\<lambda>c. is_digit c \<or> c \<in> set ''abcdefghijklmnopqrstuvwxyzABCDEFGHIJKLMNOPQRSTUVWXYZ_'') s"

text \<open>
  What \<open>export\<close> and \<open>unset\<close> do to the variables of a shell, and \<open>groupadd\<close> and \<open>delgroup\<close> to
  the groups of a node (\<open>delgroup\<close> removes no other group, and may fail).
\<close>

definition env_law :: "'w os \<Rightarrow> (shell \<Rightarrow> 'w \<Rightarrow> string \<rightharpoonup> string) \<Rightarrow> bool" where
  "env_law os env \<longleftrightarrow> (\<forall>sh k t w r w'. plain_word k \<longrightarrow>
     (\<forall>v. plain_word v \<and> run os sh (''export '' @ k @ ''='' @ v) t w = (Return r, w') \<longrightarrow> env sh w' = (env sh w)(k \<mapsto> v)) \<and>
     (run os sh (''unset '' @ k) t w = (Return r, w') \<longrightarrow> env sh w' = (env sh w)(k := None)))"

definition group_law :: "'w os \<Rightarrow> ('w \<Rightarrow> string set) \<Rightarrow> bool" where
  "group_law os groups \<longleftrightarrow> (\<forall>sh g t w r w'.
     (run os sh (''groupadd '' @ g) t w = (Return r, w') \<and> cmd_exitcode r = 0 \<longrightarrow> groups w' = insert g (groups w)) \<and>
     (run os sh (''delgroup '' @ g) t w = (Return r, w') \<longrightarrow> groups w - {g} \<subseteq> groups w'))"

lemma env_steps_Return:
  "export_env os nm kv c = (Return u, c') \<longleftrightarrow>
     (\<exists>r. node_command os nm (''export '' @ fst kv @ ''='' @ snd kv) exit_zero c = (Return r, c'))"
  "unset_env os nm k c = (Return u, c') \<longleftrightarrow> (\<exists>r. node_command os nm (''unset '' @ k) exit_zero c = (Return r, c'))"
  by (auto simp: export_env_def unset_env_def seqE_Return_iff)

lemma exports_Return:
  assumes "env_law os env" and "same_thread os"
  shows "\<forall>kv \<in> set envs. plain_word (fst kv) \<and> plain_word (snd kv) \<Longrightarrow> attached os nm sh c \<Longrightarrow>
    forE envs (export_env os nm) c = (Return (), c') \<Longrightarrow>
    attached os nm sh c' \<and> env sh (world c') = env sh (world c) ++ map_of (rev envs)"
proof (induction envs arbitrary: c)
  case (Cons kv envs)
  from Cons.prems(3) obtain r c1 where
    "node_command os nm (''export '' @ fst kv @ ''='' @ snd kv) exit_zero c = (Return r, c1)"
    and rest: "forE envs (export_env os nm) c1 = (Return (), c')"
    by (auto simp only: forE.simps seqE_Return_iff env_steps_Return)
  from node_command_attached [OF Cons.prems(2) assms(2) _ this(1)] assms(1) Cons.prems(1)
  have "attached os nm sh c1" "env sh (world c1) = (env sh (world c))(fst kv \<mapsto> snd kv)"
    by (auto simp: exit_zero_def default_args_def env_law_def)
  then show ?case using Cons.IH [OF _ _ rest] Cons.prems(1) by (simp add: map_add_def fun_eq_iff split: option.splits)
qed simp

lemma unsets_Return:
  assumes "env_law os env" and "same_thread os"
  shows "\<forall>k \<in> set ks. plain_word k \<Longrightarrow> attached os nm sh c \<Longrightarrow> forE ks (unset_env os nm) c = (Return (), c') \<Longrightarrow>
    env sh (world c') = env sh (world c) |` (- set ks)"
proof (induction ks arbitrary: c)
  case (Cons k ks)
  from Cons.prems(3) obtain r c1 where "node_command os nm (''unset '' @ k) exit_zero c = (Return r, c1)"
    and rest: "forE ks (unset_env os nm) c1 = (Return (), c')"
    by (auto simp only: forE.simps seqE_Return_iff env_steps_Return)
  from node_command_attached [OF Cons.prems(2) assms(2) _ this(1)] assms(1) Cons.prems(1)
  have "attached os nm sh c1" "env sh (world c1) = (env sh (world c))(k := None)"
    by (auto simp: exit_zero_def default_args_def env_law_def)
  then show ?case using Cons.IH [OF _ _ rest] Cons.prems(1) by (auto simp: restrict_map_def fun_eq_iff)
qed (simp add: restrict_map_def)

section \<open>The log of a test that is terminated\<close>

lemma instrument_start_fails:
  assumes "log_size os nm logfile c = (Return r, c1)"
    and "node_command os nm (log_mark ''start'' (test_name test) logfile) default_args c1 = (Raise e, c2)"
  shows "instrument_clickhouse_server_log os h nm test logfile always_dump body c =
    (if terminating test (world c2) then body c2
     else seqE (end_of_test os h nm test logfile always_dump (start_logsize logfile r)) (raise e) c2)"
proof -
  have "tryE (node_command os nm (log_mark ''start'' (test_name test) logfile) default_args) c1 = (Return (Inl e), c2)"
    using assms(2) by (simp add: tryE_Return_iff)
  then show ?thesis
    unfolding instrument_clickhouse_server_log_def Let_def bindE_def [of "log_size _ _ _"] assms(1)
    by (simp add: bindE_def [of "tryE _"] bindE_getE)
qed

lemma instrument_Return:
  assumes "instrument_clickhouse_server_log os h nm test logfile always_dump body c = (Return a, c')"
  shows "\<exists>t t'. body t = (Return a, t') \<and> (c' = t' \<or> (\<exists>start. end_of_test os h nm test logfile always_dump start t' = (Return (), c')))"
proof -
  let ?finish = "\<lambda>r. end_of_test os h nm test logfile always_dump (start_logsize logfile r)"
  let ?stopping = "getE (\<lambda>c. terminating test (world c))"
  obtain r c1 and x :: "exn + cmd_result" where "(case x of
       Inl e \<Rightarrow> bindE ?stopping (\<lambda>stop. if stop then body else seqE (?finish r) (raise e))
     | Inr _ \<Rightarrow> finallyE body (bindE ?stopping (\<lambda>stop. whenE (\<not> stop) (?finish r)))) c1 = (Return a, c')"
    using assms unfolding instrument_clickhouse_server_log_def Let_def bindE_Return_iff [of "log_size _ _ _"]
      bindE_Return_iff [of "tryE _"] by blast
  then show ?thesis
    by (cases x) (auto simp: bindE_getE seqE_Return_iff finallyE_Return_iff whenE_def split: if_splits)
qed

section \<open>Properties\<close>

text \<open>What \<open>set_envs_on_node\<close> does to the environment of the shell the test uses: the test
  runs with exactly the given variables added, and when the step has returned all of them
  are unset again, whatever the test assigned. A variable that was set before the step is
  therefore not restored but lost.\<close>

theorem set_envs_contract:
  assumes "env_law os env" and "same_thread os" and "attached os nm sh c"
    and "distinct (dict_keys envs)" and "\<forall>kv \<in> set envs. plain_word (fst kv) \<and> plain_word (snd kv)"
    and "\<forall>t a t'. attached os nm sh t \<and> body t = (Return a, t') \<longrightarrow> attached os nm sh t'"
    and "set_envs_on_node os nm envs body c = (Return a, c')"
  shows "\<exists>t t'. body t = (Return a, t') \<and> env sh (world t) = env sh (world c) ++ map_of envs \<and>
    env sh (world c') = env sh (world t') |` (- set (dict_keys envs))"
proof -
  obtain t t' where set: "forE envs (export_env os nm) c = (Return (), t)" and test: "body t = (Return a, t')"
    and unset: "forE (dict_keys envs) (unset_env os nm) t' = (Return (), c')"
    using assms(7) set_envs.returns_through [of os "(nm, envs)" "\<lambda>_. body"] by auto
  have at: "attached os nm sh t" "env sh (world t) = env sh (world c) ++ map_of (rev envs)"
    using exports_Return [OF assms(1,2,5,3) set] by auto
  moreover have "map_of (rev envs) = map_of envs"
    using assms(4) by (simp add: dict_keys_def map_of_inject_set rev_map [symmetric])
  moreover have "env sh (world c') = env sh (world t') |` (- set (dict_keys envs))"
    using unsets_Return [OF assms(1,2) _ _ unset] assms(5,6) at(1) test by (auto simp: dict_keys_def)
  ultimately show ?thesis using test by auto
qed

text \<open>A node for the witnesses: the variables of its shells and its groups.\<close>

record vars_world =
  w_env :: "string \<rightharpoonup> string"
  w_groups :: "string set"

definition vars_reply :: "string \<Rightarrow> vars_world \<Rightarrow> vars_world" where
  "vars_reply cmd w =
     (if startswith cmd ''export '' then
        (case py_split1 ''='' (drop 7 cmd) of [k, v] \<Rightarrow> w\<lparr>w_env := (w_env w)(k \<mapsto> v)\<rparr> | _ \<Rightarrow> w)
      else if startswith cmd ''unset '' then w\<lparr>w_env := (w_env w)(drop 6 cmd := None)\<rparr>
      else if startswith cmd ''groupadd '' then w\<lparr>w_groups := insert (drop 9 cmd) (w_groups w)\<rparr>
      else if startswith cmd ''delgroup '' then w\<lparr>w_groups := w_groups w - {drop 9 cmd}\<rparr>
      else w)"

definition vars_os :: "vars_world os" where
  "vars_os = \<lparr>
     open_shell = (\<lambda>_ _. ret 0), enter_shell = (\<lambda>_. ret ()), child_alive = (\<lambda>_ _. False), send = (\<lambda>_ _. ret ()),
     base_exit = (\<lambda>_. ret ()), set_timeout = (\<lambda>_ _. ret ()),
     run = (\<lambda>sh cmd _ w. (Return \<lparr>cmd_output = [], cmd_exitcode = 0\<rparr>, vars_reply cmd w)),
     now = (\<lambda>_. 0), sleep = (\<lambda>_. ret ()), current_thread = (\<lambda>_. ''main''), thread_names = (\<lambda>_. [''main'']),
     path_exists = (\<lambda>_ _. True), remove_path = (\<lambda>_. ret ()), make_dir = (\<lambda>_. ret ()), make_dirs = (\<lambda>_. ret ()),
     temp_file_name = (\<lambda>_. ret ''/tmp/query''), uuid1 = ret ''uuid'', retries = (\<lambda>_ _ body. body 0),
     retry = (\<lambda>_ m. m), fuel = 1\<rparr>"

definition vars_cluster :: "vars_world cluster" where
  "vars_cluster = \<lparr>bash_pool = [((''main'', ''clickhouse1''), 7)], ctl_shell = None, lock_held = False, environ = [],
     binary_path = None, odbc_bridge_path = None, configs_dir = ''configs'', is_local = True,
     cluster_nodes = [(''clickhouse'', [''clickhouse1''])], docker_compose = ''dc'', project_dir = ''env'',
     thread_fuzzer = False, running = True, collect_service_logs = False, use_zookeeper_nodes = False,
     context_version = None, default_query_settings = [],
     world = \<lparr>w_env = [''HOME'' \<mapsto> ''root''], w_groups = {}\<rparr>\<rparr>"

lemma plain_word_no_equals: "plain_word k \<Longrightarrow> find_sep ''='' (k @ ''='' @ v) = Some (k, v)"
proof -
  have "c \<noteq> CHR ''=''" if "is_digit c \<or> c \<in> set ''abcdefghijklmnopqrstuvwxyzABCDEFGHIJKLMNOPQRSTUVWXYZ_''" for c
    using that by (auto simp: is_digit_def)
  then have "find_sep ''='' (k @ ''='' @ v) = Some (k, v)"
    if "list_all (\<lambda>c. is_digit c \<or> c \<in> set ''abcdefghijklmnopqrstuvwxyzABCDEFGHIJKLMNOPQRSTUVWXYZ_'') k"
    using that by (induction k) (auto simp del: set_simps)
  then show "plain_word k \<Longrightarrow> find_sep ''='' (k @ ''='' @ v) = Some (k, v)" by (simp add: plain_word_def)
qed

lemma vars_laws:
  "env_law vars_os (\<lambda>_. w_env)" "group_law vars_os w_groups" "same_thread vars_os"
  "attached vars_os ''clickhouse1'' 7 vars_cluster"
  using plain_word_no_equals
  by (auto simp: env_law_def group_law_def same_thread_def attached_def vars_os_def vars_cluster_def vars_reply_def
      py_split1_def)

lemma vars_set_envs:
  "set_envs_on_node vars_os ''clickhouse1'' [(''HOME'', ''tmp'')] (ret ()) vars_cluster =
     (Return (), snd (set_envs_on_node vars_os ''clickhouse1'' [(''HOME'', ''tmp'')] (ret ()) vars_cluster))"
proof -
  have "fst (set_envs_on_node vars_os ''clickhouse1'' [(''HOME'', ''tmp'')] (ret ()) vars_cluster) = Return ()"
    by code_simp
  then show ?thesis by (metis prod.collapse)
qed

theorem set_envs_contract_witness:
  "w_env (world vars_cluster) ''HOME'' = Some ''root'' \<and>
   w_env (world (snd (set_envs_on_node vars_os ''clickhouse1'' [(''HOME'', ''tmp'')] (ret ()) vars_cluster))) ''HOME'' = None"
proof -
  have "plain_word ''HOME'' \<and> plain_word ''tmp''" by (simp add: plain_word_def)
  with set_envs_contract [OF vars_laws(1,3,4) _ _ _ vars_set_envs] show ?thesis
    by (auto simp: dict_keys_def vars_cluster_def restrict_map_def)
qed

text \<open>\<open>add_group_on_node\<close> cleans up only after the group named \<open>clickhouse\<close>: for any other name
  the group it has created is still there when the step has returned, if the test did not
  remove it itself.\<close>

theorem add_group_leaves_group:
  assumes "group_law os groups" and "same_thread os" and "attached os nm sh c" and "groupname \<noteq> ''clickhouse''"
    and "\<forall>t a t'. attached os nm sh t \<and> groupname \<in> groups (world t) \<and> body t = (Return a, t') \<longrightarrow>
      attached os nm sh t' \<and> groupname \<in> groups (world t')"
    and "add_group_on_node os nm groupname body c = (Return a, c')"
  shows "groupname \<in> groups (world c')"
proof -
  obtain r t t' v where add: "node_command os nm (''groupadd '' @ groupname) exit_zero c = (Return r, t)"
    and test: "body t = (Return a, t')" and del: "node_command os nm (''delgroup '' @ ''clickhouse'') default_args t' = (Return v, c')"
    using assms(6) added_group.returns_through [of os "(nm, groupname)" "\<lambda>_. body"] by auto
  have "cmd_exitcode r = 0" using node_command_exit_zero [OF add] .
  with node_command_attached [OF assms(3,2) _ add] assms(1)
  have "attached os nm sh t" "groupname \<in> groups (world t)"
    by (auto simp: exit_zero_def default_args_def group_law_def)
  with assms(5) test have at: "attached os nm sh t'" "groupname \<in> groups (world t')" by blast+
  from node_command_attached [OF at(1) assms(2) _ del] obtain w where
    ran: "run os sh (''delgroup '' @ ''clickhouse'') None (world t') = (Return v, w)" and c': "c' = t'\<lparr>world := w\<rparr>"
    by (auto simp: default_args_def)
  have "groups (world t') - {''clickhouse''} \<subseteq> groups w"
    using assms(1) ran unfolding group_law_def by blast
  with at(2) assms(4) c' show ?thesis by auto
qed

theorem add_group_leaves_group_witness:
  "''backup'' \<in> w_groups (world (snd (add_group_on_node vars_os ''clickhouse1'' ''backup'' (ret ()) vars_cluster)))"
proof -
  have "fst (add_group_on_node vars_os ''clickhouse1'' ''backup'' (ret ()) vars_cluster) = Return ()" by code_simp
  then obtain c' where "add_group_on_node vars_os ''clickhouse1'' ''backup'' (ret ()) vars_cluster = (Return (), c')"
    by (metis prod.collapse)
  with add_group_leaves_group [OF vars_laws(2,3,4) _ _ this] show ?thesis by auto
qed

end
