(* ===== verification/Config_Steps.thy ===== *)
theory Config_Steps
  imports Node_Steps
begin

text \<open>
  Adding configuration files to a running server: \<open>add_config\<close> and \<open>add_invalid_config\<close> of
  \<open>helpers/common.py\<close>. Both wait in loops bounded by the clock for the server to take the change.
  The operations of a \<open>testflows\<close> terminal that they use beside those of \<open>os\<close> are the record \<open>terminal\<close>.
\<close>

text \<open>
  \<open>expect sh pattern timeout expect_timeout\<close> returns whether the second group of the pattern
  matched; \<open>reset_prompt\<close> is \<open>bash.prompt = bash.__class__.prompt\<close>.
\<close>

record 'w terminal =
  shell_prompt :: "shell \<Rightarrow> 'w \<Rightarrow> string"
  reset_prompt :: "shell \<Rightarrow> ('w, unit) eff"
  expect :: "shell \<Rightarrow> string \<Rightarrow> seconds option \<Rightarrow> bool \<Rightarrow> ('w, bool) eff"
  close_terminal :: "shell \<Rightarrow> ('w, unit) eff"
  reopen_terminal :: "shell \<Rightarrow> ('w, unit) eff"

section \<open>Waiting for an exit code\<close>

text \<open>
  \<open>while time.time() - started < timeout: exitcode = ...; if exitcode == expected: break; time.sleep(1)\<close>,
  with the value of \<open>exitcode\<close> after the loop, if it has one.
\<close>

fun wait_exitcode :: "'w os \<Rightarrow> string \<Rightarrow> string \<Rightarrow> seconds \<Rightarrow> seconds \<Rightarrow> int \<Rightarrow> nat \<Rightarrow> int option \<Rightarrow>
  ('w, int option) ceff" where
  "wait_exitcode os nm cmd timeout started expected 0 exitcode = out_of_fuel"
| "wait_exitcode os nm cmd timeout started expected (Suc n) exitcode =
     bindE (clock os) (\<lambda>t.
     if t - started < timeout then
       bindE (node_command os nm cmd default_args) (\<lambda>r.
       if cmd_exitcode r = expected then ret (Some (cmd_exitcode r))
       else seqE (inW (sleep os 1)) (wait_exitcode os nm cmd timeout started expected n (Some (cmd_exitcode r))))
     else ret exitcode)"

definition wait_from_now :: "'w os \<Rightarrow> string \<Rightarrow> string \<Rightarrow> seconds \<Rightarrow> int \<Rightarrow> ('w, int option) ceff" where
  "wait_from_now os nm cmd timeout expected =
     bindE (clock os) (\<lambda>started. wait_exitcode os nm cmd timeout started expected (fuel os) None)"

definition assert_exitcode :: "int \<Rightarrow> int option \<Rightarrow> ('s, unit) eff" where
  "assert_exitcode expected exitcode = bindE (local_var ''exitcode'' exitcode) (\<lambda>x. assertE (x = expected) [])"

definition preprocessed_file :: "config \<Rightarrow> string" where
  "preprocessed_file cfg = ''/var/lib/clickhouse/preprocessed_configs/'' @ config_preprocessed_name cfg"

definition preprocessed_command :: "'w host \<Rightarrow> config \<Rightarrow> string" where
  "preprocessed_command h cfg =
     ''cat '' @ preprocessed_file cfg @ '' | grep '' @ config_uid cfg @ (if debug_setting h then [] else '' > /dev/null'')"

section \<open>Adding a configuration\<close>

definition check_preprocessed_config_is_updated :: "'w os \<Rightarrow> 'w host \<Rightarrow> string \<Rightarrow> config \<Rightarrow> seconds \<Rightarrow> bool \<Rightarrow> ('w, unit) ceff" where
  "check_preprocessed_config_is_updated os h nm cfg timeout after_removal =
     (let expected = (if after_removal then 1 else 0) in
      bindE (wait_from_now os nm (preprocessed_command h cfg) timeout expected) (\<lambda>exitcode.
      seqE (whenE (debug_setting h) (seqE (node_command os nm (''cat '' @ preprocessed_file cfg) default_args) (ret ())))
        (assert_exitcode expected exitcode)))"

definition server_log :: string where
  "server_log = ''/var/log/clickhouse-server/clickhouse-server.log''"

text \<open>Restarting the server with the terminal closed, and following its log from the old size on.\<close>

definition restart_for_config :: "'w os \<Rightarrow> 'w terminal \<Rightarrow> string \<Rightarrow> shell \<Rightarrow> string option \<Rightarrow> bool \<Rightarrow> ('w, unit) ceff" where
  "restart_for_config os tm nm sh user healthy =
     seqE (inW (close_terminal tm sh))
     (seqE (stop_clickhouse os nm False)
     (bindE (getE environ) (\<lambda>env. bindE (getitem env ''CLICKHOUSE_TESTS_DIR'') (\<lambda>dir.
      bindE (host_command os (''stat --format=%s '' @ dir @ ''/_instances/'' @ nm @ ''/logs/clickhouse-server.log'') None) (\<lambda>r.
      seqE (start_clickhouse os nm 300 healthy user False)
      (seqE (inW (reset_prompt tm sh))
      (seqE (inW (reopen_terminal tm sh))
        (inW (send os sh (''tail -c +'' @ first_word (cmd_output r) @ '' -f '' @ server_log))))))))))"

definition reload_pattern :: "string \<Rightarrow> string" where
  "reload_pattern nm =
     ''(ConfigReloader: Loaded config '' @ single_quoted (''/etc/clickhouse-server/'' @ nm) @ '', performed update on configuration)|'' @
     ''(ConfigReloader: Error updating configuration from '' @ single_quoted (''/etc/clickhouse-server/'' @ nm) @ '')''"

definition wait_for_config_to_be_loaded ::
  "'w os \<Rightarrow> 'w terminal \<Rightarrow> string \<Rightarrow> config \<Rightarrow> seconds \<Rightarrow> bool \<Rightarrow> bool \<Rightarrow> shell \<Rightarrow> string option \<Rightarrow> ('w, unit) ceff" where
  "wait_for_config_to_be_loaded os tm nm cfg timeout restart healthy sh user =
     seqE (whenE restart (restart_for_config os tm nm sh user healthy))
     (bindE (inW (expect tm sh
         (reload_pattern (if restart then ''config.xml'' else config_preprocessed_name cfg)) (Some timeout) False)) (\<lambda>failed.
       whenE failed
         (seqE (inW (expect tm sh (''.+'' @ newline) (Some 5) True))
           (raise (TestFail ''ConfigReloader: Error updating configuration'')))))"

text \<open>\<open>with node.cluster.shell(node.name) as bash: ...\<close>, and following the log of the server in it\<close>

definition with_node_shell :: "'w os \<Rightarrow> string \<Rightarrow> (shell \<Rightarrow> ('w, 'a) ceff) \<Rightarrow> ('w, 'a) ceff" where
  "with_node_shell os nm body =
     bindE (shell os (Some nm) 300) (\<lambda>sh. seqE (inW (enter_shell os sh)) (finallyE (body sh) (shell_exit os sh)))"

definition expect_text :: "'w terminal \<Rightarrow> shell \<Rightarrow> string \<Rightarrow> ('w, unit) ceff" where
  "expect_text tm sh pattern = seqE (inW (expect tm sh pattern None False)) (ret ())"

definition follow_log :: "'w os \<Rightarrow> 'w terminal \<Rightarrow> shell \<Rightarrow> ('w, unit) ceff" where
  "follow_log os tm sh =
     seqE (bindE (getE (\<lambda>c. shell_prompt tm sh (world c))) (expect_text tm sh))
     (seqE (inW (send os sh (''tail -v -n 0 -f '' @ server_log)))
     (seqE (expect_text tm sh ''<=='') (expect_text tm sh newline)))"

record config_args =
  a_timeout :: seconds
  a_restart :: bool
  a_modify :: bool
  a_user :: "string option"
  a_wait_healthy :: bool
  a_check_preprocessed :: bool

definition install_config :: "'w os \<Rightarrow> 'w terminal \<Rightarrow> 'w host \<Rightarrow> string \<Rightarrow> config \<Rightarrow> config_args \<Rightarrow> ('w, unit) ceff" where
  "install_config os tm h nm cfg a =
     with_node_shell os nm (\<lambda>sh.
       seqE (follow_log os tm sh)
       (seqE (node_command os nm (write_file (config_path cfg) (config_content cfg)) exit_zero)
       (whenE (a_check_preprocessed a)
         (seqE (check_preprocessed_config_is_updated os h nm cfg (a_timeout a) False)
           (wait_for_config_to_be_loaded os tm nm cfg (a_timeout a) (a_restart a) (a_wait_healthy a) sh (a_user a))))))"

definition remove_config :: "'w os \<Rightarrow> 'w terminal \<Rightarrow> 'w host \<Rightarrow> string \<Rightarrow> config \<Rightarrow> config_args \<Rightarrow> ('w, unit) ceff" where
  "remove_config os tm h nm cfg a =
     whenE (\<not> a_modify a) (with_node_shell os nm (\<lambda>sh.
       seqE (follow_log os tm sh)
       (seqE (node_command os nm (''rm -rf '' @ config_path cfg) exit_zero)
       (seqE (check_preprocessed_config_is_updated os h nm cfg (a_timeout a) True)
         (wait_for_config_to_be_loaded os tm nm cfg (a_timeout a) (a_restart a) (a_wait_healthy a) sh None)))))"

definition add_config :: "'w os \<Rightarrow> 'w terminal \<Rightarrow> 'w host \<Rightarrow> string \<Rightarrow> config \<Rightarrow> config_args \<Rightarrow> ('w, 'a) ceff \<Rightarrow> ('w, 'a) ceff" where
  "add_config os tm h nm cfg a body =
     finallyE (seqE (install_config os tm h nm cfg a) body) (remove_config os tm h nm cfg a)"

section \<open>Adding an invalid configuration\<close>

text \<open>The path of the configuration file on the host.\<close>

definition system_config_path :: "string \<Rightarrow> config \<Rightarrow> ('w, string) ceff" where
  "system_config_path nm cfg =
     bindE (getE environ) (\<lambda>env. bindE (getitem env ''CLICKHOUSE_TESTS_DIR'') (\<lambda>dir.
       ret (path_join (path_join (path_join (path_join dir ''configs'') nm) ''config.d'')
         (last (py_split ''config.d/'' (config_path cfg))))))"

definition host_exit_zero :: "'w os \<Rightarrow> string \<Rightarrow> seconds \<Rightarrow> ('w, unit) ceff" where
  "host_exit_zero os cmd timeout =
     seqE (command os None cmd (exit_zero\<lparr>arg_timeout := Some timeout\<rparr>)) (ret ())"

definition try_invalid_config :: "'w os \<Rightarrow> 'w host \<Rightarrow> string \<Rightarrow> config \<Rightarrow> int \<Rightarrow> seconds \<Rightarrow> bool \<Rightarrow> string option \<Rightarrow> ('w, unit) ceff" where
  "try_invalid_config os h nm cfg tail_lines timeout restart user =
     seqE (node_command os nm (''echo -e '' @ dquoted (concat (replicate (nat tail_lines) (''-'' @ backslash_n))) @
         '' > /var/log/clickhouse-server/clickhouse-server.err.log'') default_args)
     (seqE (node_command os nm (write_file (config_path cfg) (config_content cfg)) exit_zero)
     (bindE (wait_from_now os nm (preprocessed_command h cfg) timeout 0) (\<lambda>exitcode.
      seqE (assert_exitcode 0 exitcode)
        (whenE restart (restart_clickhouse os nm 300 False False user)))))"

definition recover_from_config :: "'w os \<Rightarrow> string \<Rightarrow> config \<Rightarrow> config option \<Rightarrow> seconds \<Rightarrow> bool \<Rightarrow> string option \<Rightarrow> ('w, unit) ceff" where
  "recover_from_config os nm cfg recover_config timeout restart user =
     bindE (system_config_path nm cfg) (\<lambda>path.
     seqE (host_exit_zero os (''rm -rf '' @ path) timeout)
     (case recover_config of
       None \<Rightarrow> whenE restart (seqE (restart_clickhouse os nm 300 False True user) (restart_clickhouse os nm 300 False True user))
     | Some rc \<Rightarrow>
         seqE (host_exit_zero os (write_file path (config_content rc)) timeout)
           (whenE restart (restart_clickhouse os nm 300 False True user))))"

definition add_invalid_config ::
  "'w os \<Rightarrow> 'w host \<Rightarrow> string \<Rightarrow> config \<Rightarrow> string \<Rightarrow> config option \<Rightarrow> int \<Rightarrow> seconds \<Rightarrow> bool \<Rightarrow> string option \<Rightarrow> ('w, unit) ceff" where
  "add_invalid_config os h nm cfg message recover_config tail_lines timeout restart user =
     seqE (finallyE (try_invalid_config os h nm cfg tail_lines timeout restart user)
         (recover_from_config os nm cfg recover_config timeout restart user))
     (bindE (wait_from_now os nm (''tail -n '' @ str_int tail_lines @
         '' /var/log/clickhouse-server/clickhouse-server.err.log | grep '' @ dquoted message) timeout 0)
       (assert_exitcode 0))"

section \<open>Configurations as scoped steps\<close>

interpretation added_config: scoped "\<lambda>(nm, cfg, a). install_config os tm h nm cfg a" "\<lambda>_. ()"
  "\<lambda>(nm, cfg, a). remove_config os tm h nm cfg a" "\<lambda>(nm, cfg, a) body. add_config os tm h nm cfg a (body ())" for os tm h
  by unfold_locales (auto simp: add_config_def)

lemma wait_exitcode_Return:
  "wait_exitcode os nm cmd timeout started expected n old c = (Return x, c') \<Longrightarrow>
   x = old \<or> (\<exists>r c1 c2. x = Some (cmd_exitcode r) \<and> node_command os nm cmd default_args c1 = (Return r, c2) \<and>
     (cmd_exitcode r = expected \<longrightarrow> c' = c2))"
proof (induction n arbitrary: old c)
  case (Suc n)
  let ?more = "\<lambda>r. wait_exitcode os nm cmd timeout started expected n (Some (cmd_exitcode r))"
  from Suc.prems obtain t c1 where rest: "(if t - started < timeout then
       bindE (node_command os nm cmd default_args) (\<lambda>r.
       if cmd_exitcode r = expected then ret (Some (cmd_exitcode r)) else seqE (inW (sleep os 1)) (?more r))
     else ret old) c1 = (Return x, c')"
    unfolding wait_exitcode.simps bindE_Return_iff [of "clock os"] by blast
  show ?case
  proof (cases "t - started < timeout")
    case True
    with rest obtain r c2 where req: "node_command os nm cmd default_args c1 = (Return r, c2)"
      and go: "(if cmd_exitcode r = expected then ret (Some (cmd_exitcode r)) else seqE (inW (sleep os 1)) (?more r)) c2 = (Return x, c')"
      unfolding if_P [OF True] bindE_Return_iff by blast
    show ?thesis
    proof (cases "cmd_exitcode r = expected")
      case True
      with go req show ?thesis by auto
    next
      case False
      with go obtain c3 where "?more r c3 = (Return x, c')" by (auto simp: seqE_Return_iff)
      from Suc.IH [OF this] req False show ?thesis by blast
    qed
  next
    case False
    with rest show ?thesis by simp
  qed
qed (simp add: out_of_fuel_def)

lemma assert_exitcode_Return [simp]: "assert_exitcode e x c = (Return u, c') \<longleftrightarrow> x = Some e \<and> c' = c"
  by (auto simp: assert_exitcode_def local_var_def split: option.splits)

text \<open>A check that returned has seen the expected exit code, and nothing has run since but the output of a debug run.\<close>

lemma check_preprocessed_Return:
  assumes "check_preprocessed_config_is_updated os h nm cfg timeout after_removal c = (Return u, c')"
  shows "\<exists>r c1 c2. node_command os nm (preprocessed_command h cfg) default_args c1 = (Return r, c2) \<and>
    cmd_exitcode r = (if after_removal then 1 else 0) \<and> (\<not> debug_setting h \<longrightarrow> c' = c2)"
proof -
  let ?e = "if after_removal then 1 else 0 :: int"
  obtain x c2 where wait: "wait_from_now os nm (preprocessed_command h cfg) timeout ?e c = (Return x, c2)"
    and rest: "seqE (whenE (debug_setting h) (seqE (node_command os nm (''cat '' @ preprocessed_file cfg) default_args) (ret ())))
      (assert_exitcode ?e x) c2 = (Return u, c')"
    using assms unfolding check_preprocessed_config_is_updated_def Let_def bindE_Return_iff [of "wait_from_now _ _ _ _ _"] by blast
  have x: "x = Some ?e" "\<not> debug_setting h \<longrightarrow> c' = c2"
    using rest by (auto simp: seqE_Return_iff whenE_def simp del: append.simps)
  from wait obtain started where
    "wait_exitcode os nm (preprocessed_command h cfg) timeout started ?e (fuel os) None c = (Return x, c2)"
    by (auto simp: wait_from_now_def clock_def bindE_getE)
  from wait_exitcode_Return [OF this] x show ?thesis by blast
qed

lemma install_config_Return:
  assumes "install_config os tm h nm cfg a c = (Return u, t)" and "a_check_preprocessed a"
  shows "\<exists>sh c1 c2 c3 v. check_preprocessed_config_is_updated os h nm cfg (a_timeout a) False c1 = (Return (), c2) \<and>
    wait_for_config_to_be_loaded os tm nm cfg (a_timeout a) (a_restart a) (a_wait_healthy a) sh (a_user a) c2 = (Return (), c3) \<and>
    shell_exit os sh c3 = (Return v, t)"
  using assms unfolding install_config_def with_node_shell_def
  by (auto simp: bindE_Return_iff seqE_Return_iff finallyE_Return_iff)

lemma with_node_shell_Return:
  "with_node_shell os nm body c = (Return a, c') \<Longrightarrow>
   \<exists>sh c1 c2. body sh c1 = (Return a, c2) \<and> shell_exit os sh c2 = (Return (), c')"
  unfolding with_node_shell_def by (auto simp: bindE_Return_iff seqE_Return_iff finallyE_Return_iff)

lemma remove_config_Return:
  assumes "remove_config os tm h nm cfg a c = (Return u, c')" and "\<not> a_modify a"
  shows "\<exists>r v u' c1 c2 c3 c4 sh. node_command os nm (''rm -rf '' @ config_path cfg) exit_zero c1 = (Return r, c2) \<and>
    check_preprocessed_config_is_updated os h nm cfg (a_timeout a) True c2 = (Return v, c3) \<and>
    wait_for_config_to_be_loaded os tm nm cfg (a_timeout a) (a_restart a) (a_wait_healthy a) sh None c3 = (Return u', c4) \<and>
    shell_exit os sh c4 = (Return (), c')"
proof -
  from assms have "with_node_shell os nm (\<lambda>sh. seqE (follow_log os tm sh)
       (seqE (node_command os nm (''rm -rf '' @ config_path cfg) exit_zero)
       (seqE (check_preprocessed_config_is_updated os h nm cfg (a_timeout a) True)
         (wait_for_config_to_be_loaded os tm nm cfg (a_timeout a) (a_restart a) (a_wait_healthy a) sh None)))) c = (Return u, c')"
    by (simp add: remove_config_def)
  from with_node_shell_Return [OF this] show ?thesis unfolding seqE_Return_iff by blast
qed

section \<open>The wait ends\<close>

text \<open>
  The world in which a wait succeeds: requests return and take at most \<open>lag\<close> seconds, so
  does \<open>sleep(1)\<close> beyond its second, and from the time \<open>ready\<close> on the request has the expected
  exit code.
\<close>

definition ready_by :: "'w os \<Rightarrow> shell \<Rightarrow> string \<Rightarrow> int \<Rightarrow> seconds \<Rightarrow> seconds \<Rightarrow> bool" where
  "ready_by os sh cmd expected lag ready \<longleftrightarrow> 0 \<le> lag \<and>
     (\<forall>w. \<exists>r w'. run os sh cmd None w = (Return r, w') \<and> now os w \<le> now os w' \<and> now os w' \<le> now os w + lag \<and>
        (ready \<le> now os w \<longrightarrow> cmd_exitcode r = expected)) \<and>
     (\<forall>w. \<exists>w'. sleep os 1 w = (Return (), w') \<and> now os w + 1 \<le> now os w' \<and> now os w' \<le> now os w + 1 + lag \<and>
        current_thread os w' = current_thread os w)"

lemma seqE_inW: "m (world c) = (Return a, w) \<Longrightarrow> seqE (inW m) k c = k (c\<lparr>world := w\<rparr>)"
  by (simp add: seqE_def bindE_def inW_def)

lemma request_attached:
  assumes "attached os nm sh c" and "same_thread os" and "run os sh cmd None (world c) = (Return r, w)"
  shows "node_command os nm cmd default_args c = (Return r, c\<lparr>world := w\<rparr>) \<and> attached os nm sh (c\<lparr>world := w\<rparr>)"
proof -
  have "run_in os sh cmd None c = (Return r, c\<lparr>world := w\<rparr>)"
    using assms(3) by (simp add: run_in_def inW_def)
  then have "node_command os nm cmd default_args c = (Return r, c\<lparr>world := w\<rparr>)"
    unfolding node_command_def command_def
    by (auto simp: bindE_Return_iff closing_on_timeout_def catchE_Return_iff default_args_def bash_attached [OF assms(1)]
        check_command_Return expected_messages_def)
  then show ?thesis using assms by (auto simp: attached_def same_thread_def)
qed

lemma wait_exitcode_live:
  assumes "ready_by os sh cmd expected lag ready" and "same_thread os" and "ready + 1 + 2 * lag \<le> started + timeout"
  shows "attached os nm sh c \<Longrightarrow> now os (world c) < started + timeout \<Longrightarrow>
    started + timeout < now os (world c) + of_nat n \<Longrightarrow>
    \<exists>c'. wait_exitcode os nm cmd timeout started expected n old c = (Return (Some expected), c')"
proof (induction n arbitrary: c old)
  case (Suc n)
  let ?w = "world c"
  from assms(1) obtain r w1 where req: "run os sh cmd None ?w = (Return r, w1)" "now os ?w \<le> now os w1"
    "now os w1 \<le> now os ?w + lag" "ready \<le> now os ?w \<longrightarrow> cmd_exitcode r = expected"
    unfolding ready_by_def by blast
  let ?c1 = "c\<lparr>world := w1\<rparr>"
  note cmd = request_attached [OF Suc.prems(1) assms(2) req(1)]
  from assms(1) obtain w2 where nap: "sleep os 1 w1 = (Return (), w2)" "now os w1 + 1 \<le> now os w2"
    "now os w2 \<le> now os w1 + 1 + lag" "current_thread os w2 = current_thread os w1"
    unfolding ready_by_def by blast
  let ?c2 = "c\<lparr>world := w2\<rparr>"
  have step: "wait_exitcode os nm cmd timeout started expected (Suc n) old c =
      (if cmd_exitcode r = expected then (Return (Some expected), ?c1)
       else wait_exitcode os nm cmd timeout started expected n (Some (cmd_exitcode r)) ?c2)"
    using Suc.prems(2) cmd nap(1)
    by (simp add: clock_def bindE_getE bindE_def [of "node_command _ _ _ _"] seqE_inW ret_def)
  show ?case
  proof (cases "cmd_exitcode r = expected")
    case False
    have "attached os nm sh ?c2" using cmd nap(4) by (simp add: attached_def)
    moreover have "now os w2 < started + timeout"
      using False req(3,4) nap(3) assms(3) by linarith
    moreover have "started + timeout < now os w2 + of_nat n"
      using Suc.prems(3) req(2) nap(2) by simp
    ultimately show ?thesis unfolding step using False Suc.IH [of ?c2] by simp
  next
    case True
    then show ?thesis unfolding step by simp
  qed
qed simp

section \<open>Properties\<close>

text \<open>C9. The wait for a changed configuration succeeds: if requests return within \<open>lag\<close> seconds and the
  server has loaded the configuration (or, after a removal, dropped it) by the time
  \<open>ready\<close>, at least \<open>1 + 2 * lag\<close> seconds before the timeout, then
  \<open>check_preprocessed_config_is_updated\<close> returns normally. The loop has the fuel it needs as soon as
  the bound on its rounds exceeds the timeout in seconds.\<close>

theorem config_wait_succeeds:
  assumes "ready_by os sh (preprocessed_command h cfg) (if after_removal then 1 else 0) lag ready"
    and "same_thread os" and "attached os nm sh c" and "\<not> debug_setting h" and "0 < timeout"
    and "ready + 1 + 2 * lag \<le> now os (world c) + timeout" and "timeout < of_nat (fuel os)"
  shows "\<exists>c'. check_preprocessed_config_is_updated os h nm cfg timeout after_removal c = (Return (), c')"
proof -
  let ?e = "if after_removal then 1 else 0 :: int"
  obtain c' where "wait_exitcode os nm (preprocessed_command h cfg) timeout (now os (world c)) ?e (fuel os) None c =
      (Return (Some ?e), c')"
    using wait_exitcode_live [OF assms(1,2,6,3)] assms(5,7) by fastforce
  then have "wait_from_now os nm (preprocessed_command h cfg) timeout ?e c = (Return (Some ?e), c')"
    by (simp add: wait_from_now_def clock_def bindE_getE)
  then show ?thesis
    using assms(4) unfolding check_preprocessed_config_is_updated_def Let_def
    by (simp add: bindE_def [of "wait_from_now _ _ _ _ _"])
qed

text \<open>In the witness the server loads the configuration five seconds after the start of the wait.\<close>

definition late_os :: "seconds \<Rightarrow> sim os" where
  "late_os ready = (sim_os sim_answers)\<lparr>run := (\<lambda>sh cmd _ w.
     (Return \<lparr>cmd_output = [], cmd_exitcode = (if ready \<le> sim_clock w then 0 else 1)\<rparr>, w))\<rparr>"

definition config_cluster :: "sim cluster" where
  "config_cluster = sim_cluster\<lparr>bash_pool := [((''main'', ''clickhouse1''), 7)]\<rparr>"

definition sim_config :: config where
  "sim_config = \<lparr>config_content = ''x'', config_path = ''/etc/clickhouse-server/config.d/x.xml'', config_name = ''x.xml'',
     config_uid = ''uid'', config_preprocessed_name = ''config.xml''\<rparr>"

theorem config_wait_succeeds_witness:
  "\<exists>c'. check_preprocessed_config_is_updated (late_os 5) sim_host ''clickhouse1'' sim_config 10 False config_cluster = (Return (), c')"
proof (rule config_wait_succeeds [of _ 7 _ _ _ 0 5])
  show "ready_by (late_os 5) 7 (preprocessed_command sim_host sim_config) (if False then 1 else 0) 0 5"
    by (auto simp: ready_by_def late_os_def sim_os_def modifyE_def)
  show "same_thread (late_os 5)" by (auto simp: same_thread_def late_os_def sim_os_def)
  show "attached (late_os 5) ''clickhouse1'' 7 config_cluster"
    by (simp add: attached_def config_cluster_def late_os_def sim_defs)
  show "5 + 1 + 2 * 0 \<le> now (late_os 5) (world config_cluster) + 10" by (simp add: late_os_def config_cluster_def sim_defs)
qed (simp_all add: sim_host_def late_os_def sim_os_def)


text \<open>In the witness the server shows the configuration from when it is written until it is removed.\<close>

definition shows_config :: "(nat \<times> string) list \<Rightarrow> bool" where
  "shows_config entries = (case find (\<lambda>e. startswith (snd e) ''cat <<'' \<or> startswith (snd e) ''rm'') (rev entries) of
     None \<Rightarrow> False | Some e \<Rightarrow> startswith (snd e) ''cat <<'')"

definition config_os :: "sim os" where
  "config_os = (sim_os sim_answers)\<lparr>run := (\<lambda>sh cmd _ w.
     (Return \<lparr>cmd_output = ''c0ffee'',
        cmd_exitcode = (if startswith cmd ''cat /var'' then (if shows_config (sim_log w) then 0 else 1) else 0)\<rparr>,
      w\<lparr>sim_log := sim_log w @ [(sh, cmd)]\<rparr>))\<rparr>"

definition sim_terminal :: "sim terminal" where
  "sim_terminal = \<lparr>shell_prompt = (\<lambda>_ _. ''$''), reset_prompt = (\<lambda>_. ret ()), expect = (\<lambda>_ _ _ _. ret False),
     close_terminal = (\<lambda>_. ret ()), reopen_terminal = (\<lambda>_. ret ())\<rparr>"

definition sim_config_args :: config_args where
  "sim_config_args = \<lparr>a_timeout = 300, a_restart = False, a_modify = False, a_user = None, a_wait_healthy = True,
     a_check_preprocessed = True\<rparr>"


end
