(* ===== verification/Rbac_Helpers.thy ===== *)
theory Rbac_Helpers
  imports Config_Steps
begin

unbundle bit_operations_syntax

text \<open>
  The helpers of the role based access control suite, \<open>rbac/helper\<close>: the context managers that create
  tables, users, roles and row policies, the grants on subsets of tables, the statements
  of \<open>tables.py\<close> and the messages of \<open>errors.py\<close>. The argument \<open>ask\<close> is \<open>node.query\<close>, \<open>body\<close> the block of the
  \<open>with\<close> statement.
\<close>

section \<open>Formatting\<close>

text \<open>\<open>template.format(...)\<close> with named fields, the only kind the sources use.\<close>

function py_format :: "(string, string) pydict \<Rightarrow> string \<Rightarrow> exn + string" where
  "py_format args [] = Inr []"
| "py_format args (c # cs) =
     (if (c = CHR 0x7B \<or> c = CHR 0x7D) \<and> startswith cs [c] then map_sum id ((#) c) (py_format args (drop 1 cs))
      else if c = CHR 0x7B then (case find_sep [CHR 0x7D] cs of
          None \<Rightarrow> Inl (ValueError ''expected closing brace before end of string'')
        | Some (field, rest) \<Rightarrow> (case map_of args field of
            None \<Rightarrow> Inl (KeyError field)
          | Some v \<Rightarrow> map_sum id ((@) v) (py_format args rest)))
      else if c = CHR 0x7D then Inl (ValueError ''Single closing brace encountered in format string'')
      else map_sum id ((#) c) (py_format args cs))"
  by pat_completeness auto
termination
  by (relation "measure (\<lambda>(args, s). length s)") (auto dest: find_sep_length)

section \<open>Tables\<close>

text \<open>
  \<open>table_types\<close>: for each engine the template of the statement and the cluster. A name of
  the table and, in doubled braces, the macros of the server are left open.
\<close>

definition engine_columns :: "(string \<times> string) list" where
  "engine_columns =
    [(''MergeTree'', ''d DATE, a String, b UInt8, x String, y Int8''),
     (''ReplacingMergeTree'', ''d DATE, a String, b UInt8, x String, y Int8''),
     (''SummingMergeTree'', ''d DATE, a String, b UInt8 DEFAULT 1, x String, y Int8''),
     (''AggregatingMergeTree'', ''d DATE, a String, b UInt8, x String, y Int8''),
     (''CollapsingMergeTree'', ''d Date, a String, b UInt8, x String, y Int8, sign Int8 DEFAULT 1''),
     (''VersionedCollapsingMergeTree'', ''d Date, a String, b UInt8, x String, y Int8, version UInt64, sign Int8 DEFAULT 1''),
     (''GraphiteMergeTree'', ''d Date, a String, b UInt8, x String, y Int8, Path String, Time DateTime, Value Float64, col UInt64, Timestamp Int64'')]"

definition engine_arguments :: "string \<Rightarrow> string option" where
  "engine_arguments engine =
     (if engine = ''CollapsingMergeTree'' then Some ''sign''
      else if engine = ''VersionedCollapsingMergeTree'' then Some ''sign, version''
      else if engine = ''GraphiteMergeTree'' then Some (single_quoted ''graphite_rollup_example'')
      else None)"

definition partition_clause :: string where
  "partition_clause = '' PARTITION BY y ORDER BY (b, d) PRIMARY KEY b''"

definition local_statement :: "string \<times> string \<Rightarrow> string" where
  "local_statement ec = ''CREATE TABLE {name} ('' @ snd ec @ '') ENGINE = '' @ fst ec @
     ''('' @ (case engine_arguments (fst ec) of None \<Rightarrow> [] | Some a \<Rightarrow> a) @ '')'' @ partition_clause"

definition replicated_statement :: "string \<Rightarrow> string \<times> string \<Rightarrow> string" where
  "replicated_statement cluster ec = ''CREATE TABLE {name} ON CLUSTER '' @ cluster @ '' ('' @ snd ec @
     '')         ENGINE = Replicated'' @ fst ec @ ''('' @ single_quoted ''/clickhouse/tables/{{shard}}/{name}'' @
     '', '' @ single_quoted ''{{replica}}'' @
     (case engine_arguments (fst ec) of None \<Rightarrow> [] | Some a \<Rightarrow> '', '' @ a) @ '')'' @ partition_clause"

definition replicated_entry :: "string \<times> string \<Rightarrow> string \<Rightarrow> string \<times> string \<times> string option" where
  "replicated_entry ec cluster = (''Replicated'' @ fst ec @ ''-'' @ cluster, replicated_statement cluster ec, Some cluster)"

definition table_types :: "(string, string \<times> string option) pydict" where
  "table_types = map (\<lambda>ec. (fst ec, local_statement ec, None)) engine_columns @
     concat (map (\<lambda>ec. map (replicated_entry ec) [''sharded_cluster'', ''one_shard_cluster'']) engine_columns)"

section \<open>Context managers\<close>

definition perform :: "(string \<Rightarrow> ('s, 'r) eff) \<Rightarrow> string \<Rightarrow> ('s, unit) eff" where
  "perform ask sql = seqE (ask sql) (ret ())"

definition create_named_table :: "(string \<Rightarrow> ('s, 'r) eff) \<Rightarrow> string \<Rightarrow> string \<Rightarrow> ('s, unit) eff" where
  "create_named_table ask statement nm =
     seqE (perform ask (''DROP TABLE IF EXISTS '' @ nm))
     (case py_format [(''name'', nm)] statement of Inl e \<Rightarrow> raise e | Inr sql \<Rightarrow> perform ask sql)"

definition drop_named_table :: "(string \<Rightarrow> ('s, 'r) eff) \<Rightarrow> string option \<Rightarrow> string \<Rightarrow> ('s, unit) eff" where
  "drop_named_table ask cluster nm =
     perform ask (''DROP TABLE IF EXISTS '' @ nm @ (if truthy cluster then '' ON CLUSTER '' @ node_text cluster else []))"

definition table :: "(string \<Rightarrow> ('s, 'r) eff) \<Rightarrow> string \<Rightarrow> string \<Rightarrow> ('s, 'a) eff \<Rightarrow> ('s, 'a) eff" where
  "table ask nm table_type_name body = (case map_of table_types table_type_name of
     None \<Rightarrow> raise (KeyError table_type_name)
   | Some (statement, cluster) \<Rightarrow>
       let names = py_split '','' nm in
       finallyE (seqE (forE names (create_named_table ask statement)) body)
         (forE names (drop_named_table ask cluster)))"

definition user :: "(string \<Rightarrow> ('s, 'r) eff) \<Rightarrow> string \<Rightarrow> ('s, 'a) eff \<Rightarrow> ('s, 'a) eff" where
  "user ask nm body =
     (let names = py_split '','' nm in
      finallyE (seqE (forE names (\<lambda>n. perform ask (''CREATE USER OR REPLACE '' @ n))) body)
        (forE names (\<lambda>n. perform ask (''DROP USER IF EXISTS '' @ n))))"

definition role :: "(string \<Rightarrow> ('s, 'r) eff) \<Rightarrow> string \<Rightarrow> ('s, 'a) eff \<Rightarrow> ('s, 'a) eff" where
  "role ask nm body =
     (let roles = py_split '','' nm in
      finallyE (seqE (forE roles (\<lambda>n. perform ask (''CREATE ROLE OR REPLACE '' @ n))) body)
        (forE roles (\<lambda>n. perform ask (''DROP ROLE IF EXISTS '' @ n))))"

definition row_policy :: "(string \<Rightarrow> ('s, 'r) eff) \<Rightarrow> string \<Rightarrow> string \<Rightarrow> ('s, 'a) eff \<Rightarrow> ('s, 'a) eff" where
  "row_policy ask nm tbl body =
     finallyE (seqE (ask (''CREATE ROW POLICY '' @ nm @ '' ON '' @ tbl)) body)
       (ask (''DROP ROW POLICY IF EXISTS '' @ nm @ '' ON '' @ tbl))"

section \<open>Grants on subsets of tables\<close>

definition permutations :: "nat \<Rightarrow> int list" where
  "permutations table_count = map int [0..<2 ^ table_count - 1]"

definition tables :: "(string, int) pydict" where
  "tables = [(''table0'', push_bit 0 1), (''table1'', push_bit 1 1), (''table2'', push_bit 2 1), (''table3'', push_bit 3 1),
     (''table4'', push_bit 4 1), (''table5'', push_bit 5 1), (''table6'', push_bit 6 1), (''table7'', push_bit 7 1)]"

text \<open>The loop that grants: the numbers and names of the tables left, and \<open>tables_granted\<close> so far.\<close>

fun grant_loop :: "(string \<Rightarrow> ('s, 'r) eff) \<Rightarrow> int \<Rightarrow> string \<Rightarrow> (nat \<times> string) list \<Rightarrow> string list \<Rightarrow> ('s, string list) eff" where
  "grant_loop ask grants target_name [] tables_granted = ret tables_granted"
| "grant_loop ask grants target_name ((table_number, nm) # rest) tables_granted =
     (case map_of tables (''table'' @ str_nat table_number) of
       None \<Rightarrow> raise (KeyError (''table'' @ str_nat table_number))
     | Some flag \<Rightarrow>
         if grants AND flag \<noteq> 0 then
           seqE (ask (''GRANT SELECT ON '' @ nm @ '' TO '' @ target_name))
             (grant_loop ask grants target_name rest (tables_granted @ [nm]))
         else grant_loop ask grants target_name rest tables_granted)"

definition grant_select_on_table ::
  "(string \<Rightarrow> ('s, 'r) eff) \<Rightarrow> int \<Rightarrow> string \<Rightarrow> string list \<Rightarrow> (string \<Rightarrow> ('s, 'a) eff) \<Rightarrow> ('s, 'a) eff" where
  "grant_select_on_table ask grants target_name table_names body =
     finallyE (bindE (grant_loop ask grants target_name (enumerate 0 table_names) [])
         (\<lambda>tables_granted. body (py_join '', '' tables_granted)))
       (forE table_names (\<lambda>nm. perform ask (''REVOKE SELECT ON '' @ nm @ '' FROM '' @ target_name)))"

section \<open>Configuration and identifiers\<close>

definition rbac_getuid :: "(string \<Rightarrow> string) \<Rightarrow> (string \<Rightarrow> string) \<Rightarrow> bool \<Rightarrow> string \<Rightarrow> string \<Rightarrow> string" where
  "rbac_getuid basename parentname is_example current_name uuid =
     (let testname = (if is_example then test_name_text (basename (parentname current_name))
                      else test_name_text (basename current_name))
      in testname @ ''_'' @ uuid_text uuid)"

definition rbac_entries :: entries where
  "rbac_entries = [(Key ''users'', Dict [(Key ''default'', Dict
     [(Key ''named_collection_control'', Text ''1''),
      (Key ''show_named_collections'', Text ''1''),
      (Key ''show_named_collections_secrets'', Text ''1'')])])]"

definition add_rbac_config_file ::
  "'w os \<Rightarrow> 'w terminal \<Rightarrow> 'w host \<Rightarrow> string \<Rightarrow> string \<Rightarrow> string \<Rightarrow> seconds \<Rightarrow> bool \<Rightarrow> ('w, 'a) ceff \<Rightarrow> ('w, 'a) ceff" where
  "add_rbac_config_file os tm h nm config_d_dir config_file timeout restart body =
     seqE (node_command os nm (''mkdir '' @ config_d_dir) default_args)
     (bindE (inW (uuid1 os)) (\<lambda>uuid.
       add_config os tm h nm
         (create_xml_config_content (uuid_text uuid) rbac_entries config_file config_d_dir ''clickhouse'')
         \<lparr>a_timeout = timeout, a_restart = restart, a_modify = True, a_user = None, a_wait_healthy = False,
          a_check_preprocessed = False\<rparr> body))"

section \<open>Expected errors\<close>

text \<open>
  The functions of \<open>errors.py\<close> return the exit code and the message a query is expected to
  fail with. The templates are given with their fields.
\<close>

definition back_quoted :: "string \<Rightarrow> string" where
  "back_quoted s = [CHR 0x60] @ s @ [CHR 0x60]"

definition formatted :: "int \<Rightarrow> string \<Rightarrow> (string, string) pydict \<Rightarrow> exn + int \<times> string" where
  "formatted exitcode template args = map_sum id (Pair exitcode) (py_format args template)"

definition not_found :: string where
  "not_found = ''Exception: There is no {type} '' @ back_quoted ''{name}''"

definition user_not_found_in_disk :: "string \<Rightarrow> exn + int \<times> string" where
  "user_not_found_in_disk nm = formatted 192 not_found [(''type'', ''user''), (''name'', nm)]"

definition role_not_found_in_disk :: "string \<Rightarrow> exn + int \<times> string" where
  "role_not_found_in_disk nm = formatted 255 not_found [(''type'', ''role''), (''name'', nm)]"

definition settings_profile_not_found_in_disk :: "string \<Rightarrow> exn + int \<times> string" where
  "settings_profile_not_found_in_disk nm = formatted 180 not_found [(''type'', ''settings profile''), (''name'', nm)]"

definition quota_not_found_in_disk :: "string \<Rightarrow> exn + int \<times> string" where
  "quota_not_found_in_disk nm = formatted 199 not_found [(''type'', ''quota''), (''name'', nm)]"

definition row_policy_not_found_in_disk :: "string \<Rightarrow> exn + int \<times> string" where
  "row_policy_not_found_in_disk nm = formatted 11 not_found [(''type'', ''row policy''), (''name'', nm)]"

definition table_does_not_exist :: "string \<Rightarrow> exn + int \<times> string" where
  "table_does_not_exist nm = formatted 60 (''Exception: Table {name} doesn'' @ [CHR 0x27] @ ''t exist'') [(''name'', nm)]"

definition cannot_rename :: string where
  "cannot_rename = ''Exception: {type} '' @ back_quoted ''{name}'' @ '': cannot rename to '' @ back_quoted ''{name_new}'' @
     '' because {type} '' @ back_quoted ''{name_new}'' @ '' already exists''"

definition cannot_rename_entity :: "string \<Rightarrow> string \<Rightarrow> string \<Rightarrow> exn + int \<times> string" where
  "cannot_rename_entity kind nm name_new =
     formatted 237 cannot_rename [(''type'', kind), (''name'', nm), (''name_new'', name_new)]"

definition cannot_rename_user :: "string \<Rightarrow> string \<Rightarrow> exn + int \<times> string" where
  "cannot_rename_user = cannot_rename_entity ''user''"

definition cannot_rename_role :: "string \<Rightarrow> string \<Rightarrow> exn + int \<times> string" where
  "cannot_rename_role = cannot_rename_entity ''role''"

definition cannot_rename_settings_profile :: "string \<Rightarrow> string \<Rightarrow> exn + int \<times> string" where
  "cannot_rename_settings_profile = cannot_rename_entity ''settings profile''"

definition cannot_rename_quota :: "string \<Rightarrow> string \<Rightarrow> exn + int \<times> string" where
  "cannot_rename_quota = cannot_rename_entity ''quota''"

definition cannot_rename_row_policy :: "string \<Rightarrow> string \<Rightarrow> exn + int \<times> string" where
  "cannot_rename_row_policy = cannot_rename_entity ''row policy''"

definition cannot_insert :: string where
  "cannot_insert = ''Exception: {type} '' @ back_quoted ''{name}'' @ '': cannot insert because {type} '' @
     back_quoted ''{name}'' @ '' already exists''"

definition cannot_insert_entity :: "string \<Rightarrow> string \<Rightarrow> exn + int \<times> string" where
  "cannot_insert_entity kind nm = formatted 237 cannot_insert [(''type'', kind), (''name'', nm)]"

definition cannot_insert_user :: "string \<Rightarrow> exn + int \<times> string" where
  "cannot_insert_user = cannot_insert_entity ''user''"

definition cannot_insert_role :: "string \<Rightarrow> exn + int \<times> string" where
  "cannot_insert_role = cannot_insert_entity ''role''"

definition cannot_insert_settings_profile :: "string \<Rightarrow> exn + int \<times> string" where
  "cannot_insert_settings_profile = cannot_insert_entity ''settings profile''"

definition cannot_insert_quota :: "string \<Rightarrow> exn + int \<times> string" where
  "cannot_insert_quota = cannot_insert_entity ''quota''"

definition cannot_insert_row_policy :: "string \<Rightarrow> exn + int \<times> string" where
  "cannot_insert_row_policy = cannot_insert_entity ''row policy''"

definition cannot_remove_default :: string where
  "cannot_remove_default = ''Exception: Cannot remove {type} '' @ back_quoted ''default'' @
     '' from users.xml because this storage is readonly''"

definition cannot_update_default :: "int \<times> string" where
  "cannot_update_default = (239, ''Exception: Cannot update user '' @ back_quoted ''default'' @
     '' in users.xml because this storage is readonly'')"

definition cannot_remove_user_default :: "exn + int \<times> string" where
  "cannot_remove_user_default = formatted 239 cannot_remove_default [(''type'', ''user'')]"

definition cannot_remove_settings_profile_default :: "exn + int \<times> string" where
  "cannot_remove_settings_profile_default = formatted 239 cannot_remove_default [(''type'', ''settings profile'')]"

definition cannot_remove_quota_default :: "exn + int \<times> string" where
  "cannot_remove_quota_default = formatted 239 cannot_remove_default [(''type'', ''quota'')]"

definition unknown_setting :: "string \<Rightarrow> int \<times> string" where
  "unknown_setting setting = (115, ''Exception: Unknown setting '' @ setting @ ''.'')"

definition cluster_not_found :: "string \<Rightarrow> int \<times> string" where
  "cluster_not_found cl = (170, ''Exception: Requested cluster '' @ single_quoted cl @ '' not found.'')"

definition not_enough_privileges :: "string \<Rightarrow> int \<times> string" where
  "not_enough_privileges nm = (241, ''Exception: '' @ nm @ '': Not enough privileges.'')"

definition cannot_parse_string_as_float :: "string \<Rightarrow> int \<times> string" where
  "cannot_parse_string_as_float s = (6, ''Exception: Cannot parse string '' @ single_quoted s @ '' as Float64'')"

definition missing_columns :: "string \<Rightarrow> int \<times> string" where
  "missing_columns nm = (47, ''Exception: Missing columns: '' @ single_quoted nm @ '' while processing query'')"

definition wrong_name :: string where
  "wrong_name = ''Exception: Wrong {type} name. Cannot find {type} '' @ back_quoted ''{name}'' @ '' to drop''"

definition wrong_column_name :: "string \<Rightarrow> exn + int \<times> string" where
  "wrong_column_name nm = formatted 10 wrong_name [(''type'', ''column''), (''name'', nm)]"

definition wrong_index_name :: "string \<Rightarrow> exn + int \<times> string" where
  "wrong_index_name nm = formatted 36 wrong_name [(''type'', ''index''), (''name'', nm)]"

definition wrong_constraint_name :: "string \<Rightarrow> exn + int \<times> string" where
  "wrong_constraint_name nm = formatted 36 wrong_name [(''type'', ''constraint''), (''name'', nm)]"

definition cannot_add :: string where
  "cannot_add = ''Exception: Cannot add index {name}: index with this name already exists''"

definition cannot_add_index :: "string \<Rightarrow> exn + int \<times> string" where
  "cannot_add_index nm = formatted 44 cannot_add [(''name'', nm)]"

definition cannot_add_constraint :: "string \<Rightarrow> exn + int \<times> string" where
  "cannot_add_constraint nm = formatted 44 cannot_add [(''name'', nm)]"

section \<open>Facts on formatting\<close>

abbreviation no_braces :: "string \<Rightarrow> bool" where
  "no_braces s \<equiv> CHR 0x7B \<notin> set s \<and> CHR 0x7D \<notin> set s"

lemma py_format_plain: "no_braces pre \<Longrightarrow> py_format args (pre @ s) = map_sum id ((@) pre) (py_format args s)"
  by (induction pre; cases "py_format args s") auto

lemma py_format_plain_end: "no_braces pre \<Longrightarrow> py_format args pre = Inr pre"
  using py_format_plain [of pre args "[]"] by simp

lemma py_format_field:
  assumes "no_braces k" and "map_of args k = Some v"
  shows "py_format args (CHR 0x7B # k @ CHR 0x7D # s) = map_sum id ((@) v) (py_format args s)"
proof -
  have "find_sep [CHR 0x7D] (k @ CHR 0x7D # s) = Some (k, s)" using assms(1) by (induction k) auto
  moreover have "\<not> startswith (k @ CHR 0x7D # s) [CHR 0x7B]" using assms(1) by (cases k) (auto simp: startswith_def)
  ultimately show ?thesis using assms(2) by simp
qed

lemma py_format_escape:
  "c = CHR 0x7B \<or> c = CHR 0x7D \<Longrightarrow> py_format args (c # c # s) = map_sum id ((#) c) (py_format args s)"
  by (auto simp: startswith_def)

lemma engine_columns_plain:
  "\<forall>ec \<in> set engine_columns. no_braces (fst ec) \<and> no_braces (snd ec)"
  by (simp add: engine_columns_def)

lemma engine_arguments_plain: "engine_arguments e = Some a \<Longrightarrow> no_braces a"
  by (auto simp: engine_arguments_def single_quoted_def split: if_splits)

lemma format_local:
  assumes "no_braces (fst ec)" and "no_braces (snd ec)"
  shows "\<exists>rest. py_format [(''name'', t)] (local_statement ec) = Inr (''CREATE TABLE '' @ t @ '' ('' @ rest)"
proof -
  define rest where "rest = snd ec @ '') ENGINE = '' @ fst ec @
     ''('' @ (case engine_arguments (fst ec) of None \<Rightarrow> [] | Some a \<Rightarrow> a) @ '')'' @ partition_clause"
  have "no_braces rest"
    using assms engine_arguments_plain [of "fst ec"]
    by (auto simp: rest_def partition_clause_def split: option.splits)
  then have "py_format [(''name'', t)] (''CREATE TABLE {name} ('' @ rest) = Inr (''CREATE TABLE '' @ t @ '' ('' @ rest)"
    by (simp add: py_format_plain_end startswith_def)
  then show ?thesis by (auto simp: local_statement_def rest_def)
qed

lemma format_replicated:
  assumes "no_braces (fst ec)" and "no_braces (snd ec)" and "no_braces cl"
  shows "\<exists>rest. py_format [(''name'', t)] (replicated_statement cl ec) = Inr (''CREATE TABLE '' @ t @ '' ON CLUSTER '' @ cl @ '' ('' @ rest)"
proof -
  define args where "args = (case engine_arguments (fst ec) of None \<Rightarrow> [] | Some a \<Rightarrow> '', '' @ a) @ '')'' @ partition_clause"
  have "no_braces args"
    using engine_arguments_plain [of "fst ec"] by (auto simp: args_def partition_clause_def split: option.splits)
  moreover have "replicated_statement cl ec = ''CREATE TABLE {name} ON CLUSTER '' @ cl @ '' ('' @ snd ec @
     '')         ENGINE = Replicated'' @ fst ec @ ''('' @ single_quoted ''/clickhouse/tables/{{shard}}/{name}'' @
     '', '' @ single_quoted ''{{replica}}'' @ args"
    by (simp add: replicated_statement_def args_def)
  ultimately show ?thesis
    using assms by (simp add: py_format_plain py_format_plain_end startswith_def single_quoted_def)
qed

definition on_cluster :: "string option \<Rightarrow> string" where
  "on_cluster cl = (case cl of None \<Rightarrow> [] | Some x \<Rightarrow> '' ON CLUSTER '' @ x)"

lemma table_types_entry:
  assumes "map_of table_types ty = Some (statement, cl)"
  shows "cl \<noteq> Some [] \<and> (\<forall>t. \<exists>rest. py_format [(''name'', t)] statement = Inr (''CREATE TABLE '' @ t @ on_cluster cl @ '' ('' @ rest))"
proof -
  from map_of_SomeD [OF assms] consider ec where "ec \<in> set engine_columns" "statement = local_statement ec" "cl = None"
    | ec x where "ec \<in> set engine_columns" "x \<in> {''sharded_cluster'', ''one_shard_cluster''}"
        "statement = replicated_statement x ec" "cl = Some x"
    unfolding table_types_def replicated_entry_def by auto
  then show ?thesis
  proof cases
    case 1
    then have "\<exists>rest. py_format [(''name'', t)] statement = Inr (''CREATE TABLE '' @ t @ '' ('' @ rest)" for t
      using format_local [of ec t] engine_columns_plain by blast
    then show ?thesis using 1(3) by (simp add: on_cluster_def)
  next
    case 2
    moreover from 2 have "no_braces x" "x \<noteq> []" by auto
    ultimately show ?thesis
      using format_replicated [of ec x] engine_columns_plain by (auto simp: on_cluster_def simp del: append.simps)
  qed
qed

section \<open>Facts on grants\<close>

text \<open>The tables that a number grants: those whose position is a bit of it.\<close>

definition granted :: "int \<Rightarrow> string list \<Rightarrow> string list" where
  "granted grants names = map snd (filter (\<lambda>x. bit grants (fst x)) (enumerate 0 names))"

lemma tables_lookup: "i < 8 \<Longrightarrow> map_of tables (''table'' @ str_nat i) = Some (2 ^ i)"
proof -
  assume "i < 8"
  then consider "i = 0" | "i = 1" | "i = 2" | "i = 3" | "i = 4" | "i = 5" | "i = 6" | "i = 7" by linarith
  then show ?thesis by cases (simp_all, code_simp+)
qed

lemma tables_missing: "8 \<le> i \<Longrightarrow> map_of tables (''table'' @ str_nat i) = None"
proof (rule ccontr)
  assume big: "8 \<le> i" and "map_of tables (''table'' @ str_nat i) \<noteq> None"
  then have "str_nat i \<in> set [''0'', ''1'', ''2'', ''3'', ''4'', ''5'', ''6'', ''7'']"
    by (auto simp: tables_def split: if_splits)
  moreover have "map str_nat [0..<8] = [''0'', ''1'', ''2'', ''3'', ''4'', ''5'', ''6'', ''7'']" by code_simp
  ultimately obtain j where "j < 8" "str_nat i = str_nat j" by (metis (no_types) atLeastLessThan_iff imageE set_map set_upt)
  then have "Some (int i) = Some (int j)" using py_int_str_nat by metis
  with \<open>j < 8\<close> big show False by simp
qed

lemma grant_loop_eq:
  assumes "k + length names \<le> 8"
  shows "grant_loop ask g target (enumerate k names) acc =
    seqE (forE (map snd (filter (\<lambda>x. bit g (fst x)) (enumerate k names))) (\<lambda>t. perform ask (''GRANT SELECT ON '' @ t @ '' TO '' @ target)))
      (ret (acc @ map snd (filter (\<lambda>x. bit g (fst x)) (enumerate k names))))"
  using assms
proof (induction names arbitrary: k acc)
  case (Cons nm names)
  then have look: "map_of tables (''table'' @ str_nat k) = Some (2 ^ k)" by (intro tables_lookup) simp
  have "grant_loop ask g target (enumerate (Suc k) names) acc' =
    seqE (forE (map snd (filter (\<lambda>x. bit g (fst x)) (enumerate (Suc k) names))) (\<lambda>t. perform ask (''GRANT SELECT ON '' @ t @ '' TO '' @ target)))
      (ret (acc' @ map snd (filter (\<lambda>x. bit g (fst x)) (enumerate (Suc k) names))))" for acc'
    using Cons by simp
  with look show ?case
    by (simp add: and_exp_eq_0_iff_not_bit perform_def seqE_assoc)
qed simp

text \<open>The dictionary \<open>tables\<close> has eight entries; a ninth table ends the loop with \<open>KeyError\<close>.\<close>

lemma grant_loop_ninth: "8 \<le> k \<Longrightarrow>
    grant_loop ask g target (enumerate k (nm # names)) acc = raise (KeyError (''table'' @ str_nat k))"
  by (simp add: tables_missing [unfolded append.simps])

lemma set_granted: "set (granted g names) = {names ! i | i. i < length names \<and> bit g i}"
  by (force simp: granted_def in_set_enumerate_eq image_iff)

lemma set_permutations: "set (permutations n) = {0..<2 ^ n - 1}"
proof -
  have "int ` {0..<2 ^ n - 1} = {0..<int (2 ^ n - 1)}" by (rule image_int_atLeastLessThan [of 0, simplified])
  then show ?thesis by (simp add: permutations_def of_nat_diff)
qed

lemma granted_not_all:
  assumes "distinct names" and "0 \<le> g" and "g < 2 ^ length names - 1"
  shows "set (granted g names) \<noteq> set names"
proof
  assume all: "set (granted g names) = set names"
  have "bit g i" if "i < length names" for i
  proof -
    have "names ! i \<in> set (granted g names)" using all that by simp
    then show ?thesis using assms(1) that by (auto simp: set_granted nth_eq_iff_index_eq)
  qed
  then have "take_bit (length names) g = mask (length names)"
    by (intro bit_eqI) (auto simp: bit_take_bit_iff bit_mask_iff)
  moreover have "take_bit (length names) g = g" using assms(2,3) by (simp add: take_bit_int_eq_self_iff)
  ultimately show False using assms(3) by (simp add: mask_eq_exp_minus_1)
qed

lemma granted_all_subsets:
  assumes "S \<subset> set names"
  shows "\<exists>g \<in> {0..<2 ^ length names - 1}. set (granted g names) = S"
proof -
  define g :: int where "g = horner_sum of_bool 2 (map (\<lambda>x. x \<in> S) names)"
  have bits: "bit g i \<longleftrightarrow> i < length names \<and> names ! i \<in> S" for i
    unfolding g_def by (auto simp: bit_horner_sum_bit_iff)
  have range: "0 \<le> g" "g < 2 ^ length names"
    unfolding g_def using horner_sum_of_bool_2_less [of "map (\<lambda>x. x \<in> S) names"] by (auto intro: horner_sum_nonnegative)
  obtain x where "x \<in> set names" "x \<notin> S" using assms by blast
  then obtain i where "i < length names" "names ! i \<notin> S" by (auto simp: in_set_conv_nth)
  then have "\<not> bit g i" "bit (mask (length names) :: int) i" using bits by (auto simp: bit_mask_iff)
  then have "g \<noteq> 2 ^ length names - 1" by (auto simp: mask_eq_exp_minus_1)
  with range have "g \<in> {0..<2 ^ length names - 1}" by simp
  moreover have "set (granted g names) = S"
  proof -
    have "set (granted g names) = {x \<in> set names. x \<in> S}" by (auto simp: set_granted bits in_set_conv_nth)
    then show ?thesis using assms by blast
  qed
  ultimately show ?thesis by blast
qed

section \<open>Scoped steps\<close>

interpretation users: scoped "\<lambda>nm. forE (py_split '','' nm) (\<lambda>n. perform ask (''CREATE USER OR REPLACE '' @ n))" "\<lambda>_. ()"
  "\<lambda>nm. forE (py_split '','' nm) (\<lambda>n. perform ask (''DROP USER IF EXISTS '' @ n))" "\<lambda>nm body. user ask nm (body ())" for ask
  by unfold_locales (simp add: user_def Let_def)

interpretation roles: scoped "\<lambda>nm. forE (py_split '','' nm) (\<lambda>n. perform ask (''CREATE ROLE OR REPLACE '' @ n))" "\<lambda>_. ()"
  "\<lambda>nm. forE (py_split '','' nm) (\<lambda>n. perform ask (''DROP ROLE IF EXISTS '' @ n))" "\<lambda>nm body. role ask nm (body ())" for ask
  by unfold_locales (simp add: role_def Let_def)

interpretation row_policies: scoped "\<lambda>(nm, tbl). ask (''CREATE ROW POLICY '' @ nm @ '' ON '' @ tbl)" "\<lambda>_. ()"
  "\<lambda>(nm, tbl). ask (''DROP ROW POLICY IF EXISTS '' @ nm @ '' ON '' @ tbl)"
  "\<lambda>(nm, tbl) body. row_policy ask nm tbl (body ())" for ask
  by unfold_locales (auto simp: row_policy_def)

text \<open>
  The identifier of the suite is that of \<open>helpers/common.py\<close> with the test name, and every
  template of an expected error is formatted whatever the names are.
\<close>

lemma rbac_getuid_eq: "rbac_getuid basename parentname is_example current_name uuid =
    getuid basename parentname is_example current_name uuid True"
  by (simp add: rbac_getuid_def getuid_def)

lemma expected_errors:
  "user_not_found_in_disk n = Inr (192, ''Exception: There is no user '' @ back_quoted n)"
  "cannot_rename_entity k n n' = Inr (237, ''Exception: '' @ k @ '' '' @ back_quoted n @ '': cannot rename to '' @
     back_quoted n' @ '' because '' @ k @ '' '' @ back_quoted n' @ '' already exists'')"
  "cannot_insert_entity k n = Inr (237, ''Exception: '' @ k @ '' '' @ back_quoted n @ '': cannot insert because '' @ k @
     '' '' @ back_quoted n @ '' already exists'')"
  "wrong_column_name n = Inr (10, ''Exception: Wrong column name. Cannot find column '' @ back_quoted n @ '' to drop'')"
  "cannot_add_constraint n = Inr (44, ''Exception: Cannot add index '' @ n @ '': index with this name already exists'')"
  by (simp_all add: user_not_found_in_disk_def not_found_def cannot_rename_entity_def cannot_rename_def
      cannot_insert_entity_def cannot_insert_def wrong_column_name_def wrong_name_def cannot_add_constraint_def
      cannot_add_def formatted_def back_quoted_def startswith_def)

section \<open>Properties\<close>

text \<open>C33. With at most eight tables \<open>grant_select_on_table\<close> grants exactly the tables whose position is
  a bit of \<open>grants\<close>, hands their names to the test, and afterwards revokes the privilege on
  every table, granted or not. The numbers of \<open>permutations\<close> for the tables stand for all
  their subsets but one: the combination in which every table is granted is never tried.\<close>

theorem grants_of_permutations:
  assumes "length names \<le> 8" and "distinct names"
  shows "(\<forall>g. grant_select_on_table ask g target names body =
      finallyE (seqE (forE (granted g names) (\<lambda>t. perform ask (''GRANT SELECT ON '' @ t @ '' TO '' @ target)))
          (body (py_join '', '' (granted g names))))
        (forE names (\<lambda>t. perform ask (''REVOKE SELECT ON '' @ t @ '' FROM '' @ target)))) \<and>
    (\<lambda>g. set (granted g names)) ` set (permutations (length names)) = Pow (set names) - {set names}"
proof -
  have "grant_select_on_table ask g target names body =
      finallyE (seqE (forE (granted g names) (\<lambda>t. perform ask (''GRANT SELECT ON '' @ t @ '' TO '' @ target)))
          (body (py_join '', '' (granted g names))))
        (forE names (\<lambda>t. perform ask (''REVOKE SELECT ON '' @ t @ '' FROM '' @ target)))" for g
    unfolding grant_select_on_table_def grant_loop_eq [of 0 names, unfolded add_0, OF assms(1)] granted_def
    by (simp only: seqE_def bindE_assoc bindE_ret append_Nil)
  moreover have "(\<lambda>g. set (granted g names)) ` set (permutations (length names)) = Pow (set names) - {set names}"
  proof (intro set_eqI iffI)
    fix S assume "S \<in> (\<lambda>g. set (granted g names)) ` set (permutations (length names))"
    then obtain g where "0 \<le> g" "g < 2 ^ length names - 1" "S = set (granted g names)" by (auto simp: set_permutations)
    then show "S \<in> Pow (set names) - {set names}" using granted_not_all [OF assms(2)] by (auto simp: set_granted)
  next
    fix S assume "S \<in> Pow (set names) - {set names}"
    then obtain g where "g \<in> {0..<2 ^ length names - 1}" "set (granted g names) = S"
      using granted_all_subsets [of S names] by blast
    then show "S \<in> (\<lambda>g. set (granted g names)) ` set (permutations (length names))" by (auto simp: set_permutations)
  qed
  ultimately show ?thesis by blast
qed

theorem grants_of_permutations_witness:
  "{''a'', ''b''} \<notin> (\<lambda>g. set (granted g [''a'', ''b''])) ` set (permutations 2)"
proof -
  let ?ask = "(\<lambda>_. ret ()) :: string \<Rightarrow> (unit, unit) eff" and ?names = "[''a'', ''b'']"
  have "(\<lambda>g. set (granted g ?names)) ` set (permutations (length ?names)) = Pow (set ?names) - {set ?names}"
    by (rule grants_of_permutations [of ?names ?ask "''u''" ?ask, THEN conjunct2]) simp_all
  then have "set ?names \<notin> (\<lambda>g. set (granted g ?names)) ` set (permutations (length ?names))" by blast
  then show ?thesis by (simp add: numeral_2_eq_2)
qed

text \<open>For every entry of \<open>table_types\<close> and every list of names the context manager \<open>table\<close> creates
  each table with a statement that names it and the cluster of the entry, and drops each
  of them on the same cluster after the test; formatting the statement never fails. (The
  drop before the creation is local even when the creation is on a cluster.)\<close>

theorem rbac_table_contract:
  assumes "map_of table_types table_type_name = Some (statement, cl)"
  shows "\<exists>columns. table ask nm table_type_name body =
    finallyE
      (seqE (forE (py_split '','' nm) (\<lambda>n. seqE (perform ask (''DROP TABLE IF EXISTS '' @ n))
          (perform ask (''CREATE TABLE '' @ n @ on_cluster cl @ '' ('' @ columns n)))) body)
      (forE (py_split '','' nm) (\<lambda>n. perform ask (''DROP TABLE IF EXISTS '' @ n @ on_cluster cl)))"
proof -
  note entry = table_types_entry [OF assms]
  then obtain columns where cols:
    "py_format [(''name'', t)] statement = Inr (''CREATE TABLE '' @ t @ on_cluster cl @ '' ('' @ columns t)" for t
    by metis
  have "create_named_table ask statement = (\<lambda>n. seqE (perform ask (''DROP TABLE IF EXISTS '' @ n))
          (perform ask (''CREATE TABLE '' @ n @ on_cluster cl @ '' ('' @ columns n)))"
    by (rule ext) (simp only: create_named_table_def cols sum.case)
  moreover have "drop_named_table ask cl = (\<lambda>n. perform ask (''DROP TABLE IF EXISTS '' @ n @ on_cluster cl))"
    using entry by (cases cl) (auto simp: drop_named_table_def on_cluster_def truthy_def node_text_def)
  ultimately show ?thesis using assms by (auto simp: table_def Let_def)
qed

theorem rbac_table_contract_witness:
  "\<exists>statement columns. map_of table_types ''ReplicatedMergeTree-sharded_cluster'' = Some (statement, Some ''sharded_cluster'') \<and>
     table (\<lambda>q. modifyE (\<lambda>l. l @ [q])) ''t0,t1'' ''ReplicatedMergeTree-sharded_cluster'' (ret ()) =
     finallyE
      (seqE (forE (py_split '','' ''t0,t1'') (\<lambda>n. seqE (perform (\<lambda>q. modifyE (\<lambda>l. l @ [q])) (''DROP TABLE IF EXISTS '' @ n))
          (perform (\<lambda>q. modifyE (\<lambda>l. l @ [q])) (''CREATE TABLE '' @ n @ on_cluster (Some ''sharded_cluster'') @ '' ('' @ columns n)))) (ret ()))
      (forE (py_split '','' ''t0,t1'') (\<lambda>n. perform (\<lambda>q. modifyE (\<lambda>l. l @ [q])) (''DROP TABLE IF EXISTS '' @ n @ on_cluster (Some ''sharded_cluster''))))"
proof -
  obtain statement where "map_of table_types ''ReplicatedMergeTree-sharded_cluster'' = Some (statement, Some ''sharded_cluster'')"
    by (simp add: table_types_def replicated_entry_def engine_columns_def)
  with rbac_table_contract [OF this] show ?thesis by blast
qed

end
