(* ===== verification/Cicd_Trigger.thy ===== *)
theory Cicd_Trigger
  imports Versions
begin

text \<open>
  The scripts that start and observe continuous integration: \<open>cicd-trigger.py\<close>, which starts a
  GitLab pipeline and may wait for it, and \<open>.github/online-runners.py\<close>, which asks GitHub for the runners.
  The GitLab client, the HTTP request and the clock are arguments; what the scripts print
  is not modelled, but the expressions in what they print are evaluated.
\<close>

section \<open>Options\<close>

text \<open>
  The options of \<open>argparser\<close>: the flags, whether the option is a switch (\<open>store_true\<close>), the default and
  the choices. A default that comes from the environment is left out.
\<close>

record option_spec =
  opt_flags :: "string list"
  opt_switch :: bool
  opt_default :: "string option"
  opt_choices :: "string list option"

definition suites :: "string list" where
  "suites = [''all'', ''aes_encryption'', ''aggregate_functions'', ''atomic_insert'', ''base_58'', ''clickhouse_keeper'',
     ''datetime64_extended_range'', ''disk_level_encryption'', ''dns'', ''example'', ''extended_precision_data_types'',
     ''functional'', ''kafka'', ''kerberos'', ''ldap'', ''lightweight_delete'', ''map_type'', ''parquet'',
     ''part_moves_between_shards'', ''rbac'', ''s3'', ''s3_aws'', ''s3_gcs'', ''selects'', ''ssl_server'', ''tiered_storage'',
     ''tiered_storage_aws'', ''tiered_storage_gcs'', ''window_functions'', ''benchmark'']"

definition switch :: "string \<Rightarrow> option_spec" where
  "switch flag = \<lparr>opt_flags = [flag], opt_switch = True, opt_default = None, opt_choices = None\<rparr>"

definition value_option :: "string list \<Rightarrow> string option \<Rightarrow> string list option \<Rightarrow> option_spec" where
  "value_option flags dflt choices =
     \<lparr>opt_flags = flags, opt_switch = False, opt_default = dflt, opt_choices = choices\<rparr>"

definition trigger_options :: "option_spec list" where
  "trigger_options =
    [switch ''--wait'',
     value_option [''--package''] (Some ''docker://clickhouse/clickhouse-server'') None,
     value_option [''--version''] (Some ''22.3.9.19-alpine'') None,
     value_option [''--package-postfix''] (Some ''amd64'') None,
     value_option [''-s'', ''--suite''] (Some ''all'') (Some suites),
     value_option [''-o'', ''--output''] (Some ''classic'') (Some [''classic'', ''nice'']),
     value_option [''--parallel''] (Some ''on'') (Some [''on'', ''off'']),
     value_option [''--token''] None None,
     value_option [''--options''] (Some []) None,
     value_option [''--arch''] (Some ''amd64'') (Some [''amd64'', ''arm64'']),
     value_option [''--branch''] (Some ''main'') None,
     value_option [''--artifacts''] (Some ''internal'') (Some [''internal'', ''public'']),
     switch ''--debug'',
     switch ''--from-github'',
     value_option [''--commit-sha''] None None,
     value_option [''--github-actor''] None None]"

text \<open>The parsed arguments.\<close>

record trigger_args =
  ar_wait :: bool
  ar_package :: string
  ar_version :: string
  ar_package_postfix :: string
  ar_suite :: string
  ar_output :: string
  ar_parallel :: string
  ar_token :: "string option"
  ar_options :: string
  ar_arch :: string
  ar_branch :: string
  ar_artifacts :: string
  ar_debug :: bool
  ar_from_github :: bool
  ar_commit_sha :: "string option"
  ar_github_actor :: "string option"

text \<open>A default is one of the choices, where there are choices.\<close>

definition option_ok :: "option_spec \<Rightarrow> bool" where
  "option_ok opt \<longleftrightarrow> (case (opt_default opt, opt_choices opt) of
     (Some d, Some cs) \<Rightarrow> d \<in> set cs | _ \<Rightarrow> True) \<and> opt_flags opt \<noteq> []"

lemma trigger_options_ok:
  "list_all option_ok trigger_options" "distinct (concat (map opt_flags trigger_options))" "distinct suites"
  by (simp_all add: trigger_options_def option_ok_def switch_def value_option_def suites_def)

section \<open>GitLab\<close>

record trigger_info =
  tr_description :: string
  tr_token :: string

text \<open>
  The client: \<open>authenticate\<close> is \<open>gitlab.Gitlab(...)\<close> with \<open>auth()\<close> and returns the user's name; \<open>finished\<close> and
  \<open>status\<close> read the pipeline object, which \<open>refresh\<close> updates.
\<close>

record 'w gitlab =
  authenticate :: "string option \<Rightarrow> ('w, string) eff"
  get_project :: "nat \<Rightarrow> ('w, nat) eff"
  list_triggers :: "nat \<Rightarrow> ('w, trigger_info list) eff"
  create_trigger :: "nat \<Rightarrow> string \<Rightarrow> ('w, trigger_info) eff"
  trigger_pipeline :: "nat \<Rightarrow> string \<Rightarrow> string \<Rightarrow> (string, string) pydict \<Rightarrow> ('w, nat) eff"
  finished :: "nat \<Rightarrow> 'w \<Rightarrow> bool"
  status :: "nat \<Rightarrow> 'w \<Rightarrow> string"
  refresh :: "nat \<Rightarrow> ('w, unit) eff"
  pause :: "seconds \<Rightarrow> ('w, unit) eff"
  rounds :: nat

definition PROJECT_ID :: nat where
  "PROJECT_ID = 39540585"

text \<open>\<open>with Action(name): ...\<close> ends the script with exit code \<open>1\<close> when the block raises, unless in debug mode.\<close>

definition action :: "bool \<Rightarrow> ('s, 'a) eff \<Rightarrow> ('s, 'a) eff" where
  "action debug m = catchE m (\<lambda>e. if debug then raise e else raise (SystemExit 1))"

definition get_or_create_pipeline_trigger :: "'w gitlab \<Rightarrow> string \<Rightarrow> nat \<Rightarrow> ('w, trigger_info) eff" where
  "get_or_create_pipeline_trigger gl username project =
     (let description = ''cicd-trigger-'' @ username in
      bindE (list_triggers gl project) (\<lambda>ts.
      case find (\<lambda>t. tr_description t = description) ts of
        Some t \<Rightarrow> ret t
      | None \<Rightarrow> create_trigger gl project description))"

definition package_ok :: "string \<Rightarrow> bool" where
  "package_ok package \<longleftrightarrow> startswith package ''deb://'' \<or> startswith package ''docker://'' \<or> startswith package ''https://''"

text \<open>The variables: an option that is empty or was not given is left out.\<close>

definition text_variable :: "string \<Rightarrow> string \<Rightarrow> (string, string) pydict" where
  "text_variable key v = (if v = [] then [] else [(key, v)])"

definition option_variable :: "string \<Rightarrow> string option \<Rightarrow> (string, string) pydict" where
  "option_variable key v = (case v of None \<Rightarrow> [] | Some x \<Rightarrow> text_variable key x)"

definition pipeline_variables :: "trigger_args \<Rightarrow> (string, string) pydict" where
  "pipeline_variables a =
     text_variable ''package'' (ar_package a) @ text_variable ''version'' (ar_version a) @
     text_variable ''package_postfix'' (ar_package_postfix a) @ text_variable ''suite'' (ar_suite a) @
     text_variable ''output'' (ar_output a) @ text_variable ''parallel'' (ar_parallel a) @
     text_variable ''options'' (ar_options a) @ text_variable ''arch'' (ar_arch a) @
     text_variable ''artifacts'' (ar_artifacts a) @ (if ar_from_github a then [(''from_github'', ''True'')] else []) @
     option_variable ''commit_sha'' (ar_commit_sha a) @ option_variable ''github_actor'' (ar_github_actor a)"

definition log_path :: "trigger_args \<Rightarrow> string option" where
  "log_path a = (if ar_artifacts a = ''internal'' then Some ''altinity-internal-test-reports''
     else if ar_artifacts a = ''public'' then Some ''altinity-test-reports'' else None)"

text \<open>The last \<open>print\<close> reads the variable \<open>log_path\<close> and the entry \<open>version\<close> after the pipeline was started.\<close>

definition report_location :: "trigger_args \<Rightarrow> nat \<Rightarrow> ('w, string) eff" where
  "report_location a pipeline =
     bindE (local_var ''log_path'' (log_path a)) (\<lambda>path.
     bindE (case map_of (pipeline_variables a) ''version'' of None \<Rightarrow> raise (KeyError ''version'') | Some v \<Rightarrow> ret v) (\<lambda>v.
       ret (''https://'' @ path @ ''.s3.amazonaws.com/index.html#clickhouse/'' @ v @ ''/'' @ str_nat pipeline @ ''/testflows/'')))"

definition start_pipeline :: "'w gitlab \<Rightarrow> trigger_args \<Rightarrow> nat \<Rightarrow> trigger_info \<Rightarrow> ('w, nat) eff" where
  "start_pipeline gl a project t =
     seqE (whenE (ar_package a \<noteq> [])
       (assertE (package_ok (ar_package a)) ''package name should start with deb://, docker:// or https://''))
     (bindE (trigger_pipeline gl project (ar_branch a) (tr_token t) (pipeline_variables a)) (\<lambda>pipeline.
      seqE (report_location a pipeline) (ret pipeline)))"

text \<open>\<open>while pipeline.finished_at is None: pipeline.refresh(); ...; time.sleep(1)\<close>\<close>

fun wait_pipeline :: "'w gitlab \<Rightarrow> nat \<Rightarrow> nat \<Rightarrow> ('w, unit) eff" where
  "wait_pipeline gl pipeline 0 = out_of_fuel"
| "wait_pipeline gl pipeline (Suc n) =
     bindE (getE (finished gl pipeline)) (\<lambda>over.
       if over then ret ()
       else seqE (refresh gl pipeline) (seqE (pause gl 1) (wait_pipeline gl pipeline n)))"

definition await_success :: "'w gitlab \<Rightarrow> nat \<Rightarrow> ('w, unit) eff" where
  "await_success gl pipeline =
     seqE (wait_pipeline gl pipeline (rounds gl))
     (bindE (getE (status gl pipeline)) (\<lambda>st. assertE (st = ''success'') ''not successful''))"

definition trigger :: "'w gitlab \<Rightarrow> trigger_args \<Rightarrow> ('w, unit) eff" where
  "trigger gl a =
     bindE (action (ar_debug a) (authenticate gl (ar_token a))) (\<lambda>username.
     bindE (action (ar_debug a) (get_project gl PROJECT_ID)) (\<lambda>project.
     bindE (action (ar_debug a) (get_or_create_pipeline_trigger gl username project)) (\<lambda>t.
     bindE (action (ar_debug a) (start_pipeline gl a project t)) (\<lambda>pipeline.
     whenE (ar_wait a) (action (ar_debug a) (await_success gl pipeline))))))"

section \<open>Online runners\<close>

text \<open>
  The answer of the HTTP request: its status code and, when it is 200, the names and the
  states of the runners.
\<close>

record runners_response =
  status_code :: nat
  runner_states :: "(string \<times> string) list"

definition online_runners :: "runners_response \<Rightarrow> string list" where
  "online_runners r = map fst (filter (\<lambda>x. snd x = ''online'') (runner_states r))"

text \<open>
  The main block. The \<open>while True\<close> loop ends after its first round in both branches: the
  result is the list of runners printed, or \<open>None\<close> after a failed request.
\<close>

definition list_online_runners ::
  "(string \<Rightarrow> string \<Rightarrow> ('w, runners_response) eff) \<Rightarrow> (seconds \<Rightarrow> ('w, unit) eff) \<Rightarrow>
   string option \<Rightarrow> string option \<Rightarrow> ('w, string list option) eff" where
  "list_online_runners get_url pause_for token repo =
     seqE (assertE (token \<noteq> None) ''token must be set'')
     (seqE (assertE (repo \<noteq> None) ''repository must be set'')
     (bindE (get_url (''https://api.github.com/repos/altinity/'' @ the repo @ ''/actions/runners'') (''Bearer '' @ the token)) (\<lambda>r.
       if status_code r = 200 then ret (Some (online_runners r))
       else seqE (pause_for 10) (ret None))))"

section \<open>The address of a package\<close>

text \<open>
  The main block of \<open>.github/get-deb-url.py\<close> on the build addresses of the report: the text appended to
  the environment file and the address written out, for the first package of the server;
  nothing, if there is none.
\<close>

definition get_deb_url :: "string list \<Rightarrow> exn + (string \<times> string) option" where
  "get_deb_url build_urls = (case find (\<lambda>url. str_in ''clickhouse-common-static_'' url \<and> str_in ''deb'' url) build_urls of
     None \<Rightarrow> Inr None
   | Some url \<Rightarrow> (case py_nth (py_split ''_'' (last (py_split ''/'' url))) 1 of
       None \<Rightarrow> Inl IndexError
     | Some v \<Rightarrow> Inr (Some (''version='' @ v @ newline @ ''clickhouse_binary_path='' @ url @ newline, url))))"

section \<open>Facts\<close>

lemma action_Return [simp]: "action d m s = (Return x, s') \<longleftrightarrow> m s = (Return x, s')"
  by (auto simp: action_def catchE_Return_iff split: if_splits)

lemma action_Raise: "action d m s = (Raise e, s') \<longleftrightarrow> (\<exists>e'. m s = (Raise e', s') \<and> e = (if d then e' else SystemExit 1))"
  by (auto simp: action_def catchE_Raise_iff split: if_splits)

text \<open>The trigger of the user is found again: a second run creates no other.\<close>

lemma trigger_reused:
  assumes "list_triggers gl project s = (Return ts, s')" and "t \<in> set ts" and "tr_description t = ''cicd-trigger-'' @ username"
  shows "\<exists>t' \<in> set ts. tr_description t' = ''cicd-trigger-'' @ username \<and>
    get_or_create_pipeline_trigger gl username project s = (Return t', s')"
proof -
  have "find (\<lambda>t. tr_description t = ''cicd-trigger-'' @ username) ts \<noteq> None"
    using assms(2,3) unfolding find_None_iff by blast
  then obtain t' where "find (\<lambda>t. tr_description t = ''cicd-trigger-'' @ username) ts = Some t'" by blast
  note found = this
  have "get_or_create_pipeline_trigger gl username project s = (Return t', s')"
    unfolding get_or_create_pipeline_trigger_def Let_def bindE_def by (simp only: assms(1) found prod.case outcome.case option.case) simp
  moreover have "t' \<in> set ts" "tr_description t' = ''cicd-trigger-'' @ username"
    using found unfolding find_Some_iff by (blast intro: nth_mem)+
  ultimately show ?thesis by blast
qed

lemma map_of_variables:
  "map_of (text_variable key v) k = (if k = key \<and> v \<noteq> [] then Some v else None)"
  "map_of (option_variable key x) k = (if k = key \<and> x \<noteq> None \<and> x \<noteq> Some [] then x else None)"
  by (auto simp: text_variable_def option_variable_def split: option.splits)

lemma version_variable: "map_of (pipeline_variables a) ''version'' = (if ar_version a = [] then None else Some (ar_version a))"
  unfolding pipeline_variables_def map_of_append map_add_def map_of_variables by simp

lemma report_location_Return:
  "report_location a p s = (Return x, s') \<longleftrightarrow> (\<exists>path. log_path a = Some path \<and> ar_version a \<noteq> [] \<and> s' = s \<and>
     x = ''https://'' @ path @ ''.s3.amazonaws.com/index.html#clickhouse/'' @ ar_version a @ ''/'' @ str_nat p @ ''/testflows/'')"
  unfolding report_location_def version_variable local_var_def
  by (auto simp: bindE_Return_iff split: option.splits if_splits simp del: append.simps)

lemma report_location_fails: "ar_version a = [] \<Longrightarrow> \<exists>e. report_location a p s = (Raise e, s)"
  unfolding report_location_def version_variable local_var_def
  by (cases "log_path a") auto

text \<open>
  The pipeline is seen to be finished after the first \<open>k\<close> rounds of \<open>refresh\<close> and \<open>sleep\<close>,
  none of which raises.
\<close>

fun finishes_after :: "'w gitlab \<Rightarrow> nat \<Rightarrow> nat \<Rightarrow> 'w \<Rightarrow> 'w \<Rightarrow> bool" where
  "finishes_after gl p 0 w w' \<longleftrightarrow> finished gl p w \<and> w' = w"
| "finishes_after gl p (Suc k) w w' \<longleftrightarrow> \<not> finished gl p w \<and>
     (\<exists>w1 w2. refresh gl p w = (Return (), w1) \<and> pause gl 1 w1 = (Return (), w2) \<and> finishes_after gl p k w2 w')"

lemma wait_pipeline_ends: "finishes_after gl p k w w' \<Longrightarrow> k < n \<Longrightarrow> wait_pipeline gl p n w = (Return (), w')"
proof (induction k arbitrary: n w)
  case 0
  then show ?case by (cases n) (auto simp: bindE_getE)
next
  case (Suc k)
  then obtain m where n: "n = Suc m" "k < m" by (cases n) auto
  from Suc.prems obtain w1 w2 where "\<not> finished gl p w" "refresh gl p w = (Return (), w1)" "pause gl 1 w1 = (Return (), w2)"
    "finishes_after gl p k w2 w'" by auto
  with Suc.IH [of w2 m] n show ?case by (simp add: bindE_getE seqE_Return_iff)
qed

lemma wait_pipeline_Return: "wait_pipeline gl p n w = (Return u, w') \<Longrightarrow> finished gl p w'"
  by (induction n arbitrary: w) (auto simp: out_of_fuel_def bindE_getE seqE_Return_iff split: if_splits)

lemma start_pipeline_Return:
  "start_pipeline gl a project t s = (Return p, s') \<longleftrightarrow>
     (ar_package a = [] \<or> package_ok (ar_package a)) \<and> log_path a \<noteq> None \<and> ar_version a \<noteq> [] \<and>
     trigger_pipeline gl project (ar_branch a) (tr_token t) (pipeline_variables a) s = (Return p, s')"
  unfolding start_pipeline_def
  by (auto simp: seqE_Return_iff bindE_Return_iff report_location_Return whenE_def split: if_splits)

lemma start_pipeline_fails:
  fixes gl :: "'w gitlab"
  shows "ar_package a \<noteq> [] \<Longrightarrow> \<not> package_ok (ar_package a) \<Longrightarrow> \<exists>e. start_pipeline gl a project t s = (Raise e, s)"
  "ar_package a = [] \<or> package_ok (ar_package a) \<Longrightarrow> ar_version a = [] \<Longrightarrow>
   trigger_pipeline gl project (ar_branch a) (tr_token t) (pipeline_variables a) s = (Return p, s') \<Longrightarrow>
   \<exists>e. start_pipeline gl a project t s = (Raise e, s')"
proof -
  show "\<exists>e. start_pipeline gl a project t s = (Raise e, s)" if "ar_package a \<noteq> []" "\<not> package_ok (ar_package a)"
    using that by (simp add: start_pipeline_def)
  assume ok: "ar_package a = [] \<or> package_ok (ar_package a)" and empty: "ar_version a = []"
    and run: "trigger_pipeline gl project (ar_branch a) (tr_token t) (pipeline_variables a) s = (Return p, s')"
  from report_location_fails [OF empty, of p s'] obtain e where "report_location a p s' = (Raise e, s')" by (elim exE)
  then have last: "seqE (report_location a p) (ret p) s' = (Raise e, s')" by (simp add: seqE_Raise_iff)
  have "whenE (ar_package a \<noteq> []) (assertE (package_ok (ar_package a)) msg) = (ret () :: ('w, unit) eff)" for msg
    using ok by (auto simp: whenE_def)
  then have "start_pipeline gl a project t s = bindE (trigger_pipeline gl project (ar_branch a) (tr_token t) (pipeline_variables a))
      (\<lambda>p. seqE (report_location a p) (ret p)) s"
    by (simp only: start_pipeline_def seqE_ret)
  also have "\<dots> = (Raise e, s')" using run last by (simp only: bindE_Raise_iff) blast
  finally show "\<exists>e. start_pipeline gl a project t s = (Raise e, s')" by blast
qed

section \<open>Properties\<close>

text \<open>C34. The script ends normally only when a pipeline was started with the variables of the options on
  the chosen branch, and, with \<open>--wait\<close>, only when that pipeline has finished with the status
  \<open>success\<close>; it does end so when the pipeline finishes successfully within the rounds of the
  wait. A package name of an unknown kind stops the script before a pipeline is started.
  An empty version, however, stops it after the pipeline was started.\<close>

theorem trigger_contract:
  assumes "authenticate gl (ar_token a) s = (Return username, s1)" and "get_project gl PROJECT_ID s1 = (Return project, s2)"
    and "get_or_create_pipeline_trigger gl username project s2 = (Return t, s3)"
  shows "(trigger gl a s = (Return (), s') \<longrightarrow> (ar_package a = [] \<or> package_ok (ar_package a)) \<and> ar_version a \<noteq> [] \<and>
      (\<exists>p s4. trigger_pipeline gl project (ar_branch a) (tr_token t) (pipeline_variables a) s3 = (Return p, s4) \<and>
        (if ar_wait a then finished gl p s' \<and> status gl p s' = ''success'' else s' = s4))) \<and>
    (ar_package a \<noteq> [] \<and> \<not> package_ok (ar_package a) \<longrightarrow> (\<exists>e. trigger gl a s = (Raise e, s3))) \<and>
    (\<forall>p s4. trigger_pipeline gl project (ar_branch a) (tr_token t) (pipeline_variables a) s3 = (Return p, s4) \<and>
        (ar_package a = [] \<or> package_ok (ar_package a)) \<longrightarrow>
      (ar_version a = [] \<longrightarrow> (\<exists>e. trigger gl a s = (Raise e, s4))) \<and>
      (ar_version a \<noteq> [] \<and> log_path a \<noteq> None \<and> ar_wait a \<longrightarrow>
        (\<forall>k s5. finishes_after gl p k s4 s5 \<and> k < rounds gl \<and> status gl p s5 = ''success'' \<longrightarrow> trigger gl a s = (Return (), s5))))"
proof -
  let ?start = "start_pipeline gl a project t"
  have run: "trigger gl a s = bindE (action (ar_debug a) ?start) (\<lambda>p. whenE (ar_wait a) (action (ar_debug a) (await_success gl p))) s3"
    unfolding trigger_def using assms by (simp add: bindE_step [of "action _ _"])
  have returns: "trigger gl a s = (Return (), s') \<longleftrightarrow>
      (\<exists>p s4. ?start s3 = (Return p, s4) \<and> (if ar_wait a then await_success gl p s4 = (Return (), s') else s' = s4))" for s'
    unfolding run by (auto simp: bindE_Return_iff whenE_def)
  have awaits: "await_success gl p s4 = (Return (), s5) \<longleftrightarrow>
      wait_pipeline gl p (rounds gl) s4 = (Return (), s5) \<and> status gl p s5 = ''success''" for p s4 s5
    by (auto simp: await_success_def seqE_Return_iff bindE_getE)
  have raises: "\<exists>e. trigger gl a s = (Raise e, s4)" if "\<exists>e. ?start s3 = (Raise e, s4)" for s4
    using that unfolding run by (cases "ar_debug a") (auto simp: bindE_Raise_iff action_Raise)
  show ?thesis
    using raises start_pipeline_fails [of a gl project t s3] wait_pipeline_Return wait_pipeline_ends
    unfolding returns start_pipeline_Return awaits by (fastforce split: if_splits)
qed

text \<open>In the witness the pipeline is finished after two rounds; the state is the number of rounds done.\<close>

definition sim_gitlab :: "nat gitlab" where
  "sim_gitlab = \<lparr>authenticate = (\<lambda>_. ret ''me''), get_project = ret, list_triggers = (\<lambda>_. ret []),
     create_trigger = (\<lambda>_ d. ret \<lparr>tr_description = d, tr_token = ''token''\<rparr>),
     trigger_pipeline = (\<lambda>_ _ _ _. ret 7), finished = (\<lambda>_ w. 2 \<le> w), status = (\<lambda>_ _. ''success''),
     refresh = (\<lambda>_. modifyE Suc), pause = (\<lambda>_. ret ()), rounds = 10\<rparr>"

definition sim_trigger_args :: trigger_args where
  "sim_trigger_args = \<lparr>ar_wait = True, ar_package = ''docker://clickhouse/clickhouse-server'', ar_version = ''22.3.9.19-alpine'',
     ar_package_postfix = ''amd64'', ar_suite = ''all'', ar_output = ''classic'', ar_parallel = ''on'', ar_token = None,
     ar_options = [], ar_arch = ''amd64'', ar_branch = ''main'', ar_artifacts = ''internal'', ar_debug = False,
     ar_from_github = False, ar_commit_sha = None, ar_github_actor = None\<rparr>"

theorem trigger_contract_witness:
  "trigger sim_gitlab sim_trigger_args 0 = (Return (), 2) \<and>
   (\<exists>e. trigger sim_gitlab (sim_trigger_args\<lparr>ar_version := []\<rparr>) 0 = (Raise e, 0))"
proof -
  have prefix:
    "authenticate sim_gitlab x 0 = (Return ''me'', 0)" "get_project sim_gitlab PROJECT_ID 0 = (Return PROJECT_ID, 0)"
    "get_or_create_pipeline_trigger sim_gitlab ''me'' PROJECT_ID 0 =
      (Return \<lparr>tr_description = ''cicd-trigger-me'', tr_token = ''token''\<rparr>, 0)" for x
    by (simp_all add: sim_gitlab_def get_or_create_pipeline_trigger_def)
  have starts: "trigger_pipeline sim_gitlab p b t v 0 = (Return 7, 0)" for p b t v by (simp add: sim_gitlab_def)
  have ok: "package_ok (ar_package sim_trigger_args)" "log_path sim_trigger_args \<noteq> None"
    by (simp_all add: sim_trigger_args_def package_ok_def startswith_def log_path_def)
  have finish: "finishes_after sim_gitlab 7 (Suc (Suc 0)) 0 2" "Suc (Suc 0) < rounds sim_gitlab" "status sim_gitlab 7 2 = ''success''"
    by (simp_all add: sim_gitlab_def)
  have args: "ar_version sim_trigger_args \<noteq> []" "ar_wait sim_trigger_args" by (simp_all add: sim_trigger_args_def)
  note last = trigger_contract [OF prefix(1) [of "ar_token sim_trigger_args"] prefix(2,3), THEN conjunct2, THEN conjunct2,
      THEN spec, THEN spec, THEN mp, OF conjI, OF starts disjI2, OF ok(1), THEN conjunct2, THEN mp]
  have "trigger sim_gitlab sim_trigger_args 0 = (Return (), 2)"
    by (rule last [THEN spec, THEN spec, THEN mp]) (use args ok(2) finish in \<open>blast+\<close>)
  moreover have "\<exists>e. trigger sim_gitlab (sim_trigger_args\<lparr>ar_version := []\<rparr>) 0 = (Raise e, 0)"
    using trigger_contract [OF prefix(1) [of "ar_token (sim_trigger_args\<lparr>ar_version := []\<rparr>)"] prefix(2,3)] starts ok(1) by simp
  ultimately show ?thesis by blast
qed

end
