(* ===== verification/Suites.thy ===== *)
theory Suites
  imports Rbac_Helpers Cicd_Trigger
begin

text \<open>
  How a suite is run: the options of \<open>helpers/argparser.py\<close>, the module of \<open>rbac/regression.py\<close>, which builds
  the cluster, adds the configuration and runs the features, and the two places where the
  copy of the cluster helper for the suite \<open>ssl_keeper\<close> behaves differently.
\<close>

section \<open>Options of a suite\<close>

text \<open>The environment's defaults for the version and the path of the server are arguments.\<close>

definition regression_options :: "string option \<Rightarrow> string option \<Rightarrow> option_spec list" where
  "regression_options env_version env_bin_path =
    [\<lparr>opt_flags = [''--local''], opt_switch = True, opt_default = Some ''True'', opt_choices = None\<rparr>,
     value_option [''--clickhouse-version''] env_version None,
     value_option [''--clickhouse-binary-path'']
       (Some (case env_bin_path of None \<Rightarrow> ''/usr/bin/clickhouse'' | Some p \<Rightarrow> p)) None,
     switch ''--stress'',
     switch ''--collect-service-logs'']"

section \<open>The access control suite\<close>

text \<open>The directory of the docker-compose project of a suite, by the processor.\<close>

definition suite_env :: "'w host \<Rightarrow> string \<Rightarrow> string" where
  "suite_env h dir = path_join dir
     (path_basename dir @ (if host_cpu h = ''aarch64'' then ''_env_arm64'' else ''_env''))"

definition rbac_nodes :: "string list" where
  "rbac_nodes = [''clickhouse1'', ''clickhouse2'', ''clickhouse3'']"

definition suite_init :: "'w host \<Rightarrow> string \<Rightarrow> bool \<Rightarrow> string option \<Rightarrow> bool \<Rightarrow> string list \<Rightarrow> init_args" where
  "suite_init h dir loc binary collect nodes = \<lparr>i_local = loc, i_binary_path = binary, i_odbc_bridge_path = None,
     i_configs_dir = None, i_nodes = Some [(''clickhouse'', nodes)], i_docker_compose = ''docker-compose'',
     i_project_dir = Some (suite_env h dir), i_compose_file = ''docker-compose.yml'', i_environ = None,
     i_thread_fuzzer = False, i_collect_service_logs = collect, i_use_zookeeper_nodes = False\<rparr>"

text \<open>The configuration is added on one node after the other, each for the rest of the module.\<close>

fun with_rbac_config :: "'w os \<Rightarrow> 'w terminal \<Rightarrow> 'w host \<Rightarrow> string list \<Rightarrow> ('w, 'a) ceff \<Rightarrow> ('w, 'a) ceff" where
  "with_rbac_config os tm h [] body = body"
| "with_rbac_config os tm h (nm # nms) body =
     add_rbac_config_file os tm h nm ''/etc/clickhouse-server/users.d'' ''rbac.xml'' 300 False (with_rbac_config os tm h nms body)"

definition rbac_features :: "string list" where
  "rbac_features = [''rbac.tests.syntax.feature'', ''rbac.tests.privileges.feature'', ''rbac.tests.views.feature'']"

text \<open>\<open>feature\<close> runs the feature of a module, code of the tests.\<close>

definition rbac_body :: "'w os \<Rightarrow> 'w terminal \<Rightarrow> 'w host \<Rightarrow> (string \<Rightarrow> ('w, unit) ceff) \<Rightarrow> ('w, unit) ceff" where
  "rbac_body os tm h feature =
     bindE (getE context_version) (\<lambda>v. case check_clickhouse_version ''>=23.2'' v of
       Inl e \<Rightarrow> raise e
     | Inr new \<Rightarrow> with_rbac_config os tm h (if new then rbac_nodes else []) (forE rbac_features feature))"

text \<open>\<open>with Cluster(...) as cluster: ...\<close>\<close>

definition with_cluster :: "'w os \<Rightarrow> 'w host \<Rightarrow> init_args \<Rightarrow> ('w, 'a) ceff \<Rightarrow> ('w, 'a) ceff" where
  "with_cluster os h a body =
     seqE (cluster_init os h a) (seqE (cluster_enter os) (finallyE body (cluster_exit os h)))"

definition rbac_regression ::
  "'w os \<Rightarrow> 'w terminal \<Rightarrow> 'w host \<Rightarrow> string \<Rightarrow> bool \<Rightarrow> string option \<Rightarrow> string option \<Rightarrow> bool \<Rightarrow>
   (string \<Rightarrow> ('w, unit) ceff) \<Rightarrow> ('w, unit) ceff" where
  "rbac_regression os tm h dir loc binary version collect feature =
     seqE (modifyE (\<lambda>c. c\<lparr>context_version := version\<rparr>))
     (with_cluster os h (suite_init h dir loc binary collect rbac_nodes) (rbac_body os tm h feature))"

section \<open>The copy for ssl keeper\<close>

text \<open>
  In \<open>ssl_keeper/helpers/cluster.py\<close> the time is counted, and checked, only after a request that timed out, and
  there is no pause between requests.
\<close>

datatype id_request = Found string | Unanswered | Refused

definition ssl_id_request :: "'w os \<Rightarrow> string \<Rightarrow> seconds \<Rightarrow> ('w, id_request) ceff" where
  "ssl_id_request os nm timeout =
     bindE (tryE (bindE (control_shell os) (\<lambda>sh. bindE (getE docker_compose) (\<lambda>dc.
       run_in os sh (dc @ '' ps -q '' @ nm) (Some timeout))))) (\<lambda>x. case x of
       Inr r \<Rightarrow> (let container_id = py_strip (cmd_output r)
                in ret (if cmd_exitcode r = 0 \<and> length container_id > 1 then Found container_id else Refused))
     | Inl e \<Rightarrow> if e = ExpectTimeoutError then seqE (close_control_shell os) (ret Unanswered) else raise e)"

fun ssl_container_id_loop :: "'w os \<Rightarrow> string \<Rightarrow> seconds \<Rightarrow> nat \<Rightarrow> seconds \<Rightarrow> ('w, string) ceff" where
  "ssl_container_id_loop os nm time_start 0 timeout = out_of_fuel"
| "ssl_container_id_loop os nm time_start (Suc n) timeout =
     bindE (ssl_id_request os nm timeout) (\<lambda>x. case x of
       Found container_id \<Rightarrow> ret container_id
     | Refused \<Rightarrow> ssl_container_id_loop os nm time_start n timeout
     | Unanswered \<Rightarrow>
         bindE (clock os) (\<lambda>t.
           let timeout' = timeout - (t - time_start) in
           if timeout' \<le> 0
           then raise (RuntimeError (''failed to get docker container id for the '' @ nm @ '' service''))
           else ssl_container_id_loop os nm time_start n timeout'))"

definition ssl_node_container_id :: "'w os \<Rightarrow> string \<Rightarrow> seconds \<Rightarrow> ('w, string) ceff" where
  "ssl_node_container_id os nm timeout =
     bindE (clock os) (\<lambda>time_start. ssl_container_id_loop os nm time_start (fuel os) timeout)"

text \<open>The servers are started without waiting until they are healthy.\<close>

definition ssl_start_nodes :: "'w os \<Rightarrow> ('w, unit) ceff" where
  "ssl_start_nodes os =
     bindE (getE cluster_nodes) (\<lambda>ns.
     bindE (getE use_zookeeper_nodes) (\<lambda>zk.
     bindE (getE thread_fuzzer) (\<lambda>fuzzer.
     seqE (whenE zk (bindE (getitem ns ''zookeeper'') (\<lambda>names. forE names (\<lambda>nm.
        seqE (wait_healthy os nm 300)
          (whenE (startswith nm ''zookeeper'') (start_zookeeper os nm))))))
     (bindE (getitem ns ''clickhouse'') (\<lambda>names. forE names (\<lambda>nm.
        seqE (wait_healthy os nm 300)
          (whenE (startswith nm ''clickhouse'') (start_clickhouse os nm 300 False None fuzzer))))))))"

section \<open>Facts\<close>

lemma regression_options_ok: "list_all option_ok (regression_options v p)"
  by (simp add: regression_options_def option_ok_def switch_def value_option_def split: option.splits)

text \<open>The directory a suite chooses for its processor is the one the cluster takes: the suffix is not added twice.\<close>

lemma endswith_path_join: "endswith (path_join a (b @ s)) s"
proof -
  have "path_join a (b @ s) \<in> {b @ s, (a @ b) @ s, (a @ ''/'' @ b) @ s}" by (simp add: path_join_def)
  then show ?thesis by (elim insertE emptyE) (simp_all only: endswith_append)
qed

lemma arm_dir_suite_env: "arm_dir h (suite_env h dir) = suite_env h dir"
proof (cases "host_cpu h = ''aarch64''")
  case True
  have "endswith (path_join dir ((path_basename dir @ ''_env'') @ ''_arm64'')) ''_arm64''" by (rule endswith_path_join)
  with True have "endswith (suite_env h dir) ''_arm64''" by (simp add: suite_env_def)
  then show ?thesis by (simp add: arm_dir_def)
qed (simp add: arm_dir_def)

text \<open>
  In the copy for ssl keeper the request for a container is repeated forever when it is answered at once
  and there is no container, where the original gives up.
\<close>

definition no_container :: "cmd_result" where
  "no_container = \<lparr>cmd_output = [], cmd_exitcode = 1\<rparr>"

lemma ssl_container_id_diverges:
  assumes "ctl_shell c = Some sh"
    and "\<And>cmd t w. \<exists>w'. run os sh cmd t w = (Return no_container, w')"
  shows "fst (ssl_container_id_loop os nm time_start n timeout c) = OutOfFuel"
  using assms(1)
proof (induction n arbitrary: c)
  case (Suc n)
  obtain w where w: "run os sh (docker_compose c @ '' ps -q '' @ nm) (Some timeout) (world c) = (Return no_container, w)"
    using assms(2) by blast
  let ?c = "c\<lparr>world := w\<rparr>"
  have "bindE (control_shell os) (\<lambda>sh. bindE (getE docker_compose) (\<lambda>dc. run_in os sh (dc @ '' ps -q '' @ nm) (Some timeout))) c =
      (Return no_container, ?c)"
    using Suc.prems w by (simp add: control_shell_def bindE_getE run_in_def inW_def bindE_assoc)
  then have "ssl_id_request os nm timeout c = (Return Refused, ?c)"
    unfolding ssl_id_request_def by (subst bindE_step [of _ _ "Inr no_container" ?c]) (auto simp: tryE_Return_iff no_container_def)
  then have "ssl_container_id_loop os nm time_start (Suc n) timeout c = ssl_container_id_loop os nm time_start n timeout ?c"
    by (simp add: bindE_step)
  then show ?case using Suc.IH [of ?c] Suc.prems by simp
qed (simp add: out_of_fuel_def)

text \<open>
  The configuration of the suite is written on every node before the body runs, and stays.
\<close>

lemma add_rbac_config_file_Return:
  assumes "add_rbac_config_file os tm h nm d f timeout restart body c = (Return a, c')"
  shows "(\<exists>t. body t = (Return a, c')) \<and> (\<exists>(cfg :: config) r c1 c2. config_path cfg = path_join d f \<and>
    node_command os nm (write_file (config_path cfg) (config_content cfg)) exit_zero c1 = (Return r, c2))"
proof -
  let ?a = "\<lparr>a_timeout = timeout, a_restart = restart, a_modify = True, a_user = None, a_wait_healthy = False,
          a_check_preprocessed = False\<rparr>"
  obtain cfg c1 where path: "config_path cfg = path_join d f" and run: "add_config os tm h nm cfg ?a body c1 = (Return a, c')"
  proof -
    obtain uuid c1 where "add_config os tm h nm (create_xml_config_content (uuid_text uuid) rbac_entries f d ''clickhouse'') ?a body c1 = (Return a, c')"
      using assms unfolding add_rbac_config_file_def seqE_Return_iff bindE_Return_iff by blast
    then show ?thesis by (rule that [rotated]) (simp add: create_xml_config_content_def)
  qed
  from run obtain t where inst: "install_config os tm h nm cfg ?a c1 = (Return (), t)" and body: "body t = (Return a, c')"
    using added_config.returns_through [of os tm h "(nm, cfg, ?a)" "\<lambda>_. body" c1 a c'] by (auto simp: remove_config_def)
  from inst obtain sh c2 c3 where "seqE (follow_log os tm sh)
       (seqE (node_command os nm (write_file (config_path cfg) (config_content cfg)) exit_zero) (ret ())) c2 = (Return (), c3)"
    unfolding install_config_def by (auto dest!: with_node_shell_Return)
  then have "\<exists>r c1 c2. node_command os nm (write_file (config_path cfg) (config_content cfg)) exit_zero c1 = (Return r, c2)"
    unfolding seqE_Return_iff by blast
  with path body show ?thesis by blast
qed

lemma with_rbac_config_Return:
  "with_rbac_config os tm h nms body c = (Return a, c') \<Longrightarrow>
   (\<exists>t. body t = (Return a, c')) \<and> (\<forall>nm \<in> set nms. \<exists>(cfg :: config) r c1 c2.
     config_path cfg = path_join ''/etc/clickhouse-server/users.d'' ''rbac.xml'' \<and>
     node_command os nm (write_file (config_path cfg) (config_content cfg)) exit_zero c1 = (Return r, c2))"
proof (induction nms arbitrary: c)
  case (Cons nm nms)
  from add_rbac_config_file_Return [OF Cons.prems [unfolded with_rbac_config.simps]] obtain t where
    "with_rbac_config os tm h nms body t = (Return a, c')" and
    one: "\<exists>(cfg :: config) r c1 c2. config_path cfg = path_join ''/etc/clickhouse-server/users.d'' ''rbac.xml'' \<and>
      node_command os nm (write_file (config_path cfg) (config_content cfg)) exit_zero c1 = (Return r, c2)" by blast
  from Cons.IH [OF this(1)] one show ?case unfolding list.set ball_simps insert_iff by blast
qed auto

end
