(* ===== verification/Suite_Modules.thy ===== *)
theory Suite_Modules
  imports Suites
begin

text \<open>
  The entry points of the suites, \<open><suite>/regression.py\<close>. Most of them have one shape: remember the version
  that was asked for, bring up a cluster of the nodes of the suite from its directory of
  docker-compose files, leave when the server is too old, and run the features. What differs is the record
  \<open>suite\<close>; \<open>run_suite\<close> is the shape. The features and scenarios themselves are tests: running one is an operation of the
  record \<open>runner\<close>.
\<close>

section \<open>The shape of an entry point\<close>

text \<open>
  How the directory of the docker-compose project is named: after the folder and the processor, after the
  folder only, after a fixed name and the processor, or by a fixed text.
\<close>

datatype env_rule = ByFolder | FolderEnv | ByName string | Fixed string

text \<open>Where a suite checks the version of the server, the versions it leaves out and the reason it gives.\<close>

datatype gate = NoGate | EarlyGate string string | ClusterGate string string

record suite =
  su_env :: env_rule
  su_nodes :: "(string, string list) pydict"
  su_fuzzer :: bool
  su_gate :: gate
  su_pool :: "nat option"
  su_stress :: bool
  su_parallel :: bool
  su_node :: "string option"
  su_features :: "string list"

text \<open>The arguments of an entry point, and the attributes of the context that the features read.\<close>

record call =
  call_local :: bool
  call_binary :: "string option"
  call_version :: "string option"
  call_collect :: bool
  call_stress :: "bool option"
  call_parallel :: "bool option"
  call_fuzzer :: bool

record connection =
  tcp_port_secure :: bool
  secure :: nat
  port :: string
  ssl_text :: string

record tcontext =
  ctx_stress :: "bool option"
  ctx_parallel :: "bool option"
  ctx_node :: "string option"
  ctx_fips :: "bool option"
  ctx_keeper :: "connection option"

text \<open>
  The operations of the test framework: load a test and run it, or start it in a pool of threads; open and
  close a pool, and wait for the tests that were started. The flags of a test, which say whether its failure ends the suite, are part of how it is run.
\<close>

record 'w runner =
  run_test :: "string \<Rightarrow> tcontext \<Rightarrow> ('w, unit) ceff"
  start_test :: "string \<Rightarrow> tcontext \<Rightarrow> ('w, unit) ceff"
  join_tests :: "('w, unit) ceff"
  open_pool :: "nat \<Rightarrow> ('w, unit) ceff"
  close_pool :: "('w, unit) ceff"

definition project_path :: "'w host \<Rightarrow> string \<Rightarrow> env_rule \<Rightarrow> string" where
  "project_path h dir rule = (case rule of
     ByFolder \<Rightarrow> suite_env h dir
   | FolderEnv \<Rightarrow> path_join dir (path_basename dir @ ''_env'')
   | ByName nm \<Rightarrow> path_join dir (nm @ (if host_cpu h = ''aarch64'' then ''_env_arm64'' else ''_env''))
   | Fixed nm \<Rightarrow> path_join dir nm)"

definition module_init :: "'w host \<Rightarrow> string \<Rightarrow> suite \<Rightarrow> call \<Rightarrow> init_args" where
  "module_init h dir su a = \<lparr>i_local = call_local a, i_binary_path = call_binary a, i_odbc_bridge_path = None,
     i_configs_dir = None, i_nodes = Some (su_nodes su), i_docker_compose = ''docker-compose'',
     i_project_dir = Some (project_path h dir (su_env su)), i_compose_file = ''docker-compose.yml'', i_environ = None,
     i_thread_fuzzer = (su_fuzzer su \<and> call_fuzzer a), i_collect_service_logs = call_collect a,
     i_use_zookeeper_nodes = False\<rparr>"

text \<open>The context of the features: some suites overwrite \<open>stress\<close> always, some only when it is given.\<close>

definition suite_context :: "suite \<Rightarrow> call \<Rightarrow> tcontext \<Rightarrow> tcontext" where
  "suite_context su a ctx =
     ctx\<lparr>ctx_stress := (if su_stress su \<or> call_stress a \<noteq> None then call_stress a else ctx_stress ctx),
       ctx_parallel := (if su_parallel su \<and> call_parallel a \<noteq> None then call_parallel a else ctx_parallel ctx),
       ctx_node := (case su_node su of None \<Rightarrow> ctx_node ctx | Some nm \<Rightarrow> Some nm)\<rparr>"

text \<open>\<open>if check_clickhouse_version(versions)(self): skip(reason=...)\<close>\<close>

definition skip_if :: "string \<Rightarrow> string \<Rightarrow> ('w, unit) ceff" where
  "skip_if versions reason =
     bindE (getE context_version) (\<lambda>v. case check_clickhouse_version versions v of
       Inl e \<Rightarrow> raise e
     | Inr old \<Rightarrow> whenE old (raise (TestSkip reason)))"

definition early_gate :: "gate \<Rightarrow> ('w, unit) ceff" where
  "early_gate g = (case g of EarlyGate versions reason \<Rightarrow> skip_if versions reason | _ \<Rightarrow> ret ())"

definition cluster_gate :: "gate \<Rightarrow> ('w, unit) ceff" where
  "cluster_gate g = (case g of ClusterGate versions reason \<Rightarrow> skip_if versions reason | _ \<Rightarrow> ret ())"

text \<open>\<open>with Pool(n) as pool: try: ... finally: join()\<close>\<close>

definition with_pool :: "'w runner \<Rightarrow> nat \<Rightarrow> ('w, unit) ceff \<Rightarrow> ('w, unit) ceff" where
  "with_pool rn n starts =
     seqE (open_pool rn n) (finallyE (finallyE starts (join_tests rn)) (close_pool rn))"

definition run_features :: "'w runner \<Rightarrow> suite \<Rightarrow> tcontext \<Rightarrow> ('w, unit) ceff" where
  "run_features rn su ctx = (case su_pool su of
     None \<Rightarrow> forE (su_features su) (\<lambda>f. run_test rn f ctx)
   | Some n \<Rightarrow> with_pool rn n (forE (su_features su) (\<lambda>f. start_test rn f ctx)))"

text \<open>\<open>scope\<close> runs the features within the steps of a suite that set something up for all of them.\<close>

definition suite_body :: "'w runner \<Rightarrow> suite \<Rightarrow> call \<Rightarrow> tcontext \<Rightarrow> (('w, unit) ceff \<Rightarrow> ('w, unit) ceff) \<Rightarrow>
    ('w, unit) ceff" where
  "suite_body rn su a ctx scope =
     seqE (cluster_gate (su_gate su)) (scope (run_features rn su (suite_context su a ctx)))"

definition suite_setup :: "suite \<Rightarrow> call \<Rightarrow> ('w, unit) ceff" where
  "suite_setup su a =
     seqE (modifyE (\<lambda>c. c\<lparr>context_version := call_version a\<rparr>)) (early_gate (su_gate su))"

definition run_suite :: "'w os \<Rightarrow> 'w host \<Rightarrow> 'w runner \<Rightarrow> string \<Rightarrow> suite \<Rightarrow> call \<Rightarrow> tcontext \<Rightarrow>
    (('w, unit) ceff \<Rightarrow> ('w, unit) ceff) \<Rightarrow> ('w, unit) ceff" where
  "run_suite os h rn dir su a ctx scope =
     seqE (suite_setup su a) (with_cluster os h (module_init h dir su a) (suite_body rn su a ctx scope))"

section \<open>The suites\<close>

definition three_nodes :: "(string, string list) pydict" where
  "three_nodes = [(''clickhouse'', [''clickhouse1'', ''clickhouse2'', ''clickhouse3''])]"

definition sharded_nodes :: "(string, string list) pydict" where
  "sharded_nodes = [(''zookeeper'', [''zookeeper'']),
     (''clickhouse'', [''clickhouse1'', ''clickhouse2'', ''clickhouse3'', ''clickhouse4''])]"

definition window_functions_suite :: suite where
  "window_functions_suite = \<lparr>su_env = FolderEnv, su_nodes = three_nodes,
     su_fuzzer = False, su_gate = NoGate, su_pool = None,
     su_stress = False, su_parallel = False, su_node = None,
     su_features = [''window_functions.tests.feature'']\<rparr>"

definition datetime64_extended_range_suite :: suite where
  "datetime64_extended_range_suite = \<lparr>su_env = Fixed ''datetime64_extended_range_env'', su_nodes = three_nodes,
     su_fuzzer = False, su_gate = NoGate, su_pool = Some 2,
     su_stress = False, su_parallel = False, su_node = None,
     su_features = [''datetime64_extended_range.tests.generic'', ''datetime64_extended_range.tests.non_existent_time'',
       ''datetime64_extended_range.tests.reference_times'', ''datetime64_extended_range.tests.date_time_functions'',
       ''datetime64_extended_range.tests.type_conversion'', ''datetime64_extended_range.tests.format_conversion'']\<rparr>"

definition data_types_suite :: suite where
  "data_types_suite = \<lparr>su_env = ByFolder, su_nodes = three_nodes,
     su_fuzzer = False, su_gate = NoGate, su_pool = None,
     su_stress = False, su_parallel = False, su_node = None,
     su_features = [''data_types.tests.map'']\<rparr>"

definition disk_level_encryption_suite :: suite where
  "disk_level_encryption_suite = \<lparr>su_env = ByFolder, su_nodes = three_nodes @ [(''cmd-clickhouse'', [''clickhouse_cmd''])],
     su_fuzzer = False, su_gate = EarlyGate ''<21.9'' ''only supported on ClickHouse version >= 21.9'', su_pool = None,
     su_stress = False, su_parallel = False, su_node = None,
     su_features = [''disk_level_encryption.tests.memory'', ''disk_level_encryption.tests.column_ttl'',
       ''disk_level_encryption.tests.encrypted_disk'', ''disk_level_encryption.tests.application_of_changes'',
       ''disk_level_encryption.tests.wide_access_permission'', ''disk_level_encryption.tests.no_access_rights'',
       ''disk_level_encryption.tests.new_directories'', ''disk_level_encryption.tests.invalid_disk'',
       ''disk_level_encryption.tests.distributed_table'', ''disk_level_encryption.tests.replicated_table'',
       ''disk_level_encryption.tests.invalid_key_size'', ''disk_level_encryption.tests.encryption_algorithms'',
       ''disk_level_encryption.tests.comparable_performance'', ''disk_level_encryption.tests.comparable_part_sizes'',
       ''disk_level_encryption.tests.wide_and_compact_formats'', ''disk_level_encryption.tests.multi_disk_volume'',
       ''disk_level_encryption.tests.multi_volume_policy'', ''disk_level_encryption.tests.missing_key'',
       ''disk_level_encryption.tests.merge_parts_with_different_keys'',
       ''disk_level_encryption.tests.invalid_current_key_id'', ''disk_level_encryption.tests.multiple_keys'',
       ''disk_level_encryption.tests.default_path'', ''disk_level_encryption.tests.valid_path'',
       ''disk_level_encryption.tests.invalid_path'', ''disk_level_encryption.tests.operations.feature'',
       ''disk_level_encryption.tests.key_formats'', ''disk_level_encryption.tests.encryption_at_rest'']\<rparr>"

definition selects_suite :: suite where
  "selects_suite = \<lparr>su_env = ByName ''selects'', su_nodes = three_nodes,
     su_fuzzer = True, su_gate = NoGate, su_pool = None,
     su_stress = False, su_parallel = False, su_node = Some ''clickhouse1'',
     su_features = [''selects.tests.final.feature'']\<rparr>"

definition atomic_insert_suite :: suite where
  "atomic_insert_suite = \<lparr>su_env = ByName ''atomic_insert'', su_nodes = sharded_nodes,
     su_fuzzer = True, su_gate = ClusterGate ''<22.4'' ''only supported on ClickHouse version >= 22.4'', su_pool = None,
     su_stress = False, su_parallel = False, su_node = None,
     su_features = [''atomic_insert.tests.sanity'', ''atomic_insert.tests.dependent_tables'', ''atomic_insert.tests.block_fail'',
       ''atomic_insert.tests.insert_settings'', ''atomic_insert.tests.distributed_table'',
       ''atomic_insert.tests.user_rights'', ''atomic_insert.tests.transaction'', ''atomic_insert.tests.hard_restart'']\<rparr>"

definition part_moves_between_shards_suite :: suite where
  "part_moves_between_shards_suite = \<lparr>su_env = ByName ''part_moves'', su_nodes = sharded_nodes,
     su_fuzzer = True, su_gate = ClusterGate ''<21.4'' ''only supported on ClickHouse version >= 21.4'', su_pool = None,
     su_stress = False, su_parallel = False, su_node = Some ''clickhouse1'',
     su_features = [''part_moves_between_shards.tests.sanity'', ''part_moves_between_shards.tests.part_moves'',
       ''part_moves_between_shards.tests.system_table'', ''part_moves_between_shards.tests.deduplication'']\<rparr>"

definition engines_suite :: suite where
  "engines_suite = \<lparr>su_env = ByName ''engines'', su_nodes = three_nodes,
     su_fuzzer = True, su_gate = NoGate, su_pool = None,
     su_stress = False, su_parallel = False, su_node = Some ''clickhouse1'',
     su_features = [''engines.tests.replacing_merge_tree.replacing_merge_tree'',
       ''engines.tests.replacing_merge_tree.replicated_replacing_merge_tree'']\<rparr>"

definition kafka_suite :: suite where
  "kafka_suite = \<lparr>su_env = ByFolder, su_nodes = three_nodes @ [(''kafka'', [''kafka1'', ''kafka2'', ''kafka3''])],
     su_fuzzer = False, su_gate = NoGate, su_pool = None,
     su_stress = False, su_parallel = False, su_node = None,
     su_features = [''kafka.tests.distributed'', ''kafka.tests.non_replicated'', ''kafka.tests.non_replicated_4_consumers'',
       ''kafka.tests.non_replicated_target_table_not_writable'', ''kafka.tests.non_replicated_clickhouse_restart'',
       ''kafka.tests.non_replicated_4_consumers_restart'', ''kafka.tests.replicated_stop_and_restart'']\<rparr>"

definition base_58_suite :: suite where
  "base_58_suite = \<lparr>su_env = FolderEnv, su_nodes = three_nodes,
     su_fuzzer = False, su_gate = ClusterGate ''<22.7'' ''only supported on ClickHouse version >= 22.7'', su_pool = None,
     su_stress = True, su_parallel = True, su_node = None,
     su_features = [''base_58.tests.consistency'', ''base_58.tests.null'', ''base_58.tests.alias_input'',
       ''base_58.tests.function_input'', ''base_58.tests.compatibility'', ''base_58.tests.memory_usage'',
       ''base_58.tests.performance'', ''base_58.tests.supported_types_constant'',
       ''base_58.tests.supported_types_column'', ''base_58.tests.unsupported_types_constant'',
       ''base_58.tests.unsupported_types_column'']\<rparr>"

definition key_value_suite :: suite where
  "key_value_suite = \<lparr>su_env = FolderEnv, su_nodes = three_nodes,
     su_fuzzer = False, su_gate = EarlyGate ''<23.5'' ''only supported on ClickHouse version >= 23.5'', su_pool = None,
     su_stress = True, su_parallel = True, su_node = None,
     su_features = [''key_value.tests.constant'', ''key_value.tests.column'', ''key_value.tests.map'', ''key_value.tests.array'',
       ''key_value.tests.special_symbols_conflict'', ''key_value.tests.supported_data_types'',
       ''key_value.tests.unsupported_data_types'', ''key_value.tests.parameters_format'']\<rparr>"

definition session_timezone_suite :: suite where
  "session_timezone_suite = \<lparr>su_env = Fixed ''session_timezone_env'', su_nodes = three_nodes,
     su_fuzzer = False, su_gate = ClusterGate ''<23.5'' ''only supported on ClickHouse version >= 23.5'', su_pool = None,
     su_stress = False, su_parallel = False, su_node = None,
     su_features = [''session_timezone.tests.sanity'', ''session_timezone.tests.basic'',
       ''session_timezone.tests.clickhouse_local'', ''session_timezone.tests.date_functions'',
       ''session_timezone.tests.tables_with_date_columns'']\<rparr>"

definition kerberos_suite :: suite where
  "kerberos_suite = \<lparr>su_env = ByFolder, su_nodes = three_nodes @ [(''kerberos'', [''kerberos''])],
     su_fuzzer = False, su_gate = NoGate, su_pool = None,
     su_stress = False, su_parallel = False, su_node = None,
     su_features = [''kerberos.tests.generic'', ''kerberos.tests.config'', ''kerberos.tests.parallel'']\<rparr>"

definition dns_suite :: suite where
  "dns_suite = \<lparr>su_env = ByFolder, su_nodes = [(''clickhouse'', [''clickhouse1'', ''clickhouse2''])],
     su_fuzzer = False, su_gate = NoGate, su_pool = None,
     su_stress = False, su_parallel = False, su_node = None,
     su_features = [''dns.tests.lookup.scenario'', ''dns.tests.ipv6'']\<rparr>"

definition extended_precision_data_types_suite :: suite where
  "extended_precision_data_types_suite = \<lparr>su_env = ByFolder, su_nodes = [(''clickhouse'', [''clickhouse1''])],
     su_fuzzer = False, su_gate = NoGate, su_pool = None,
     su_stress = True, su_parallel = False, su_node = None,
     su_features = [''extended_precision_data_types.tests.feature'']\<rparr>"

definition example_suite :: suite where
  "example_suite = \<lparr>su_env = ByFolder, su_nodes = [(''clickhouse'', [''clickhouse1''])],
     su_fuzzer = False, su_gate = NoGate, su_pool = None,
     su_stress = False, su_parallel = False, su_node = None,
     su_features = [''example.tests.example'']\<rparr>"

definition aes_encryption_suite :: suite where
  "aes_encryption_suite = \<lparr>su_env = ByFolder, su_nodes = three_nodes,
     su_fuzzer = False, su_gate = NoGate, su_pool = Some 5,
     su_stress = False, su_parallel = False, su_node = None,
     su_features = [''aes_encryption.tests.encrypt'', ''aes_encryption.tests.decrypt'', ''aes_encryption.tests.encrypt_mysql'',
       ''aes_encryption.tests.decrypt_mysql'', ''aes_encryption.tests.compatibility.feature'']\<rparr>"

definition authentication_suite :: suite where
  "authentication_suite = \<lparr>su_env = ByFolder, su_nodes = three_nodes,
     su_fuzzer = False, su_gate = NoGate, su_pool = None,
     su_stress = False, su_parallel = False, su_node = None,
     su_features = [''ldap.authentication.tests.sanity'', ''ldap.authentication.tests.multiple_servers'',
       ''ldap.authentication.tests.connections'', ''ldap.authentication.tests.server_config'',
       ''ldap.authentication.tests.user_config'', ''ldap.authentication.tests.authentications'']\<rparr>"

definition external_user_directory_suite :: suite where
  "external_user_directory_suite = \<lparr>su_env = ByFolder, su_nodes = three_nodes,
     su_fuzzer = False, su_gate = NoGate, su_pool = None,
     su_stress = False, su_parallel = False, su_node = None,
     su_features = [''ldap.authentication.tests.sanity'', ''ldap.external_user_directory.tests.simple'',
       ''ldap.external_user_directory.tests.restart'', ''ldap.external_user_directory.tests.server_config'',
       ''ldap.external_user_directory.tests.external_user_directory_config'',
       ''ldap.external_user_directory.tests.connections'', ''ldap.external_user_directory.tests.authentications'',
       ''ldap.external_user_directory.tests.roles'']\<rparr>"

definition role_mapping_suite :: suite where
  "role_mapping_suite = \<lparr>su_env = ByFolder, su_nodes = three_nodes,
     su_fuzzer = False, su_gate = NoGate, su_pool = None,
     su_stress = False, su_parallel = False, su_node = None,
     su_features = [''ldap.authentication.tests.sanity'', ''ldap.role_mapping.tests.server_config'',
       ''ldap.role_mapping.tests.mapping'', ''ldap.role_mapping.tests.user_dn_detection'',
       ''ldap.role_mapping.tests.cluster_secret'']\<rparr>"

definition shaped_suites :: "suite list" where
  "shaped_suites = [window_functions_suite, datetime64_extended_range_suite, data_types_suite, disk_level_encryption_suite,
     selects_suite, atomic_insert_suite, part_moves_between_shards_suite, engines_suite, kafka_suite, base_58_suite,
     key_value_suite, session_timezone_suite, kerberos_suite, dns_suite, extended_precision_data_types_suite,
     example_suite, aes_encryption_suite, authentication_suite, external_user_directory_suite, role_mapping_suite]"

section \<open>Suites with steps of their own\<close>

text \<open>
  A configuration for every node of a list, one after the other, each for the rest of the
  suite. Every name is unique to the file, so the content is made again for every node. \<open>add_config_section\<close>
  takes a timeout and does not hand it on: \<open>add_config\<close> waits for its default of 300 seconds.
\<close>

definition add_config_section :: "'w os \<Rightarrow> 'w terminal \<Rightarrow> 'w host \<Rightarrow> string \<Rightarrow> config \<Rightarrow> config_args \<Rightarrow> ('w, 'a) ceff \<Rightarrow> ('w, 'a) ceff" where
  "add_config_section os tm h nm cfg a body = add_config os tm h nm cfg (a\<lparr>a_timeout := 300\<rparr>) body"

fun with_configs :: "'w os \<Rightarrow> 'w terminal \<Rightarrow> 'w host \<Rightarrow> entries \<Rightarrow> string \<Rightarrow> string \<Rightarrow> bool \<Rightarrow> string list \<Rightarrow>
    ('w, 'a) ceff \<Rightarrow> ('w, 'a) ceff" where
  "with_configs os tm h es file root_tag restart [] body = body"
| "with_configs os tm h es file root_tag restart (nm # nms) body =
     bindE (inW (uuid1 os)) (\<lambda>uuid.
       add_config_section os tm h nm (create_xml_config_content (uuid_text uuid) es file ''/etc/clickhouse-server/config.d/'' root_tag)
         \<lparr>a_timeout = 300, a_restart = restart, a_modify = True, a_user = None, a_wait_healthy = True,
          a_check_preprocessed = True\<rparr>
         (with_configs os tm h es file root_tag restart nms body))"

definition on_clickhouse_nodes :: "nat \<Rightarrow> (string list \<Rightarrow> ('w, 'a) ceff) \<Rightarrow> ('w, 'a) ceff" where
  "on_clickhouse_nodes n f = bindE (getE cluster_nodes) (\<lambda>ns. bindE (getitem ns ''clickhouse'') (\<lambda>names. f (take n names)))"

definition transactions :: entries where
  "transactions =
     [(Key ''allow_experimental_transactions'', Text ''42''),
      (Key ''merge_tree'', Dict [(Key ''old_parts_lifetime'', Text ''100500''),
        (Key ''remove_rolled_back_parts_immediately'', Text ''0'')]),
      (Key ''transactions_info_log'', Dict [(Key ''database'', Text ''system''), (Key ''table'', Text ''transactions_info_log''),
        (Key ''flush_interval_milliseconds'', Text ''7500'')])]"

definition create_transactions_configuration :: "'w os \<Rightarrow> 'w terminal \<Rightarrow> 'w host \<Rightarrow> ('w, 'a) ceff \<Rightarrow> ('w, 'a) ceff" where
  "create_transactions_configuration os tm h body =
     on_clickhouse_nodes 3 (\<lambda>names. with_configs os tm h transactions ''transactions.xml'' ''clickhouse'' True names body)"

definition atomic_insert_regression :: "'w os \<Rightarrow> 'w terminal \<Rightarrow> 'w host \<Rightarrow> 'w runner \<Rightarrow> string \<Rightarrow> call \<Rightarrow> tcontext \<Rightarrow> ('w, unit) ceff" where
  "atomic_insert_regression os tm h rn dir a ctx =
     run_suite os h rn dir atomic_insert_suite a ctx (create_transactions_configuration os tm h)"

text \<open>
  \<open>lightweight_delete\<close> adds a setting to the default settings of the queries. The \<open>finally\<close> block takes the first
  such setting out again, if the setting was added.
\<close>

definition version_matches :: "string \<Rightarrow> ('w, bool) ceff" where
  "version_matches versions =
     bindE (getE context_version) (\<lambda>v. case check_clickhouse_version versions v of Inl e \<Rightarrow> raise e | Inr b \<Rightarrow> ret b)"

definition lightweight_setting :: "string \<times> string" where
  "lightweight_setting = (''allow_experimental_lightweight_delete'', ''1'')"

definition allow_experimental_lightweight_delete :: "('w, 'a) ceff \<Rightarrow> ('w, 'a) ceff" where
  "allow_experimental_lightweight_delete body =
     bindE (tryE (version_matches ''>=22.3'')) (\<lambda>x. finallyE
       (case x of Inl e \<Rightarrow> raise e
        | Inr new \<Rightarrow> seqE (whenE new (modifyE (\<lambda>c. c\<lparr>default_query_settings := default_query_settings c @ [lightweight_setting]\<rparr>))) body)
       (bindE (version_matches ''>=22.3'') (\<lambda>new.
          whenE (new \<and> x = Inr True) (modifyE (\<lambda>c. c\<lparr>default_query_settings := remove1 lightweight_setting (default_query_settings c)\<rparr>)))))"

definition lightweight_delete_suite :: suite where
  "lightweight_delete_suite = \<lparr>su_env = FolderEnv, su_nodes = three_nodes,
     su_fuzzer = False, su_gate = NoGate, su_pool = None,
     su_stress = True, su_parallel = True, su_node = None,
     su_features = [''lightweight_delete.tests.acceptance_concurrent_alter_and_delete'',
       ''lightweight_delete.tests.acceptance_column_ttl'', ''lightweight_delete.tests.backup'',
       ''lightweight_delete.tests.disk_space'', ''lightweight_delete.tests.zookeeper_load'',
       ''lightweight_delete.tests.load'', ''lightweight_delete.tests.acceptance'',
       ''lightweight_delete.tests.acceptance_tiered_storage_ttl'',
       ''lightweight_delete.tests.efficient_physical_data_removal'',
       ''lightweight_delete.tests.multiple_delete_limitations'', ''lightweight_delete.tests.hard_restart'',
       ''lightweight_delete.tests.s3'', ''lightweight_delete.tests.lack_of_disk_space'',
       ''lightweight_delete.tests.multi_disk'', ''lightweight_delete.tests.projections'',
       ''lightweight_delete.tests.drop_empty_part'', ''lightweight_delete.tests.views'',
       ''lightweight_delete.tests.compatibility'', ''lightweight_delete.tests.ontime_tests'',
       ''lightweight_delete.tests.replicated_tables_concurrent_deletes'',
       ''lightweight_delete.tests.replicated_table_with_concurrent_alter_and_delete'',
       ''lightweight_delete.tests.replicated_table_with_alter_after_delete_on_single_node'',
       ''lightweight_delete.tests.nondeterministic_functions'', ''lightweight_delete.tests.performance'',
       ''lightweight_delete.tests.distributed_tables'', ''lightweight_delete.tests.replication_queue'',
       ''lightweight_delete.tests.replicated_tables'', ''lightweight_delete.tests.delete_and_tiered_storage_ttl'',
       ''lightweight_delete.tests.encrypted_disk'', ''lightweight_delete.tests.delete_and_column_ttl'',
       ''lightweight_delete.tests.alter_after_delete'', ''lightweight_delete.tests.random_concurrent_alter'',
       ''lightweight_delete.tests.concurrent_alter_and_delete'', ''lightweight_delete.tests.concurrent_delete'',
       ''lightweight_delete.tests.invalid_where_clause'', ''lightweight_delete.tests.immediate_removal'',
       ''lightweight_delete.tests.basic_checks'', ''lightweight_delete.tests.specific_deletes'']\<rparr>"

definition lightweight_delete_scope :: "bool \<Rightarrow> bool \<Rightarrow> ('w, unit) ceff \<Rightarrow> ('w, unit) ceff" where
  "lightweight_delete_scope use_alter_delete force_run features =
     seqE (whenE (\<not> force_run \<and> \<not> use_alter_delete) (skip_if ''<22.8'' ''only supported on ClickHouse version >= 22.8''))
       (if use_alter_delete then features else allow_experimental_lightweight_delete features)"

definition lightweight_delete_regression :: "'w os \<Rightarrow> 'w host \<Rightarrow> 'w runner \<Rightarrow> string \<Rightarrow> call \<Rightarrow> bool \<Rightarrow> bool \<Rightarrow> tcontext \<Rightarrow> ('w, unit) ceff" where
  "lightweight_delete_regression os h rn dir a use_alter_delete force_run ctx =
     run_suite os h rn dir lightweight_delete_suite a ctx (lightweight_delete_scope use_alter_delete force_run)"

text \<open>\<open>"fips" in current().context.clickhouse_version\<close>, which needs a version.\<close>

definition fips_version :: "('w, bool) ceff" where
  "fips_version = bindE (getE context_version) (\<lambda>v. case v of
     None \<Rightarrow> raise (TypeError ''argument of type NoneType is not iterable'')
   | Some version \<Rightarrow> ret (str_in ''fips'' version))"

text \<open>The suite \<open>ssl_server\<close>, which starts ZooKeeper servers too.\<close>

definition ssl_server_suite :: suite where
  "ssl_server_suite = \<lparr>su_env = ByFolder, su_nodes = three_nodes @ [(''zookeeper'', [''zookeeper'', ''zookeeper-fips''])],
     su_fuzzer = False, su_gate = NoGate, su_pool = None,
     su_stress = False, su_parallel = False, su_node = None,
     su_features = [''ssl_server.tests.check_certificate'', ''ssl_server.tests.sanity'', ''ssl_server.tests.ssl_context'',
       ''ssl_server.tests.certificate_authentication'', ''ssl_server.tests.verification_mode'',
       ''ssl_server.tests.url_table_function'', ''ssl_server.tests.dictionary'', ''ssl_server.tests.fips'',
       ''ssl_server.tests.zookeeper.feature'', ''ssl_server.tests.zookeeper_fips.feature'',
       ''ssl_server.tests.ca_chain.feature'']\<rparr>"

definition ssl_server_regression :: "'w os \<Rightarrow> 'w host \<Rightarrow> 'w runner \<Rightarrow> string \<Rightarrow> call \<Rightarrow> bool \<Rightarrow> tcontext \<Rightarrow> ('w, unit) ceff" where
  "ssl_server_regression os h rn dir a force_fips ctx =
     seqE (suite_setup ssl_server_suite a)
     (with_cluster os h ((module_init h dir ssl_server_suite a)\<lparr>i_use_zookeeper_nodes := True\<rparr>)
       (bindE fips_version (\<lambda>fips.
          run_features rn ssl_server_suite ((suite_context ssl_server_suite a ctx)\<lparr>ctx_fips := Some (fips \<or> force_fips)\<rparr>))))"

text \<open>
  The suite \<open>clickhouse_keeper\<close>, with or without encrypted connections. In its table of nodes \<open>("bash_tools")\<close>
  is a plain string, a sequence of one-letter names.
\<close>

definition keeper_connection :: "bool \<Rightarrow> connection" where
  "keeper_connection ssl = (if ssl
     then \<lparr>tcp_port_secure = True, secure = 1, port = ''9281'', ssl_text = ''true''\<rparr>
     else \<lparr>tcp_port_secure = False, secure = 0, port = ''2181'', ssl_text = ''false''\<rparr>)"

definition keeper_nodes :: "string list \<Rightarrow> (string, string list) pydict" where
  "keeper_nodes zookeepers = [(''zookeeper'', zookeepers), (''bash_tools'', map (\<lambda>c. [c]) ''bash_tools''),
     (''clickhouse'', map (\<lambda>i. ''clickhouse'' @ str_nat i) [1..<14])]"

definition keeper_features :: "bool \<Rightarrow> string list" where
  "keeper_features ssl = (if ssl
     then [''clickhouse_keeper.tests.sanity'', ''clickhouse_keeper.tests.cli'',
       ''clickhouse_keeper.tests.synchronization'', ''clickhouse_keeper.tests.non_distributed_ddl_queries'',
       ''clickhouse_keeper.tests.keeper_cluster_tests'', ''clickhouse_keeper.tests.alter_column_distributed'',
       ''clickhouse_keeper.tests.alter_partition_distributed'', ''clickhouse_keeper.tests.servers_start_up'',
       ''clickhouse_keeper.tests.ports_ssl_fips'', ''clickhouse_keeper.tests.fips'']
     else [''clickhouse_keeper.tests.sanity'', ''clickhouse_keeper.tests.migration'',
       ''clickhouse_keeper.tests.synchronization'', ''clickhouse_keeper.tests.cli'',
       ''clickhouse_keeper.tests.servers_start_up'', ''clickhouse_keeper.tests.cli_converter'',
       ''clickhouse_keeper.tests.non_distributed_ddl_queries'', ''clickhouse_keeper.tests.keeper_cluster_tests'',
       ''clickhouse_keeper.tests.alter_column_distributed'', ''clickhouse_keeper.tests.alter_partition_distributed'',
       ''clickhouse_keeper.tests.four_letter_word_commands'', ''clickhouse_keeper.tests.coordination_settings''])"

definition clickhouse_keeper_suite :: "bool \<Rightarrow> suite" where
  "clickhouse_keeper_suite ssl = \<lparr>su_env = ByFolder,
     su_nodes = keeper_nodes [''zookeeper1'', ''zookeeper2'', ''zookeeper3'', ''zookeeper'', ''zookeeper-fips''],
     su_fuzzer = False, su_gate = ClusterGate ''<21.4'' ''only supported on ClickHouse version >= 21.4'', su_pool = None,
     su_stress = False, su_parallel = False, su_node = None, su_features = keeper_features ssl\<rparr>"

definition keeper_replica :: "bool \<Rightarrow> nat \<Rightarrow> entries" where
  "keeper_replica ssl i = [(Key ''replica'', Dict ([(Key ''host'', Text (''clickhouse'' @ str_nat i)),
     (Key ''port'', Text (if ssl then ''9440'' else ''9000''))] @ (if ssl then [(Key ''secure'', Text ''1'')] else [])))]"

definition cluster_3_3_entries :: "bool \<Rightarrow> entries" where
  "cluster_3_3_entries ssl = [(Key ''remote_servers'', Dict [(Key ''Cluster_3shards_with_3replicas'',
     Entries (map (\<lambda>shard. [(Key ''shard'', Entries (map (keeper_replica ssl) shard))]) [[1, 2, 3], [4, 5, 6], [7, 8, 9]]))])]"

definition create_remote_configuration :: "'w os \<Rightarrow> 'w terminal \<Rightarrow> 'w host \<Rightarrow> entries \<Rightarrow> ('w, 'a) ceff \<Rightarrow> ('w, 'a) ceff" where
  "create_remote_configuration os tm h es body =
     on_clickhouse_nodes 13 (\<lambda>names. with_configs os tm h es ''remote.xml'' ''yandex'' True names body)"

definition create_configuration_ssl :: "'w os \<Rightarrow> 'w terminal \<Rightarrow> 'w host \<Rightarrow> entries \<Rightarrow> ('w, 'a) ceff \<Rightarrow> ('w, 'a) ceff" where
  "create_configuration_ssl os tm h es body =
     on_clickhouse_nodes 13 (\<lambda>names. with_configs os tm h es ''remote.xml'' ''clickhouse'' False names body)"

definition create_3_3_cluster_config :: "'w os \<Rightarrow> 'w terminal \<Rightarrow> 'w host \<Rightarrow> bool \<Rightarrow> ('w, 'a) ceff \<Rightarrow> ('w, 'a) ceff" where
  "create_3_3_cluster_config os tm h ssl =
     (if ssl then create_configuration_ssl os tm h (cluster_3_3_entries True)
      else create_remote_configuration os tm h (cluster_3_3_entries False))"

definition clickhouse_keeper_regression :: "'w os \<Rightarrow> 'w terminal \<Rightarrow> 'w host \<Rightarrow> 'w runner \<Rightarrow> string \<Rightarrow> call \<Rightarrow> bool \<Rightarrow> tcontext \<Rightarrow> ('w, unit) ceff" where
  "clickhouse_keeper_regression os tm h rn dir a ssl ctx =
     (let su = clickhouse_keeper_suite ssl; ctx' = (suite_context su a ctx)\<lparr>ctx_keeper := Some (keeper_connection ssl)\<rparr> in
      seqE (suite_setup su a)
      (with_cluster os h (module_init h dir su a)
        (seqE (cluster_gate (su_gate su))
        (bindE fips_version (\<lambda>fips.
           create_3_3_cluster_config os tm h ssl
             (run_features rn su (if fips then ctx'\<lparr>ctx_fips := Some True\<rparr> else ctx')))))))"

section \<open>The nodes of a running cluster\<close>

text \<open>The table of nodes is set by the constructor and never changed; what else changes in a life of a cluster does not matter to it.\<close>

abbreviation has_nodes :: "(string, string list) pydict \<Rightarrow> 'w cluster \<Rightarrow> bool" where
  "has_nodes ns c \<equiv> cluster_nodes c = ns"

lemma calm_has_nodes: "calm (has_nodes ns)"
  by (simp add: calm_def steady_def)

lemma with_slow_shell_keeps: "calm P \<Longrightarrow> (\<And>sh. keeps P (body sh)) \<Longrightarrow> keeps P (with_slow_shell os body)"
  unfolding with_slow_shell_def with_shell_def shell_exit_def by (intro keeps_intro calm_intro)

lemma sh_run_keeps: "calm P \<Longrightarrow> keeps P (sh_run os sh cmd)"
  unfolding sh_run_def by (intro keeps_intro calm_intro)

lemma exists_path_keeps: "keeps P (exists_path os path)"
  unfolding exists_path_def by (rule keeps_pure)

lemmas shell_keeps = with_slow_shell_keeps sh_run_keeps exists_path_keeps calm_has_nodes

lemma prepare_binary_keeps: "keeps (has_nodes ns) (prepare_binary os h path)"
  unfolding prepare_binary_def download_binary_def version_from_tag_def get_clickhouse_binary_from_docker_container_def
    unpack_deb_def set_binary_def Let_def assertE_def
  by (intro keeps_intro calm_intro shell_keeps) simp_all

lemma cluster_init_nodes:
  assumes "cluster_init os h a c = (Return (), c')" and "i_nodes a = Some ns"
  shows "has_nodes ns c'"
proof -
  obtain dir f configs where "seqE (whenE (truthy (i_binary_path a)) (prepare_binary os h (the (i_binary_path a)))) (modifyE f)
      ((fresh_cluster a configs c)\<lparr>project_dir := dir\<rparr>) = (Return (), c')" and f: "\<And>c. cluster_nodes (f c) = cluster_nodes c"
    using assms(1) unfolding cluster_init_def bindE_exists
    by (auto simp: seqE_modifyE bindE_exists Let_def split: option.splits if_splits)
  then obtain c1 where "whenE (truthy (i_binary_path a)) (prepare_binary os h (the (i_binary_path a)))
      ((fresh_cluster a configs c)\<lparr>project_dir := dir\<rparr>) = (Return (), c1)" and c': "c' = f c1"
    unfolding seqE_Return_iff by auto
  from keepsD [OF keeps_when [OF prepare_binary_keeps] _ this(1), of ns] assms(2) have "has_nodes ns c1"
    by (simp add: fresh_cluster_def)
  then show ?thesis by (simp add: c' f)
qed

lemma host_command_keeps: "calm P \<Longrightarrow> keeps P (host_command os cmd t)" "calm P \<Longrightarrow> keeps P (compose os cmd t)"
  unfolding compose_def host_command_def by (intro keeps_intro calm_intro; assumption)+

lemma up_attempt_keeps: "calm P \<Longrightarrow> keeps P (up_attempt os t)"
  unfolding up_attempt_def by (intro keeps_intro host_command_keeps)

lemma up_loop_keeps: "calm P \<Longrightarrow> keeps P (up_loop os t n cmd ps)"
  by (induction n arbitrary: cmd ps) (auto intro!: keeps_intro up_attempt_keeps simp: Let_def)

lemma up_nodes:
  assumes "retries_law os"
  shows "keeps (has_nodes ns) (up os timeout)"
  unfolding up_def compose_up_def local_environment_def set_environ_def assertE_def local_var_def Let_def
  by (intro keeps_intro host_command_keeps up_loop_keeps calm_has_nodes exists_path_keeps start_nodes_keeps any_version_examples assms)
     simp_all

text \<open>Nodes of which one runs the ClickHouse server.\<close>

definition serving :: "(string, string list) pydict \<Rightarrow> bool" where
  "serving ns = (case map_of ns ''clickhouse'' of None \<Rightarrow> False | Some names \<Rightarrow> list_ex (\<lambda>nm. startswith nm ''clickhouse'') names)"

lemma enter_versioned:
  assumes "retries_law os" and "cluster_enter os c = (Return (), c')" and "serving (cluster_nodes c)"
  shows "running c' \<and> versioned c'"
proof -
  from assms(2) have up: "up os 1800 c = (Return (), c')" by (simp add: cluster_enter_def)
  then have nodes: "has_nodes (cluster_nodes c) c'" using keepsD [OF up_nodes [OF assms(1)] refl up] by simp
  from up_Return [OF up] obtain c2 c3 where start: "start_nodes os c2 = (Return (), c3)" and c': "c' = c3\<lparr>running := True\<rparr>" by blast
  from assms(3) obtain names nm where "map_of (cluster_nodes c) ''clickhouse'' = Some names" "nm \<in> set names" "startswith nm ''clickhouse''"
    by (auto simp: serving_def list_ex_iff split: option.splits)
  with start_nodes_Return [OF assms(1) start, of names nm] nodes c' show ?thesis by simp
qed

section \<open>What an entry point does\<close>

text \<open>
  The contract of the entry points that use \<open>with Cluster(...)\<close>: what a caller may rely on, whatever
  the setup before the cluster and the body are.
\<close>

locale cluster_module =
  fixes os :: "'w os" and h :: "'w host"
    and prologue :: "'x \<Rightarrow> ('w, unit) ceff"
    and args :: "'x \<Rightarrow> init_args"
    and body :: "'x \<Rightarrow> ('w, unit) ceff"
    and entry :: "'x \<Rightarrow> ('w, unit) ceff"
  assumes entry_eq: "entry x = seqE (prologue x) (with_cluster os h (args x) (body x))"
begin

lemma entry_Return:
  "entry x c = (Return (), c') \<longleftrightarrow> (\<exists>c0 c1 c2 c3. prologue x c = (Return (), c0) \<and>
     cluster_init os h (args x) c0 = (Return (), c1) \<and> cluster_enter os c1 = (Return (), c2) \<and>
     body x c2 = (Return (), c3) \<and> cluster_exit os h c3 = (Return (), c'))"
  unfolding entry_eq with_cluster_def by (simp add: seqE_Return_iff finallyE_Return_iff)

lemma entered:
  assumes "retries_law os" and "cluster_init os h (args x) c0 = (Return (), c1)" and "cluster_enter os c1 = (Return (), c2)"
    and "i_nodes (args x) = Some ns" and "serving ns"
  shows "running c2 \<and> versioned c2"
  using enter_versioned [OF assms(1,3)] cluster_init_nodes [OF assms(2,4)] assms(5) by simp

lemma taken_down:
  assumes "prologue x c = (Return (), c0)" and "cluster_init os h (args x) c0 = (Return (), c1)"
    and "cluster_enter os c1 = (Return (), c2)" and "body x c2 = (r, c3)" and "r \<noteq> OutOfFuel"
  shows "entry x c = finallyE (\<lambda>c. (r, c3)) (cluster_exit os h) c2" and "snd (entry x c) = snd (cluster_exit os h c3)"
proof -
  have "entry x c = finallyE (body x) (cluster_exit os h) c2"
    unfolding entry_eq with_cluster_def using assms(1-3) by (simp add: seqE_step)
  then show "entry x c = finallyE (\<lambda>c. (r, c3)) (cluster_exit os h) c2" "snd (entry x c) = snd (cluster_exit os h c3)"
    using assms(4) finallyE_runs [of "body x" c2 r c3, OF assms(4,5)] by (simp_all add: finallyE_def)
qed

lemma never_entered:
  assumes "prologue x c = (Raise e, c0)"
  shows "entry x c = (Raise e, c0)"
  unfolding entry_eq using assms by (simp add: seqE_def bindE_def)

end

interpretation shaped: cluster_module os h "\<lambda>(rn, dir, su, a, ctx, scope). suite_setup su a"
  "\<lambda>(rn, dir, su, a, ctx, scope). module_init h dir su a" "\<lambda>(rn, dir, su, a, ctx, scope). suite_body rn su a ctx scope"
  "\<lambda>(rn, dir, su, a, ctx, scope). run_suite os h rn dir su a ctx scope"
  by unfold_locales (auto simp: run_suite_def)

interpretation ssl_server: cluster_module os h "\<lambda>(rn, dir, a, force_fips, ctx). suite_setup ssl_server_suite a"
  "\<lambda>(rn, dir, a, force_fips, ctx). (module_init h dir ssl_server_suite a)\<lparr>i_use_zookeeper_nodes := True\<rparr>"
  "\<lambda>(rn, dir, a, force_fips, ctx). bindE fips_version (\<lambda>fips.
     run_features rn ssl_server_suite ((suite_context ssl_server_suite a ctx)\<lparr>ctx_fips := Some (fips \<or> force_fips)\<rparr>))"
  "\<lambda>(rn, dir, a, force_fips, ctx). ssl_server_regression os h rn dir a force_fips ctx"
  by unfold_locales (auto simp: ssl_server_regression_def)

interpretation rbac: cluster_module os h "\<lambda>(tm, dir, loc, binary, version, collect, feature). modifyE (\<lambda>c. c\<lparr>context_version := version\<rparr>)"
  "\<lambda>(tm, dir, loc, binary, version, collect, feature). suite_init h dir loc binary collect rbac_nodes"
  "\<lambda>(tm, dir, loc, binary, version, collect, feature). rbac_body os tm h feature"
  "\<lambda>(tm, dir, loc, binary, version, collect, feature). rbac_regression os tm h dir loc binary version collect feature"
  by unfold_locales (auto simp: rbac_regression_def)

text \<open>The directory of a suite, whichever way the code names it: the name of the environment, with the suffix of the processor once.\<close>

definition env_name :: "string \<Rightarrow> env_rule \<Rightarrow> string" where
  "env_name dir rule = (case rule of ByName nm \<Rightarrow> nm @ ''_env'' | Fixed nm \<Rightarrow> nm | _ \<Rightarrow> path_basename dir @ ''_env'')"

definition plain_env :: "env_rule \<Rightarrow> bool" where
  "plain_env rule = (case rule of Fixed nm \<Rightarrow> endswith nm ''_env'' | _ \<Rightarrow> True)"

lemma path_join_append: "path_join a (b @ s) = path_join a b @ s" if "b \<noteq> []"
  using that by (cases b) (simp_all add: path_join_def)

lemma endswith_both: "endswith s a \<Longrightarrow> endswith s b \<Longrightarrow> length a = length b \<Longrightarrow> a = b"
  by (auto simp: endswith_iff)

lemma endswith_same: "endswith s a \<Longrightarrow> endswith s b \<Longrightarrow> a \<noteq> [] \<Longrightarrow> b \<noteq> [] \<Longrightarrow> last a = last b"
  by (auto simp: endswith_iff) (metis last_appendR)

lemma arm_project_path:
  assumes "plain_env rule"
  shows "arm_dir h (project_path h dir rule) =
    path_join dir (env_name dir rule) @ (if host_cpu h = ''aarch64'' then ''_arm64'' else [])"
proof -
  have named: "arm_dir h (path_join dir (nm @ (if host_cpu h = ''aarch64'' then ''_env_arm64'' else ''_env''))) =
      path_join dir (nm @ ''_env'') @ (if host_cpu h = ''aarch64'' then ''_arm64'' else [])" for nm
    using path_join_append [of "nm @ ''_env''" dir "''_arm64''"] by (simp add: arm_dir_def)
  have fixed: "arm_dir h (path_join dir nm) = path_join dir nm @ (if host_cpu h = ''aarch64'' then ''_arm64'' else [])"
    if "endswith nm ''_env''" for nm
  proof -
    from that obtain t where "nm = t @ ''_env''" by (auto simp: endswith_iff)
    then have "endswith (path_join dir nm) ''_env''" by (simp only: endswith_path_join)
    then have "\<not> endswith (path_join dir nm) ''_arm64''" using endswith_same [of "path_join dir nm" "''_env''" "''_arm64''"] by auto
    then show ?thesis by (simp add: arm_dir_def)
  qed
  show ?thesis
    using assms named fixed [OF endswith_append]
    by (cases rule) (simp_all add: project_path_def env_name_def plain_env_def suite_env_def fixed)
qed

lemma suites_ok: "su \<in> set shaped_suites \<Longrightarrow> serving (su_nodes su) \<and> plain_env (su_env su)"
proof -
  have "list_all (\<lambda>su. serving (su_nodes su) \<and> plain_env (su_env su)) shaped_suites" by code_simp
  then show "su \<in> set shaped_suites \<Longrightarrow> serving (su_nodes su) \<and> plain_env (su_env su)" by (simp add: list_all_iff)
qed

lemma skip_if_Return: "skip_if versions reason c = (Return (), c') \<longleftrightarrow>
    check_clickhouse_version versions (context_version c) = Inr False \<and> c' = c"
  by (auto simp: skip_if_def bindE_getE split: sum.splits bool.splits)
     (metis (full_types) whenE_simps raise_iff outcome.distinct(1) ret_iff)+

lemma skip_if_unknown: "context_version c = None \<Longrightarrow> skip_if versions reason c = (Return (), c)"
  by (simp add: skip_if_Return check_clickhouse_version_def)

lemma cluster_gate_Return: "cluster_gate g c = (Return (), c') \<longleftrightarrow> c' = c \<and>
    (\<forall>versions reason. g = ClusterGate versions reason \<longrightarrow> check_clickhouse_version versions (context_version c) = Inr False)"
  by (cases g) (auto simp: cluster_gate_def skip_if_Return)

lemma suite_setup_Return: "suite_setup su a c = (Return (), c') \<Longrightarrow> c' = c\<lparr>context_version := call_version a\<rparr>"
  by (cases "su_gate su") (auto simp: suite_setup_def seqE_modifyE early_gate_def skip_if_Return)

text \<open>C12. A run of any of the suites that ends normally has used every part in its place: the cluster was
  built with the version that was asked for, from the suite's directory with the suffix of the processor
  once, however the code names it; the server's version is known and is none that a check inside the
  cluster leaves out; the features, within the steps of the suite, ran on the running cluster and
  returned; and the clean-up of the cluster was the last thing done and succeeded.\<close>

theorem run_suite_contract:
  assumes "retries_law os" and "su \<in> set shaped_suites" and "run_suite os h rn dir su a ctx scope c = (Return (), c')"
  shows "\<exists>c1 c2 c3 v. cluster_init os h (module_init h dir su a) (c\<lparr>context_version := call_version a\<rparr>) = (Return (), c1) \<and>
    project_dir c1 = path_join dir (env_name dir (su_env su)) @ (if host_cpu h = ''aarch64'' then ''_arm64'' else []) \<and>
    cluster_enter os c1 = (Return (), c2) \<and> running c2 \<and> context_version c2 = Some v \<and>
    (\<forall>versions reason. su_gate su = ClusterGate versions reason \<longrightarrow> check_clickhouse_version versions (Some v) = Inr False) \<and>
    scope (run_features rn su (suite_context su a ctx)) c2 = (Return (), c3) \<and> cluster_exit os h c3 = (Return (), c')"
proof -
  let ?x = "(rn, dir, su, a, ctx, scope)"
  obtain c1 c2 c3 where init: "cluster_init os h (module_init h dir su a) (c\<lparr>context_version := call_version a\<rparr>) = (Return (), c1)"
    and enter: "cluster_enter os c1 = (Return (), c2)" and body: "suite_body rn su a ctx scope c2 = (Return (), c3)"
    and leave: "cluster_exit os h c3 = (Return (), c')"
    using shaped.entry_Return [of os h ?x] assms(3) by (auto dest: suite_setup_Return)
  have live: "running c2 \<and> versioned c2"
    using shaped.entered [OF assms(1), of h ?x] init enter suites_ok [OF assms(2)] by (simp add: module_init_def)
  have "project_dir c1 = path_join dir (env_name dir (su_env su)) @ (if host_cpu h = ''aarch64'' then ''_arm64'' else [])"
    using cluster_init_Return [OF init] suites_ok [OF assms(2)] arm_project_path [of "su_env su" h dir] by (simp add: module_init_def)
  then show ?thesis using init enter body leave live by (auto simp: suite_body_def seqE_Return_iff cluster_gate_Return)
qed

text \<open>C22. The checks of the version. A check inside the cluster that finds the server too old skips the suite:
  no step and no feature of it runs, and the cluster is taken down. A check before the cluster skips without
  building one, but it looks at the version on the command line only: without one the suite goes on, and its
  features run on a server of whatever version comes up.\<close>

theorem gates:
  shows "(su_gate su = ClusterGate versions reason \<and>
      cluster_init os h (module_init h dir su a) (c\<lparr>context_version := call_version a\<rparr>) = (Return (), c1) \<and>
      cluster_enter os c1 = (Return (), c2) \<and> check_clickhouse_version versions (context_version c2) = Inr True \<longrightarrow>
      run_suite os h rn dir su a ctx scope c = finallyE (raise (TestSkip reason)) (cluster_exit os h) c2) \<and>
    (su_gate su = EarlyGate versions reason \<and> check_clickhouse_version versions (call_version a) = Inr True \<longrightarrow>
      run_suite os h rn dir su a ctx scope c = (Raise (TestSkip reason), c\<lparr>context_version := call_version a\<rparr>)) \<and>
    (su_gate su = EarlyGate versions reason \<and> call_version a = None \<longrightarrow>
      run_suite os h rn dir su a ctx scope c =
        with_cluster os h (module_init h dir su a) (scope (run_features rn su (suite_context su a ctx))) (c\<lparr>context_version := None\<rparr>))"
proof -
  let ?x = "(rn, dir, su, a, ctx, scope)"
  show ?thesis
  proof (intro conjI impI)
    assume *: "su_gate su = ClusterGate versions reason \<and>
      cluster_init os h (module_init h dir su a) (c\<lparr>context_version := call_version a\<rparr>) = (Return (), c1) \<and>
      cluster_enter os c1 = (Return (), c2) \<and> check_clickhouse_version versions (context_version c2) = Inr True"
    then have "suite_body rn su a ctx scope c2 = (Raise (TestSkip reason), c2)"
      by (simp add: suite_body_def cluster_gate_def skip_if_def seqE_Raise_iff bindE_getE)
    with * have "run_suite os h rn dir su a ctx scope c = finallyE (\<lambda>c. (Raise (TestSkip reason), c2)) (cluster_exit os h) c2"
      using shaped.taken_down(1) [of ?x c "c\<lparr>context_version := call_version a\<rparr>" os h c1 c2]
      by (simp add: suite_setup_def early_gate_def seqE_modifyE)
    then show "run_suite os h rn dir su a ctx scope c = finallyE (raise (TestSkip reason)) (cluster_exit os h) c2"
      by (simp add: finallyE_def raise_def)
  next
    assume *: "su_gate su = EarlyGate versions reason \<and> call_version a = None"
    let ?c = "c\<lparr>context_version := None\<rparr>"
    have "suite_setup su a c = (Return (), ?c)" using * skip_if_unknown [of ?c versions reason]
      by (simp add: suite_setup_def seqE_modifyE early_gate_def)
    then show "run_suite os h rn dir su a ctx scope c =
        with_cluster os h (module_init h dir su a) (scope (run_features rn su (suite_context su a ctx))) ?c"
      using * by (simp add: run_suite_def seqE_step suite_body_def cluster_gate_def)
  qed (auto simp: run_suite_def suite_setup_def seqE_assoc seqE_modifyE seqE_Raise_iff early_gate_def skip_if_def bindE_getE)
qed

text \<open>For the witnesses: a server of version 22.8 whose pid files are empty, and tests that do nothing.\<close>

definition suite_reply :: "string \<Rightarrow> cmd_result option" where
  "suite_reply cmd = Some \<lparr>cmd_output = (if startswith cmd ''cat'' then newline
     else if startswith cmd ''echo -e'' then ''22.8'' else ''c0ffee''), cmd_exitcode = 0\<rparr>"

definition sim_runner :: "'w runner" where
  "sim_runner = \<lparr>run_test = (\<lambda>_ _. ret ()), start_test = (\<lambda>_ _. ret ()), join_tests = ret (), open_pool = (\<lambda>_. ret ()), close_pool = ret ()\<rparr>"

definition sim_call :: "string option \<Rightarrow> call" where
  "sim_call version = \<lparr>call_local = False, call_binary = None, call_version = version, call_collect = False,
     call_stress = None, call_parallel = None, call_fuzzer = False\<rparr>"

definition no_context :: tcontext where
  "no_context = \<lparr>ctx_stress = None, ctx_parallel = None, ctx_node = None, ctx_fips = None, ctx_keeper = None\<rparr>"

lemma base_58_runs:
  "fst (run_suite (sim_os suite_reply) sim_host sim_runner ''/r/base_58'' base_58_suite (sim_call None) no_context id sim_cluster) = Return ()"
  by code_simp

theorem run_suite_contract_witness:
  "\<exists>c1 c2. cluster_enter (sim_os suite_reply) c1 = (Return (), c2) \<and> running c2 \<and> context_version c2 \<noteq> None"
proof -
  let ?run = "run_suite (sim_os suite_reply) sim_host sim_runner ''/r/base_58'' base_58_suite (sim_call None) no_context id sim_cluster"
  have "?run = (Return (), snd ?run)" using base_58_runs by (metis prod.collapse)
  moreover have "base_58_suite \<in> set shaped_suites" by (simp add: shaped_suites_def)
  ultimately show ?thesis using run_suite_contract [OF sim_retries] by blast
qed

theorem gates_witness:
  "run_suite (sim_os suite_reply) sim_host sim_runner ''/r/key_value'' key_value_suite (sim_call (Some ''22.8'')) no_context id sim_cluster =
     (Raise (TestSkip ''only supported on ClickHouse version >= 23.5''), sim_cluster\<lparr>context_version := Some ''22.8''\<rparr>)"
proof -
  have "su_gate key_value_suite = EarlyGate ''<23.5'' ''only supported on ClickHouse version >= 23.5''" by (simp add: key_value_suite_def)
  moreover have "check_clickhouse_version ''<23.5'' (call_version (sim_call (Some ''22.8''))) = Inr True" by code_simp
  moreover have "call_version (sim_call (Some ''22.8'')) = Some ''22.8''" by (simp add: sim_call_def)
  ultimately show ?thesis
    using gates [of key_value_suite "''<23.5''" "''only supported on ClickHouse version >= 23.5''"] by metis
qed

text \<open>The default settings of the queries are as before after the suite for lightweight deletes, however its features
  end; while they run the setting is there, on servers from 22.3 on.\<close>

theorem lightweight_setting_scope:
  assumes "lightweight_setting \<notin> set (default_query_settings c)"
    and "check_clickhouse_version ''>=22.3'' (context_version c) = Inr new"
    and "body (if new then c\<lparr>default_query_settings := default_query_settings c @ [lightweight_setting]\<rparr> else c) = (r, d)"
    and "default_query_settings d = default_query_settings c @ (if new then [lightweight_setting] else [])"
    and "context_version d = context_version c" and "r \<noteq> OutOfFuel"
  shows "allow_experimental_lightweight_delete body c = (r, d\<lparr>default_query_settings := default_query_settings c\<rparr>)"
proof -
  have "tryE (version_matches ''>=22.3'') c = (Return (Inr new), c)"
    using assms(2) by (simp add: tryE_Return_iff version_matches_def bindE_getE)
  moreover have "seqE (whenE new (modifyE (\<lambda>c. c\<lparr>default_query_settings := default_query_settings c @ [lightweight_setting]\<rparr>))) body c = (r, d)"
    using assms(3) by (cases new) (simp_all add: seqE_modifyE)
  moreover have "bindE (version_matches ''>=22.3'') (\<lambda>now. whenE (now \<and> new)
      (modifyE (\<lambda>c. c\<lparr>default_query_settings := remove1 lightweight_setting (default_query_settings c)\<rparr>))) d =
      (Return (), d\<lparr>default_query_settings := default_query_settings c\<rparr>)"
    using assms(1,2,4,5) by (cases new) (simp_all add: version_matches_def bindE_assoc bindE_getE remove1_append modifyE_def)
  ultimately show ?thesis
    using assms(6) unfolding allow_experimental_lightweight_delete_def
    by (cases r) (simp_all add: bindE_step finallyE_def)
qed

theorem lightweight_setting_scope_witness:
  "allow_experimental_lightweight_delete (raise (TestFail ''x'')) (sim_cluster\<lparr>context_version := Some ''22.8''\<rparr>) =
     ((Raise (TestFail ''x'') :: unit outcome), sim_cluster\<lparr>context_version := Some ''22.8''\<rparr>)"
proof -
  let ?c = "sim_cluster\<lparr>context_version := Some ''22.8''\<rparr>"
  have empty: "default_query_settings ?c = []" by (simp add: sim_cluster_def)
  have "check_clickhouse_version ''>=22.3'' (context_version ?c) = Inr True" by code_simp
  from lightweight_setting_scope [OF _ this, of "raise (TestFail ''x'') :: (sim, unit) ceff" "Raise (TestFail ''x'')"
      "?c\<lparr>default_query_settings := [lightweight_setting]\<rparr>"] empty
  show ?thesis by (simp add: sim_cluster_def)
qed

end
