(* ===== verification/Entry_Points.thy ===== *)
theory Entry_Points
  imports Suite_Modules
begin

text \<open>
  How entry points are called: by the options of the command line, by the entry point \<open>regression.py\<close> that
  starts all suites, and by that of \<open>ldap\<close>. Python binds the arguments by name. Also here is the entry
  point of the functional tests.
\<close>

section \<open>Binding arguments\<close>

text \<open>
  The outcome of a call with keyword arguments: an unexpected one is reported before missing ones.
\<close>

datatype binding = Bound | Unexpected string | Missing "string list"

fun bind_call :: "string list \<times> string list \<Rightarrow> string list \<Rightarrow> binding" where
  "bind_call (required, optional) given =
     (case filter (\<lambda>k. k \<notin> set required \<and> k \<notin> set optional) given of
        k # _ \<Rightarrow> Unexpected k
      | [] \<Rightarrow> (case filter (\<lambda>k. k \<notin> set given) required of [] \<Rightarrow> Bound | ks \<Rightarrow> Missing ks))"

definition standard :: "string list" where
  "standard = [''local'', ''clickhouse_binary_path'', ''clickhouse_version'', ''collect_service_logs'']"

text \<open>The entry points of the repository with their required and optional parameters, \<open>self\<close> left out.\<close>

definition signatures :: "(string, string list \<times> string list) pydict" where
  "signatures =
    [(''regression'', [''local'', ''clickhouse_binary_path'', ''clickhouse_version''], [''stress'']),
     (''aes_encryption.regression'', standard, [''stress'']),
     (''aggregate_functions.regression'', standard, [''stress'']),
     (''atomic_insert.regression'', standard, [''stress'', ''thread_fuzzer'']),
     (''base_58.regression'', standard, [''stress'', ''parallel'']),
     (''clickhouse_keeper.regression'', standard, [''ssl'', ''stress'']),
     (''data_types.regression'', standard, [''stress'']),
     (''datetime64_extended_range.regression'', standard, [''stress'']),
     (''disk_level_encryption.regression'', standard, [''stress'']),
     (''dns.regression'', [''local'', ''clickhouse_binary_path'', ''collect_service_logs''],
       [''clickhouse_version'', ''stress'']),
     (''engines.regression'', standard, [''stress'', ''thread_fuzzer'']),
     (''example.regression'', standard, [''stress'']),
     (''extended_precision_data_types.regression'', standard, [''stress'']),
     (''kafka.regression'', standard, [''stress'']),
     (''kerberos.regression'', standard, [''stress'']),
     (''key_value.regression'', standard, [''stress'', ''parallel'']),
     (''ldap.regression'', standard, [''stress'']),
     (''ldap.authentication.regression'', standard, [''stress'']),
     (''ldap.external_user_directory.regression'', standard, [''stress'']),
     (''ldap.role_mapping.regression'', standard, [''stress'']),
     (''lightweight_delete.regression'', standard, [''use_alter_delete'', ''force_run'', ''stress'',
       ''parallel'']),
     (''parquet.regression'', [''local'', ''clickhouse_version'', ''clickhouse_binary_path'',
       ''collect_service_logs'', ''storages'', ''stress'', ''minio_uri'', ''gcs_uri'', ''aws_s3_region'',
       ''aws_s3_bucket'', ''minio_root_user'', ''minio_root_password'', ''aws_s3_access_key'', ''aws_s3_key_id'',
       ''gcs_key_secret'', ''gcs_key_id''], [''node'']),
     (''part_moves_between_shards.regression'', standard, [''stress'', ''thread_fuzzer'']),
     (''rbac.regression'', standard, [''stress'']),
     (''s3.regression'', [''local'', ''clickhouse_binary_path'', ''clickhouse_version'',
       ''collect_service_logs'', ''storages'', ''minio_uri'', ''gcs_uri'', ''aws_s3_region'', ''aws_s3_bucket'',
       ''minio_root_user'', ''minio_root_password'', ''aws_s3_access_key'', ''aws_s3_key_id'', ''gcs_key_secret'',
       ''gcs_key_id'', ''stress''], []),
     (''selects.regression'', standard, [''stress'', ''thread_fuzzer'']),
     (''session_timezone.regression'', standard, [''stress'']),
     (''ssl_keeper.regression'', standard, [''stress'', ''thread_fuzzer'']),
     (''ssl_server.regression'', [''local'', ''clickhouse_binary_path'', ''clickhouse_version'',
       ''collect_service_logs'', ''force_fips''], [''stress'']),
     (''tiered_storage.regression'', standard, [''stress'', ''with_minio'', ''with_s3amazon'', ''with_s3gcs'',
       ''aws_s3_access_key'', ''aws_s3_key_id'', ''aws_s3_uri'', ''gcs_key_secret'', ''gcs_key_id'', ''gcs_uri'']),
     (''window_functions.regression'', standard, [''stress''])]"

section \<open>Options\<close>

text \<open>
  The name under which \<open>argparse\<close> stores an option: the one given, or the flag without its dashes at the start and
  with underscores for the others.
\<close>

definition option_dest :: "string \<times> string option \<Rightarrow> string" where
  "option_dest opt = (case snd opt of
     Some d \<Rightarrow> d
   | None \<Rightarrow> map (\<lambda>c. if c = CHR ''-'' then CHR ''_'' else c) (dropWhile (\<lambda>c. c = CHR ''-'') (fst opt)))"

definition s3_options :: "(string \<times> string option) list" where
  "s3_options =
    [(''--storage'', Some ''storages''), (''--minio-uri'', None), (''--minio-root-user'', None),
     (''--minio-root-password'', None), (''--aws-s3-bucket'', None), (''--aws-s3-region'', None),
     (''--aws-s3-key-id'', None), (''--aws-s3-access-key'', None), (''--gcs-uri'', None), (''--gcs-key-id'', None),
     (''--gcs-key-secret'', None)]"

definition extra_options :: "(string, (string \<times> string option) list) pydict" where
  "extra_options =
    [(''atomic_insert.regression'', [(''--thread-fuzzer'', None)]),
     (''clickhouse_keeper.regression'', [(''--ssl'', None)]),
     (''engines.regression'', [(''--thread-fuzzer'', None)]),
     (''lightweight_delete.regression'', [(''--use-alter-delete'', None), (''--force-run'', None)]),
     (''parquet.regression'', s3_options),
     (''part_moves_between_shards.regression'', [(''--thread_fuzzer'', None)]),
     (''s3.regression'', s3_options),
     (''selects.regression'', [(''--thread-fuzzer'', None)]),
     (''ssl_keeper.regression'', [(''--thread-fuzzer'', None)]),
     (''ssl_server.regression'', [(''--force-fips'', None)]),
     (''tiered_storage.regression'', [(''--with-minio'', None), (''--with-s3amazon'', None), (''--with-s3gcs'', None), (''--aws-s3-access-key'', None), (''--aws-s3-key-id'', None), (''--aws-s3-uri'', None), (''--gcs-uri'', None), (''--gcs-key-id'', None), (''--gcs-key-secret'', None)])]"

definition command_line_args :: "string \<Rightarrow> string list" where
  "command_line_args m =
     map (\<lambda>spec. option_dest (hd (opt_flags spec), None)) (regression_options None None) @
     map option_dest (case map_of extra_options m of None \<Rightarrow> [] | Some opts \<Rightarrow> opts)"

section \<open>Starting all suites\<close>

text \<open>\<open>load(module, "regression")\<close> finds the entry points of the repository.\<close>

definition load_entry :: "string \<Rightarrow> ('s, unit) eff" where
  "load_entry m = (if m \<in> fst ` set signatures then ret () else raise (ModuleNotFoundError m))"

definition root_args :: "string list" where
  "root_args = [''local'', ''clickhouse_binary_path'', ''clickhouse_version'', ''stress'']"

definition root_modules :: "string list" where
  "root_modules =
    [''aes_encryption.regression'', ''aggregate_functions.regression'', ''atomic_insert.regression'',
     ''base_58.regression'', ''clickhouse_keeper.regression'', ''datetime64_extended_range.regression'',
     ''disk_level_encryption.regression'', ''dns.regression'', ''example.regression'',
     ''extended_precision_data_types.regression'', ''kafka.regression'', ''kerberos.regression'',
     ''key_value.regression'', ''ldap.regression'', ''lightweight_delete.regression'', ''map_type.regression'',
     ''part_moves_between_shards.regression'', ''rbac.regression'', ''s3.regression'', ''selects.regression'',
     ''ssl_server.regression'', ''tiered_storage.regression'', ''window_functions.regression'']"

definition root_regression :: "'w runner \<Rightarrow> bool option \<Rightarrow> tcontext \<Rightarrow> ('w, unit) ceff" where
  "root_regression rn stress ctx =
     with_pool rn 4 (forE root_modules (\<lambda>m. seqE (load_entry m) (start_test rn m (ctx\<lparr>ctx_stress := stress\<rparr>))))"

definition ldap_args :: "string list" where
  "ldap_args = [''local'', ''clickhouse_binary_path'', ''clickhouse_version'', ''collect_service_logs'']"

definition ldap_modules :: "string list" where
  "ldap_modules =
    [''ldap.authentication.regression'', ''ldap.external_user_directory.regression'', ''ldap.role_mapping.regression'']"

definition ldap_regression :: "'w runner \<Rightarrow> call \<Rightarrow> tcontext \<Rightarrow> ('w, unit) ceff" where
  "ldap_regression rn a ctx =
     seqE (modifyE (\<lambda>c. c\<lparr>context_version := call_version a\<rparr>))
     (with_pool rn 3 (forE ldap_modules (\<lambda>m. seqE (load_entry m)
        (start_test rn m (if call_stress a \<noteq> None then ctx\<lparr>ctx_stress := call_stress a\<rparr> else ctx)))))"

section \<open>The functional tests\<close>

definition functional_suite :: suite where
  "functional_suite = \<lparr>su_env = ByFolder, su_nodes = [(''clickhouse'', [''clickhouse1''])], su_fuzzer = False, su_gate = NoGate,
     su_pool = None, su_stress = False, su_parallel = False, su_node = None, su_features = []\<rparr>"

definition stateless_dir :: string where
  "stateless_dir = ''/functional/queries/0_stateless/''"

definition stateful_dir :: string where
  "stateful_dir = ''/functional/queries/1_stateful/''"

text \<open>\<open>output.replace("\n", "").split(dir)[1:]\<close> for the listing of a directory.\<close>

definition listed_tests :: "string \<Rightarrow> string \<Rightarrow> string list" where
  "listed_tests dir output = drop 1 (py_split dir (filter (\<lambda>c. [c] \<noteq> newline) output))"

definition list_tests :: "'w os \<Rightarrow> string \<Rightarrow> string \<Rightarrow> ('w, string list) ceff" where
  "list_tests os nm dir =
     bindE (node_command os nm (''ls --color=none '' @ dir @ ''*{.expect,.py,.sh,.sql,.sql.j2}'') default_args) (\<lambda>r.
       ret (listed_tests dir (cmd_output r)))"

definition stateless_command :: "string \<Rightarrow> string" where
  "stateless_command name = ''/functional/clickhouse-test '' @ name @ '' --output /reports/'' @ hd (py_split ''.'' name) @
     '' --shard --zookeeper''"

definition run_functional :: "'w os \<Rightarrow> string \<Rightarrow> string \<Rightarrow> ('w, unit) ceff" where
  "run_functional os nm cmd =
     seqE (node_command os nm cmd (default_args\<lparr>arg_timeout := Some 3600, arg_message := Some ''1 tests passed''\<rparr>)) (ret ())"

text \<open>
  The loop over the stateful tests uses the variable \<open>cmd\<close> of the loop over the stateless ones: the command of the
  last of them, or no value.
\<close>

definition run_stateful :: "'w os \<Rightarrow> string \<Rightarrow> string option \<Rightarrow> string list \<Rightarrow> ('w, unit) ceff" where
  "run_stateful os nm cmd tests = forE tests (\<lambda>_. bindE (local_var ''cmd'' cmd) (\<lambda>cmd. run_functional os nm cmd))"

definition functional_body :: "'w os \<Rightarrow> ('w, unit) ceff" where
  "functional_body os = (let nm = ''clickhouse1'' in
     seqE (node_command os nm ''/functional/config/install.sh'' default_args)
     (seqE (node_command os nm ''sed -i 's/::/0.0.0.0/g' /etc/clickhouse-server/config.d/listen.xml'' default_args)
     (seqE (node_command os nm ''sed -i 's/localhost/zookeeper/g' /etc/clickhouse-server/config.d/zookeeper.xml'' default_args)
     (seqE (restart_clickhouse os nm 300 True True None)
     (bindE (list_tests os nm stateless_dir) (\<lambda>stateless_tests.
      seqE (forE stateless_tests (\<lambda>name. run_functional os nm (stateless_command name)))
      (bindE (list_tests os nm stateful_dir) (\<lambda>stateful_tests.
        run_stateful os nm (if stateless_tests = [] then None else Some (stateless_command (last stateless_tests))) stateful_tests))))))))"

definition functional_regression :: "'w os \<Rightarrow> 'w host \<Rightarrow> string \<Rightarrow> call \<Rightarrow> ('w, unit) ceff" where
  "functional_regression os h dir a =
     seqE (suite_setup functional_suite a) (with_cluster os h (module_init h dir functional_suite a) (functional_body os))"

section \<open>The aggregate functions\<close>

definition aggregate_functions_suite :: suite where
  "aggregate_functions_suite = \<lparr>su_env = FolderEnv, su_nodes = three_nodes, su_fuzzer = False, su_gate = NoGate,
     su_pool = Some 5, su_stress = False, su_parallel = False, su_node = Some ''clickhouse1'', su_features = []\<rparr>"

text \<open>
  A test for every aggregate function: a function whose test does not exist yet is recorded as an expected failure, by
  \<open>xfail_feature\<close>, and the loop goes on. Here \<open>join\<close> is not in a \<open>finally\<close> block. \<open>table_step\<close> makes the table with
  all types and fills it, for the rest of the suite.
\<close>

definition start_aggregates :: "'w runner \<Rightarrow> (string \<Rightarrow> bool) \<Rightarrow> (string \<Rightarrow> ('w, unit) ceff) \<Rightarrow> string list \<Rightarrow> tcontext \<Rightarrow> ('w, unit) ceff" where
  "start_aggregates rn exists_test xfail_feature names ctx = forE names (\<lambda>name.
     let m = ''aggregate_functions.tests.'' @ name in
     if exists_test m then start_test rn m ctx else xfail_feature name)"

definition aggregate_functions_regression ::
  "'w os \<Rightarrow> 'w host \<Rightarrow> 'w runner \<Rightarrow> (string \<Rightarrow> bool) \<Rightarrow> (string \<Rightarrow> ('w, unit) ceff) \<Rightarrow> (('w, unit) ceff \<Rightarrow> ('w, unit) ceff) \<Rightarrow>
   string list \<Rightarrow> string \<Rightarrow> call \<Rightarrow> tcontext \<Rightarrow> ('w, unit) ceff" where
  "aggregate_functions_regression os h rn exists_test xfail_feature table_step names dir a ctx =
     (let ctx' = suite_context aggregate_functions_suite a ctx in
      seqE (modifyE (\<lambda>c. c\<lparr>context_version := call_version a\<rparr>))
      (create_cluster os h ((module_init h dir aggregate_functions_suite a)\<lparr>i_configs_dir := Some dir\<rparr>)
        (table_step
          (seqE (seqE (open_pool rn 5) (finallyE
             (seqE (start_aggregates rn exists_test xfail_feature names ctx') (join_tests rn)) (close_pool rn)))
           (run_test rn ''aggregate_functions.tests.state'' ctx')))))"

section \<open>The performance of keepers\<close>

definition performance_env :: "'w host \<Rightarrow> string \<Rightarrow> string" where
  "performance_env h dir = path_join dir
     (path_basename dir @ (if host_cpu h = ''aarch64'' then ''_env_arm64'' else ''_performance_env''))"

definition performance_init :: "'w host \<Rightarrow> string \<Rightarrow> call \<Rightarrow> string \<Rightarrow> init_args" where
  "performance_init h dir a binary = (module_init h dir (clickhouse_keeper_suite False) a)\<lparr>i_binary_path := Some binary,
     i_nodes := Some (keeper_nodes [''zookeeper1'', ''zookeeper2'', ''zookeeper3'', ''zookeeper'']),
     i_project_dir := Some (performance_env h dir)\<rparr>"

definition performance_setup :: "'w os \<Rightarrow> 'w terminal \<Rightarrow> 'w host \<Rightarrow> 'w runner \<Rightarrow> string \<Rightarrow> call \<Rightarrow> tcontext \<Rightarrow> string \<Rightarrow> bool \<Rightarrow> string \<Rightarrow>
    ('w, unit) ceff" where
  "performance_setup os tm h rn dir a ctx binary ssl feature =
     with_cluster os h (performance_init h dir a binary)
       (seqE (skip_if ''<21.4'' ''only supported on ClickHouse version >= 21.4'')
         (create_3_3_cluster_config os tm h ssl
           (run_test rn (''clickhouse_keeper.tests.performance_files.'' @ feature) (ctx\<lparr>ctx_keeper := Some (keeper_connection ssl)\<rparr>))))"

text \<open>Every binary is measured with and without encryption, with Keeper and with ZooKeeper; then the reports are written.\<close>

definition performance_regression :: "'w os \<Rightarrow> 'w terminal \<Rightarrow> 'w host \<Rightarrow> 'w runner \<Rightarrow> ('w, unit) ceff \<Rightarrow> string \<Rightarrow> call \<Rightarrow> string list \<Rightarrow>
    string option \<Rightarrow> tcontext \<Rightarrow> ('w, unit) ceff" where
  "performance_regression os tm h rn reports dir a binaries env_binary ctx =
     (let ctx' = (if call_stress a \<noteq> None then ctx\<lparr>ctx_stress := call_stress a\<rparr> else ctx);
          binary_list = (if binaries = [] then [case env_binary of None \<Rightarrow> ''/usr/bin/clickhouse'' | Some p \<Rightarrow> p] else binaries) in
      seqE (forE binary_list (\<lambda>binary.
          seqE (modifyE (\<lambda>c. c\<lparr>context_version := call_version a\<rparr>))
            (forE [False, True] (\<lambda>ssl. forE [''keeper'', ''zookeeper''] (performance_setup os tm h rn dir a ctx' binary ssl)))))
        reports)"

section \<open>Facts\<close>

interpretation functional: cluster_module os h "\<lambda>(dir, a). suite_setup functional_suite a"
  "\<lambda>(dir, a). module_init h dir functional_suite a" "\<lambda>(dir, a). functional_body os" "\<lambda>(dir, a). functional_regression os h dir a"
  by unfold_locales (auto simp: functional_regression_def)

interpretation performance: cluster_module os h "\<lambda>_. ret ()" "\<lambda>(tm, rn, dir, a, ctx, binary, ssl, feature). performance_init h dir a binary"
  "\<lambda>(tm, rn, dir, a, ctx, binary, ssl, feature). seqE (skip_if ''<21.4'' ''only supported on ClickHouse version >= 21.4'')
     (create_3_3_cluster_config os tm h ssl
       (run_test rn (''clickhouse_keeper.tests.performance_files.'' @ feature) (ctx\<lparr>ctx_keeper := Some (keeper_connection ssl)\<rparr>)))"
  "\<lambda>(tm, rn, dir, a, ctx, binary, ssl, feature). performance_setup os tm h rn dir a ctx binary ssl feature"
  by unfold_locales (auto simp: performance_setup_def)

text \<open>On an ARM machine the measurements run in the containers of the ordinary suite: its directory is used, where other machines use one of their own.\<close>

lemma performance_directory:
  "arm_dir h (performance_env h dir) = (if host_cpu h = ''aarch64'' then suite_env h dir else performance_env h dir)"
proof (cases "host_cpu h = ''aarch64''")
  case True
  then have "performance_env h dir = suite_env h dir" by (simp add: performance_env_def suite_env_def)
  then show ?thesis using True by (simp add: arm_dir_suite_env)
qed (simp add: arm_dir_def)

text \<open>The pool of the aggregate functions is waited for only when every test could be started; that of the other suites always.\<close>

lemma with_pool_joins:
  assumes "open_pool rn n c = (Return (), c1)" and "starts c1 = (r, c2)" and "r \<noteq> OutOfFuel"
    and "join_tests rn c2 = (q, c3)" and "q \<noteq> OutOfFuel"
  shows "snd (with_pool rn n starts c) = snd (close_pool rn c3)"
proof -
  obtain r' where "finallyE starts (join_tests rn) c1 = (r', c3)" and "r' \<noteq> OutOfFuel"
    using assms(2-5) finallyE_runs [of starts c1 r c2 "join_tests rn"]
    by (cases q; cases r) (simp_all add: finallyE_def)
  from finallyE_runs [of "finallyE starts (join_tests rn)" c1, OF this] show ?thesis
    using assms(1) by (simp add: with_pool_def seqE_step)
qed

lemma bind_call_Bound:
  "bind_call (required, optional) given = Bound \<longleftrightarrow> set required \<subseteq> set given \<and> set given \<subseteq> set required \<union> set optional"
proof -
  let ?A = "filter (\<lambda>k. k \<notin> set required \<and> k \<notin> set optional) given" and ?B = "filter (\<lambda>k. k \<notin> set given) required"
  have "?A = [] \<longleftrightarrow> set given \<subseteq> set required \<union> set optional" "?B = [] \<longleftrightarrow> set required \<subseteq> set given"
    by (auto simp: filter_empty_conv)
  then show ?thesis by (cases ?A; cases ?B) simp_all
qed

definition misses_logs :: "binding \<Rightarrow> bool" where
  "misses_logs b = (case b of Missing ks \<Rightarrow> ''collect_service_logs'' \<in> set ks | _ \<Rightarrow> False)"

lemma command_lines_bind:
  "list_all (\<lambda>(m, sg). bind_call sg (command_line_args m) =
     (if m = ''regression'' then Unexpected ''collect_service_logs'' else Bound)) signatures"
  by code_simp

lemma root_calls_fail:
  "list_all (\<lambda>m. case map_of signatures m of None \<Rightarrow> m = ''map_type.regression''
     | Some sg \<Rightarrow> misses_logs (bind_call sg root_args)) root_modules"
  by code_simp

lemma ldap_calls_bind:
  "list_all (\<lambda>m. case map_of signatures m of None \<Rightarrow> False | Some sg \<Rightarrow> bind_call sg ldap_args = Bound) ldap_modules"
  by code_simp



lemma root_modules_split: "root_modules = take 15 root_modules @ ''map_type.regression'' # drop 16 root_modules"
  by code_simp

lemma root_modules_load: "list_all (\<lambda>m. m \<in> fst ` set signatures) (take 15 root_modules)" "''map_type.regression'' \<notin> fst ` set signatures"
  by code_simp+

lemma load_missing: "load_entry ''map_type.regression'' = raise (ModuleNotFoundError ''map_type.regression'')"
  unfolding load_entry_def using root_modules_load(2) by (rule if_not_P)

lemma forE_load: "list_all (\<lambda>m. m \<in> fst ` set signatures) ms \<Longrightarrow> forE ms (\<lambda>m. seqE (load_entry m) (f m)) = forE ms f"
  by (induction ms) (simp_all add: load_entry_def)


text \<open>A listing of a directory, one path a line, gives the names of the files back.\<close>

lemma find_sep_head: "c \<notin> set t \<Longrightarrow> find_sep (c # sep) (t @ (c # sep) @ rest) = Some (t, rest)"
  by (induction t) (auto simp: startswith_def)

lemma find_sep_absent: "c \<notin> set t \<Longrightarrow> find_sep (c # sep) t = None"
  by (induction t) (auto simp: startswith_def)

lemma split_listing:
  "c \<notin> set t \<Longrightarrow> \<forall>x \<in> set ts. c \<notin> set x \<Longrightarrow> py_split (c # sep) (t @ concat (map (\<lambda>x. c # sep @ x) ts)) = t # ts"
proof (induction ts arbitrary: t)
  case Nil
  then show ?case by (subst py_split.simps) (simp add: find_sep_absent)
next
  case (Cons x ts)
  have "find_sep (c # sep) (t @ (c # sep) @ (x @ concat (map (\<lambda>x. c # sep @ x) ts))) =
      Some (t, x @ concat (map (\<lambda>x. c # sep @ x) ts))"
    using Cons.prems(1) by (rule find_sep_head)
  with Cons show ?case by (subst py_split.simps) simp
qed

text \<open>The functional tests: the names of the stateless tests are read back from the listing of their directory. In
  the second half of the run the stateful tests are not what is run: the commands depend on their number
  only, each is the command of the last stateless test, and without a stateless test the first
  stateful one ends the run with an error.\<close>

theorem functional_tests:
  assumes "\<forall>t \<in> set tests. CHR ''/'' \<notin> set t \<and> (\<forall>ch \<in> set t. [ch] \<noteq> newline)"
  shows "listed_tests stateless_dir (concat (map (\<lambda>t. stateless_dir @ t @ newline) tests)) = tests \<and>
   run_stateful os nm (Some cmd) stateful = forE (replicate (length stateful) cmd) (run_functional os nm) \<and>
   run_stateful os nm None stateful c = (if stateful = [] then (Return (), c) else (Raise (UnboundLocalError ''cmd''), c))"
proof -
  have clean: "filter (\<lambda>c. [c] \<noteq> newline) t = t" if "t \<in> set tests" for t
    using that assms by (auto intro: filter_True)
  have "filter (\<lambda>c. [c] \<noteq> newline) (concat (map (\<lambda>t. stateless_dir @ t @ newline) tests)) =
      concat (map (\<lambda>t. stateless_dir @ t) tests)"
  proof -
    have "filter (\<lambda>c. [c] \<noteq> newline) (stateless_dir @ t @ newline) = stateless_dir @ t" if "t \<in> set tests" for t
      using clean [OF that] by (simp add: stateless_dir_def newline_def)
    then show ?thesis by (simp add: filter_concat comp_def cong: map_cong)
  qed
  moreover have "py_split stateless_dir ([] @ concat (map (\<lambda>t. stateless_dir @ t) tests)) = [] # tests"
    using split_listing [of "CHR ''/''" "[]" tests "''functional/queries/0_stateless/''"] assms by (simp add: stateless_dir_def)
  ultimately have "listed_tests stateless_dir (concat (map (\<lambda>t. stateless_dir @ t @ newline) tests)) = tests"
    by (simp add: listed_tests_def)
  moreover have "run_stateful os nm (Some cmd) stateful = forE (replicate (length stateful) cmd) (run_functional os nm)"
    by (induction stateful) (simp_all add: run_stateful_def local_var_def)
  ultimately show ?thesis by (cases stateful) (simp_all add: run_stateful_def local_var_def)
qed

theorem functional_tests_witness:
  "listed_tests stateless_dir (stateless_dir @ ''a.sql'' @ newline @ stateless_dir @ ''b.sh'' @ newline) = [''a.sql'', ''b.sh'']"
proof -
  have "\<forall>t \<in> set [''a.sql'', ''b.sh'']. CHR ''/'' \<notin> set t \<and> (\<forall>ch \<in> set t. [ch] \<noteq> newline)" by code_simp
  from functional_tests [OF this, THEN conjunct1] show ?thesis by simp
qed

end
