(* ===== verification/Storage_Suites.thy ===== *)
theory Storage_Suites
  imports Suite_Modules
begin

text \<open>
  The suites that test storage: \<open>s3/regression.py\<close>, \<open>tiered_storage/regression.py\<close> and the benchmark
  \<open>ontime_benchmark/benchmark.py\<close>, with the step that starts MinIO from an empty state. A credential is an option of the command line
  or a variable of the environment; a missing one is \<open>None\<close>.
\<close>

section \<open>Credentials\<close>

record storage_args =
  storages :: "string list option"
  minio_uri :: string
  minio_root_user :: string
  minio_root_password :: string
  aws_s3_bucket :: "string option"
  aws_s3_region :: "string option"
  aws_s3_key_id :: "string option"
  aws_s3_access_key :: "string option"
  gcs_uri :: "string option"
  gcs_key_id :: "string option"
  gcs_key_secret :: "string option"

text \<open>\<open>if x == None: fail(message)\<close>, then \<open>x.value\<close>.\<close>

definition required :: "string \<Rightarrow> string option \<Rightarrow> ('s, string) eff" where
  "required message x = (case x of None \<Rightarrow> raise (TestFail message) | Some v \<Rightarrow> ret v)"

text \<open>\<open>x.value\<close> of an option that may be \<open>None\<close>.\<close>

definition secret_value :: "string option \<Rightarrow> ('s, string) eff" where
  "secret_value x = (case x of None \<Rightarrow> raise (AttributeError ''value'') | Some v \<Rightarrow> ret v)"

section \<open>Starting MinIO\<close>

text \<open>
  The client of the object store is a library: its operations on buckets and the objects in
  them. The step empties every bucket and makes the two it uses anew, and tries again after a second
  when anything raises.
\<close>

record 'w minio =
  list_buckets :: "('w, string list) eff"
  list_objects :: "string \<Rightarrow> ('w, string list) eff"
  remove_object :: "string \<Rightarrow> string \<Rightarrow> ('w, unit) eff"
  bucket_exists :: "string \<Rightarrow> ('w, bool) eff"
  remove_bucket :: "string \<Rightarrow> ('w, unit) eff"
  make_bucket :: "string \<Rightarrow> ('w, unit) eff"
  minio_time :: "('w, rat) eff"
  minio_sleep :: "rat \<Rightarrow> ('w, unit) eff"

definition empty_bucket :: "'w minio \<Rightarrow> string \<Rightarrow> ('w, unit) eff" where
  "empty_bucket mc b = bindE (list_objects mc b) (\<lambda>names. forE names (\<lambda>nm. remove_object mc b nm))"

definition new_bucket :: "'w minio \<Rightarrow> string \<Rightarrow> ('w, unit) eff" where
  "new_bucket mc b = bindE (bucket_exists mc b) (\<lambda>present.
     seqE (whenE present (seqE (empty_bucket mc b) (remove_bucket mc b))) (make_bucket mc b))"

definition reset_buckets :: "'w minio \<Rightarrow> ('w, unit) eff" where
  "reset_buckets mc =
     bindE (list_buckets mc) (\<lambda>bs. seqE (forE bs (empty_bucket mc)) (forE [''root'', ''root2''] (new_bucket mc)))"

fun minio_loop :: "'w minio \<Rightarrow> rat \<Rightarrow> rat \<Rightarrow> nat \<Rightarrow> ('w, unit) eff" where
  "minio_loop mc start timeout 0 = out_of_fuel"
| "minio_loop mc start timeout (Suc n) =
     bindE (minio_time mc) (\<lambda>t.
       if t - start < timeout
       then catchE (reset_buckets mc) (\<lambda>e. if is_Exception e
              then seqE (minio_sleep mc 1) (minio_loop mc start timeout n) else raise e)
       else raise (PyException ''Can't wait Minio to start''))"

text \<open>One second goes by in every round but the last: one more round than the timeout has seconds is enough.\<close>

definition start_minio :: "'w minio \<Rightarrow> nat \<Rightarrow> ('w, unit) eff" where
  "start_minio mc timeout = bindE (minio_time mc) (\<lambda>start. minio_loop mc start (of_nat timeout) (Suc timeout))"

section \<open>The suite for S3\<close>

definition s3_suite :: suite where
  "s3_suite = \<lparr>su_env = ByFolder, su_nodes = three_nodes, su_fuzzer = False, su_gate = NoGate, su_pool = None,
     su_stress = False, su_parallel = False, su_node = None, su_features = []\<rparr>"

text \<open>Running the test of a module with arguments.\<close>

type_synonym 'w tester = "string \<Rightarrow> string \<Rightarrow> (string, string) pydict \<Rightarrow> ('w, unit) ceff"

definition minio_features :: "string list" where
  "minio_features = [''table_function'', ''backup'', ''table_function_invalid'', ''disk'', ''disk_invalid'', ''sanity'', ''reconnect'',
     ''zero_copy_replication'']"

definition with_environ :: "'w host \<Rightarrow> string \<Rightarrow> call \<Rightarrow> (string, string) pydict \<Rightarrow> init_args" where
  "with_environ h dir a env = (module_init h dir s3_suite a)\<lparr>i_environ := Some env\<rparr>"

definition minio_regression :: "'w os \<Rightarrow> 'w host \<Rightarrow> 'w minio \<Rightarrow> 'w tester \<Rightarrow> string \<Rightarrow> call \<Rightarrow> string \<Rightarrow> string \<Rightarrow> string \<Rightarrow> ('w, unit) ceff" where
  "minio_regression os h mc tester dir a uri root_user root_password =
     with_cluster os h (with_environ h dir a [(''MINIO_ROOT_PASSWORD'', root_password), (''MINIO_ROOT_USER'', root_user)])
       (seqE (inW (start_minio mc 30))
       (seqE (forE minio_features (\<lambda>f. tester (''s3.tests.'' @ f) ''minio''
          [(''uri'', uri @ ''/root/data/''), (''key'', root_user), (''secret'', root_password)]))
        (tester ''s3.tests.cit'' ''feature'' [(''uri'', uri)])))"

definition aws_features :: "string list" where
  "aws_features = [''table_function'', ''table_function_invalid'', ''disk'', ''sanity'', ''disk_invalid'', ''zero_copy_replication'', ''reconnect'']"

definition aws_environ :: "string \<Rightarrow> string \<Rightarrow> string \<Rightarrow> (string, string) pydict" where
  "aws_environ key_id access_key region =
     [(''S3_AMAZON_ACCESS_KEY'', access_key), (''S3_AMAZON_KEY_ID'', key_id), (''AWS_ACCESS_KEY_ID'', key_id),
      (''AWS_SECRET_ACCESS_KEY'', access_key), (''AWS_DEFAULT_REGION'', region)]"

definition aws_body :: "'w tester \<Rightarrow> string \<Rightarrow> string \<Rightarrow> string \<Rightarrow> string \<Rightarrow> ('w, unit) ceff" where
  "aws_body tester key_id access_key bucket region =
     (let uri = ''https://s3.'' @ region @ ''.amazonaws.com/'' @ bucket @ ''/data/'';
          args = [(''uri'', uri), (''key_id'', key_id), (''access_key'', access_key)] in
      seqE (forE aws_features (\<lambda>f. tester (''s3.tests.'' @ f) ''aws_s3'' args))
        (tester ''s3.tests.backup'' ''aws_s3'' (args @ [(''region'', region), (''bucket'', bucket)])))"

definition aws_s3_regression :: "'w os \<Rightarrow> 'w host \<Rightarrow> 'w tester \<Rightarrow> string \<Rightarrow> call \<Rightarrow>
    string option \<Rightarrow> string option \<Rightarrow> string option \<Rightarrow> string option \<Rightarrow> ('w, unit) ceff" where
  "aws_s3_regression os h tester dir a key_id access_key bucket region =
     bindE (required ''AWS S3 access key needs to be set'' access_key) (\<lambda>access_key.
     bindE (required ''AWS S3 key id needs to be set'' key_id) (\<lambda>key_id.
     bindE (required ''AWS S3 bucket needs to be set'' bucket) (\<lambda>bucket.
     bindE (required ''AWS S3 region needs to be set'' region) (\<lambda>region.
       with_cluster os h (with_environ h dir a (aws_environ key_id access_key region)) (aws_body tester key_id access_key bucket region)))))"

definition gcs_features :: "string list" where
  "gcs_features = [''table_function'', ''table_function_invalid'', ''disk'', ''zero_copy_replication'', ''disk_invalid'', ''backup'']"

definition gcs_regression :: "'w os \<Rightarrow> 'w host \<Rightarrow> 'w tester \<Rightarrow> string \<Rightarrow> call \<Rightarrow>
    string option \<Rightarrow> string option \<Rightarrow> string option \<Rightarrow> ('w, unit) ceff" where
  "gcs_regression os h tester dir a uri key_id access_key =
     bindE (required ''GCS uri needs to be set'' uri) (\<lambda>uri.
     bindE (required ''GCS access key needs to be set'' access_key) (\<lambda>access_key.
     bindE (required ''GCS key id needs to be set'' key_id) (\<lambda>key_id.
       with_cluster os h (with_environ h dir a [(''GCS_KEY_SECRET'', access_key), (''GCS_KEY_ID'', key_id)])
         (forE gcs_features (\<lambda>f. tester (''s3.tests.'' @ f) ''gcs'' [(''uri'', uri), (''key_id'', key_id), (''access_key'', access_key)])))))"

definition chosen_storages :: "string list option \<Rightarrow> string list" where
  "chosen_storages x = (case x of None \<Rightarrow> [''minio''] | Some ss \<Rightarrow> ss)"

definition s3_regression :: "'w os \<Rightarrow> 'w host \<Rightarrow> 'w minio \<Rightarrow> 'w tester \<Rightarrow> string \<Rightarrow> call \<Rightarrow> storage_args \<Rightarrow> ('w, unit) ceff" where
  "s3_regression os h mc tester dir a s =
     (let chosen = chosen_storages (storages s) in
      seqE (modifyE (\<lambda>c. c\<lparr>context_version := call_version a\<rparr>))
      (seqE (whenE (''minio'' \<in> set chosen)
        (minio_regression os h mc tester dir a (minio_uri s) (minio_root_user s) (minio_root_password s)))
      (seqE (whenE (''aws_s3'' \<in> set chosen)
        (aws_s3_regression os h tester dir a (aws_s3_key_id s) (aws_s3_access_key s) (aws_s3_bucket s) (aws_s3_region s)))
        (whenE (''gcs'' \<in> set chosen)
          (gcs_regression os h tester dir a (gcs_uri s) (gcs_key_id s) (gcs_key_secret s))))))"

section \<open>The suite for tiered storage\<close>

record tiered_args =
  with_minio :: bool
  with_s3amazon :: bool
  with_s3gcs :: bool
  t_aws_key_id :: "string option"
  t_aws_access_key :: "string option"
  t_aws_uri :: "string option"
  t_gcs_key_id :: "string option"
  t_gcs_key_secret :: "string option"
  t_gcs_uri :: "string option"

text \<open>
  The variables for the services, from credentials that are read in the order of the assertions. An
  assertion asks whether the value of a credential is missing, which it never is: a credential
  that was not given is \<open>None\<close> itself and has no value to ask for.
\<close>

definition three_values :: "string option \<Rightarrow> string option \<Rightarrow> string option \<Rightarrow> (string \<Rightarrow> string \<Rightarrow> string \<Rightarrow> (string, string) pydict) \<Rightarrow>
    ('s, (string, string) pydict) eff" where
  "three_values x y z f = bindE (secret_value x) (\<lambda>x. bindE (secret_value y) (\<lambda>y. bindE (secret_value z) (\<lambda>z. ret (f x y z))))"

definition tiered_environ :: "tiered_args \<Rightarrow> ('s, (string, string) pydict) eff" where
  "tiered_environ s =
     bindE (if with_s3amazon s
            then three_values (t_aws_key_id s) (t_aws_access_key s) (t_aws_uri s) (\<lambda>key secret uri.
              [(''S3_AMAZON_KEY_ID'', key), (''S3_AMAZON_ACCESS_KEY'', secret), (''S3_AMAZON_URI'', uri)])
            else ret []) (\<lambda>aws.
     bindE (if with_s3gcs s
            then three_values (t_gcs_key_id s) (t_gcs_key_secret s) (t_gcs_uri s) (\<lambda>key secret uri.
              [(''GCS_KEY_ID'', key), (''GCS_KEY_SECRET'', secret), (''GCS_URI'', uri)])
            else ret []) (\<lambda>gcs. ret (aws @ gcs)))"

definition s3_disk :: "string \<Rightarrow> string \<Rightarrow> string \<Rightarrow> entries" where
  "s3_disk endpoint key secret = [(Key ''type'', Text ''s3''), (Key ''endpoint'', Text endpoint), (Key ''access_key_id'', Text key),
     (Key ''secret_access_key'', Text secret)]"

definition external_disk :: "tiered_args \<Rightarrow> (string, string) pydict \<Rightarrow> ('s, entries) eff" where
  "external_disk s env =
     (let from_environ = (\<lambda>uri key secret. bindE (getitem env uri) (\<lambda>u. bindE (getitem env key) (\<lambda>k.
            bindE (getitem env secret) (\<lambda>x. ret (s3_disk u k x))))) in
      if with_minio s then ret (s3_disk ''http://minio:9001/root/data/'' ''minio'' ''minio123'')
      else if with_s3amazon s then from_environ ''S3_AMAZON_URI'' ''S3_AMAZON_KEY_ID'' ''S3_AMAZON_ACCESS_KEY''
      else if with_s3gcs s then from_environ ''GCS_URI'' ''GCS_KEY_ID'' ''GCS_KEY_SECRET''
      else ret [(Key ''path'', Text ''/external/'')])"

definition tiered_disks :: "entries \<Rightarrow> entries" where
  "tiered_disks external =
     [(Key ''default'', Dict [(Key ''keep_free_space_bytes'', Text ''1024'')]),
      (Key ''jbod1'', Dict [(Key ''path'', Text ''/jbod1/'')]),
      (Key ''jbod2'', Dict [(Key ''path'', Text ''/jbod2/''), (Key ''keep_free_space_bytes'', Text ''10485760'')]),
      (Key ''jbod3'', Dict [(Key ''path'', Text ''/jbod3/''), (Key ''keep_free_space_ratio'', Text ''0.5'')]),
      (Key ''external'', Dict external)]"

definition tiered_policies :: entries where
  "tiered_policies =
    [(Key ''one_small_disk'', Dict [(Key ''volumes'', Dict [(Key ''main'', Dict [(Key ''disk'', Text ''jbod1'')])])]),
     (Key ''small_jbod_with_external'', Dict [(Key ''volumes'', Dict [(Key ''main'', Dict [(Key ''disk'', Text ''jbod1'')]), (Key ''external'', Dict [(Key ''disk'', Text ''external'')])])]),
     (Key ''jbods'', Dict [(Key ''volumes'', Dict [(Key ''main'', Entries [[(Key ''disk'', Text ''jbod1'')], [(Key ''disk'', Text ''jbod2'')]])])]),
     (Key ''jbods_with_external'', Dict [(Key ''volumes'', Dict [(Key ''main'', Entries [[(Key ''disk'', Text ''jbod1'')], [(Key ''disk'', Text ''jbod2'')], [(Key ''max_data_part_size_bytes'', Text ''10485760'')]]), (Key ''external'', Dict [(Key ''disk'', Text ''external'')])])]),
     (Key ''moving_jbod_with_external'', Dict [(Key ''volumes'', Dict [(Key ''main'', Dict [(Key ''disk'', Text ''jbod1'')]), (Key ''external'', Dict [(Key ''disk'', Text ''external'')])]), (Key ''move_factor'', Text ''0.7'')]),
     (Key ''jbods_with_external_ratio'', Dict [(Key ''volumes'', Dict [(Key ''main'', Entries [[(Key ''disk'', Text ''jbod1'')], [(Key ''disk'', Text ''jbod2'')], [(Key ''max_data_part_size_ratio'', Text ''0.25'')]]), (Key ''external'', Dict [(Key ''disk'', Text ''external'')])])]),
     (Key ''moving_max_jbod_with_external'', Dict [(Key ''volumes'', Dict [(Key ''main'', Dict [(Key ''disk'', Text ''jbod1'')]), (Key ''external'', Dict [(Key ''disk'', Text ''external'')])]), (Key ''move_factor'', Text ''1'')]),
     (Key ''moving_min_jbod_with_external'', Dict [(Key ''volumes'', Dict [(Key ''main'', Dict [(Key ''disk'', Text ''jbod1'')]), (Key ''external'', Dict [(Key ''disk'', Text ''external'')])]), (Key ''move_factor'', Text ''0'')]),
     (Key ''default_disk_with_external'', Dict [(Key ''volumes'', Dict [(Key ''small'', Entries [[(Key ''disk'', Text ''default'')], [(Key ''max_data_part_size_bytes'', Text ''2097152'')]]), (Key ''big'', Entries [[(Key ''disk'', Text ''external'')], [(Key ''max_data_part_size_bytes'', Text ''20971520'')]])])]),
     (Key ''jbod1_with_jbod2'', Dict [(Key ''volumes'', Dict [(Key ''main'', Dict [(Key ''disk'', Text ''jbod1'')]), (Key ''external'', Dict [(Key ''disk'', Text ''jbod2'')])])]),
     (Key ''fast_med_and_slow'', Dict [(Key ''volumes'', Dict [(Key ''fast'', Dict [(Key ''disk'', Text ''jbod1'')]), (Key ''medium'', Dict [(Key ''disk'', Text ''jbod2'')]), (Key ''slow'', Dict [(Key ''disk'', Text ''external'')])])]),
     (Key ''only_jbod1'', Dict [(Key ''volumes'', Dict [(Key ''main'', Dict [(Key ''disk'', Text ''jbod1'')])])]),
     (Key ''only_jbod2'', Dict [(Key ''volumes'', Dict [(Key ''main'', Dict [(Key ''disk'', Text ''jbod2'')])])]),
     (Key ''only_jbod3'', Dict [(Key ''volumes'', Dict [(Key ''main'', Dict [(Key ''disk'', Text ''jbod3'')])])]),
     (Key ''special_warning_zero_volume'', Dict [(Key ''volumes'', Dict [(Key ''special_warning_zero_volume'', Entries [[(Key ''disk'', Text ''default'')], [(Key ''max_data_part_size_bytes'', Text ''0'')]]), (Key ''special_warning_default_volume'', Dict [(Key ''disk'', Text ''external'')]), (Key ''special_warning_small_volume'', Entries [[(Key ''disk'', Text ''jbod1'')], [(Key ''max_data_part_size_bytes'', Text ''1024'')]]), (Key ''special_warning_big_volume'', Entries [[(Key ''disk'', Text ''jbod2'')], [(Key ''max_data_part_size_bytes'', Text ''1024000000'')]])])])]"

definition storage_configuration :: "entries \<Rightarrow> entries \<Rightarrow> entries" where
  "storage_configuration disks policies =
     [(Key ''storage_configuration'', Dict [(Key ''disks'', Entries [disks]), (Key ''policies'', Dict policies)])]"

definition tiered_features :: "string list" where
  "tiered_features =
    [''tiered_storage.tests.startup_and_queries'', ''tiered_storage.tests.metadata'',
     ''tiered_storage.tests.no_changes_to_queries'',
     ''tiered_storage.tests.volume_config_either_max_data_part_size_bytes_or_ratio'',
     ''tiered_storage.tests.system_tables'', ''tiered_storage.tests.system_detached_parts'',
     ''tiered_storage.tests.attach_or_replace_partition_different_policies'', ''tiered_storage.tests.query_parser'',
     ''tiered_storage.tests.keep_free_space'', ''tiered_storage.tests.no_warning_about_zero_max_data_part_size'',
     ''tiered_storage.tests.round_robin'', ''tiered_storage.tests.max_data_part_size'',
     ''tiered_storage.tests.jbod_overflow'', ''tiered_storage.tests.start_stop_moves'',
     ''tiered_storage.tests.mutate_to_another_disk'', ''tiered_storage.tests.alter_table_policy'',
     ''tiered_storage.tests.simple_replication_and_moves'', ''tiered_storage.tests.download_appropriate_disk'',
     ''tiered_storage.tests.download_appropriate_disk_advanced'',
     ''tiered_storage.tests.download_appropriate_disk_max_data_part_size'', ''tiered_storage.tests.rename'',
     ''tiered_storage.tests.freeze'', ''tiered_storage.tests.double_move_while_select'',
     ''tiered_storage.tests.background_move.feature'', ''tiered_storage.tests.alter_move.feature'',
     ''tiered_storage.tests.manual_move_with_downtime'', ''tiered_storage.tests.merge_parts_different_volumes'',
     ''tiered_storage.tests.merge_parts_different_volumes_no_space'', ''tiered_storage.tests.ttl_moves.feature'',
     ''tiered_storage.tests.change_config_norestart.feature'']"

text \<open>
  \<open>add_everywhere\<close> is the step of the tests that adds a configuration, with its file name and whether to restart, on all nodes
  for as long as the body runs.
\<close>

type_synonym 'w config_step = "entries \<Rightarrow> string \<Rightarrow> bool \<Rightarrow> ('w, unit) ceff \<Rightarrow> ('w, unit) ceff"

definition tiered_feature :: "'w os \<Rightarrow> 'w host \<Rightarrow> 'w config_step \<Rightarrow> 'w runner \<Rightarrow> string \<Rightarrow> call \<Rightarrow> tiered_args \<Rightarrow>
    (string, string) pydict \<Rightarrow> tcontext \<Rightarrow> ('w, unit) ceff" where
  "tiered_feature os h add_everywhere rn dir a s env ctx =
     with_cluster os h (with_environ h dir a env)
       (bindE (external_disk s env) (\<lambda>external.
          add_everywhere (storage_configuration (tiered_disks external) tiered_policies) ''storage_configuration.xml'' True
            (forE tiered_features (\<lambda>f. run_test rn f ctx))))"

definition tiered_storage_regression :: "'w os \<Rightarrow> 'w host \<Rightarrow> 'w config_step \<Rightarrow> 'w runner \<Rightarrow> string \<Rightarrow> call \<Rightarrow> tiered_args \<Rightarrow>
    tcontext \<Rightarrow> ('w, unit) ceff" where
  "tiered_storage_regression os h add_everywhere rn dir a s ctx =
     seqE (modifyE (\<lambda>c. c\<lparr>context_version := call_version a\<rparr>))
     (bindE (with_shell os (\<lambda>sh. tiered_environ s)) (\<lambda>env. tiered_feature os h add_everywhere rn dir a s env ctx))"

section \<open>The benchmark of storages\<close>

text \<open>
  The variables \<open>uri\<close>, \<open>access_key_id\<close> and \<open>secret_access_key\<close> are set outside the loop over the storages: a storage that is none
  of the three known keeps those of the one before it.
\<close>

type_synonym account = "string option \<times> string option \<times> string option"

definition benchmark_account :: "storage_args \<Rightarrow> string \<Rightarrow> account \<Rightarrow> ('s, account \<times> (string, string) pydict) eff" where
  "benchmark_account s storage acc =
     (if py_lower storage = ''aws_s3'' then
        bindE (required ''AWS S3 access key needs to be set'' (aws_s3_access_key s)) (\<lambda>secret.
        bindE (required ''AWS S3 key id needs to be set'' (aws_s3_key_id s)) (\<lambda>key.
        bindE (required ''AWS S3 bucket needs to be set'' (aws_s3_bucket s)) (\<lambda>bucket.
        bindE (required ''AWS S3 region needs to be set'' (aws_s3_region s)) (\<lambda>region.
          ret ((Some (''https://s3.'' @ region @ ''.amazonaws.com/'' @ bucket @ ''/data/benchmark/''), Some key, Some secret), [])))))
      else if py_lower storage = ''minio'' then
        ret ((Some ''http://minio1:9001/root/data/benchmark/'', Some ''minio'', Some ''minio123''),
          [(''MINIO_ROOT_PASSWORD'', ''minio123''), (''MINIO_ROOT_USER'', ''minio'')])
      else if py_lower storage = ''gcs'' then
        bindE (secret_value (gcs_uri s)) (\<lambda>uri. bindE (secret_value (gcs_key_id s)) (\<lambda>key.
          bindE (secret_value (gcs_key_secret s)) (\<lambda>secret. ret ((Some uri, Some key, Some secret), []))))
      else ret (acc, []))"

definition benchmark_disks :: "account \<Rightarrow> entries" where
  "benchmark_disks acc = (case acc of (uri, key, secret) \<Rightarrow>
     [(Key ''default'', Dict [(Key ''keep_free_space_bytes'', Text ''1024'')]),
      (Key ''external'', Dict (s3_disk (node_text uri) (node_text key) (node_text secret)))])"

definition benchmark_policies :: entries where
  "benchmark_policies =
     [(Key ''default'', Dict [(Key ''volumes'', Dict [(Key ''default'', Dict [(Key ''disk'', Text ''default'')])])]),
      (Key ''external'', Dict [(Key ''volumes'', Dict [(Key ''external'', Dict [(Key ''disk'', Text ''external'')])])]),
      (Key ''tiered'', Dict [(Key ''volumes'', Dict [(Key ''default'', Dict [(Key ''disk'', Text ''default'')]),
        (Key ''external'', Dict [(Key ''disk'', Text ''external'')])])])]"

definition benchmark_one :: "'w os \<Rightarrow> 'w host \<Rightarrow> 'w config_step \<Rightarrow> ('w, unit) ceff \<Rightarrow> string \<Rightarrow> call \<Rightarrow> account \<Rightarrow>
    (string, string) pydict \<Rightarrow> ('w, unit) ceff" where
  "benchmark_one os h add_everywhere feature dir a acc env =
     with_cluster os h (with_environ h dir a env)
       (add_everywhere (storage_configuration (benchmark_disks acc) benchmark_policies) ''storage.xml'' False feature)"

fun benchmark_loop :: "'w os \<Rightarrow> 'w host \<Rightarrow> 'w config_step \<Rightarrow> ('w, unit) ceff \<Rightarrow> string \<Rightarrow> call \<Rightarrow> storage_args \<Rightarrow>
    string list \<Rightarrow> account \<Rightarrow> ('w, unit) ceff" where
  "benchmark_loop os h add_everywhere feature dir a s [] acc = ret ()"
| "benchmark_loop os h add_everywhere feature dir a s (storage # rest) acc =
     bindE (benchmark_account s storage acc) (\<lambda>(acc', env).
       seqE (benchmark_one os h add_everywhere feature dir a acc' env)
         (benchmark_loop os h add_everywhere feature dir a s rest acc'))"

definition benchmark_regression :: "'w os \<Rightarrow> 'w host \<Rightarrow> 'w config_step \<Rightarrow> ('w, unit) ceff \<Rightarrow> string \<Rightarrow> call \<Rightarrow> storage_args \<Rightarrow> ('w, unit) ceff" where
  "benchmark_regression os h add_everywhere feature dir a s =
     seqE (modifyE (\<lambda>c. c\<lparr>context_version := call_version a\<rparr>))
       (benchmark_loop os h add_everywhere feature dir a s (chosen_storages (storages s)) (None, None, None))"

section \<open>What starting MinIO leaves\<close>

text \<open>
  What the library promises, over the objects of each bucket that \<open>view\<close> shows: an operation that returns has done
  what its name says. Nothing is said of one that raises.
\<close>

definition minio_law :: "'w minio \<Rightarrow> ('w \<Rightarrow> string \<rightharpoonup> string set) \<Rightarrow> bool" where
  "minio_law mc view \<longleftrightarrow>
     (\<forall>w bs w'. list_buckets mc w = (Return bs, w') \<longrightarrow> view w' = view w \<and> set bs = dom (view w)) \<and>
     (\<forall>w b ns w'. list_objects mc b w = (Return ns, w') \<longrightarrow> view w' = view w \<and> (\<forall>S. view w b = Some S \<longrightarrow> set ns = S)) \<and>
     (\<forall>w b n w' u. remove_object mc b n w = (Return u, w') \<longrightarrow> (\<forall>S. view w b = Some S \<longrightarrow> view w' = (view w)(b \<mapsto> S - {n}))) \<and>
     (\<forall>w b x w'. bucket_exists mc b w = (Return x, w') \<longrightarrow> view w' = view w \<and> x = (view w b \<noteq> None)) \<and>
     (\<forall>w b w' u. remove_bucket mc b w = (Return u, w') \<longrightarrow> view w' = (view w)(b := None)) \<and>
     (\<forall>w b w' u. make_bucket mc b w = (Return u, w') \<longrightarrow> view w' = (view w)(b \<mapsto> {}))"

text \<open>Time never goes back, and a pause takes its time.\<close>

definition timely :: "('w \<Rightarrow> rat) \<Rightarrow> ('w, 'a) eff \<Rightarrow> bool" where
  "timely time_of m \<longleftrightarrow> ends (\<lambda>_. True) m \<and> (\<forall>t. keeps (\<lambda>w. t \<le> time_of w) m)"

definition minio_clock :: "'w minio \<Rightarrow> ('w \<Rightarrow> rat) \<Rightarrow> bool" where
  "minio_clock mc time_of \<longleftrightarrow> timely time_of (list_buckets mc) \<and> (\<forall>b. timely time_of (list_objects mc b)) \<and>
     (\<forall>b n. timely time_of (remove_object mc b n)) \<and> (\<forall>b. timely time_of (bucket_exists mc b)) \<and>
     (\<forall>b. timely time_of (remove_bucket mc b)) \<and> (\<forall>b. timely time_of (make_bucket mc b)) \<and>
     (\<forall>w. minio_time mc w = (Return (time_of w), w)) \<and>
     (\<forall>d w. \<exists>w'. minio_sleep mc d w = (Return (), w') \<and> time_of w + d \<le> time_of w')"

lemma minio_lawD:
  assumes "minio_law mc view"
  shows "list_buckets mc w = (Return bs, w') \<Longrightarrow> view w' = view w \<and> set bs = dom (view w)"
    and "list_objects mc b w = (Return ns, w') \<Longrightarrow> view w' = view w \<and> (\<forall>S. view w b = Some S \<longrightarrow> set ns = S)"
    and "remove_object mc b n w = (Return u, w') \<Longrightarrow> view w b = Some S \<Longrightarrow> view w' = (view w)(b \<mapsto> S - {n})"
    and "bucket_exists mc b w = (Return x, w') \<Longrightarrow> view w' = view w \<and> x = (view w b \<noteq> None)"
    and "remove_bucket mc b w = (Return u, w') \<Longrightarrow> view w' = (view w)(b := None)"
    and "make_bucket mc b w = (Return u, w') \<Longrightarrow> view w' = (view w)(b \<mapsto> {})"
  using assms unfolding minio_law_def by (elim conjE, simp)+

lemma remove_all:
  assumes "minio_law mc view"
  shows "forE names (\<lambda>n. remove_object mc b n) w = (Return u, w') \<Longrightarrow> view w b = Some S \<Longrightarrow> view w' = (view w)(b \<mapsto> S - set names)"
proof (induction names arbitrary: w S)
  case (Cons n names)
  then obtain v w1 where rm: "remove_object mc b n w = (Return v, w1)" and rest: "forE names (\<lambda>n. remove_object mc b n) w1 = (Return u, w')"
    by (auto simp: seqE_Return_iff)
  have w1: "view w1 = (view w)(b \<mapsto> S - {n})" by (rule minio_lawD(3) [OF assms rm Cons.prems(2)])
  have "view w' = (view w1)(b \<mapsto> S - {n} - set names)" by (rule Cons.IH [OF rest]) (simp add: w1)
  moreover have "S - {n} - set names = S - set (n # names)" by auto
  ultimately show ?case unfolding w1 by (simp only: fun_upd_upd)
qed (simp add: fun_upd_idem)

lemma empty_bucket_Return:
  assumes "minio_law mc view" and "empty_bucket mc b w = (Return u, w')" and "view w b \<noteq> None"
  shows "view w' = (view w)(b \<mapsto> {})"
proof -
  from assms(3) obtain S where S: "view w b = Some S" by blast
  obtain ns w1 where ls: "list_objects mc b w = (Return ns, w1)" and rm: "forE ns (\<lambda>n. remove_object mc b n) w1 = (Return u, w')"
    using assms(2) by (auto simp: empty_bucket_def bindE_Return_iff)
  have w1: "view w1 = view w" and ns: "set ns = S" using minio_lawD(2) [OF assms(1) ls] S by auto
  from remove_all [OF assms(1) rm, of S] w1 S ns show ?thesis by simp
qed

lemma empty_all:
  assumes "minio_law mc view"
  shows "forE bs (empty_bucket mc) w = (Return u, w') \<Longrightarrow> set bs \<subseteq> dom (view w) \<Longrightarrow>
    view w' = (\<lambda>b. if b \<in> set bs then Some {} else view w b)"
proof (induction bs arbitrary: w)
  case (Cons b bs)
  then obtain v w1 where e: "empty_bucket mc b w = (Return v, w1)" and rest: "forE bs (empty_bucket mc) w1 = (Return u, w')"
    by (auto simp: seqE_Return_iff)
  have w1: "view w1 = (view w)(b \<mapsto> {})" using empty_bucket_Return [OF assms e] Cons.prems(2) by auto
  then have "set bs \<subseteq> dom (view w1)" using Cons.prems(2) by auto
  then have "view w' = (\<lambda>b. if b \<in> set bs then Some {} else view w1 b)" by (rule Cons.IH [OF rest])
  then show ?case by (simp add: w1 fun_eq_iff)
qed simp

lemma new_bucket_Return:
  assumes "minio_law mc view" and "new_bucket mc b w = (Return u, w')"
  shows "view w' = (view w)(b \<mapsto> {})"
proof -
  obtain x w1 where be: "bucket_exists mc b w = (Return x, w1)"
    and rest: "seqE (whenE x (seqE (empty_bucket mc b) (remove_bucket mc b))) (make_bucket mc b) w1 = (Return u, w')"
    using assms(2) by (auto simp: new_bucket_def bindE_Return_iff)
  have w1: "view w1 = view w" and x: "x = (view w b \<noteq> None)" using minio_lawD(4) [OF assms(1) be] by auto
  obtain w2 v where mid: "whenE x (seqE (empty_bucket mc b) (remove_bucket mc b)) w1 = (Return v, w2)"
    and mk: "make_bucket mc b w2 = (Return u, w')" using rest by (auto simp: seqE_Return_iff)
  have "view w2 = (view w)(b := None)"
  proof (cases x)
    case True
    with mid obtain w3 y where e: "empty_bucket mc b w1 = (Return y, w3)" and rb: "remove_bucket mc b w3 = (Return v, w2)"
      by (auto simp: seqE_Return_iff)
    have "view w2 = (view w3)(b := None)" by (rule minio_lawD(5) [OF assms(1) rb])
    moreover have "view w3 = (view w1)(b \<mapsto> {})" using empty_bucket_Return [OF assms(1) e] True x w1 by simp
    ultimately show ?thesis using w1 by simp
  qed (use mid x w1 in auto)
  moreover have "view w' = (view w2)(b \<mapsto> {})" by (rule minio_lawD(6) [OF assms(1) mk])
  ultimately show ?thesis by simp
qed

definition fresh_store :: "(string \<rightharpoonup> string set) \<Rightarrow> bool" where
  "fresh_store v \<longleftrightarrow> v ''root'' = Some {} \<and> v ''root2'' = Some {} \<and> (\<forall>b S. v b = Some S \<longrightarrow> S = {})"

lemma reset_buckets_Return:
  assumes "minio_law mc view" and "reset_buckets mc w = (Return u, w')"
  shows "fresh_store (view w')"
proof -
  obtain bs w1 w2 w3 v y where ls: "list_buckets mc w = (Return bs, w1)" and all: "forE bs (empty_bucket mc) w1 = (Return v, w2)"
    and one: "new_bucket mc ''root'' w2 = (Return y, w3)" and two: "new_bucket mc ''root2'' w3 = (Return u, w')"
    using assms(2) by (auto simp: reset_buckets_def bindE_Return_iff seqE_Return_iff)
  from minio_lawD(1) [OF assms(1) ls] empty_all [OF assms(1) all] have "view w2 = (\<lambda>b. if b \<in> dom (view w) then Some {} else view w b)" by auto
  then show ?thesis
    using new_bucket_Return [OF assms(1) one] new_bucket_Return [OF assms(1) two] by (auto simp: fresh_store_def split: if_splits)
qed

lemma timelyD: "timely time_of m \<Longrightarrow> ends P m" "timely time_of m \<Longrightarrow> keeps (\<lambda>w. t \<le> time_of w) m"
  by (auto simp: timely_def ends_def)

lemma timely_bind: "timely time_of m \<Longrightarrow> (\<And>a. timely time_of (f a)) \<Longrightarrow> timely time_of (bindE m f)"
  unfolding timely_def by (intro conjI ends_bind_keeps allI keeps_bind) (auto simp: keeps_def triple_def split: outcome.splits)

lemma timely_seq: "timely time_of m \<Longrightarrow> timely time_of k \<Longrightarrow> timely time_of (seqE m k)"
  unfolding seqE_def by (rule timely_bind)

lemma timely_ret: "timely time_of (ret a)"
  unfolding timely_def by (intro conjI allI ends_intro keeps_intro)

lemma timely_when: "timely time_of m \<Longrightarrow> timely time_of (whenE b m)"
  by (cases b) (simp_all add: timely_ret)

lemma timely_for: "(\<And>x. timely time_of (f x)) \<Longrightarrow> timely time_of (forE xs f)"
  by (induction xs) (simp_all add: timely_ret timely_seq)

lemma reset_timely:
  assumes "minio_clock mc time_of"
  shows "timely time_of (reset_buckets mc)"
  unfolding reset_buckets_def new_bucket_def empty_bucket_def
  by (intro timely_bind timely_seq timely_when timely_for) (use assms in \<open>simp_all add: minio_clock_def\<close>)

lemma minio_loop_ends:
  assumes "minio_clock mc time_of"
  shows "of_nat timeout + 1 - of_nat n \<le> time_of w - start \<Longrightarrow> 0 < n \<Longrightarrow> fst (minio_loop mc start (of_nat timeout) n w) \<noteq> OutOfFuel"
proof (induction n arbitrary: w)
  case (Suc n)
  have now: "minio_time mc w = (Return (time_of w), w)" using assms by (simp add: minio_clock_def)
  show ?case
  proof (cases "time_of w - start < of_nat timeout")
    case False
    then show ?thesis by (simp add: bindE_step [of "minio_time mc" w, OF now] raise_def)
  next
    case True
    obtain r w1 where reset: "reset_buckets mc w = (r, w1)" by fastforce
    have r: "r \<noteq> OutOfFuel" using timelyD(1) [OF reset_timely [OF assms], of "\<lambda>_. True"] reset by (auto simp: ends_def)
    have later: "time_of w \<le> time_of w1" using keepsD [OF timelyD(2) [OF reset_timely [OF assms]] order.refl reset r] .
    obtain w2 where pause: "minio_sleep mc 1 w1 = (Return (), w2)" and w2: "time_of w1 + 1 \<le> time_of w2"
      using assms unfolding minio_clock_def by blast
    have "of_nat timeout + 1 - of_nat n \<le> time_of w2 - start" using Suc.prems(1) later w2 by simp
    moreover have "0 < n" using Suc.prems(1) True by (cases n) auto
    ultimately have "fst (minio_loop mc start (of_nat timeout) n w2) \<noteq> OutOfFuel" by (rule Suc.IH)
    then show ?thesis using True r reset
      by (cases r) (auto simp: bindE_step [of "minio_time mc" w, OF now] catchE_def seqE_step [of "minio_sleep mc 1" w1, OF pause] raise_def)
  qed
qed simp

lemma minio_loop_Return: "minio_loop mc start timeout n w = (Return (), w') \<Longrightarrow> \<exists>w0. reset_buckets mc w0 = (Return (), w')"
proof (induction n arbitrary: w)
  case (Suc n)
  then show ?case by (auto simp: bindE_Return_iff seqE_Return_iff catchE_Return_iff split: if_splits)
qed (simp add: out_of_fuel_def)

text \<open>C15. Starting MinIO ends within its timeout, by a return or an error, and when it returns the buckets of the tests
  exist, and they and every other bucket of the store are empty, whatever was in the store and however many
  attempts failed half-way.\<close>

theorem start_minio_contract:
  assumes "minio_law mc view" and "minio_clock mc time_of"
  shows "fst (start_minio mc timeout w) \<noteq> OutOfFuel \<and>
    (\<forall>w'. start_minio mc timeout w = (Return (), w') \<longrightarrow> fresh_store (view w'))"
proof -
  have "minio_time mc w = (Return (time_of w), w)" using assms(2) by (simp add: minio_clock_def)
  then have loop: "start_minio mc timeout w = minio_loop mc (time_of w) (of_nat timeout) (Suc timeout) w"
    by (simp add: start_minio_def bindE_step del: minio_loop.simps)
  have "fst (minio_loop mc (time_of w) (of_nat timeout) (Suc timeout) w) \<noteq> OutOfFuel"
    by (rule minio_loop_ends [OF assms(2)]) simp_all
  then show ?thesis
    using minio_loop_Return [of mc "time_of w" "of_nat timeout" "Suc timeout" w] reset_buckets_Return [OF assms(1)] loop by (metis (full_types))
qed

text \<open>For the witness: a store kept as an association list, and a clock.\<close>

type_synonym store = "(string, string list) pydict \<times> rat"

definition sim_minio :: "store minio" where
  "sim_minio = \<lparr>list_buckets = getE (map fst \<circ> fst),
     list_objects = (\<lambda>b. getE (\<lambda>(d, t). case map_of d b of None \<Rightarrow> [] | Some ns \<Rightarrow> ns)),
     remove_object = (\<lambda>b n. modifyE (\<lambda>(d, t). (case map_of d b of None \<Rightarrow> d | Some ns \<Rightarrow> AList.update b (removeAll n ns) d, t))),
     bucket_exists = (\<lambda>b. getE (\<lambda>(d, t). map_of d b \<noteq> None)),
     remove_bucket = (\<lambda>b. modifyE (\<lambda>(d, t). (AList.delete b d, t))),
     make_bucket = (\<lambda>b. modifyE (\<lambda>(d, t). (AList.update b [] d, t))),
     minio_time = getE snd, minio_sleep = (\<lambda>s. modifyE (\<lambda>(d, t). (d, t + s)))\<rparr>"

definition sim_view :: "store \<Rightarrow> string \<rightharpoonup> string set" where
  "sim_view s b = map_option set (map_of (fst s) b)"

lemma dom_sim_view: "dom (sim_view s) = fst ` set (fst s)"
  by (simp add: dom_map_of_conv_image_fst [symmetric]) (simp add: dom_def sim_view_def)

lemma sim_view_ops:
  "sim_view (AList.update b ns d, t) = (sim_view (d, t))(b \<mapsto> set ns)" "sim_view (AList.delete b d, t) = (sim_view (d, t))(b := None)"
  "sim_view (d, t) b = map_option set (map_of d b)"
  by (simp_all add: sim_view_def fun_eq_iff update_conv' delete_conv')

lemma sim_minio_law: "minio_law sim_minio sim_view"
  unfolding minio_law_def
  by (intro conjI allI impI) (auto simp: sim_minio_def dom_sim_view sim_view_ops split: prod.splits option.splits)

lemma sim_minio_clock: "minio_clock sim_minio snd"
  unfolding minio_clock_def sim_minio_def timely_def
  by (auto simp: ends_def keeps_def triple_def split: prod.splits)

theorem start_minio_contract_witness:
  "fresh_store (sim_view (snd (start_minio sim_minio 30 ([(''root'', [''a'', ''b'']), (''x'', [''c''])], 0))))"
proof -
  let ?s = "([(''root'', [''a'', ''b'']), (''x'', [''c''])], 0) :: store"
  have "fst (start_minio sim_minio 30 ?s) = Return ()" by code_simp
  then have "start_minio sim_minio 30 ?s = (Return (), snd (start_minio sim_minio 30 ?s))" by (metis prod.collapse)
  then show ?thesis using start_minio_contract [OF sim_minio_law sim_minio_clock] by blast
qed

section \<open>Facts about the suites\<close>

text \<open>The names of disks that the volumes of the policies use.\<close>

fun used_disks :: "entries \<Rightarrow> string list" and used_in :: "entry_key \<Rightarrow> entry \<Rightarrow> string list" and used_each :: "entries list \<Rightarrow> string list" where
  "used_disks [] = []"
| "used_disks ((k, v) # es) = used_in k v @ used_disks es"
| "used_in k (Text t) = (if k = Key ''disk'' then [t] else [])"
| "used_in k (Dict es) = used_disks es"
| "used_in k (Entries ess) = used_each ess"
| "used_each [] = []"
| "used_each (es # ess) = used_disks es @ used_each ess"

lemma tiered_policies_disks: "list_all (\<lambda>d. d \<in> {''default'', ''jbod1'', ''jbod2'', ''jbod3'', ''external''}) (used_disks tiered_policies)"
  by code_simp

lemma required_simps [simp]: "required msg None = raise (TestFail msg)" "required msg (Some v) = ret v"
  by (simp_all add: required_def)

lemma secret_value_simps [simp]: "secret_value None = raise (AttributeError ''value'')" "secret_value (Some v) = ret v"
  by (simp_all add: secret_value_def)

lemma three_values_Raise: "\<not> (\<exists>a b d. x = Some a \<and> y = Some b \<and> z = Some d) \<Longrightarrow> three_values x y z f c = (Raise (AttributeError ''value''), c)"
  by (cases x; cases y; cases z) (simp_all add: three_values_def)

text \<open>Missing credentials. In the suite for S3 a missing credential of a chosen service fails the test with a message
  before anything is built: no shell is opened and no container started. In the suite for tiered storage the
  assertions with the messages are never reached: a missing credential raises \<open>AttributeError\<close>. With all of them given,
  the suite for AWS S3 brings up a cluster whose environment holds them.\<close>

theorem missing_credentials:
  shows "(\<not> (\<exists>a b d e. access_key = Some a \<and> key_id = Some b \<and> bucket = Some d \<and> region = Some e) \<longrightarrow>
      (\<exists>msg. aws_s3_regression os h tester dir a key_id access_key bucket region c = (Raise (TestFail msg), c))) \<and>
    (\<not> (\<exists>a b d. uri = Some a \<and> key_id = Some b \<and> access_key = Some d) \<longrightarrow>
      (\<exists>msg. gcs_regression os h tester dir a uri key_id access_key c = (Raise (TestFail msg), c))) \<and>
    (with_s3amazon s \<and> \<not> (\<exists>a b d. t_aws_key_id s = Some a \<and> t_aws_access_key s = Some b \<and> t_aws_uri s = Some d) \<longrightarrow>
      tiered_environ s c = (Raise (AttributeError ''value''), c)) \<and>
    aws_s3_regression os h tester dir a (Some k) (Some x) (Some b) (Some r) =
      with_cluster os h (with_environ h dir a (aws_environ k x r)) (aws_body tester k x b r)"
proof -
  have "\<exists>msg. aws_s3_regression os h tester dir a key_id access_key bucket region c = (Raise (TestFail msg), c)"
    if "\<not> (\<exists>a b d e. access_key = Some a \<and> key_id = Some b \<and> bucket = Some d \<and> region = Some e)"
    using that by (cases access_key; cases key_id; cases bucket; cases region) (simp_all add: aws_s3_regression_def)
  moreover have "\<exists>msg. gcs_regression os h tester dir a uri key_id access_key c = (Raise (TestFail msg), c)"
    if "\<not> (\<exists>a b d. uri = Some a \<and> key_id = Some b \<and> access_key = Some d)"
    using that by (cases uri; cases key_id; cases access_key) (simp_all add: gcs_regression_def)
  moreover have "tiered_environ s c = (Raise (AttributeError ''value''), c)"
    if "with_s3amazon s" "\<not> (\<exists>a b d. t_aws_key_id s = Some a \<and> t_aws_access_key s = Some b \<and> t_aws_uri s = Some d)"
    using that(1) by (simp add: tiered_environ_def bindE_Raise_iff three_values_Raise [OF that(2)])
  moreover have "aws_s3_regression os h tester dir a (Some k) (Some x) (Some b) (Some r) =
      with_cluster os h (with_environ h dir a (aws_environ k x r)) (aws_body tester k x b r)"
    by (simp add: aws_s3_regression_def)
  ultimately show ?thesis by blast
qed

theorem missing_credentials_witness:
  "\<exists>msg. aws_s3_regression (sim_os suite_reply) sim_host (\<lambda>_ _ _. ret ()) ''/r/s3'' (sim_call None) None (Some ''key'') None None sim_cluster =
     (Raise (TestFail msg), sim_cluster)"
  using missing_credentials [of "Some ''key''" None None None "sim_os suite_reply" sim_host "\<lambda>_ _ _. ret ()" "''/r/s3''" "sim_call None" sim_cluster]
  by blast

text \<open>The storage configurations are closed: in the suite for tiered storage and in the benchmark every disk that a policy uses is
  among the disks that are defined, whichever service the external disk is on; and in the benchmark the account of
  a storage that the command line allows never comes from the storage before it.\<close>

theorem storage_configuration_closed:
  "(\<forall>d \<in> set (used_disks tiered_policies). Key d \<in> fst ` set (tiered_disks external)) \<and>
   (\<forall>d \<in> set (used_disks benchmark_policies). Key d \<in> fst ` set (benchmark_disks acc)) \<and>
   (\<forall>storage \<in> {''minio'', ''aws_s3'', ''gcs''}. benchmark_account s storage acc = benchmark_account s storage acc')"
proof -
  have "\<forall>d \<in> set (used_disks tiered_policies). Key d \<in> fst ` set (tiered_disks external)"
    using tiered_policies_disks unfolding list_all_iff by (auto simp: tiered_disks_def)
  moreover have "\<forall>d \<in> set (used_disks benchmark_policies). Key d \<in> fst ` set (benchmark_disks acc)"
    by (cases acc) (simp add: benchmark_policies_def benchmark_disks_def)
  moreover have "py_lower ''minio'' = ''minio''" "py_lower ''aws_s3'' = ''aws_s3''" "py_lower ''gcs'' = ''gcs''" by code_simp+
  then have "\<forall>storage \<in> {''minio'', ''aws_s3'', ''gcs''}. benchmark_account s storage acc = benchmark_account s storage acc'"
    by (simp add: benchmark_account_def)
  ultimately show ?thesis by blast
qed

theorem storage_configuration_closed_witness:
  "Key ''external'' \<in> fst ` set (tiered_disks []) \<and> ''external'' \<in> set (used_disks tiered_policies)"
proof -
  have "''external'' \<in> set (used_disks tiered_policies)" by code_simp
  with storage_configuration_closed show ?thesis by blast
qed

end
