(* ===== verification/Extended_Precision.thy ===== *)
theory Extended_Precision
  imports Rbac_Helpers
begin

text \<open>
  The helpers of the suite for extended precision types, \<open>extended_precision_data_types/common.py\<close> and \<open>errors.py\<close>: settings that
  hold while a body runs, queries whose output is compared with a text or with a snapshot, a table for
  a test, names, conversions and the limits of the big integers.
\<close>

section \<open>Settings for a body\<close>

text \<open>
  \<open>allow_experimental_bigint\<close> and \<open>allow_experimental_map_type\<close> differ in the name of the setting. The list of the
  context is made when there is none, so that it can always be added to; removing takes the first
  entry that is equal.
\<close>

definition add_setting :: "string \<times> string \<Rightarrow> ('w, unit) ceff" where
  "add_setting st = modifyE (\<lambda>c. c\<lparr>default_query_settings := default_query_settings c @ [st]\<rparr>)"

definition remove_setting :: "string \<times> string \<Rightarrow> ('w, unit) ceff" where
  "remove_setting st = modifyE (\<lambda>c. c\<lparr>default_query_settings := remove1 st (default_query_settings c)\<rparr>)"

definition allow_experimental_bigint :: "('w, 'a) ceff \<Rightarrow> ('w, 'a) ceff" where
  "allow_experimental_bigint body =
     (let st = (''allow_experimental_bigint_types'', ''1'') in finallyE (seqE (add_setting st) body) (remove_setting st))"

definition allow_experimental_map_type :: "('w, 'a) ceff \<Rightarrow> ('w, 'a) ceff" where
  "allow_experimental_map_type body =
     (let st = (''allow_experimental_map_type'', ''1'') in finallyE (seqE (add_setting st) body) (remove_setting st))"

section \<open>Queries\<close>

text \<open>
  \<open>ask\<close> runs a query on the node of the context; \<open>snapshot\<close> compares a text with the one stored under an identifier
  and a name, which is code of the test framework.
\<close>

definition snapshot_id_for :: "string option \<Rightarrow> string option \<Rightarrow> exn + string" where
  "snapshot_id_for given version = (case given of
     Some i \<Rightarrow> Inr i
   | None \<Rightarrow> (case check_clickhouse_version ''<22.3'' version of
       Inl e \<Rightarrow> Inl e
     | Inr old \<Rightarrow> Inr (if old then ''tests.pre22.3'' else ''tests.post22.3'')))"

definition execute_query ::
  "(string \<Rightarrow> ('w, cmd_result) ceff) \<Rightarrow> (string \<Rightarrow> string \<Rightarrow> string \<Rightarrow> bool) \<Rightarrow> string \<Rightarrow> string option \<Rightarrow> string \<Rightarrow> string option \<Rightarrow>
   string \<Rightarrow> (string \<Rightarrow> string \<Rightarrow> bool) option \<Rightarrow> ('w, unit) ceff" where
  "execute_query ask snapshot name snapshot_id sql expected fmt compare_func =
     bindE (ask (sql @ '' FORMAT '' @ fmt)) (\<lambda>r.
       let output = py_strip (cmd_output r) in
       case expected of
         Some text \<Rightarrow> assertE (case compare_func of None \<Rightarrow> output = text | Some f \<Rightarrow> f output text) []
       | None \<Rightarrow>
           bindE (getE context_version) (\<lambda>version. case snapshot_id_for snapshot_id version of
             Inl e \<Rightarrow> raise e
           | Inr i \<Rightarrow> assertE (snapshot (newline @ output @ newline) i name) []))"

definition precision_table :: "(string \<Rightarrow> ('s, 'r) eff) \<Rightarrow> string \<Rightarrow> string \<Rightarrow> ('s, 'a) eff \<Rightarrow> ('s, 'a) eff" where
  "precision_table ask data_type nm body =
     finallyE (seqE (perform ask (''CREATE TABLE '' @ nm @ ''(a '' @ data_type @ '') ENGINE = Memory'')) body)
       (perform ask (''DROP TABLE IF EXISTS '' @ nm))"

section \<open>Names and texts\<close>

definition precision_name :: "string \<Rightarrow> string" where
  "precision_name name = filter (\<lambda>ch. ch \<notin> {CHR ''('', CHR '')'', CHR ''['', CHR '']'', CHR 0x27}) (test_name_text name)"

definition precision_getuid :: "(string \<Rightarrow> string) \<Rightarrow> (string \<Rightarrow> string) \<Rightarrow> bool \<Rightarrow> string \<Rightarrow> string \<Rightarrow> string" where
  "precision_getuid basename parentname is_example current_name uuid =
     precision_name (if is_example then basename (parentname current_name) else basename current_name) @ ''_'' @ uuid_text uuid"

definition to_data_type :: "string \<Rightarrow> string \<Rightarrow> string" where
  "to_data_type data_type val =
     (if data_type = ''Decimal256(0)'' then ''toDecimal256('' @ single_quoted val @ '',0)''
      else ''to'' @ data_type @ ''('' @ single_quoted val @ '')'')"

definition data_types :: "(string \<times> string \<times> string) list" where
  "data_types =
    [(''Int128'', ''-170141183460469231731687303715884105728'', ''170141183460469231731687303715884105727''),
     (''Int256'', ''-57896044618658097711785492504343953926634992332820282019728792003956564819968'',
      ''57896044618658097711785492504343953926634992332820282019728792003956564819967''),
     (''UInt128'', ''0'', ''340282366920938463463374607431768211455''),
     (''UInt256'', ''0'', ''115792089237316195423570985008687907853269984665640564039457584007913129639935'')]"

definition Decimal256_min_max :: "int \<times> int" where
  "Decimal256_min_max =
    (-1000000000000000000000000000000000000000000000000000000000000000000000000000,
     1000000000000000000000000000000000000000000000000000000000000000000000000000)"

definition not_implemented_bigints :: "string \<Rightarrow> int \<times> string" where
  "not_implemented_bigints name = (48, ''Exception: '' @ name @ '' is not implemented for big integers'')"

definition bigints_not_implements :: "string \<Rightarrow> int \<times> string" where
  "bigints_not_implements name = (48, ''Exception: '' @ name @ '' for big integers is not implemented'')"

definition illegal_type :: "int \<times> string" where
  "illegal_type = (43, ''Exception: Illegal type'')"

definition illegal_column :: "int \<times> string" where
  "illegal_column = (44, ''Exception: Illegal column'')"

section \<open>Facts\<close>

interpretation bigint: scoped "\<lambda>_. add_setting (''allow_experimental_bigint_types'', ''1'')" "\<lambda>_. ()"
  "\<lambda>_. remove_setting (''allow_experimental_bigint_types'', ''1'')" "\<lambda>x body. allow_experimental_bigint (body ())"
  by unfold_locales (simp add: allow_experimental_bigint_def Let_def)

interpretation map_type: scoped "\<lambda>_. add_setting (''allow_experimental_map_type'', ''1'')" "\<lambda>_. ()"
  "\<lambda>_. remove_setting (''allow_experimental_map_type'', ''1'')" "\<lambda>x body. allow_experimental_map_type (body ())"
  by unfold_locales (simp add: allow_experimental_map_type_def Let_def)

interpretation precision_tables: scoped "\<lambda>(nm, ty). perform ask (''CREATE TABLE '' @ nm @ ''(a '' @ ty @ '') ENGINE = Memory'')" "\<lambda>_. ()"
  "\<lambda>(nm, ty). perform ask (''DROP TABLE IF EXISTS '' @ nm)" "\<lambda>(nm, ty) body. precision_table ask ty nm (body ())" for ask
  by unfold_locales (auto simp: precision_table_def)

text \<open>Scopes of settings nest: the inner one takes out the entry it added, whatever list it found.\<close>

lemma bigint_restores:
  fixes c :: "'w cluster" and body :: "('w, 'a) ceff"
  assumes "(''allow_experimental_bigint_types'', ''1'') \<notin> set (default_query_settings c)"
    and "body (c\<lparr>default_query_settings := default_query_settings c @ [(''allow_experimental_bigint_types'', ''1'')]\<rparr>) = (r, d)"
    and "default_query_settings d = default_query_settings c @ [(''allow_experimental_bigint_types'', ''1'')]" and "r \<noteq> OutOfFuel"
  shows "default_query_settings (snd (allow_experimental_bigint body c)) = default_query_settings c"
proof -
  have "seqE (add_setting (''allow_experimental_bigint_types'', ''1'')) body c = (r, d)"
    using assms(2) by (simp add: add_setting_def seqE_modifyE)
  from bigint.release_last [of "\<lambda>_. body", OF this assms(4)] have
    "snd (allow_experimental_bigint body c) = snd (remove_setting (''allow_experimental_bigint_types'', ''1'') d)" by simp
  also have "default_query_settings \<dots> = default_query_settings c"
    using assms(1,3) by (simp add: remove_setting_def modifyE_def remove1_append)
  finally show ?thesis .
qed

text \<open>The limits of the big integers that the tests use are exact: as numbers the texts are the least and the largest value of each type. The limit for \<open>Decimal256\<close> is a power of ten
  that is a tenth of the one the requirements state for the scale 0.\<close>

theorem extended_limits:
  "map (\<lambda>(ty, lo, hi). (ty, py_int lo, py_int hi)) data_types =
     [(''Int128'', Some (- (2 ^ 127)), Some (2 ^ 127 - 1)), (''Int256'', Some (- (2 ^ 255)), Some (2 ^ 255 - 1)),
      (''UInt128'', Some 0, Some (2 ^ 128 - 1)), (''UInt256'', Some 0, Some (2 ^ 256 - 1))] \<and>
   Decimal256_min_max = (- (10 ^ 75), 10 ^ 75)"
  by (simp add: data_types_def Decimal256_min_max_def py_int_def py_strip_def is_space_def is_digit_def digit_val_def Let_def)

end
