(* ===== verification/Protobuf_Encoder.thy ===== *)
theory Protobuf_Encoder
  imports Py_Effects "HOL-Library.Word"
begin

unbundle bit_operations_syntax

text \<open>
  The script \<open>protobuf_length_delimited_encoder.py\<close> of the functional tests, which converts a stream of
  protobuf messages, each after its length, to text and back. Bytes are characters; a file that
  is read is its content, a file that is written is the state, to which text is added at
  the end. Other programs are run by \<open>popen\<close>: from the command, the directory and the standard
  input to the exit code and the standard output, or to the exception of a program that cannot be started.
  \<open>encode\<close> and \<open>decode\<close> call it once for every message.
\<close>

type_synonym popen = "string list \<Rightarrow> string option \<Rightarrow> string \<Rightarrow> exn + int \<times> string"

definition write_out :: "string \<Rightarrow> (string, unit) eff" where
  "write_out s = modifyE (\<lambda>out. out @ s)"

section \<open>Lengths\<close>

text \<open>The loop of \<open>read_varint\<close>, on the bytes that are left; with the value it returns what is left then.\<close>

fun varint_loop :: "nat \<Rightarrow> nat \<Rightarrow> string \<Rightarrow> nat option \<times> string" where
  "varint_loop res multiplier [] = (None, [])"
| "varint_loop res multiplier (c # cs) =
     (let b = of_char c in
      if b < 0x80 then (Some (res + b * multiplier), cs)
      else varint_loop (res + (b - 0x80) * multiplier) (multiplier * 0x80) cs)"

definition read_varint :: "string \<Rightarrow> nat option \<times> string" where
  "read_varint input = varint_loop 0 1 input"

text \<open>\<open>b.to_bytes(1, byteorder="little")\<close>\<close>

definition to_byte :: "int \<Rightarrow> ('s, char) eff" where
  "to_byte b = (if b < 0 then raise (OverflowError ''can't convert negative int to unsigned'')
     else if 256 \<le> b then raise (OverflowError ''int too big to convert'')
     else ret (char_of (nat b)))"

function write_varint :: "int \<Rightarrow> (string, unit) eff" where
  "write_varint value =
     (if value < 0x80 then bindE (to_byte value) (\<lambda>b. write_out [b])
      else seqE (bindE (to_byte ((value AND 0x7F) + 0x80)) (\<lambda>b. write_out [b]))
        (write_varint (drop_bit 7 value)))"
  by pat_completeness auto
termination
  by (relation "measure nat") (auto simp: drop_bit_eq_div)

declare write_varint.simps [simp del]

section \<open>Other programs\<close>

definition run_tool :: "popen \<Rightarrow> string \<Rightarrow> string list \<Rightarrow> string option \<Rightarrow> string \<Rightarrow> (string, string) eff" where
  "run_tool popen nm args cwd input = (case popen args cwd input of
       Inl e \<Rightarrow> raise e
     | Inr (code, text) \<Rightarrow>
         if code \<noteq> 0 then raise (RuntimeError (nm @ '' returned code '' @ str_int code)) else ret text)"

text \<open>A program whose output goes to the file has written it also when it fails.\<close>

definition run_to_output :: "popen \<Rightarrow> string \<Rightarrow> string list \<Rightarrow> string option \<Rightarrow> string \<Rightarrow> (string, unit) eff" where
  "run_to_output popen nm args cwd input = (case popen args cwd input of
       Inl e \<Rightarrow> raise e
     | Inr (code, text) \<Rightarrow> seqE (write_out text)
         (whenE (code \<noteq> 0) (raise (RuntimeError (nm @ '' returned code '' @ str_int code)))))"

definition write_hexdump :: "popen \<Rightarrow> string \<Rightarrow> (string, unit) eff" where
  "write_hexdump popen data = run_to_output popen ''hexdump'' [''hexdump'', ''-C''] None data"

section \<open>Schema\<close>

record FormatSchemaSplitted =
  schemadir :: string
  schemaname :: string
  message_type :: string

definition format_schema_splitted :: "string \<Rightarrow> exn + FormatSchemaSplitted" where
  "format_schema_splitted format_schema = (case py_split '':'' format_schema of
       path # message # _ \<Rightarrow> Inr \<lparr>schemadir = dirname path,
         schemaname = (if endswith (path_basename path) ''.proto'' then path_basename path else path_basename path @ ''.proto''),
         message_type = message\<rparr>
     | _ \<Rightarrow> Inl (RuntimeError ''The format schema must have the format schemafile:MessageType''))"

definition schema_of :: "string \<Rightarrow> ('s, FormatSchemaSplitted) eff" where
  "schema_of format_schema = (case format_schema_splitted format_schema of Inl e \<Rightarrow> raise e | Inr fs \<Rightarrow> ret fs)"

definition protoc_args :: "string \<Rightarrow> string \<Rightarrow> FormatSchemaSplitted \<Rightarrow> string list" where
  "protoc_args protoc action fs = [protoc, action, message_type fs, schemaname fs]"

section \<open>Decoding\<close>

text \<open>\<open>{n:08X}\<close>\<close>

definition upper_char :: "char \<Rightarrow> char" where
  "upper_char c = (let n = of_char c in if (97 :: nat) \<le> n \<and> n \<le> 122 then char_of (n - 32) else c)"

definition hex8 :: "nat \<Rightarrow> string" where
  "hex8 n = zero_pad 8 (map upper_char (hex_nat n))"

definition message_header :: "nat \<Rightarrow> nat \<Rightarrow> string" where
  "message_header msgindex msgoffset =
     ''MESSAGE #'' @ str_nat msgindex @ '' AT 0x'' @ hex8 msgoffset @ newline"

lemma varint_loop_rest: "length (snd (varint_loop r m s)) \<le> length s"
  by (induction r m s rule: varint_loop.induct) (auto simp: Let_def)

lemma varint_loop_shorter: "varint_loop r m s = (Some v, rest) \<Longrightarrow> length rest < length s"
proof (induction r m s rule: varint_loop.induct)
  case (2 r m c cs)
  then show ?case by (fastforce simp: Let_def split: if_splits)
qed simp

text \<open>\<open>size0\<close> is the length of the whole input, from which \<open>input.tell()\<close> follows.\<close>

function decode_loop :: "popen \<Rightarrow> string \<Rightarrow> FormatSchemaSplitted \<Rightarrow> nat \<Rightarrow> nat \<Rightarrow> string \<Rightarrow> (string, unit) eff" where
  "decode_loop popen protoc fs size0 msgindex input = (case read_varint input of
       (None, _) \<Rightarrow> ret ()
     | (Some sz, rest) \<Rightarrow>
         seqE (write_out (message_header msgindex (size0 - length rest)))
         (if length (take sz rest) < sz then raise (EOFError ''Unexpected end of file'')
          else seqE (run_to_output popen ''protoc'' (protoc_args protoc ''--decode'' fs) (Some (schemadir fs)) (take sz rest))
            (decode_loop popen protoc fs size0 (msgindex + 1) (drop sz rest))))"
  by pat_completeness auto
termination
  by (relation "measure (\<lambda>(p, q, fs, t, i, s). length s)")
    (auto simp: read_varint_def dest!: varint_loop_shorter [OF sym])

declare decode_loop.simps [simp del]

definition decode :: "popen \<Rightarrow> string \<Rightarrow> string \<Rightarrow> string \<Rightarrow> (string, unit) eff" where
  "decode popen protoc input format_schema =
     bindE (schema_of format_schema) (\<lambda>fs. decode_loop popen protoc fs (length input) 1 input)"

section \<open>Encoding\<close>

text \<open>The lines of a text, each with its newline, as successive calls of \<open>readline\<close> return them.\<close>

fun text_lines :: "string \<Rightarrow> string list" where
  "text_lines [] = []"
| "text_lines (c # cs) =
     (if c = CHR 0x0A then [c] # text_lines cs
      else (case text_lines cs of [] \<Rightarrow> [[c]] | l # ls \<Rightarrow> (c # l) # ls))"

text \<open>The inner loop of \<open>encode\<close>: the lines up to the next header are one message.\<close>

fun gather :: "string \<Rightarrow> string list \<Rightarrow> string \<times> string list" where
  "gather msg [] = (msg, [])"
| "gather msg (l # ls) = (if startswith l ''MESSAGE #'' then (msg, l # ls) else gather (msg @ l) ls)"

lemma gather_length: "length (snd (gather msg ls)) \<le> length ls"
  by (induction msg ls rule: gather.induct) auto

function encode_loop :: "popen \<Rightarrow> string \<Rightarrow> FormatSchemaSplitted \<Rightarrow> nat \<Rightarrow> string list \<Rightarrow> (string, unit) eff" where
  "encode_loop popen protoc fs line_offset [] = ret ()"
| "encode_loop popen protoc fs line_offset (line # ls) =
     (if \<not> startswith line ''MESSAGE #'' then
        raise (RuntimeError (''The line at 0x'' @ hex8 line_offset @ '' must start with the text MESSAGE #''))
      else
        let (msg, rest) = gather [] ls in
        bindE (run_tool popen ''protoc'' (protoc_args protoc ''--encode'' fs) (Some (schemadir fs)) msg) (\<lambda>msgbin.
        seqE (write_varint (int (length msgbin)))
        (seqE (write_out msgbin)
          (encode_loop popen protoc fs (line_offset + length line + length msg) rest))))"
  by pat_completeness auto
termination
proof (relation "measure (\<lambda>(p, q, fs, k, ls). length ls)", goal_cases)
  case (2 popen protoc fs k line ls x msg rest)
  then have "rest = snd (gather [] ls)" by (metis snd_conv)
  then show ?case using gather_length [of "[]" ls] by simp
qed simp

definition encode :: "popen \<Rightarrow> string \<Rightarrow> string \<Rightarrow> string \<Rightarrow> (string, unit) eff" where
  "encode popen protoc input format_schema =
     bindE (schema_of format_schema) (\<lambda>fs. encode_loop popen protoc fs 0 (text_lines input))"

section \<open>Checking\<close>

text \<open>Running a function on a temporary file of its own, whose content it returns.\<close>

definition on_new_file :: "(string, unit) eff \<Rightarrow> (string, string) eff" where
  "on_new_file m = (\<lambda>out. case m [] of (Return _, text) \<Rightarrow> (Return text, out)
     | (Raise e, _) \<Rightarrow> (Raise e, out) | (OutOfFuel, _) \<Rightarrow> (OutOfFuel, out))"

definition decode_and_check :: "popen \<Rightarrow> string \<Rightarrow> string \<Rightarrow> string \<Rightarrow> (string, unit) eff" where
  "decode_and_check popen protoc input_data format_schema =
     seqE (write_out (''Binary representation:'' @ newline))
     (seqE (write_hexdump popen input_data)
     (seqE (write_out newline)
     (bindE (on_new_file (decode popen protoc input_data format_schema)) (\<lambda>decoded_text.
      seqE (write_out decoded_text)
      (bindE (on_new_file (encode popen protoc decoded_text format_schema)) (\<lambda>encoded_data.
       if encoded_data = input_data then
         write_out (newline @ ''Binary representation is as expected'' @ newline)
       else
         seqE (write_out (newline @ ''Binary representation differs from the expected one (listed below):'' @ newline))
         (seqE (write_hexdump popen encoded_data) (raise (SystemExit 1)))))))))"

section \<open>Lengths: facts\<close>

text \<open>The bytes of a length: groups of seven bits, the lowest first, all but the last marked.\<close>

function varint_bytes :: "nat \<Rightarrow> string" where
  "varint_bytes n = (if n < 128 then [char_of n] else char_of (n mod 128 + 128) # varint_bytes (n div 128))"
  by pat_completeness auto
termination
  by (relation "measure id") auto

declare varint_bytes.simps [simp del]

lemma write_out_nil [simp]: "write_out [] = ret ()"
  by (auto simp: write_out_def effect_defs)

lemma seqE_write_out: "seqE (write_out a) (seqE (write_out b) k) = seqE (write_out (a @ b)) k"
  by (rule ext) (simp add: write_out_def seqE_modifyE)

lemma seqE_write_out_last: "seqE (write_out a) (write_out b) = write_out (a @ b)"
  by (rule ext) (simp add: write_out_def seqE_modifyE, simp add: modifyE_def)

lemma and_127: "(k :: int) AND 127 = k mod 128"
proof -
  have "k AND 127 = take_bit 7 k" unfolding take_bit_eq_mask by (simp add: mask_eq_exp_minus_1)
  then show ?thesis by (simp add: take_bit_eq_mod)
qed

lemma to_byte_nat: "n < 256 \<Longrightarrow> to_byte (int n) = ret (char_of n)"
  by (simp add: to_byte_def)

lemma write_varint_bytes: "write_varint (int n) = write_out (varint_bytes n)"
proof (induction n rule: varint_bytes.induct)
  case (1 n)
  show ?case
  proof (cases "n < 128")
    case True
    then show ?thesis by (simp add: write_varint.simps varint_bytes.simps to_byte_nat)
  next
    case False
    have "(int n AND 127) + 128 = int (n mod 128 + 128)" by (simp add: and_127 zmod_int)
    moreover have "(to_byte (int (n mod 128 + 128)) :: (string, char) eff) = ret (char_of (n mod 128 + 128))" by (rule to_byte_nat) simp
    moreover have "drop_bit 7 (int n) = int (n div 128)" by (simp add: drop_bit_eq_div zdiv_int)
    ultimately show ?thesis using False 1
      by (subst write_varint.simps, subst varint_bytes.simps) (simp add: seqE_write_out_last)
  qed
qed

lemma varint_loop_bytes: "varint_loop r m (varint_bytes n @ rest) = (Some (r + n * m), rest)"
proof (induction n arbitrary: r m rule: varint_bytes.induct)
  case (1 n)
  show ?case
  proof (cases "n < 128")
    case True
    then show ?thesis by (simp add: varint_bytes.simps Let_def)
  next
    case False
    have "n mod 128 * m + n div 128 * (m * 128) = (n mod 128 + n div 128 * 128) * m" by (simp only: algebra_simps)
    also have "\<dots> = n * m" by (simp only: mod_div_mult_eq)
    finally have "r + n mod 128 * m + n div 128 * (m * 128) = r + n * m" by simp
    then show ?thesis using False 1 by (subst varint_bytes.simps) (simp add: Let_def)
  qed
qed

lemma read_varint_bytes [simp]: "read_varint (varint_bytes n @ rest) = (Some n, rest)"
  by (simp add: read_varint_def varint_loop_bytes)

text \<open>The bytes that end before an unmarked one are no length.\<close>

lemma varint_loop_None: "fst (varint_loop r m s) = None \<longleftrightarrow> (\<forall>c \<in> set s. 128 \<le> (of_char c :: nat))"
  by (induction r m s rule: varint_loop.induct) (auto simp: Let_def)

lemma varint_bytes_length: "n < 128 ^ Suc k \<Longrightarrow> length (varint_bytes n) \<le> Suc k"
proof (induction k arbitrary: n)
  case 0
  then show ?case by (simp add: varint_bytes.simps)
next
  case (Suc k)
  then have "n div 128 < 128 ^ Suc k" by (simp add: less_mult_imp_div_less mult.commute)
  with Suc.IH have "length (varint_bytes (n div 128)) \<le> Suc k" .
  then show ?case by (subst varint_bytes.simps) simp
qed

lemma varint_bytes_prefix: "i < length (varint_bytes n) \<Longrightarrow> fst (read_varint (take i (varint_bytes n))) = None"
proof (induction n arbitrary: i rule: varint_bytes.induct)
  case (1 n)
  show ?case
  proof (cases "i = 0")
    case False
    then obtain j where i: "i = Suc j" by (cases i) auto
    have "\<not> n < 128"
    proof
      assume "n < 128"
      then have "length (varint_bytes n) = 1" by (subst varint_bytes.simps) simp
      with "1.prems" False show False by simp
    qed
    then have bytes: "varint_bytes n = char_of (n mod 128 + 128) # varint_bytes (n div 128)"
      by (subst varint_bytes.simps) simp
    with 1 \<open>\<not> n < 128\<close> i have "fst (read_varint (take j (varint_bytes (n div 128)))) = None" by simp
    then show ?thesis unfolding bytes i by (simp add: read_varint_def varint_loop_None)
  qed (simp add: read_varint_def)
qed

text \<open>C19. Lengths: \<open>write_varint\<close> of any natural number, of any size, adds bytes from which \<open>read_varint\<close>
  gets that number back, leaving exactly what follows; a number below \<open>128 ^ (k + 1)\<close> takes at
  most \<open>k + 1\<close> bytes; a negative number raises \<open>OverflowError\<close> and writes nothing. A length that is cut off is
  not an error for \<open>read_varint\<close>: it gives \<open>None\<close>, as at the end of the input.\<close>

theorem varint_roundtrip:
  "(\<exists>bs. write_varint (int n) out = (Return (), out @ bs) \<and> read_varint (bs @ rest) = (Some n, rest) \<and>
      (n < 128 ^ Suc k \<longrightarrow> length bs \<le> Suc k) \<and> (\<forall>i < length bs. fst (read_varint (take i bs)) = None)) \<and>
   (v < 0 \<longrightarrow> (\<exists>msg. write_varint v out = (Raise (OverflowError msg), out)))"
proof (intro conjI impI)
  show "\<exists>bs. write_varint (int n) out = (Return (), out @ bs) \<and> read_varint (bs @ rest) = (Some n, rest) \<and>
      (n < 128 ^ Suc k \<longrightarrow> length bs \<le> Suc k) \<and> (\<forall>i < length bs. fst (read_varint (take i bs)) = None)"
    by (intro exI [of _ "varint_bytes n"]) (simp add: write_varint_bytes write_out_def varint_bytes_length varint_bytes_prefix)
next
  assume "v < 0"
  then show "\<exists>msg. write_varint v out = (Raise (OverflowError msg), out)"
    by (subst write_varint.simps) (simp add: to_byte_def)
qed

theorem varint_roundtrip_witness:
  "write_varint 300 [] = (Return (), [CHR 0xAC, CHR 0x02]) \<and>
   (\<exists>msg. write_varint (- 1) ''x'' = (Raise (OverflowError msg), ''x''))"
proof
  have "varint_bytes 300 = [CHR 0xAC, CHR 0x02]" by code_simp
  moreover have "\<exists>bs. write_varint (int 300) [] = (Return (), [] @ bs) \<and> read_varint (bs @ []) = (Some 300, [])"
    using varint_roundtrip [of 300 "[]" "[]" 1 0] by blast
  ultimately show "write_varint 300 [] = (Return (), [CHR 0xAC, CHR 0x02])"
    using write_varint_bytes [of 300] by (simp add: write_out_def)
  show "\<exists>msg. write_varint (- 1) ''x'' = (Raise (OverflowError msg), ''x'')"
    using varint_roundtrip [of 0 "''x''" "[]" 0 "- 1"] by simp
qed

section \<open>The check accepts exactly the streams that encode back\<close>

text \<open>A message after its length, and the messages that \<open>decode\<close> reads from an input.\<close>

definition frame :: "string \<Rightarrow> string" where
  "frame m = varint_bytes (length m) @ m"

function parse_frames :: "string \<Rightarrow> string list" where
  "parse_frames input = (case read_varint input of
       (None, _) \<Rightarrow> []
     | (Some sz, rest) \<Rightarrow> take sz rest # parse_frames (drop sz rest))"
  by pat_completeness auto
termination
  by (relation "measure length") (auto simp: read_varint_def dest!: varint_loop_shorter [OF sym])

declare parse_frames.simps [simp del]

lemma read_frame [simp]: "read_varint (frame m @ rest) = (Some (length m), m @ rest)"
  by (simp add: frame_def)

lemma parse_frames_frames: "parse_frames (concat (map frame ms)) = ms"
proof (induction ms)
  case Nil
  then show ?case by (simp add: parse_frames.simps read_varint_def)
next
  case (Cons m ms)
  then show ?case by (subst parse_frames.simps) simp
qed

text \<open>
  What is relied on of \<open>protoc\<close>: the text of a decoded message ends in a newline, if it is not empty, and
  no line of it looks like a header. \<open>hexdump\<close> succeeds.
\<close>

definition text_ok :: "string \<Rightarrow> bool" where
  "text_ok t \<longleftrightarrow> (t = [] \<or> last t = CHR 0x0A) \<and> (\<forall>l \<in> set (text_lines t). \<not> startswith l ''MESSAGE #'')"

definition decodes :: "popen \<Rightarrow> string \<Rightarrow> FormatSchemaSplitted \<Rightarrow> string \<Rightarrow> string \<Rightarrow> bool" where
  "decodes popen protoc fs m t \<longleftrightarrow> popen (protoc_args protoc ''--decode'' fs) (Some (schemadir fs)) m = Inr (0, t)"

definition encodes :: "popen \<Rightarrow> string \<Rightarrow> FormatSchemaSplitted \<Rightarrow> string \<Rightarrow> string \<Rightarrow> bool" where
  "encodes popen protoc fs t m \<longleftrightarrow> popen (protoc_args protoc ''--encode'' fs) (Some (schemadir fs)) t = Inr (0, m)"

definition tools_ok :: "popen \<Rightarrow> string \<Rightarrow> FormatSchemaSplitted \<Rightarrow> bool" where
  "tools_ok popen protoc fs \<longleftrightarrow> (\<forall>m t. decodes popen protoc fs m t \<longrightarrow> text_ok t) \<and>
     (\<forall>d. \<exists>dump. popen [''hexdump'', ''-C''] None d = Inr (0, dump))"

text \<open>A decoded text is a sequence of headers with the text of a message after each.\<close>

definition is_header :: "string \<Rightarrow> bool" where
  "is_header h \<longleftrightarrow> (\<exists>i n. h = message_header i n)"

definition sections :: "string list \<Rightarrow> string list \<Rightarrow> string" where
  "sections hs ts = concat (map2 (@) hs ts)"

lemma sections_Cons [simp]: "sections (h # hs) (t # ts) = h @ t @ sections hs ts" "sections [] [] = []"
  by (simp_all add: sections_def)

lemma run_to_output_Return:
  "run_to_output popen nm args cwd d out = (Return (), out') \<longleftrightarrow> (\<exists>t. popen args cwd d = Inr (0, t) \<and> out' = out @ t)"
  by (auto simp: run_to_output_def write_out_def seqE_modifyE whenE_def split: sum.splits prod.splits)

lemma run_tool_Return:
  "run_tool popen nm args cwd d out = (Return t, out') \<longleftrightarrow> popen args cwd d = Inr (0, t) \<and> out' = out"
  by (auto simp: run_tool_def split: sum.splits prod.splits)

lemma decode_loop_Return:
  "decode_loop popen protoc fs n i input out = (Return (), out') \<Longrightarrow>
   \<exists>hs ts. list_all2 (decodes popen protoc fs) (parse_frames input) ts \<and> length hs = length ts \<and> list_all is_header hs \<and>
     out' = out @ sections hs ts"
proof (induction popen protoc fs n i input arbitrary: out rule: decode_loop.induct)
  case (1 popen protoc fs n i input)
  show ?case
  proof (cases "fst (read_varint input)")
    case None
    then have "out' = out" using "1.prems" by (subst (asm) decode_loop.simps) (simp split: prod.splits)
    moreover have "parse_frames input = []" using None by (subst parse_frames.simps) (auto split: prod.splits)
    ultimately show ?thesis by (intro exI [of _ "[]"]) simp
  next
    case (Some sz)
    then obtain rest where read: "read_varint input = (Some sz, rest)" by (cases "read_varint input") auto
    let ?h = "message_header i (n - length rest)"
    from "1.prems" read obtain t where full: "\<not> length (take sz rest) < sz"
      and dec: "decodes popen protoc fs (take sz rest) t"
      and rest: "decode_loop popen protoc fs n (i + 1) (drop sz rest) ((out @ ?h) @ t) = (Return (), out')"
      by (subst (asm) decode_loop.simps)
        (auto simp: write_out_def seqE_modifyE seqE_Return_iff run_to_output_Return decodes_def split: if_splits)
    obtain hs ts where "list_all2 (decodes popen protoc fs) (parse_frames (drop sz rest)) ts" "length hs = length ts"
      "list_all is_header hs" "out' = ((out @ ?h) @ t) @ sections hs ts"
      using "1.IH" [OF read [symmetric] refl full rest] by blast
    moreover have "is_header ?h" by (auto simp: is_header_def)
    ultimately show ?thesis using dec read
      by (intro exI [of _ "?h # hs"] exI [of _ "t # ts"]) (subst parse_frames.simps, simp)
  qed
qed

lemma decode_loop_frames:
  "list_all2 (decodes popen protoc fs) ms ts \<Longrightarrow>
   \<exists>out'. decode_loop popen protoc fs n i (concat (map frame ms)) out = (Return (), out')"
proof (induction ms ts arbitrary: i out rule: list_all2_induct)
  case Nil
  then show ?case by (subst decode_loop.simps) (simp add: read_varint_def)
next
  case (Cons m ms t ts)
  have "run_to_output popen ''protoc'' (protoc_args protoc ''--decode'' fs) (Some (schemadir fs)) m o1 = (Return (), o1 @ t)" for o1
    using Cons.hyps(1) by (simp add: run_to_output_Return decodes_def)
  then show ?case using Cons.IH
    by (subst decode_loop.simps) (simp add: write_out_def seqE_modifyE, simp add: seqE_def bindE_step)
qed

lemma text_lines_concat: "concat (text_lines s) = s"
  by (induction s) (auto split: list.splits)

lemma text_lines_append: "a = [] \<or> last a = CHR 0x0A \<Longrightarrow> text_lines (a @ b) = text_lines a @ text_lines b"
proof (induction a)
  case (Cons c a)
  show ?case
  proof (cases "a = []")
    case False
    with Cons have ih: "text_lines (a @ b) = text_lines a @ text_lines b" by simp
    have "text_lines a \<noteq> []" using False text_lines_concat [of a] by auto
    then show ?thesis using ih by (auto split: list.splits)
  qed (use Cons in auto)
qed simp

lemma text_lines_line: "CHR 0x0A \<notin> set l \<Longrightarrow> text_lines (l @ [CHR 0x0A]) = [l @ [CHR 0x0A]]"
  by (induction l) auto

lemma upper_char_newline: "CHR 0x0A = upper_char c \<Longrightarrow> c = CHR 0x0A"
proof (rule ccontr)
  assume "CHR 0x0A = upper_char c" "c \<noteq> CHR 0x0A"
  then have n: "97 \<le> (of_char c :: nat)" "of_char c \<le> (122 :: nat)" and "char_of (of_char c - 32 :: nat) = CHR 0x0A"
    by (auto simp: upper_char_def Let_def split: if_splits)
  then have "of_char (char_of (of_char c - 32 :: nat)) = (of_char (CHR 0x0A) :: nat)" by (simp only:)
  then have "(of_char c - 32) mod 256 = (10 :: nat)" by (simp only: of_char_of) simp
  with n show False by simp
qed

lemma digit_char_newline: "n < 16 \<Longrightarrow> CHR 0x0A \<noteq> digit_char n"
proof
  assume n: "n < 16" and "CHR 0x0A = digit_char n"
  then have "of_char (digit_char n) = (of_char (CHR 0x0A) :: nat)" by (simp only:)
  with n show False by (auto simp: digit_char_def split: if_splits)
qed

lemma nat_in_base_newline: "2 \<le> b \<Longrightarrow> b \<le> 16 \<Longrightarrow> CHR 0x0A \<notin> set (nat_in_base b n)"
proof (induction b n rule: nat_in_base.induct)
  case (1 b n)
  have "n mod b < 16" using "1.prems" by (meson less_le_trans mod_less_divisor order_less_le_trans pos2)
  moreover have "n < 16" if "n < b" using that "1.prems" by simp
  ultimately show ?case using 1 by (subst nat_in_base.simps) (auto simp: digit_char_newline not_less)
qed

lemma message_header_line: "text_lines (message_header i n) = [message_header i n]"
proof -
  have "CHR 0x0A \<notin> set (''MESSAGE #'' @ str_nat i @ '' AT 0x'' @ hex8 n)"
    using nat_in_base_newline [of 10 i] nat_in_base_newline [of 16 n]
    by (auto simp: str_nat_def hex8_def zero_pad_def hex_nat_def dest: upper_char_newline)
  from text_lines_line [OF this] show ?thesis by (simp add: message_header_def newline_def)
qed

lemma header_facts:
  assumes "is_header h"
  shows "startswith h ''MESSAGE #''" "text_lines (h @ s) = h # text_lines s"
proof -
  obtain i n where h: "h = message_header i n" using assms by (auto simp: is_header_def)
  then show "startswith h ''MESSAGE #''" unfolding message_header_def by (simp only: startswith_append)
  have "last h = CHR 0x0A" by (simp add: h message_header_def newline_def)
  then show "text_lines (h @ s) = h # text_lines s"
    by (simp add: text_lines_append) (simp add: h message_header_line)
qed

lemma gather_text:
  assumes "\<forall>l \<in> set ls. \<not> startswith l ''MESSAGE #''" and "rest = [] \<or> startswith (hd rest) ''MESSAGE #''"
  shows "gather m (ls @ rest) = (m @ concat ls, rest)"
  using assms(1)
proof (induction ls arbitrary: m)
  case Nil
  then show ?case using assms(2) by (cases rest) simp_all
qed simp

lemma sections_lines:
  assumes "length hs = length ts" and "list_all is_header hs"
  shows "text_lines (sections hs ts) = [] \<or> startswith (hd (text_lines (sections hs ts))) ''MESSAGE #''"
  using assms by (cases hs; cases ts) (simp_all add: header_facts)

lemma encode_loop_sections:
  "length hs = length ts \<Longrightarrow> list_all is_header hs \<Longrightarrow> list_all text_ok ts \<Longrightarrow>
   encode_loop popen protoc fs k (text_lines (sections hs ts)) out = (Return (), out') \<longleftrightarrow>
     (\<exists>ms. list_all2 (encodes popen protoc fs) ts ms \<and> out' = out @ concat (map frame ms))"
proof (induction hs ts arbitrary: k out rule: list_induct2)
  case (Cons h hs t ts)
  have ok: "text_ok t" "is_header h" using Cons.prems by simp_all
  have ls: "text_lines (sections (h # hs) (t # ts)) = h # text_lines t @ text_lines (sections hs ts)"
    using ok by (simp add: header_facts text_lines_append text_ok_def)
  have "gather [] (text_lines t @ text_lines (sections hs ts)) = (t, text_lines (sections hs ts))"
    using gather_text [of "text_lines t" _ "[]"] sections_lines [OF Cons.hyps] Cons.prems ok(1)
    by (simp add: text_ok_def text_lines_concat)
  then have "encode_loop popen protoc fs k (text_lines (sections (h # hs) (t # ts))) out = (Return (), out') \<longleftrightarrow>
      (\<exists>m. encodes popen protoc fs t m \<and>
        encode_loop popen protoc fs (k + length h + length t) (text_lines (sections hs ts)) (out @ frame m) = (Return (), out'))"
    unfolding ls
    by (simp add: header_facts [OF ok(2)] bindE_Return_iff run_tool_Return encodes_def write_varint_bytes seqE_write_out frame_def
        flip: append_assoc)
      (simp add: write_out_def seqE_modifyE)
  moreover have "encode_loop popen protoc fs k' (text_lines (sections hs ts)) o1 = (Return (), out') \<longleftrightarrow>
      (\<exists>ms. list_all2 (encodes popen protoc fs) ts ms \<and> out' = o1 @ concat (map frame ms))" for k' o1
    using Cons by simp
  moreover have "(\<exists>ms. list_all2 (encodes popen protoc fs) (t # ts) ms \<and> out' = out @ concat (map frame ms)) \<longleftrightarrow>
      (\<exists>m ms. encodes popen protoc fs t m \<and> list_all2 (encodes popen protoc fs) ts ms \<and> out' = (out @ frame m) @ concat (map frame ms))"
    by (auto simp: list_all2_Cons1) (metis concat.simps(2) list.simps(9))+
  ultimately show ?case by simp
qed auto

lemma on_new_file_Return: "on_new_file m out = (Return t, out') \<longleftrightarrow> m [] = (Return (), t) \<and> out' = out"
  by (auto simp: on_new_file_def split: prod.splits outcome.splits)

lemma decode_and_check_message:
  assumes "decode_and_check popen protoc input schema out = (Return (), out')"
  shows "endswith out' (newline @ ''Binary representation is as expected'' @ newline)"
proof -
  from assms obtain o1 where "out' = o1 @ newline @ ''Binary representation is as expected'' @ newline"
    unfolding decode_and_check_def
    by (auto simp: seqE_Return_iff bindE_Return_iff write_out_def simp del: append.simps split: if_splits)
  then show ?thesis by (simp only: endswith_append)
qed

lemma decode_and_check_accepted_stream:
  assumes "\<And>fs. format_schema_splitted schema = Inr fs \<Longrightarrow> tools_ok popen protoc fs"
    and "\<exists>out'. decode_and_check popen protoc input schema out = (Return (), out')"
  shows "\<exists>fs ms. format_schema_splitted schema = Inr fs \<and> input = concat (map frame ms) \<and>
      (\<forall>m \<in> set ms. \<exists>t. decodes popen protoc fs m t \<and> encodes popen protoc fs t m)"
proof -
  from assms(2) obtain decoded where dec: "decode popen protoc input schema [] = (Return (), decoded)"
    and enc: "encode popen protoc decoded schema [] = (Return (), input)"
    unfolding decode_and_check_def
    by (auto simp: seqE_Return_iff bindE_Return_iff on_new_file_Return split: if_splits)
  then obtain fs where fs: "format_schema_splitted schema = Inr fs"
    and loop: "decode_loop popen protoc fs (length input) 1 input [] = (Return (), decoded)"
    by (auto simp: decode_def schema_of_def split: sum.splits)
  from decode_loop_Return [OF loop] obtain hs ts where ts: "list_all2 (decodes popen protoc fs) (parse_frames input) ts"
    and hs: "length hs = length ts" "list_all is_header hs" and secs: "decoded = sections hs ts" by auto
  have "list_all text_ok ts"
    using ts assms(1) [OF fs] by (auto simp: tools_ok_def list_all2_conv_all_nth list_all_length)
  from encode_loop_sections [OF hs this] enc fs secs obtain ms
    where ms: "list_all2 (encodes popen protoc fs) ts ms" "input = concat (map frame ms)"
    by (auto simp: encode_def schema_of_def)
  then have "parse_frames input = ms" by (simp add: parse_frames_frames)
  with ts ms(1) have "\<forall>m \<in> set ms. \<exists>t. decodes popen protoc fs m t \<and> encodes popen protoc fs t m"
    by (fastforce simp: list_all2_conv_all_nth in_set_conv_nth)
  with fs ms(2) show ?thesis by blast
qed

lemma decode_and_check_accepts_stream:
  assumes "\<And>fs. format_schema_splitted schema = Inr fs \<Longrightarrow> tools_ok popen protoc fs"
    and "\<exists>fs ms. format_schema_splitted schema = Inr fs \<and> input = concat (map frame ms) \<and>
      (\<forall>m \<in> set ms. \<exists>t. decodes popen protoc fs m t \<and> encodes popen protoc fs t m)"
  shows "\<exists>out'. decode_and_check popen protoc input schema out = (Return (), out')"
proof -
  from assms(2) obtain fs ms where fs: "format_schema_splitted schema = Inr fs" and input: "input = concat (map frame ms)"
    and ms: "\<forall>m \<in> set ms. \<exists>t. decodes popen protoc fs m t \<and> encodes popen protoc fs t m" by blast
  from ms obtain f where f: "\<forall>m \<in> set ms. decodes popen protoc fs m (f m) \<and> encodes popen protoc fs (f m) m" by metis
  then have "list_all2 (decodes popen protoc fs) ms (map f ms)" by (simp add: list_all2_conv_all_nth)
  from decode_loop_frames [OF this, of "length input" 1 "[]"] input obtain decoded
    where loop: "decode_loop popen protoc fs (length input) 1 input [] = (Return (), decoded)" by auto
  from decode_loop_Return [OF loop] obtain hs ts where ts: "list_all2 (decodes popen protoc fs) ms ts"
    and hs: "length hs = length ts" "list_all is_header hs" and secs: "decoded = sections hs ts"
    using input by (auto simp: parse_frames_frames)
  have "list_all text_ok ts"
    using ts assms(1) [OF fs] by (auto simp: tools_ok_def list_all2_conv_all_nth list_all_length)
  moreover have "ts = map f ms"
    using ts f by (auto simp: decodes_def list_all2_conv_all_nth intro!: nth_equalityI)
  then have "list_all2 (encodes popen protoc fs) ts ms" using f by (simp add: list_all2_conv_all_nth)
  ultimately have "encode_loop popen protoc fs 0 (text_lines decoded) [] = (Return (), input)"
    unfolding secs using encode_loop_sections [OF hs, of popen protoc fs 0 "[]" input] input by auto
  then have "on_new_file (encode popen protoc decoded schema) o1 = (Return input, o1)"
    and "on_new_file (decode popen protoc input schema) o1 = (Return decoded, o1)" for o1
    using loop fs by (simp_all add: on_new_file_Return encode_def decode_def schema_of_def)
  moreover obtain dump where "popen [''hexdump'', ''-C''] None input = Inr (0, dump)"
    using assms(1) [OF fs] unfolding tools_ok_def by metis
  then have "write_hexdump popen input o1 = (Return (), o1 @ dump)" for o1
    by (simp add: write_hexdump_def run_to_output_Return)
  ultimately show ?thesis
    unfolding decode_and_check_def by (auto simp: seqE_Return_iff bindE_Return_iff write_out_def)
qed

text \<open>C13. \<open>decode_and_check\<close> ends normally exactly for the streams it can write back: the schema has the
  form \<open>file:Type\<close> and the input is a sequence of messages, each after its length in the shortest form, that
  \<open>protoc\<close> decodes to a text which it encodes to the same message. On such an input everything
  written ends with the line that says so. All other inputs, also those with a length in a longer form or cut off
  at the end, which \<open>decode\<close> itself accepts, end in an exception.\<close>

theorem decode_and_check_accepts:
  assumes "\<And>fs. format_schema_splitted schema = Inr fs \<Longrightarrow> tools_ok popen protoc fs"
  shows "((\<exists>out'. decode_and_check popen protoc input schema out = (Return (), out')) \<longleftrightarrow>
      (\<exists>fs ms. format_schema_splitted schema = Inr fs \<and> input = concat (map frame ms) \<and>
        (\<forall>m \<in> set ms. \<exists>t. decodes popen protoc fs m t \<and> encodes popen protoc fs t m))) \<and>
    (\<forall>out'. decode_and_check popen protoc input schema out = (Return (), out') \<longrightarrow>
      endswith out' (newline @ ''Binary representation is as expected'' @ newline))"
  by (intro conjI iffI allI impI)
    (rule decode_and_check_message decode_and_check_accepted_stream [OF assms]
      decode_and_check_accepts_stream [OF assms], assumption+)+

text \<open>A \<open>protoc\<close> that knows one message, and the streams of that message.\<close>

definition sim_popen :: popen where
  "sim_popen args cwd d =
     (if args = [''hexdump'', ''-C''] then Inr (0, [])
      else if args = [''protoc'', ''--decode'', ''T'', ''a.proto''] then (if d = ''AB'' then Inr (0, ''x: 1'' @ newline) else Inr (1, []))
      else if args = [''protoc'', ''--encode'', ''T'', ''a.proto''] then (if d = ''x: 1'' @ newline then Inr (0, ''AB'') else Inr (1, []))
      else Inl (OSError ''No such file or directory''))"

definition sim_schema :: FormatSchemaSplitted where
  "sim_schema = \<lparr>schemadir = ''/s'', schemaname = ''a.proto'', message_type = ''T''\<rparr>"

lemma sim_schema_splitted: "format_schema_splitted ''/s/a:T'' = Inr sim_schema"
  by code_simp

lemma sim_decodes: "decodes sim_popen ''protoc'' sim_schema m t \<longleftrightarrow> m = ''AB'' \<and> t = ''x: 1'' @ newline"
  by (auto simp: decodes_def sim_popen_def protoc_args_def sim_schema_def)

lemma sim_tools_ok: "tools_ok sim_popen ''protoc'' sim_schema"
proof -
  have "text_ok (''x: 1'' @ newline)" by code_simp
  then show ?thesis by (simp add: tools_ok_def sim_decodes) (simp add: sim_popen_def)
qed

text \<open>The stream with two messages is accepted; with the length of the message in two bytes it is not.\<close>

theorem decode_and_check_accepts_witness:
  "(\<exists>out. decode_and_check sim_popen ''protoc'' (CHR 0x02 # ''AB'' @ CHR 0x02 # ''AB'') ''/s/a:T'' [] = (Return (), out)) \<and>
   \<not> (\<exists>out. decode_and_check sim_popen ''protoc'' (CHR 0x82 # CHR 0x00 # ''AB'') ''/s/a:T'' [] = (Return (), out))"
proof
  note accepts = decode_and_check_accepts [of "''/s/a:T''" sim_popen "''protoc''", unfolded sim_schema_splitted]
  have frame: "frame ''AB'' = CHR 0x02 # ''AB''" by code_simp
  have "encodes sim_popen ''protoc'' sim_schema (''x: 1'' @ newline) ''AB''" by code_simp
  then show "\<exists>out. decode_and_check sim_popen ''protoc'' (CHR 0x02 # ''AB'' @ CHR 0x02 # ''AB'') ''/s/a:T'' [] = (Return (), out)"
    using accepts [of "CHR 0x02 # ''AB'' @ CHR 0x02 # ''AB''" "[]"] sim_tools_ok
    by (auto simp: sim_decodes frame intro!: exI [of _ "[''AB'', ''AB'']"])
  have "CHR 0x82 # CHR 0x00 # ''AB'' \<noteq> concat (map frame ms)" if "\<forall>m \<in> set ms. m = ''AB''" for ms
    using that by (cases ms) (simp_all add: frame)
  then show "\<not> (\<exists>out. decode_and_check sim_popen ''protoc'' (CHR 0x82 # CHR 0x00 # ''AB'') ''/s/a:T'' [] = (Return (), out))"
    using accepts [of "CHR 0x82 # CHR 0x00 # ''AB''" "[]"] sim_tools_ok by (auto simp: sim_decodes)
qed

end
