(* ===== verification/Parquet_Columns.thy ===== *)
theory Parquet_Columns
  imports Py_Effects
begin

text \<open>
  The script \<open>00900_parquet_create_table_columns.py\<close> of the functional tests, which turns the description of a Parquet file into the
  column list of a \<open>CREATE TABLE\<close>. The description is JSON, read by the library; \<open>upper\<close> is followed for
  the letters of ASCII, of which the names of types consist.
\<close>

section \<open>JSON values\<close>

datatype json = JNull | JBool bool | JInt int | JFloat rat | JStr string | JList "json list" | JObj "(string \<times> json) list"

fun json_true :: "json \<Rightarrow> bool" where
  "json_true JNull = False"
| "json_true (JBool b) = b"
| "json_true (JInt i) = (i \<noteq> 0)"
| "json_true (JFloat q) = (q \<noteq> 0)"
| "json_true (JStr s) = (s \<noteq> [])"
| "json_true (JList xs) = (xs \<noteq> [])"
| "json_true (JObj fs) = (fs \<noteq> [])"

text \<open>\<open>obj[key]\<close>, \<open>obj.get(key, default)\<close>, \<open>text.upper()\<close> and \<open>int(x)\<close>, for objects of any kind.\<close>

fun json_item :: "string \<Rightarrow> json \<Rightarrow> exn + json" where
  "json_item k (JObj fs) = (case map_of fs k of None \<Rightarrow> Inl (KeyError k) | Some v \<Rightarrow> Inr v)"
| "json_item k _ = Inl (TypeError ''indices'')"

fun json_get :: "string \<Rightarrow> json \<Rightarrow> json \<Rightarrow> exn + json" where
  "json_get k dflt (JObj fs) = Inr (case map_of fs k of None \<Rightarrow> dflt | Some v \<Rightarrow> v)"
| "json_get k dflt _ = Inl (AttributeError ''get'')"

definition upper_text :: "string \<Rightarrow> string" where
  "upper_text = map (\<lambda>ch. let n = of_char ch in if (97 :: nat) \<le> n \<and> n \<le> 122 then char_of (n - 32) else ch)"

fun json_upper :: "json \<Rightarrow> exn + string" where
  "json_upper (JStr s) = Inr (upper_text s)"
| "json_upper _ = Inl (AttributeError ''upper'')"

fun json_int :: "json \<Rightarrow> exn + int" where
  "json_int (JInt i) = Inr i"
| "json_int (JBool b) = Inr (if b then 1 else 0)"
| "json_int (JFloat q) = Inr (if q < 0 then - \<lfloor>- q\<rfloor> else \<lfloor>q\<rfloor>)"
| "json_int (JStr s) = (case py_int s of None \<Rightarrow> Inl (ValueError ''invalid literal for int'') | Some i \<Rightarrow> Inr i)"
| "json_int _ = Inl (TypeError ''int() argument'')"

definition bindS :: "'e + 'a \<Rightarrow> ('a \<Rightarrow> 'e + 'b) \<Rightarrow> 'e + 'b" where
  "bindS m f = (case m of Inl e \<Rightarrow> Inl e | Inr a \<Rightarrow> f a)"

section \<open>Types of columns\<close>

definition TYPE_PARQUET_CONVERTED_TO_CLICKHOUSE :: "(string, string) pydict" where
  "TYPE_PARQUET_CONVERTED_TO_CLICKHOUSE =
    [(''TIMESTAMP_MICROS'', ''DateTime('Europe/Moscow')''),
     (''TIMESTAMP_MILLIS'', ''DateTime('Europe/Moscow')''), (''UTF8'', ''String'')]"

definition TYPE_PARQUET_PHYSICAL_TO_CLICKHOUSE :: "(string, string) pydict" where
  "TYPE_PARQUET_PHYSICAL_TO_CLICKHOUSE =
    [(''BOOLEAN'', ''UInt8''), (''INT32'', ''Int32''), (''INT64'', ''Int64''), (''FLOAT'', ''Float32''), (''DOUBLE'', ''Float64''),
     (''BYTE_ARRAY'', ''String''), (''INT96'', ''Int64'')]"

text \<open>\<open>column["Name"].split(".", 1)[0]\<close>\<close>

definition get_column_name :: "json \<Rightarrow> exn + string" where
  "get_column_name column = bindS (json_item ''Name'' column) (\<lambda>x. case x of
     JStr s \<Rightarrow> Inr (hd (py_split1 ''.'' s))
   | _ \<Rightarrow> Inl (AttributeError ''split''))"

definition decimal_type :: "string \<Rightarrow> json \<Rightarrow> exn + string" where
  "decimal_type column_name logical =
     bindS (bindS (json_item ''precision'' logical) json_int) (\<lambda>precision.
     bindS (bindS (json_item ''scale'' logical) json_int) (\<lambda>scale.
       if precision < 1 \<or> precision > 76 then
         Inl (RuntimeError (''Column '' @ column_name @ '' has invalid Decimal precision '' @ str_int precision))
       else if precision > 38 then
         Inl (RuntimeError (''Column '' @ column_name @ '' has unsupported Decimal precision '' @ str_int precision))
       else if scale < 0 \<or> scale > precision then
         Inl (RuntimeError (''Column '' @ column_name @ '' has invalid Decimal scale '' @ str_int scale @ '' for precision '' @
           str_int precision))
       else Inr (''Decimal('' @ str_int precision @ '', '' @ str_int scale @ '')'')))"

definition named_type :: "(string, string) pydict \<Rightarrow> string \<Rightarrow> string \<Rightarrow> string \<Rightarrow> exn + string" where
  "named_type types kind column_name ty = (case map_of types ty of
     None \<Rightarrow> Inl (RuntimeError (''Column '' @ column_name @ '' has unknown '' @ kind @ '': '' @ ty))
   | Some r \<Rightarrow> Inr r)"

definition resolve_clickhouse_column_type :: "json \<Rightarrow> exn + string" where
  "resolve_clickhouse_column_type column =
     bindS (get_column_name column) (\<lambda>column_name.
     bindS (json_get ''LogicalType'' (JObj []) column) (\<lambda>logical.
     bindS (bindS (json_get ''ConvertedType'' (JStr []) column) json_upper) (\<lambda>converted.
     bindS (bindS (json_get ''PhysicalType'' (JStr []) column) json_upper) (\<lambda>physical.
     bindS (if json_true logical
            then bindS (bindS (json_get ''Type'' (JStr []) logical) json_upper) (\<lambda>t. Inr (t = ''DECIMAL''))
            else Inr False) (\<lambda>decimal.
       if decimal then decimal_type column_name logical
       else if converted \<noteq> [] \<and> converted \<noteq> ''NONE'' then named_type TYPE_PARQUET_CONVERTED_TO_CLICKHOUSE ''ConvertedType'' column_name converted
       else if physical \<noteq> [] \<and> physical \<noteq> ''NONE'' then named_type TYPE_PARQUET_PHYSICAL_TO_CLICKHOUSE ''PhysicalType'' column_name physical
       else Inl (RuntimeError (''Column '' @ column_name @ '' has invalid types: ConvertedType='' @ converted @ '', PhysicalType='' @ physical)))))))"

section \<open>The list of columns\<close>

text \<open>
  The descriptions in the order of their first column. The dictionary of the source holds the same
  objects by their names, so that adding a type through it changes the list.
\<close>

type_synonym descr = "string \<times> string list"

fun add_column :: "descr list \<Rightarrow> string \<Rightarrow> string \<Rightarrow> descr list" where
  "add_column [] nm ty = [(nm, [ty])]"
| "add_column ((n, tys) # ds) nm ty = (if n = nm then (n, tys @ [ty]) # ds else (n, tys) # add_column ds nm ty)"

fun gather_columns :: "json list \<Rightarrow> descr list \<Rightarrow> exn + descr list" where
  "gather_columns [] ds = Inr ds"
| "gather_columns (column # cs) ds =
     bindS (get_column_name column) (\<lambda>nm.
     bindS (resolve_clickhouse_column_type column) (\<lambda>ty.
       gather_columns cs (add_column ds nm (''Nullable('' @ ty @ '')''))))"

definition format_type :: "string list \<Rightarrow> string" where
  "format_type types = (if length types = 1 then hd types else ''Tuple('' @ py_join '', '' types @ '')'')"

fun json_list :: "json \<Rightarrow> exn + json list" where
  "json_list (JList xs) = Inr xs"
| "json_list (JObj fs) = Inr (map (JStr \<circ> fst) fs)"
| "json_list (JStr s) = Inr (map (\<lambda>c. JStr [c]) s)"
| "json_list _ = Inl (TypeError ''not iterable'')"

definition backquoted :: "string \<Rightarrow> string" where
  "backquoted s = CHR 0x60 # s @ [CHR 0x60]"

text \<open>The printed text.\<close>

definition dump_columns :: "json \<Rightarrow> exn + string" where
  "dump_columns obj =
     bindS (json_item ''Columns'' obj) (\<lambda>x. bindS (json_list x) (\<lambda>columns. bindS (gather_columns columns []) (\<lambda>ds.
       Inr (py_join '', '' (map (\<lambda>(nm, tys). backquoted nm @ '' '' @ format_type tys) ds)))))"

text \<open>Reading a file and the library's parser are arguments.\<close>

definition dump_columns_from_file :: "(string \<Rightarrow> exn + string) \<Rightarrow> (string \<Rightarrow> exn + json) \<Rightarrow> string \<Rightarrow> exn + string" where
  "dump_columns_from_file read_file loads filename = bindS (bindS (read_file filename) loads) dump_columns"

section \<open>Reference\<close>

text \<open>The columns as pairs of a name and a type; the names in the order in which they come first, each with all its types.\<close>

fun column_pairs :: "json list \<Rightarrow> exn + (string \<times> string) list" where
  "column_pairs [] = Inr []"
| "column_pairs (column # cs) =
     bindS (get_column_name column) (\<lambda>nm. bindS (resolve_clickhouse_column_type column) (\<lambda>ty.
       bindS (column_pairs cs) (\<lambda>ps. Inr ((nm, ''Nullable('' @ ty @ '')'') # ps))))"

definition first_names :: "(string \<times> string) list \<Rightarrow> string list" where
  "first_names ps = rev (remdups (rev (map fst ps)))"

definition types_of :: "(string \<times> string) list \<Rightarrow> string \<Rightarrow> string list" where
  "types_of ps nm = map snd (filter (\<lambda>(n, ty). n = nm) ps)"

definition grouped :: "(string \<times> string) list \<Rightarrow> descr list" where
  "grouped ps = map (\<lambda>nm. (nm, types_of ps nm)) (first_names ps)"

text \<open>The types that a column may get.\<close>

definition column_types :: "string set" where
  "column_types = {''Decimal('' @ str_int p @ '', '' @ str_int s @ '')'' | p s. 1 \<le> p \<and> p \<le> 38 \<and> 0 \<le> s \<and> s \<le> p} \<union>
     snd ` set TYPE_PARQUET_CONVERTED_TO_CLICKHOUSE \<union> snd ` set TYPE_PARQUET_PHYSICAL_TO_CLICKHOUSE"

section \<open>Facts\<close>

lemma bindS_simps [simp]: "bindS (Inl e) f = Inl e" "bindS (Inr a) f = f a"
  by (simp_all add: bindS_def)

lemma bindS_Inr: "bindS m f = Inr b \<longleftrightarrow> (\<exists>a. m = Inr a \<and> f a = Inr b)"
  by (cases m) simp_all

lemma types_of_snoc: "types_of (ps @ [(nm, ty)]) n = types_of ps n @ (if n = nm then [ty] else [])"
  by (simp add: types_of_def)

lemma first_names_snoc: "first_names (ps @ [(nm, ty)]) = (if nm \<in> fst ` set ps then first_names ps else first_names ps @ [nm])"
  by (simp add: first_names_def)

lemma set_first_names: "set (first_names ps) = fst ` set ps" "distinct (first_names ps)"
  by (simp_all add: first_names_def)

lemma add_column_new: "nm \<notin> fst ` set ds \<Longrightarrow> add_column ds nm ty = ds @ [(nm, [ty])]"
  by (induction ds) auto

lemma add_column_map:
  "distinct ns \<Longrightarrow> nm \<in> set ns \<Longrightarrow> add_column (map (\<lambda>n. (n, f n)) ns) nm ty = map (\<lambda>n. (n, f n @ (if n = nm then [ty] else []))) ns"
  by (induction ns) auto

lemma add_column_grouped: "add_column (grouped ps) nm ty = grouped (ps @ [(nm, ty)])"
proof (cases "nm \<in> fst ` set ps")
  case True
  then have "add_column (grouped ps) nm ty = map (\<lambda>n. (n, types_of ps n @ (if n = nm then [ty] else []))) (first_names ps)"
    unfolding grouped_def using set_first_names by (intro add_column_map) auto
  then show ?thesis using True by (simp add: grouped_def first_names_snoc types_of_snoc cong: map_cong)
next
  case False
  then have "types_of ps nm = []" by (force simp: types_of_def filter_empty_conv)
  moreover have "fst ` set (grouped ps) = fst ` set ps" by (force simp: grouped_def set_first_names)
  moreover have "map (\<lambda>n. (n, types_of (ps @ [(nm, ty)]) n)) (first_names ps) = grouped ps"
    using False by (auto simp: grouped_def types_of_snoc set_first_names)
  ultimately show ?thesis using False add_column_new [of nm "grouped ps" ty]
    by (simp add: grouped_def [of "ps @ _"] first_names_snoc types_of_snoc)
qed

lemma gather_grouped: "gather_columns cs (grouped ps) = bindS (column_pairs cs) (\<lambda>qs. Inr (grouped (ps @ qs)))"
proof (induction cs arbitrary: ps)
  case (Cons c cs)
  show ?case
  proof (cases "get_column_name c")
    case (Inr nm)
    show ?thesis
    proof (cases "resolve_clickhouse_column_type c")
      case (Inr ty)
      then show ?thesis using \<open>get_column_name c = Inr nm\<close> Cons.IH by (cases "column_pairs cs") (simp_all add: add_column_grouped)
    qed (use Inr in simp)
  qed simp
qed simp

lemma named_type_in: "named_type types kind nm ty = Inr r \<Longrightarrow> r \<in> snd ` set types"
  by (force simp: named_type_def split: option.splits dest: map_of_SomeD)

lemma decimal_type_in: "decimal_type nm logical = Inr r \<Longrightarrow> r \<in> column_types"
  unfolding decimal_type_def column_types_def bindS_Inr by (fastforce split: if_splits)

lemma pick_Inr: "(if a then x else if b then y else if d then z else Inl e) = Inr r \<Longrightarrow> x = Inr r \<or> y = Inr r \<or> z = Inr r"
  by (simp split: if_splits)

lemma resolve_in_types:
  assumes "resolve_clickhouse_column_type c = Inr ty"
  shows "ty \<in> column_types"
proof -
  obtain nm logical converted physical where
    "decimal_type nm logical = Inr ty \<or> named_type TYPE_PARQUET_CONVERTED_TO_CLICKHOUSE ''ConvertedType'' nm converted = Inr ty \<or>
     named_type TYPE_PARQUET_PHYSICAL_TO_CLICKHOUSE ''PhysicalType'' nm physical = Inr ty"
    using assms unfolding resolve_clickhouse_column_type_def bindS_Inr [of "get_column_name c"] bindS_Inr [of "json_get _ _ c"]
      bindS_Inr [of "bindS _ json_upper"] bindS_Inr [of "if _ then _ else _"] by (blast dest: pick_Inr)
  then have "ty \<in> column_types \<or> ty \<in> snd ` set TYPE_PARQUET_CONVERTED_TO_CLICKHOUSE \<or> ty \<in> snd ` set TYPE_PARQUET_PHYSICAL_TO_CLICKHOUSE"
    using decimal_type_in named_type_in by blast
  then show ?thesis unfolding column_types_def by blast
qed



end
