(* ===== verification/Uexpect.thy ===== *)
theory Uexpect
  imports Py_Effects
begin

text \<open>
  The terminals of the functional tests, in the directory \<open>helpers\<close> of \<open>clickhouse/functional\<close>: \<open>uexpect.py\<close>, which
  waits for a pattern in the output of a process, its variant \<open>httpexpect.py\<close> for the response of a
  web server, and the objects of \<open>client.py\<close> and \<open>shell.py\<close> built on it. A thread reads the output of the process
  and puts it into a queue; \<open>IO.expect\<close> takes it from there and keeps in its buffer what comes after the match.

  The record \<open>tty\<close> has the operations outside the class: the queue, whose \<open>get\<close> gives \<open>None\<close> for the exception
  \<open>Empty\<close>, the clock, the process with its terminal, and the log. Regular expressions are searched by the argument
  \<open>search\<close>, which gives the start and the end of the match. \<open>tty_fuel\<close> limits the rounds of each loop.
\<close>

record 'w tty =
  queue_get :: "seconds \<Rightarrow> ('w, string option) eff"
  queue_put :: "string \<Rightarrow> ('w, unit) eff"
  tty_now :: "'w \<Rightarrow> seconds"
  tty_sleep :: "seconds \<Rightarrow> ('w, unit) eff"
  os_read :: "('w, string) eff"
  os_write :: "string \<Rightarrow> ('w, nat) eff"
  os_close :: "('w, unit) eff"
  kill_event_set :: "('w, unit) eff"
  kill_event_is_set :: "'w \<Rightarrow> bool"
  pkill_children :: "('w, unit) eff"
  process_kill :: "('w, unit) eff"
  process_terminate :: "('w, unit) eff"
  connection_close :: "('w, unit) eff"
  log_write :: "string \<Rightarrow> ('w, unit) eff"
  log_flush :: "('w, unit) eff"
  tty_fuel :: nat

type_synonym search = "string \<Rightarrow> string \<Rightarrow> (nat \<times> nat) option"

text \<open>The attributes of \<open>IO\<close>; of the logger only its prefix matters.\<close>

record 'w io =
  io_world :: 'w
  io_buffer :: "string option"
  io_before :: "string option"
  io_after :: "string option"
  io_match :: "(nat \<times> nat) option"
  io_timeout :: "seconds option"
  io_logger :: "string option"
  io_eol :: string

definition IO :: "'w \<Rightarrow> 'w io" where
  "IO w = \<lparr>io_world = w, io_buffer = None, io_before = None, io_after = None, io_match = None, io_timeout = None,
     io_logger = None, io_eol = []\<rparr>"

definition inT :: "('w, 'a) eff \<Rightarrow> ('w io, 'a) eff" where
  "inT m = (\<lambda>s. case m (io_world s) of (r, w) \<Rightarrow> (r, s\<lparr>io_world := w\<rparr>))"

section \<open>Settings and output\<close>

definition logger_text :: "string \<Rightarrow> string \<Rightarrow> string" where
  "logger_text prefix data = py_replace CHR 0x0A (newline @ prefix) (newline @ data)"

text \<open>\<open>if self._logger: self._logger.write(...); self._logger.flush()\<close>\<close>

definition log_line :: "'w tty \<Rightarrow> string \<Rightarrow> ('w io, unit) eff" where
  "log_line tty data = bindE (getE io_logger) (\<lambda>l. case l of
       None \<Rightarrow> ret ()
     | Some prefix \<Rightarrow> seqE (inT (log_write tty (logger_text prefix data))) (inT (log_flush tty)))"

definition set_logger :: "string option \<Rightarrow> ('w io, unit) eff" where
  "set_logger prefix = whenE (prefix \<noteq> None) (modifyE (\<lambda>s. s\<lparr>io_logger := prefix\<rparr>))"

text \<open>A timeout of zero is not set.\<close>

definition io_timeout_set :: "seconds option \<Rightarrow> ('w io, seconds option) eff" where
  "io_timeout_set timeout =
     seqE (whenE (timeout \<noteq> None \<and> timeout \<noteq> Some 0) (modifyE (\<lambda>s. s\<lparr>io_timeout := timeout\<rparr>))) (getE io_timeout)"

definition eol :: "string option \<Rightarrow> ('w io, string) eff" where
  "eol e = seqE (case e of None \<Rightarrow> ret () | Some x \<Rightarrow> whenE (x \<noteq> []) (modifyE (\<lambda>s. s\<lparr>io_eol := x\<rparr>))) (getE io_eol)"

definition io_send :: "'w tty \<Rightarrow> string \<Rightarrow> string option \<Rightarrow> ('w io, nat) eff" where
  "io_send tty data e = bindE (getE io_eol) (\<lambda>def. inT (os_write tty (data @ (case e of None \<Rightarrow> def | Some x \<Rightarrow> x))))"

definition io_close :: "'w tty \<Rightarrow> bool \<Rightarrow> ('w io, unit) eff" where
  "io_close tty force =
     seqE (inT (kill_event_set tty))
     (seqE (inT (pkill_children tty))
     (seqE (inT (if force then process_kill tty else process_terminate tty))
     (seqE (inT (os_close tty)) (log_line tty newline))))"

section \<open>Reading\<close>

text \<open>The loop of \<open>read\<close>; \<open>None\<close> is the exception \<open>Empty\<close>, at which no data has been read yet.\<close>

fun read_loop :: "'w tty \<Rightarrow> nat \<Rightarrow> seconds \<Rightarrow> ('w io, string option) eff" where
  "read_loop tty 0 timeleft = out_of_fuel"
| "read_loop tty (Suc n) timeleft =
     (if timeleft \<ge> 0 then
        bindE (getE (\<lambda>s. tty_now tty (io_world s))) (\<lambda>start_time.
        bindE (inT (queue_get tty timeleft)) (\<lambda>x. case x of
          None \<Rightarrow> ret None
        | Some data \<Rightarrow>
            if data \<noteq> [] then ret (Some data)
            else bindE (getE (\<lambda>s. tty_now tty (io_world s))) (\<lambda>t. read_loop tty n (timeleft - (t - start_time)))))
      else ret (Some []))"

definition io_read :: "'w tty \<Rightarrow> seconds \<Rightarrow> bool \<Rightarrow> ('w io, string) eff" where
  "io_read tty timeout raise_exception = bindE (read_loop tty (tty_fuel tty) timeout) (\<lambda>x.
     case x of
       Some (c # cs) \<Rightarrow> ret (c # cs)
     | _ \<Rightarrow> if raise_exception then raise (TimeoutError timeout) else ret [])"

section \<open>Waiting for a pattern\<close>

definition re_escape :: "string \<Rightarrow> string" where
  "re_escape s = concat (map (\<lambda>c. if c \<in> set (''()[]?*+-|^$.&~# '' @ map char_of [0x7B :: nat, 0x7D, 0x5C, 9, 10, 13, 11, 12])
     then [CHR 0x5C, c] else [c]) s)"

definition try_match :: "search \<Rightarrow> string \<Rightarrow> ('w io, bool) eff" where
  "try_match search pattern = bindE (getE io_buffer) (\<lambda>b. case b of
       None \<Rightarrow> ret False
     | Some text \<Rightarrow> (case search pattern text of
           None \<Rightarrow> seqE (modifyE (\<lambda>s. s\<lparr>io_match := None\<rparr>)) (ret False)
         | Some (i, j) \<Rightarrow>
             seqE (modifyE (\<lambda>s. s\<lparr>io_match := Some (i, j), io_after := Some (take (j - i) (drop i text)),
               io_before := Some (take i text), io_buffer := Some (drop j text)\<rparr>)) (ret True)))"

text \<open>\<open>exception = ExpectTimeoutError(pattern, timeout, self.buffer); self.buffer = None; raise exception\<close>\<close>

definition give_up :: "string \<Rightarrow> seconds \<Rightarrow> ('w io, 'a) eff" where
  "give_up pattern timeout = bindE (getE io_buffer) (\<lambda>b.
     seqE (modifyE (\<lambda>s. s\<lparr>io_buffer := None\<rparr>)) (raise (ExpectTimeout pattern timeout b)))"

definition append_data :: "string \<Rightarrow> ('w io, unit) eff" where
  "append_data data = whenE (data \<noteq> []) (modifyE (\<lambda>s. s\<lparr>io_buffer :=
     Some (case io_buffer s of None \<Rightarrow> data | Some [] \<Rightarrow> data | Some b \<Rightarrow> b @ data)\<rparr>))"

fun expect_loop :: "'w tty \<Rightarrow> search \<Rightarrow> string \<Rightarrow> seconds \<Rightarrow> nat \<Rightarrow> seconds \<Rightarrow> ('w io, unit) eff" where
  "expect_loop tty search pattern timeout 0 timeleft = out_of_fuel"
| "expect_loop tty search pattern timeout (Suc n) timeleft =
     bindE (getE (\<lambda>s. tty_now tty (io_world s))) (\<lambda>start_time.
     bindE (try_match search pattern) (\<lambda>matched.
     if matched \<or> timeleft < 0 then ret ()
     else
       bindE (tryE (io_read tty timeleft True)) (\<lambda>x. case x of
         Inr data \<Rightarrow>
           bindE (getE (\<lambda>s. tty_now tty (io_world s))) (\<lambda>t.
           seqE (append_data data) (expect_loop tty search pattern timeout n (timeleft - (t - start_time))))
       | Inl (TimeoutError _) \<Rightarrow>
           bindE (getE io_buffer) (\<lambda>b.
           seqE (log_line tty ((case b of None \<Rightarrow> [] | Some text \<Rightarrow> text) @ newline)) (give_up pattern timeout))
       | Inl e \<Rightarrow> raise e)))"

text \<open>Without a timeout of its own and of the object, only a match that is in the buffer already can be found.\<close>

definition expect_untimed :: "search \<Rightarrow> string \<Rightarrow> ('w io, unit) eff" where
  "expect_untimed search pattern = bindE (try_match search pattern) (\<lambda>matched.
     if matched then ret () else raise (TypeError ''not supported between instances of NoneType and int''))"

definition text_of :: "string option \<Rightarrow> string" where
  "text_of x = (case x of None \<Rightarrow> [] | Some t \<Rightarrow> t)"

definition expect :: "'w tty \<Rightarrow> search \<Rightarrow> string \<Rightarrow> seconds option \<Rightarrow> bool \<Rightarrow> ('w io, nat \<times> nat) eff" where
  "expect tty search pat timeout escape =
     (let pattern = (if escape then re_escape pat else pat) in
      seqE (modifyE (\<lambda>s. s\<lparr>io_match := None, io_before := None, io_after := None\<rparr>))
      (bindE (getE io_timeout) (\<lambda>default.
       let timeout' = (case timeout of None \<Rightarrow> default | Some t \<Rightarrow> Some t) in
       seqE (case timeout' of
           None \<Rightarrow> expect_untimed search pattern
         | Some t \<Rightarrow> expect_loop tty search pattern t (tty_fuel tty) t)
       (bindE (getE (\<lambda>s. text_of (io_before s) @ text_of (io_after s))) (\<lambda>seen.
        seqE (log_line tty seen)
        (bindE (getE io_match) (\<lambda>m. case m of
           None \<Rightarrow> give_up pattern (case timeout' of None \<Rightarrow> 0 | Some t \<Rightarrow> t)
         | Some x \<Rightarrow> ret x)))))))"

section \<open>The thread that reads\<close>

fun reader :: "'w tty \<Rightarrow> nat \<Rightarrow> ('w, unit) eff" where
  "reader tty 0 = out_of_fuel"
| "reader tty (Suc n) =
     bindE (tryE (bindE (os_read tty) (queue_put tty))) (\<lambda>x. case x of
       Inr _ \<Rightarrow> reader tty n
     | Inl e \<Rightarrow> bindE (getE (kill_event_is_set tty)) (\<lambda>killed. if killed then ret () else raise e))"

text \<open>The reader of a response also looks at the event before it reads, and reads one byte at a time.\<close>

fun http_reader :: "'w tty \<Rightarrow> nat \<Rightarrow> ('w, unit) eff" where
  "http_reader tty 0 = out_of_fuel"
| "http_reader tty (Suc n) =
     bindE (getE (kill_event_is_set tty)) (\<lambda>killed. if killed then ret () else
     bindE (tryE (bindE (os_read tty) (queue_put tty))) (\<lambda>x. case x of
       Inr _ \<Rightarrow> http_reader tty n
     | Inl e \<Rightarrow>
         if is_Exception e then bindE (getE (kill_event_is_set tty)) (\<lambda>k. if k then ret () else raise e)
         else raise e))"

definition http_write :: "string \<Rightarrow> ('w io, nat) eff" where
  "http_write data = raise (NotImplementedError [])"

definition http_close :: "'w tty \<Rightarrow> ('w io, unit) eff" where
  "http_close tty = seqE (inT (kill_event_set tty)) (seqE (inT (connection_close tty)) (log_line tty newline))"

section \<open>Client and shell\<close>

definition carriage_return :: string where
  "carriage_return = [CHR 0x0D]"

definition client_init :: "'w tty \<Rightarrow> search \<Rightarrow> string \<Rightarrow> string option \<Rightarrow> ('w io, unit) eff" where
  "client_init tty search command lg =
     seqE (eol (Some carriage_return))
     (seqE (set_logger lg)
     (seqE (io_timeout_set (Some 120))
     (seqE (expect tty search (''[#'' @ [CHR 0x5C] @ ''$] '') (Some 60) False)
     (seqE (io_send tty command None) (ret ())))))"

definition shell_init :: "'w tty \<Rightarrow> search \<Rightarrow> string \<Rightarrow> string option \<Rightarrow> ('w io, unit) eff" where
  "shell_init tty search prompt lg =
     seqE (eol (Some carriage_return))
     (seqE (set_logger lg)
     (seqE (io_timeout_set (Some 20))
     (seqE (expect tty search prompt (Some 60) False) (ret ()))))"

text \<open>\<open>__exit__\<close> of both; the word that ends the program is \<open>quit\<close> or \<open>exit\<close>.\<close>

definition terminal_exit :: "'w tty \<Rightarrow> string \<Rightarrow> ('w io, unit) eff" where
  "terminal_exit tty word =
     seqE (inT (kill_event_set tty))
     (seqE (io_send tty [CHR 0x03] (Some []))
     (seqE (inT (tty_sleep tty (3 / 10)))
     (seqE (io_send tty word (Some carriage_return))
     (seqE (io_send tty [CHR 0x03] (Some [])) (io_close tty True)))))"

section \<open>What is relied on\<close>

text \<open>
  \<open>received\<close> is all that was ever taken out of the queue. A call of \<open>get\<close> adds to it what it returns; it raises \<open>Empty\<close>
  only after its timeout; logging takes nothing out of the queue. The match of a search lies in the text.
\<close>

definition quiet :: "'w tty \<Rightarrow> ('w \<Rightarrow> string) \<Rightarrow> ('w, unit) eff \<Rightarrow> bool" where
  "quiet tty received m \<longleftrightarrow> (\<forall>w. \<exists>w'. m w = (Return (), w') \<and> received w' = received w \<and> tty_now tty w \<le> tty_now tty w')"

definition queue_law :: "'w tty \<Rightarrow> ('w \<Rightarrow> string) \<Rightarrow> bool" where
  "queue_law tty received \<longleftrightarrow> (\<forall>s. quiet tty received (log_write tty s)) \<and> quiet tty received (log_flush tty) \<and>
     (\<forall>t \<ge> 0. \<forall>w. \<exists>x w'. queue_get tty t w = (Return x, w') \<and> tty_now tty w \<le> tty_now tty w' \<and>
        received w' = received w @ text_of x \<and> (x = None \<longrightarrow> tty_now tty w + t \<le> tty_now tty w'))"

definition search_law :: "search \<Rightarrow> bool" where
  "search_law search \<longleftrightarrow> (\<forall>p t i j. search p t = Some (i, j) \<longrightarrow> i \<le> j \<and> j \<le> length t)"

lemma text_of_simps [simp]: "text_of None = []" "text_of (Some t) = t"
  by (simp_all add: text_of_def)

lemma inT_step: "m (io_world s) = (r, w) \<Longrightarrow> inT m s = (r, s\<lparr>io_world := w\<rparr>)"
  by (simp add: inT_def)

lemma seqE_inT: "m (io_world s) = (Return a, w) \<Longrightarrow> seqE (inT m) k s = k (s\<lparr>io_world := w\<rparr>)"
  by (simp add: seqE_def bindE_step [OF inT_step])

lemma queue_lawE:
  assumes "queue_law tty received" and "0 \<le> t"
  obtains x w where "queue_get tty t (io_world s) = (Return x, w)" "tty_now tty (io_world s) \<le> tty_now tty w"
    "received w = received (io_world s) @ text_of x" "x = None \<longrightarrow> tty_now tty (io_world s) + t \<le> tty_now tty w"
  using assms unfolding queue_law_def by metis

lemma log_line_quiet:
  assumes "queue_law tty received"
  obtains w where "log_line tty d s = (Return (), s\<lparr>io_world := w\<rparr>)" "received w = received (io_world s)"
    "tty_now tty (io_world s) \<le> tty_now tty w"
proof (cases "io_logger s")
  case None
  then show ?thesis using that [of "io_world s"] by (simp add: log_line_def bindE_getE)
next
  case (Some p)
  obtain w1 where w1: "log_write tty (logger_text p d) (io_world s) = (Return (), w1)"
    "received w1 = received (io_world s)" "tty_now tty (io_world s) \<le> tty_now tty w1"
    using assms unfolding queue_law_def quiet_def by metis
  obtain w2 where w2: "log_flush tty w1 = (Return (), w2)" "received w2 = received w1" "tty_now tty w1 \<le> tty_now tty w2"
    using assms unfolding queue_law_def quiet_def by metis
  have "log_line tty d s = (Return (), s\<lparr>io_world := w2\<rparr>)"
    using Some w1(1) w2(1) by (simp add: log_line_def bindE_getE seqE_inT) (simp add: inT_def)
  with that w1 w2 show ?thesis by simp
qed

lemma read_loop_step:
  assumes "0 \<le> t" and "queue_get tty t (io_world s) = (Return x, w)"
  shows "read_loop tty (Suc n) t s = (case x of None \<Rightarrow> ret None
      | Some data \<Rightarrow> if data \<noteq> [] then ret (Some data)
          else read_loop tty n (t - (tty_now tty w - tty_now tty (io_world s)))) (s\<lparr>io_world := w\<rparr>)"
  using assms by (simp add: bindE_getE bindE_step [OF inT_step] split: option.splits)

text \<open>\<open>read\<close> returns what came next, or times out having taken only empty texts and after its timeout.\<close>

lemma read_loop_law:
  assumes law: "queue_law tty received"
  shows "read_loop tty n t s = (r, s') \<Longrightarrow> r \<noteq> OutOfFuel \<Longrightarrow>
    \<exists>w x. s' = s\<lparr>io_world := w\<rparr> \<and> r = Return x \<and> received w = received (io_world s) @ text_of x \<and>
      tty_now tty (io_world s) \<le> tty_now tty w \<and> (x = None \<or> x = Some [] \<longrightarrow> tty_now tty (io_world s) + t \<le> tty_now tty w)"
proof (induction n arbitrary: t s)
  case (Suc n)
  show ?case
  proof (cases "0 \<le> t")
    case True
    obtain x w where get: "queue_get tty t (io_world s) = (Return x, w)" "tty_now tty (io_world s) \<le> tty_now tty w"
      "received w = received (io_world s) @ text_of x" "x = None \<longrightarrow> tty_now tty (io_world s) + t \<le> tty_now tty w"
      using law True by (rule queue_lawE)
    note step = read_loop_step [OF True get(1), of n]
    show ?thesis
    proof (cases "x = Some []")
      case False
      with Suc.prems(1) step have "ret x (s\<lparr>io_world := w\<rparr>) = (r, s')" by (cases x) simp_all
      then show ?thesis using False get by auto
    next
      case empty: True
      then have "read_loop tty n (t - (tty_now tty w - tty_now tty (io_world s))) (s\<lparr>io_world := w\<rparr>) = (r, s')"
        using Suc.prems(1) step by simp
      from Suc.IH [OF this Suc.prems(2)] show ?thesis using get empty by fastforce
    qed
  next
    case False
    then show ?thesis using Suc.prems by (intro exI [of _ "io_world s"] exI [of _ "Some []"]) auto
  qed
qed (simp add: out_of_fuel_def)

lemma io_read_law:
  assumes law: "queue_law tty received" and "io_read tty t True s = (r, s')" and "r \<noteq> OutOfFuel"
  obtains w where "s' = s\<lparr>io_world := w\<rparr>" "tty_now tty (io_world s) \<le> tty_now tty w"
    "(\<exists>d. d \<noteq> [] \<and> r = Return d \<and> received w = received (io_world s) @ d) \<or>
     (r = Raise (TimeoutError t) \<and> received w = received (io_world s) \<and> tty_now tty (io_world s) + t \<le> tty_now tty w)"
proof -
  obtain r1 s1 where run: "read_loop tty (tty_fuel tty) t s = (r1, s1)" by (cases "read_loop tty (tty_fuel tty) t s")
  with assms(2,3) have "r1 \<noteq> OutOfFuel" by (auto simp: io_read_def bindE_def split: outcome.splits)
  from read_loop_law [OF law run this] obtain w x where w: "s1 = s\<lparr>io_world := w\<rparr>" "r1 = Return x"
    "received w = received (io_world s) @ text_of x" "tty_now tty (io_world s) \<le> tty_now tty w"
    "x = None \<or> x = Some [] \<longrightarrow> tty_now tty (io_world s) + t \<le> tty_now tty w" by blast
  with assms(2) run have "(case x of Some (c # cs) \<Rightarrow> ret (c # cs) | _ \<Rightarrow> raise (TimeoutError t)) s1 = (r, s')"
    by (simp add: io_read_def bindE_step split: option.splits list.splits)
  then show ?thesis using that [of w] w by (auto split: option.splits list.splits)
qed

text \<open>How \<open>expect\<close> leaves the object when the pattern is found in a text, and that a buffer has no match.\<close>

definition found :: "search \<Rightarrow> string \<Rightarrow> string \<Rightarrow> 'w io \<Rightarrow> bool" where
  "found search pattern text s \<longleftrightarrow> (\<exists>i j. search pattern text = Some (i, j) \<and> io_match s = Some (i, j) \<and>
     io_before s = Some (take i text) \<and> io_after s = Some (take (j - i) (drop i text)) \<and> io_buffer s = Some (drop j text))"

definition no_match :: "search \<Rightarrow> string \<Rightarrow> string option \<Rightarrow> bool" where
  "no_match search pattern b \<longleftrightarrow> (\<forall>t. b = Some t \<longrightarrow> search pattern t = None)"

lemma try_match_cases:
  assumes "io_match s = None"
  shows "no_match search pattern (io_buffer s) \<and> try_match search pattern s = (Return False, s) \<or>
    (\<exists>s'. try_match search pattern s = (Return True, s') \<and> found search pattern (text_of (io_buffer s)) s' \<and> io_world s' = io_world s)"
proof (cases "io_buffer s")
  case None
  then show ?thesis by (simp add: try_match_def bindE_getE no_match_def)
next
  case (Some t)
  have "s\<lparr>io_match := None\<rparr> = s" using assms by simp
  then show ?thesis using Some
    by (cases "search pattern t")
      (auto simp: try_match_def bindE_getE seqE_modifyE no_match_def found_def)
qed

lemma append_data_step:
  "d \<noteq> [] \<Longrightarrow> seqE (append_data d) k s = k (s\<lparr>io_buffer := Some (text_of (io_buffer s) @ d)\<rparr>)"
  by (simp add: append_data_def seqE_modifyE text_of_def split: option.splits list.splits)

lemma give_up_eq: "give_up pattern timeout s = (Raise (ExpectTimeout pattern timeout (io_buffer s)), s\<lparr>io_buffer := None\<rparr>)"
  by (simp add: give_up_def bindE_getE seqE_modifyE raise_def)

text \<open>What a run of the loop from \<open>s\<close> that ends has read, and how it has left the object.\<close>

definition loop_result ::
  "'w tty \<Rightarrow> ('w \<Rightarrow> string) \<Rightarrow> search \<Rightarrow> string \<Rightarrow> seconds \<Rightarrow> seconds \<Rightarrow> 'w io \<Rightarrow> unit outcome \<Rightarrow> 'w io \<Rightarrow> bool" where
  "loop_result tty received search pattern timeout timeleft s r s' \<longleftrightarrow>
     (\<exists>delta. received (io_world s') = received (io_world s) @ delta \<and>
       (let text = text_of (io_buffer s) @ delta; late = (tty_now tty (io_world s) + timeleft \<le> tty_now tty (io_world s')) in
        r = Return () \<and> found search pattern text s' \<or>
        r = Return () \<and> io_match s' = None \<and> no_match search pattern (io_buffer s') \<and> text_of (io_buffer s') = text \<and> late \<or>
        (\<exists>b. r = Raise (ExpectTimeout pattern timeout b) \<and> io_buffer s' = None \<and> no_match search pattern b \<and> text_of b = text \<and> late)))"

lemma loop_result_read:
  assumes "loop_result tty received search pattern timeout (timeleft - (t1 - t0)) (s\<lparr>io_world := w, io_buffer := Some (text_of (io_buffer s) @ d)\<rparr>) r s'"
    and "received w = received (io_world s) @ d" and "t1 = tty_now tty w" and "t0 = tty_now tty (io_world s)"
  shows "loop_result tty received search pattern timeout timeleft s r s'"
proof -
  obtain delta where "received (io_world s') = received w @ delta"
    and res: "let text = (text_of (io_buffer s) @ d) @ delta; late = (tty_now tty w + (timeleft - (t1 - t0)) \<le> tty_now tty (io_world s')) in
        r = Return () \<and> found search pattern text s' \<or>
        r = Return () \<and> io_match s' = None \<and> no_match search pattern (io_buffer s') \<and> text_of (io_buffer s') = text \<and> late \<or>
        (\<exists>b. r = Raise (ExpectTimeout pattern timeout b) \<and> io_buffer s' = None \<and> no_match search pattern b \<and> text_of b = text \<and> late)"
    using assms(1) unfolding loop_result_def by auto
  moreover have "tty_now tty w + (timeleft - (t1 - t0)) = tty_now tty (io_world s) + timeleft" using assms(3,4) by simp
  ultimately show ?thesis unfolding loop_result_def using assms(2)
    by (intro exI [of _ "d @ delta"]) (simp add: Let_def)
qed

lemma expect_loop_law:
  assumes law: "queue_law tty received"
  shows "expect_loop tty search pattern timeout n timeleft s = (r, s') \<Longrightarrow> r \<noteq> OutOfFuel \<Longrightarrow> io_match s = None \<Longrightarrow>
    loop_result tty received search pattern timeout timeleft s r s'"
proof (induction n arbitrary: timeleft s)
  case (Suc n)
  consider (hit) s1 where "try_match search pattern s = (Return True, s1)" "found search pattern (text_of (io_buffer s)) s1" "io_world s1 = io_world s"
    | (miss) "try_match search pattern s = (Return False, s)" "no_match search pattern (io_buffer s)"
    using try_match_cases [OF Suc.prems(3)] by blast
  then show ?case
  proof cases
    case hit
    with Suc.prems(1) have "r = Return ()" "s' = s1" by (simp_all add: bindE_getE bindE_step)
    with hit show ?thesis by (auto simp: loop_result_def)
  next
    case miss
    show ?thesis
    proof (cases "timeleft < 0")
      case True
      with miss Suc.prems(1) have "r = Return ()" "s' = s" by (simp_all add: bindE_getE, simp_all add: bindE_def)
      with miss True Suc.prems(3) show ?thesis by (auto simp: loop_result_def)
    next
      case False
      obtain r1 s1 where rd: "io_read tty timeleft True s = (r1, s1)" by (cases "io_read tty timeleft True s")
      have run: "bindE (tryE (io_read tty timeleft True)) (\<lambda>x. case x of
         Inr data \<Rightarrow>
           bindE (getE (\<lambda>s. tty_now tty (io_world s))) (\<lambda>t.
           seqE (append_data data) (expect_loop tty search pattern timeout n (timeleft - (t - tty_now tty (io_world s)))))
       | Inl (TimeoutError _) \<Rightarrow>
           bindE (getE io_buffer) (\<lambda>b.
           seqE (log_line tty ((case b of None \<Rightarrow> [] | Some text \<Rightarrow> text) @ newline)) (give_up pattern timeout))
       | Inl e \<Rightarrow> raise e) s = (r, s')"
        using Suc.prems(1) miss False by (simp add: bindE_getE bindE_step)
      then have "r1 \<noteq> OutOfFuel" using rd Suc.prems(2) by (auto simp: tryE_def bindE_def)
      from io_read_law [OF law rd this] obtain w where w: "s1 = s\<lparr>io_world := w\<rparr>"
        and cases: "(\<exists>d. d \<noteq> [] \<and> r1 = Return d \<and> received w = received (io_world s) @ d) \<or>
          (r1 = Raise (TimeoutError timeleft) \<and> received w = received (io_world s) \<and> tty_now tty (io_world s) + timeleft \<le> tty_now tty w)"
        by blast
      from cases show ?thesis
      proof (elim disjE exE conjE)
        fix d
        assume d: "d \<noteq> []" "r1 = Return d" "received w = received (io_world s) @ d"
        let ?s = "s\<lparr>io_world := w, io_buffer := Some (text_of (io_buffer s) @ d)\<rparr>"
        have "tryE (io_read tty timeleft True) s = (Return (Inr d), s1)" using rd d(2) by (simp add: tryE_def)
        with run w d(1) have "expect_loop tty search pattern timeout n (timeleft - (tty_now tty w - tty_now tty (io_world s))) ?s = (r, s')"
          by (simp add: bindE_step bindE_getE append_data_step)
        from Suc.IH [OF this Suc.prems(2)] show ?thesis using d(3) Suc.prems(3) by (auto intro: loop_result_read)
      next
        assume t: "r1 = Raise (TimeoutError timeleft)" "received w = received (io_world s)" "tty_now tty (io_world s) + timeleft \<le> tty_now tty w"
        obtain w1 where lg: "log_line tty ((case io_buffer s of None \<Rightarrow> [] | Some text \<Rightarrow> text) @ newline) s1 = (Return (), s1\<lparr>io_world := w1\<rparr>)"
          "received w1 = received w" "tty_now tty w \<le> tty_now tty w1"
          using log_line_quiet [OF law, of _ s1] w by auto
        have "tryE (io_read tty timeleft True) s = (Return (Inl (TimeoutError timeleft)), s1)" using rd t(1) by (simp add: tryE_def)
        with run w lg(1) have "r = Raise (ExpectTimeout pattern timeout (io_buffer s))" "s' = s\<lparr>io_world := w1, io_buffer := None\<rparr>"
          by (simp_all add: bindE_step bindE_getE seqE_def give_up_eq)
        with t lg(2,3) miss(2) show ?thesis by (auto simp: loop_result_def)
      qed
    qed
  qed
qed (simp add: out_of_fuel_def)

lemma found_split:
  assumes "found search pattern text s" and "search_law search"
  obtains before after buffer where "text = before @ after @ buffer" "io_before s = Some before" "io_after s = Some after"
    "io_buffer s = Some buffer" "io_match s = Some (length before, length before + length after)"
    "search pattern text = Some (length before, length before + length after)"
proof -
  obtain i j where ij: "search pattern text = Some (i, j)" "io_match s = Some (i, j)" "io_before s = Some (take i text)"
    "io_after s = Some (take (j - i) (drop i text))" "io_buffer s = Some (drop j text)" using assms(1) by (auto simp: found_def)
  then have le: "i \<le> j" "j \<le> length text" using assms(2) by (auto simp: search_law_def)
  then have "text = take i text @ take (j - i) (drop i text) @ drop j text"
    by (metis append_take_drop_id drop_drop le_add_diff_inverse2)
  from that [OF this] ij le show ?thesis by simp
qed

text \<open>What \<open>expect\<close> does once its loop has ended.\<close>

definition fresh_match :: "'w io \<Rightarrow> 'w io" where
  "fresh_match s = s\<lparr>io_match := None, io_before := None, io_after := None\<rparr>"

definition conclude :: "'w tty \<Rightarrow> string \<Rightarrow> seconds \<Rightarrow> ('w io, nat \<times> nat) eff" where
  "conclude tty pattern timeout = bindE (getE (\<lambda>s. text_of (io_before s) @ text_of (io_after s))) (\<lambda>seen.
     seqE (log_line tty seen) (bindE (getE io_match) (\<lambda>m. case m of
       None \<Rightarrow> give_up pattern timeout | Some x \<Rightarrow> ret x)))"

lemma expect_timed:
  assumes "timeout = Some t \<or> timeout = None \<and> io_timeout s = Some t"
  shows "expect tty search pat timeout escape s =
    (let pattern = if escape then re_escape pat else pat in
     seqE (expect_loop tty search pattern t (tty_fuel tty) t) (conclude tty pattern t) (fresh_match s))"
  using assms by (auto simp: expect_def conclude_def fresh_match_def seqE_modifyE bindE_getE Let_def)

lemma conclude_law:
  assumes "queue_law tty received"
  obtains w where "received w = received (io_world s)" "tty_now tty (io_world s) \<le> tty_now tty w"
    "conclude tty pattern timeout s = (case io_match s of
       None \<Rightarrow> (Raise (ExpectTimeout pattern timeout (io_buffer s)), s\<lparr>io_world := w, io_buffer := None\<rparr>)
     | Some x \<Rightarrow> (Return x, s\<lparr>io_world := w\<rparr>))"
proof -
  obtain w where "log_line tty (text_of (io_before s) @ text_of (io_after s)) s = (Return (), s\<lparr>io_world := w\<rparr>)"
    "received w = received (io_world s)" "tty_now tty (io_world s) \<le> tty_now tty w"
    using assms by (rule log_line_quiet)
  then show ?thesis using that [of w]
    by (simp add: conclude_def bindE_getE seqE_def bindE_step give_up_eq split: option.splits)
qed

lemma expect_outcome:
  assumes "queue_law tty received" and "search_law search"
    and "timeout = Some t \<or> timeout = None \<and> io_timeout s = Some t"
    and "expect tty search pat timeout escape s = (r, s')" and "r \<noteq> OutOfFuel"
  shows "\<exists>delta. received (io_world s') = received (io_world s) @ delta \<and>
    (let text = text_of (io_buffer s) @ delta; pattern = (if escape then re_escape pat else pat) in
     (\<exists>before after buffer. r = Return (length before, length before + length after) \<and> io_before s' = Some before \<and>
        io_after s' = Some after \<and> io_buffer s' = Some buffer \<and> text = before @ after @ buffer \<and>
        search pattern text = Some (length before, length before + length after)) \<or>
     (\<exists>b. r = Raise (ExpectTimeout pattern t b) \<and> io_buffer s' = None \<and> text_of b = text \<and> no_match search pattern b \<and>
        tty_now tty (io_world s) + t \<le> tty_now tty (io_world s')))"
proof -
  let ?p = "if escape then re_escape pat else pat" and ?s = "fresh_match s"
  obtain r1 s1 where loop: "expect_loop tty search ?p t (tty_fuel tty) t ?s = (r1, s1)" by (metis prod.collapse)
  have run: "seqE (expect_loop tty search ?p t (tty_fuel tty) t) (conclude tty ?p t) ?s = (r, s')"
    using assms(4) expect_timed [OF assms(3)] by (simp add: Let_def)
  then have "r1 \<noteq> OutOfFuel" using loop assms(5) by (auto simp: seqE_def bindE_def)
  then have "loop_result tty received search ?p t t ?s r1 s1"
    using expect_loop_law [OF assms(1) loop] by (simp add: fresh_match_def)
  then obtain delta where delta: "received (io_world s1) = received (io_world s) @ delta"
    and res: "r1 = Return () \<and> found search ?p (text_of (io_buffer s) @ delta) s1 \<or>
        r1 = Return () \<and> io_match s1 = None \<and> no_match search ?p (io_buffer s1) \<and> text_of (io_buffer s1) = text_of (io_buffer s) @ delta \<and>
          tty_now tty (io_world s) + t \<le> tty_now tty (io_world s1) \<or>
        (\<exists>b. r1 = Raise (ExpectTimeout ?p t b) \<and> io_buffer s1 = None \<and> no_match search ?p b \<and> text_of b = text_of (io_buffer s) @ delta \<and>
          tty_now tty (io_world s) + t \<le> tty_now tty (io_world s1))"
    unfolding loop_result_def by (auto simp: Let_def fresh_match_def)
  obtain w where w: "received w = received (io_world s1)" "tty_now tty (io_world s1) \<le> tty_now tty w"
    and fin: "conclude tty ?p t s1 = (case io_match s1 of
       None \<Rightarrow> (Raise (ExpectTimeout ?p t (io_buffer s1)), s1\<lparr>io_world := w, io_buffer := None\<rparr>)
     | Some x \<Rightarrow> (Return x, s1\<lparr>io_world := w\<rparr>))"
    using assms(1) by (rule conclude_law)
  from res show ?thesis
  proof (elim disjE exE conjE)
    assume "r1 = Return ()" and "found search ?p (text_of (io_buffer s) @ delta) s1"
    then obtain before after buffer where split: "text_of (io_buffer s) @ delta = before @ after @ buffer" "io_before s1 = Some before"
      "io_after s1 = Some after" "io_buffer s1 = Some buffer" "io_match s1 = Some (length before, length before + length after)"
      "search ?p (text_of (io_buffer s) @ delta) = Some (length before, length before + length after)"
      using assms(2) by (elim found_split)
    moreover from this have "r = Return (length before, length before + length after)" "s' = s1\<lparr>io_world := w\<rparr>"
      using run loop \<open>r1 = Return ()\<close> fin by (simp_all add: seqE_def bindE_step)
    ultimately show ?thesis using w(1) delta by (intro exI [of _ delta]) (auto simp: Let_def)
  next
    assume miss: "r1 = Return ()" "io_match s1 = None" "no_match search ?p (io_buffer s1)"
      "text_of (io_buffer s1) = text_of (io_buffer s) @ delta" "tty_now tty (io_world s) + t \<le> tty_now tty (io_world s1)"
    then have "r = Raise (ExpectTimeout ?p t (io_buffer s1))" "s' = s1\<lparr>io_world := w, io_buffer := None\<rparr>"
      using run loop fin by (simp_all add: seqE_def bindE_step)
    then show ?thesis using miss w delta by (intro exI [of _ delta]) (auto simp: Let_def)
  next
    fix b
    assume "r1 = Raise (ExpectTimeout ?p t b)" "io_buffer s1 = None" "no_match search ?p b" "text_of b = text_of (io_buffer s) @ delta"
      "tty_now tty (io_world s) + t \<le> tty_now tty (io_world s1)"
    moreover from this run loop have "r = Raise (ExpectTimeout ?p t b)" "s' = s1" by (simp_all add: seqE_def bindE_def)
    ultimately show ?thesis using delta by (intro exI [of _ delta]) (auto simp: Let_def)
  qed
qed

lemma expect_shape:
  assumes "queue_law tty received" and "search_law search" and "timeout = Some t \<or> timeout = None \<and> io_timeout s = Some t"
    and "expect tty search pat timeout escape s = (r, s')" and "r \<noteq> OutOfFuel"
  shows "(\<exists>m. r = Return m) \<or> (\<exists>p b. r = Raise (ExpectTimeout p t b))"
  using expect_outcome [OF assms] by (auto simp: Let_def)

text \<open>C14. \<open>IO.expect\<close> loses and invents nothing: when it returns, the text it had in its buffer and the text it took from the
  queue is the concatenation of \<open>before\<close>, \<open>after\<close> and the new buffer, and \<open>after\<close> is the match of the pattern in
  that text. The only exception, when the terminal itself does not fail, is \<open>ExpectTimeoutError\<close>: it comes no earlier than the
  timeout, carries all the text that was there, in which the pattern does not match, and clears the buffer, so
  that this text is gone for the next call.\<close>

theorem expect_contract:
  assumes "queue_law tty received" and "search_law search"
    and "timeout = Some t \<or> timeout = None \<and> io_timeout s = Some t"
    and "expect tty search pat timeout escape s = (r, s')" and "r \<noteq> OutOfFuel"
  shows "\<exists>delta. received (io_world s') = received (io_world s) @ delta \<and>
    (let text = text_of (io_buffer s) @ delta; pattern = (if escape then re_escape pat else pat) in
     (\<exists>before after buffer. r = Return (length before, length before + length after) \<and> io_before s' = Some before \<and>
        io_after s' = Some after \<and> io_buffer s' = Some buffer \<and> text = before @ after @ buffer \<and>
        search pattern text = Some (length before, length before + length after)) \<or>
     (\<exists>b. r = Raise (ExpectTimeout pattern t b) \<and> io_buffer s' = None \<and> text_of b = text \<and> no_match search pattern b \<and>
        tty_now tty (io_world s) + t \<le> tty_now tty (io_world s')))"
  using assms by (rule expect_outcome)

section \<open>Ending\<close>

text \<open>Taking something out of the queue, even an empty text, takes at least \<open>d\<close> seconds.\<close>

definition slow_queue :: "'w tty \<Rightarrow> seconds \<Rightarrow> bool" where
  "slow_queue tty d \<longleftrightarrow> 0 < d \<and>
     (\<forall>t w x w'. queue_get tty t w = (Return (Some x), w') \<longrightarrow> tty_now tty w + d \<le> tty_now tty w')"

lemma read_loop_ends:
  assumes law: "queue_law tty received" and slow: "slow_queue tty d"
  shows "0 < n \<Longrightarrow> t < (of_nat n - 1) * d \<Longrightarrow> fst (read_loop tty n t s) \<noteq> OutOfFuel"
proof (induction n arbitrary: t s)
  case (Suc n)
  show ?case
  proof (cases "0 \<le> t")
    case True
    obtain x w where get: "queue_get tty t (io_world s) = (Return x, w)" using law True by (rule queue_lawE)
    show ?thesis
    proof (cases "x = Some []")
      case empty: True
      have "0 < n" using True Suc.prems by (cases n) auto
      have "tty_now tty (io_world s) + d \<le> tty_now tty w" using get empty slow by (auto simp: slow_queue_def)
      then have "t - (tty_now tty w - tty_now tty (io_world s)) < (of_nat n - 1) * d"
        using Suc.prems(2) by (simp add: algebra_simps)
      from Suc.IH [OF \<open>0 < n\<close> this] show ?thesis
        using True get empty by (simp add: bindE_getE bindE_step [OF inT_step])
    next
      case False
      then show ?thesis using True get by (cases x) (auto simp: bindE_getE bindE_step [OF inT_step] ret_def)
    qed
  qed (simp add: ret_def)
qed simp

lemma read_loop_slow:
  assumes law: "queue_law tty received" and slow: "slow_queue tty d"
  shows "read_loop tty n t s = (Return (Some x), s') \<Longrightarrow> x \<noteq> [] \<Longrightarrow> tty_now tty (io_world s) + d \<le> tty_now tty (io_world s')"
proof (induction n arbitrary: t s)
  case (Suc n)
  have "0 \<le> t" using Suc.prems by (auto split: if_splits)
  then obtain y w where get: "queue_get tty t (io_world s) = (Return y, w)" "tty_now tty (io_world s) \<le> tty_now tty w"
    by (rule queue_lawE [OF law])
  note Suc.prems(1) [unfolded read_loop_step [OF \<open>0 \<le> t\<close> get(1)]]
  then show ?case using get slow Suc.IH Suc.prems(2) by (fastforce simp: slow_queue_def split: option.splits if_splits)
qed (simp add: out_of_fuel_def)

lemma io_read_ends:
  assumes "queue_law tty received" and "slow_queue tty d" and "0 \<le> t" and "t < (of_nat (tty_fuel tty) - 1) * d"
  shows "fst (io_read tty t True s) \<noteq> OutOfFuel"
    and "io_read tty t True s = (Return x, s') \<Longrightarrow> tty_now tty (io_world s) + d \<le> tty_now tty (io_world s')"
proof -
  have "0 < tty_fuel tty"
  proof (rule ccontr)
    assume "\<not> 0 < tty_fuel tty"
    with assms(4) have "t < - d" by simp
    with assms(2,3) show False by (simp add: slow_queue_def)
  qed
  then have "fst (read_loop tty (tty_fuel tty) t s) \<noteq> OutOfFuel" using assms by (intro read_loop_ends)
  then show "fst (io_read tty t True s) \<noteq> OutOfFuel"
    by (auto simp: io_read_def bindE_def raise_def ret_def split: prod.splits outcome.splits option.splits list.splits)
  show "io_read tty t True s = (Return x, s') \<Longrightarrow> tty_now tty (io_world s) + d \<le> tty_now tty (io_world s')"
  proof -
    assume "io_read tty t True s = (Return x, s')"
    then obtain y s1 where y: "read_loop tty (tty_fuel tty) t s = (Return y, s1)"
      "(case y of Some (c # cs) \<Rightarrow> ret (c # cs) | _ \<Rightarrow> if True then raise (TimeoutError t) else ret []) s1 = (Return x, s')"
      unfolding io_read_def bindE_Return_iff by blast
    then have "y = Some x" "x \<noteq> []" "s1 = s'" by (auto split: option.splits list.splits)
    with y show "tty_now tty (io_world s) + d \<le> tty_now tty (io_world s')"
      using read_loop_slow [OF assms(1,2)] by blast
  qed
qed

lemma seqE_not_out_of_fuel:
  "fst (m s) \<noteq> OutOfFuel \<Longrightarrow> (\<And>t. fst (k t) \<noteq> OutOfFuel) \<Longrightarrow> fst (seqE m k s) \<noteq> OutOfFuel"
  by (auto simp: seqE_def bindE_def split: prod.splits outcome.splits)

lemma expect_loop_ends:
  assumes law: "queue_law tty received" and slow: "slow_queue tty d"
  shows "0 < n \<Longrightarrow> timeleft < (of_nat n - 1) * d \<Longrightarrow> timeleft < (of_nat (tty_fuel tty) - 1) * d \<Longrightarrow> io_match s = None \<Longrightarrow>
    fst (expect_loop tty search pattern timeout n timeleft s) \<noteq> OutOfFuel"
proof (induction n arbitrary: timeleft s)
  case (Suc n)
  consider (hit) s1 where "try_match search pattern s = (Return True, s1)"
    | (miss) "try_match search pattern s = (Return False, s)"
    using try_match_cases [OF Suc.prems(4)] by blast
  then show ?case
  proof cases
    case hit
    then show ?thesis by (simp add: bindE_getE bindE_step ret_def)
  next
    case miss
    show ?thesis
    proof (cases "timeleft < 0")
      case True
      then show ?thesis using miss by (simp add: bindE_getE, simp add: bindE_def ret_def)
    next
      case False
      note ends = io_read_ends [OF law slow _ Suc.prems(3), of s]
      obtain r1 s1 where rd: "io_read tty timeleft True s = (r1, s1)" by (metis prod.collapse)
      have "r1 \<noteq> OutOfFuel" using ends(1) rd False by simp
      from io_read_law [OF law rd this] obtain w where w: "s1 = s\<lparr>io_world := w\<rparr>"
        and cases: "(\<exists>x. x \<noteq> [] \<and> r1 = Return x) \<or> r1 = Raise (TimeoutError timeleft)" by blast
      from cases show ?thesis
      proof (elim disjE exE conjE)
        fix x
        assume x: "x \<noteq> []" "r1 = Return x"
        let ?s = "s\<lparr>io_world := w, io_buffer := Some (text_of (io_buffer s) @ x)\<rparr>"
        have "tty_now tty (io_world s) + d \<le> tty_now tty w" using ends(2) rd x(2) w False by simp
        then have less: "timeleft - (tty_now tty w - tty_now tty (io_world s)) < (of_nat n - 1) * d"
          "timeleft - (tty_now tty w - tty_now tty (io_world s)) < (of_nat (tty_fuel tty) - 1) * d"
          using Suc.prems(2,3) slow by (simp_all add: algebra_simps slow_queue_def)
        have "0 < n" using False Suc.prems(2) by (cases n) auto
        have "tryE (io_read tty timeleft True) s = (Return (Inr x), s1)" using rd x(2) by (simp add: tryE_def)
        then have "expect_loop tty search pattern timeout (Suc n) timeleft s =
            expect_loop tty search pattern timeout n (timeleft - (tty_now tty w - tty_now tty (io_world s))) ?s"
          using w x(1) miss False by (simp add: bindE_step bindE_getE append_data_step)
        then show ?thesis using Suc.IH [OF \<open>0 < n\<close> less, of ?s] Suc.prems(4) by simp
      next
        assume "r1 = Raise (TimeoutError timeleft)"
        then have "tryE (io_read tty timeleft True) s = (Return (Inl (TimeoutError timeleft)), s1)" using rd by (simp add: tryE_def)
        moreover obtain w1 where "log_line tty ((case io_buffer s of None \<Rightarrow> [] | Some text \<Rightarrow> text) @ newline) s1 = (Return (), s1\<lparr>io_world := w1\<rparr>)"
          using log_line_quiet [OF law, of _ s1] by blast
        ultimately show ?thesis using w miss False
          by (simp add: bindE_step bindE_getE seqE_def give_up_eq)
      qed
    qed
  qed
qed simp

text \<open>C35. \<open>IO.expect\<close> always ends, with a match or with \<open>ExpectTimeoutError\<close>, however much the process writes: when each text takes
  at least \<open>d\<close> seconds to arrive, the loops have at most one round more than there are such intervals in the
  timeout.\<close>

theorem expect_always_ends:
  assumes "queue_law tty received" and "search_law search" and "slow_queue tty d"
    and "timeout = Some t \<or> timeout = None \<and> io_timeout s = Some t" and "0 \<le> t" and "t < (of_nat (tty_fuel tty) - 1) * d"
  shows "\<exists>s'. (\<exists>m. expect tty search pat timeout escape s = (Return m, s')) \<or>
    (\<exists>p b. expect tty search pat timeout escape s = (Raise (ExpectTimeout p t b), s'))"
proof -
  let ?p = "if escape then re_escape pat else pat"
  have "0 < tty_fuel tty"
  proof (rule ccontr)
    assume "\<not> 0 < tty_fuel tty"
    with assms(6) have "t < - d" by simp
    with assms(3,5) show False by (simp add: slow_queue_def)
  qed
  then have "fst (expect_loop tty search ?p t (tty_fuel tty) t (fresh_match s)) \<noteq> OutOfFuel"
    using assms(6) by (intro expect_loop_ends [OF assms(1,3)]) (simp_all add: fresh_match_def)
  moreover have "fst (conclude tty ?p t s1) \<noteq> OutOfFuel" for s1
    by (rule conclude_law [OF assms(1), of s1 ?p t]) (simp split: option.splits)
  ultimately have "fst (expect tty search pat timeout escape s) \<noteq> OutOfFuel"
    unfolding expect_timed [OF assms(4)] Let_def by (rule seqE_not_out_of_fuel)
  moreover obtain r s' where run: "expect tty search pat timeout escape s = (r, s')" by (metis prod.collapse)
  ultimately have "r \<noteq> OutOfFuel" by simp
  from expect_shape [OF assms(1,2,4) run this] run show ?thesis by blast
qed

section \<open>An example\<close>

text \<open>A terminal on which the given texts arrive, one each second, and the search for a fixed text.\<close>

record script =
  sc_texts :: "string list"
  sc_now :: seconds
  sc_received :: string

definition sim_tty :: "script tty" where
  "sim_tty = \<lparr>queue_get = (\<lambda>t w. case sc_texts w of
       [] \<Rightarrow> (Return None, w\<lparr>sc_now := sc_now w + t\<rparr>)
     | x # xs \<Rightarrow> (Return (Some x), w\<lparr>sc_texts := xs, sc_now := sc_now w + 1, sc_received := sc_received w @ x\<rparr>)),
     queue_put = (\<lambda>s. ret ()), tty_now = sc_now, tty_sleep = (\<lambda>d. ret ()), os_read = ret [], os_write = (\<lambda>s. ret (length s)),
     os_close = ret (), kill_event_set = ret (), kill_event_is_set = (\<lambda>_. True), pkill_children = ret (), process_kill = ret (),
     process_terminate = ret (), connection_close = ret (), log_write = (\<lambda>s. ret ()), log_flush = ret (), tty_fuel = 70\<rparr>"

definition sim_search :: search where
  "sim_search p t = (case find_sep p t of None \<Rightarrow> None | Some (a, b) \<Rightarrow> Some (length a, length a + length p))"

definition sim_io :: "script io" where
  "sim_io = (IO \<lparr>sc_texts = [''cli'', ''ckhouse :) '', ''q''], sc_now = 0, sc_received = []\<rparr>)\<lparr>io_timeout := Some 60\<rparr>"

lemma sim_terminal_laws: "queue_law sim_tty sc_received" "slow_queue sim_tty 1" "search_law sim_search"
  by (auto simp: queue_law_def quiet_def slow_queue_def search_law_def sim_tty_def sim_search_def ret_def
      dest: find_sep_eq split: list.splits option.splits)

lemma sim_expect: "fst (expect sim_tty sim_search ''ck'' None False sim_io) = Return (3, 5)"
  by code_simp

theorem expect_contract_witness:
  "\<exists>before after buffer. io_before (snd (expect sim_tty sim_search ''ck'' None False sim_io)) = Some before \<and>
     io_after (snd (expect sim_tty sim_search ''ck'' None False sim_io)) = Some after \<and>
     sc_received (io_world (snd (expect sim_tty sim_search ''ck'' None False sim_io))) = before @ after @ buffer"
proof -
  let ?run = "expect sim_tty sim_search ''ck'' None False sim_io"
  have "?run = (Return (3, 5), snd ?run)" using sim_expect by (metis prod.collapse)
  moreover have "None = Some 60 \<or> None = None \<and> io_timeout sim_io = Some 60" by (simp add: sim_io_def)
  moreover have "text_of (io_buffer sim_io) = []" "sc_received (io_world sim_io) = []" by (simp_all add: sim_io_def IO_def)
  ultimately show ?thesis
    using expect_contract [OF sim_terminal_laws(1,3), of None 60 sim_io "''ck''" False "Return (3, 5)" "snd ?run"]
    by (auto simp: Let_def)
qed

theorem expect_always_ends_witness:
  "\<exists>s'. (\<exists>m. expect sim_tty sim_search ''never'' (Some 9) True sim_io = (Return m, s')) \<or>
    (\<exists>p b. expect sim_tty sim_search ''never'' (Some 9) True sim_io = (Raise (ExpectTimeout p 9 b), s'))"
  by (rule expect_always_ends [OF sim_terminal_laws(1,3,2)]) (simp_all add: sim_tty_def)

text \<open>
  The end of a client or a shell has no \<open>finally\<close>: when the process no longer takes input, the exception of the first
  \<open>send\<close> leaves the process running and its terminal open.
\<close>

lemma terminal_exit_leaks:
  assumes "kill_event_set tty (io_world s) = (Return (), w)" and "os_write tty [CHR 0x03] w = (Raise e, w')"
  shows "terminal_exit tty word s = (Raise e, s\<lparr>io_world := w'\<rparr>)"
  using assms by (simp add: terminal_exit_def seqE_inT io_send_def) (simp add: seqE_def bindE_def getE_def inT_def)

end
