(* ===== verification/Http_Client.thy ===== *)
theory Http_Client
  imports Py_Effects
begin

text \<open>
  The web client of the functional tests, \<open>pure_http_client.py\<close>: a query is posted again, after longer and longer
  pauses, until the server accepts it. The record \<open>http\<close> has the request of the library, which gives the status and the text
  of the response, and the pause; printing is left out.
\<close>

record 'w http =
  post :: "string \<Rightarrow> (string, string) pydict \<Rightarrow> (string, string) pydict \<Rightarrow> seconds \<Rightarrow> string \<Rightarrow> ('w, int \<times> string) eff"
  http_sleep :: "seconds \<Rightarrow> ('w, unit) eff"

section \<open>Requests\<close>

definition server_url :: "string \<Rightarrow> string \<Rightarrow> string" where
  "server_url host port = ''http://'' @ py_join '':'' [host, port] @ ''/''"

text \<open>\<open>{**params, **settings}\<close>\<close>

definition merge_dicts :: "(string, string) pydict \<Rightarrow> (string, string) pydict \<Rightarrow> (string, string) pydict" where
  "merge_dicts params settings = foldl (\<lambda>d (k, v). AList.update k v d) params settings"

definition default_params :: "string \<Rightarrow> (string, string) pydict" where
  "default_params database = [(''timeout_before_checking_execution_speed'', ''120''), (''max_execution_time'', ''6000''),
     (''database'', database)]"

definition NUMBER_OF_TRIES :: nat where
  "NUMBER_OF_TRIES = 30"

definition DELAY :: seconds where
  "DELAY = 10"

fun query_tries :: "'w http \<Rightarrow> string \<Rightarrow> (string, string) pydict \<Rightarrow> seconds \<Rightarrow> string \<Rightarrow> nat list \<Rightarrow> ('w, string option) eff" where
  "query_tries http host params timeout q [] = ret None"
| "query_tries http host params timeout q (i # is) =
     bindE (post http host params [] timeout q) (\<lambda>(status_code, text).
     if status_code = 200 then ret (Some text)
     else if i \<noteq> NUMBER_OF_TRIES - 1 then
       seqE (http_sleep http (DELAY * (of_nat i + 1))) (query_tries http host params timeout q is)
     else raise (ValueError text))"

definition client_query :: "'w http \<Rightarrow> string \<Rightarrow> string \<Rightarrow> string \<Rightarrow> seconds \<Rightarrow> (string, string) pydict \<Rightarrow> ('w, string option) eff" where
  "client_query http host database q connection_timeout settings =
     query_tries http host (merge_dicts (default_params database) settings) connection_timeout q [0..<NUMBER_OF_TRIES]"

definition query_with_data ::
  "'w http \<Rightarrow> string \<Rightarrow> string \<Rightarrow> string \<Rightarrow> string \<Rightarrow> seconds \<Rightarrow> (string, string) pydict \<Rightarrow> ('w, string) eff" where
  "query_with_data http host database q data connection_timeout settings =
     bindE (post http host (merge_dicts ((''query'', q) # default_params database) settings)
       [(''Content-Type'', ''application/binary'')] connection_timeout data) (\<lambda>(status_code, text).
     if status_code = 200 then ret text else raise (ValueError text))"

section \<open>Facts\<close>

lemma merge_dicts_lookup: "map_of (merge_dicts params settings) k = (case map_of (rev settings) k of None \<Rightarrow> map_of params k | Some v \<Rightarrow> Some v)"
proof (induction settings arbitrary: params)
  case (Cons kv settings)
  obtain k1 v1 where "kv = (k1, v1)" by (cases kv)
  with Cons [of "AList.update k1 v1 params"] show ?case
    by (simp add: merge_dicts_def map_of_dict_update map_add_def split: option.splits)
qed (simp add: merge_dicts_def)

text \<open>
  What the requests and the pauses do, seen by the number of requests and the time spent in pauses so far. A request is answered.
\<close>

definition http_law :: "'w http \<Rightarrow> ('w \<Rightarrow> nat) \<Rightarrow> ('w \<Rightarrow> seconds) \<Rightarrow> bool" where
  "http_law http posts slept \<longleftrightarrow>
     (\<forall>u p h t d w. \<exists>r w'. post http u p h t d w = (Return r, w') \<and> posts w' = Suc (posts w) \<and> slept w' = slept w) \<and>
     (\<forall>d w. \<exists>w'. http_sleep http d w = (Return (), w') \<and> posts w' = posts w \<and> slept w' = slept w + d)"

lemma query_tries_law:
  assumes law: "http_law http posts slept"
  shows "k \<le> 30 \<Longrightarrow> i = 30 - k \<Longrightarrow> 0 < k \<Longrightarrow>
    \<exists>n w'. i \<le> n \<and> n < 30 \<and> posts w' = posts w + (n - i) + 1 \<and>
      slept w' = slept w + 5 * of_nat n * (of_nat n + 1) - 5 * of_nat i * (of_nat i + 1) \<and>
      ((\<exists>text. query_tries http host params timeout q [i..<30] w = (Return (Some text), w')) \<or>
       (\<exists>text. n = 29 \<and> query_tries http host params timeout q [i..<30] w = (Raise (ValueError text), w')))"
proof (induction k arbitrary: i w)
  case (Suc k)
  have i: "i < 30" using Suc.prems by simp
  obtain code reply w1 where w1: "post http host params [] timeout q w = (Return (code, reply), w1)" "posts w1 = Suc (posts w)" "slept w1 = slept w"
    using law unfolding http_law_def by (metis surj_pair)
  note step = bindE_step [of "post http host params [] timeout q" w, OF w1(1)]
  show ?case
  proof (cases "code = 200 \<or> i = 29")
    case True
    then show ?thesis using w1 i
      by (intro exI [of _ i] exI [of _ w1]) (auto simp: upt_conv_Cons step NUMBER_OF_TRIES_def)
  next
    case False
    obtain w2 where w2: "http_sleep http (DELAY * (of_nat i + 1)) w1 = (Return (), w2)" "posts w2 = posts w1"
      "slept w2 = slept w1 + DELAY * (of_nat i + 1)" using law unfolding http_law_def by metis
    have "query_tries http host params timeout q [i..<30] w = query_tries http host params timeout q [Suc i..<30] w2"
      using False i w2(1) by (simp add: upt_conv_Cons step NUMBER_OF_TRIES_def seqE_def bindE_step)
    moreover obtain n w' where "Suc i \<le> n" "n < 30" "posts w' = posts w2 + (n - Suc i) + 1"
      "slept w' = slept w2 + 5 * of_nat n * (of_nat n + 1) - 5 * of_nat (Suc i) * (of_nat (Suc i) + 1)"
      "(\<exists>text. query_tries http host params timeout q [Suc i..<30] w2 = (Return (Some text), w')) \<or>
       (\<exists>text. n = 29 \<and> query_tries http host params timeout q [Suc i..<30] w2 = (Raise (ValueError text), w'))"
      using Suc.IH [of "Suc i" w2] Suc.prems i False by fastforce
    ultimately show ?thesis using w1 w2
      by (intro exI [of _ n] exI [of _ w']) (auto simp: DELAY_def algebra_simps)
  qed
qed simp


text \<open>A server that refuses the first requests, as many as the state says; the state also has the number of requests and the pauses.\<close>

definition sim_http :: "(nat \<times> nat \<times> seconds) http" where
  "sim_http = \<lparr>post = (\<lambda>u p h t d (refuse, n, s). (Return (if refuse = 0 then 200 else 500, ''r''), (refuse - 1, n + 1, s))),
     http_sleep = (\<lambda>d (refuse, n, s). (Return (), (refuse, n, s + d)))\<rparr>"

lemma sim_http_law: "http_law sim_http (\<lambda>(_, n, _). n) (\<lambda>(_, _, s). s)"
  by (auto simp: http_law_def sim_http_def)


end
