(* ===== verification/Expected_Results.thy ===== *)
theory Expected_Results
  imports Versions
begin

text \<open>
  The tables of expected results, \<open>xfails\<close>, \<open>xflags\<close> and \<open>ffails\<close> of \<open><suite>/regression.py\<close>. A key is a pattern of test
  names; the patterns and what a result does to a test belong to the test framework. What the repository decides
  is when an entry applies: its condition asks for the version of the server or for the machine. A text outside
  ASCII is given by its bytes in UTF-8, as in the source file. Tables that are empty are left out.
\<close>

section \<open>Entries and their conditions\<close>

datatype test_result = Fail | Error | Skip | XFail | XError

datatype test_flag = SKIP

text \<open>
  The callables in the third place of an entry: \<open>check_clickhouse_version(version)\<close>, the comparison of
  \<open>platform.machine()\<close>, and the conjunction of two of them in a \<open>lambda\<close>.
\<close>

datatype condition = Version string | Machine string | Both condition condition

fun condition_holds :: "string \<Rightarrow> string option \<Rightarrow> condition \<Rightarrow> exn + bool" where
  "condition_holds machine version (Version v) = check_clickhouse_version v version"
| "condition_holds machine version (Machine m) = Inr (machine = m)"
| "condition_holds machine version (Both a b) =
     (case condition_holds machine version a of
        Inl e \<Rightarrow> Inl e
      | Inr False \<Rightarrow> Inr False
      | Inr True \<Rightarrow> condition_holds machine version b)"

text \<open>
  \<open>(result, reason, when, message)\<close> of an expected failure and \<open>(result, reason, when)\<close> of a forced result; an entry with
  no condition always applies.
\<close>

type_synonym xfail = "test_result \<times> string \<times> condition option \<times> string option"
type_synonym ffail = "test_result \<times> string \<times> condition option"
type_synonym xfail_table = "(string, xfail list) pydict"
type_synonym ffail_table = "(string, ffail) pydict"
type_synonym xflag_table = "(string, test_flag \<times> nat) pydict"

definition applies :: "string \<Rightarrow> string option \<Rightarrow> condition option \<Rightarrow> exn + bool" where
  "applies machine version w =
     (case w of None \<Rightarrow> Inr True | Some c \<Rightarrow> condition_holds machine version c)"

text \<open>The results that a table forces on a machine and a version: patterns with their results, in the order of the table.\<close>

fun forced :: "string \<Rightarrow> string option \<Rightarrow> ffail_table \<Rightarrow> exn + (string \<times> test_result) list" where
  "forced machine version [] = Inr []"
| "forced machine version ((pattern, result, reason, w) # tbl) =
     (case applies machine version w of
        Inl e \<Rightarrow> Inl e
      | Inr b \<Rightarrow> map_sum id (\<lambda>ps. if b then (pattern, result) # ps else ps) (forced machine version tbl))"

section \<open>The tables\<close>

text \<open>\<open>aes_encryption/regression.py\<close>\<close>

definition issue_39987 :: string where
  "issue_39987 = ''https://github.com/ClickHouse/ClickHouse/issues/39987''"

definition issue_18251 :: string where
  "issue_18251 = ''https://github.com/ClickHouse/ClickHouse/issues/18251''"

definition issue_18249 :: string where
  "issue_18249 = ''https://github.com/ClickHouse/ClickHouse/issues/18249''"

definition issue_18250 :: string where
  "issue_18250 = ''https://github.com/ClickHouse/ClickHouse/issues/18250''"

definition issue_24029 :: string where
  "issue_24029 = ''https://github.com/ClickHouse/ClickHouse/issues/24029''"

definition issue_40826 :: string where
  "issue_40826 = ''https://github.com/ClickHouse/ClickHouse/issues/40826''"

definition aes_encryption_xfails :: xfail_table where
  "aes_encryption_xfails =
     [(''/aes encryption/decrypt/invalid parameters/null in ciphertext'', [(Fail, issue_39987, None, None)]),
      ((''encrypt/invalid key or iv length for mode/mode='' @ [CHR 0x22, CHR 0x27] @ ''aes-???-gcm'' @ [CHR 0x27, CHR 0x22] @ '', key_len=??, iv_len=12, aad=True/iv is too short''), [(Fail, ''known issue'', None, None)]),
      ((''encrypt/invalid key or iv length for mode/mode='' @ [CHR 0x22, CHR 0x27] @ ''aes-???-gcm'' @ [CHR 0x27, CHR 0x22] @ '', key_len=??, iv_len=12, aad=True/iv is too long''), [(Fail, ''known issue'', None, None)]),
      ((''encrypt/invalid plaintext data type/data_type='' @ [CHR 0x27] @ ''IPv6'' @ [CHR 0x27] @ '', value='' @ [CHR 0x22] @ ''toIPv6('' @ [CHR 0x27] @ ''2001:0db8:0000:85a3:0000:0000:ac1f:8001'' @ [CHR 0x27] @ '')'' @ [CHR 0x22]), [(Fail, ''known issue as IPv6 is implemented as FixedString(16)'', None, None)]),
      ((''encrypt_mysql/key or iv length for mode/mode='' @ [CHR 0x22, CHR 0x27] @ ''aes-???-ecb'' @ [CHR 0x27, CHR 0x22] @ '', key_len=??, iv_len=None''), [(Fail, issue_18251, None, None)]),
      (''encrypt_mysql/invalid parameters/iv not valid for mode'', [(Fail, issue_18251, None, None)]),
      ((''encrypt_mysql/invalid plaintext data type/data_type='' @ [CHR 0x27] @ ''IPv6'' @ [CHR 0x27] @ '', value='' @ [CHR 0x22] @ ''toIPv6('' @ [CHR 0x27] @ ''2001:0db8:0000:85a3:0000:0000:ac1f:8001'' @ [CHR 0x27] @ '')'' @ [CHR 0x22]), [(Fail, ''known issue as IPv6 is implemented as FixedString(16)'', None, None)]),
      ((''decrypt_mysql/key or iv length for mode/mode='' @ [CHR 0x22, CHR 0x27] @ ''aes-???-ecb'' @ [CHR 0x27, CHR 0x22] @ '', key_len=??, iv_len=None:''), [(Fail, issue_18251, None, None)]),
      (''compatibility/insert/encrypt using materialized view/:'', [(Fail, issue_18249, None, None)]),
      (''compatibility/insert/decrypt using materialized view/:'', [(Error, issue_18249, None, None)]),
      (''compatibility/insert/aes encrypt mysql using materialized view/:'', [(Fail, issue_18249, None, None)]),
      (''compatibility/insert/aes decrypt mysql using materialized view/:'', [(Error, issue_18249, None, None)]),
      (''compatibility/select/decrypt unique'', [(Fail, issue_18249, None, None)]),
      ((''compatibility/mysql/:engine/decrypt/mysql_datatype='' @ [CHR 0x27] @ ''TEXT'' @ [CHR 0x27] @ ''/:''), [(Fail, issue_18250, None, None)]),
      ((''compatibility/mysql/:engine/decrypt/mysql_datatype='' @ [CHR 0x27] @ ''VARCHAR(100)'' @ [CHR 0x27] @ ''/:''), [(Fail, issue_18250, None, None)]),
      ((''compatibility/mysql/:engine/encrypt/mysql_datatype='' @ [CHR 0x27] @ ''TEXT'' @ [CHR 0x27] @ ''/:''), [(Fail, issue_18250, None, None)]),
      ((''compatibility/mysql/:engine/encrypt/mysql_datatype='' @ [CHR 0x27] @ ''VARCHAR(100)'' @ [CHR 0x27] @ ''/:''), [(Fail, issue_18250, None, None)]),
      (''decrypt/decryption/mode=:datatype=UUID:'', [(Fail, issue_24029, None, None)]),
      (''encrypt/:/mode=:datatype=UUID:'', [(Fail, issue_24029, None, None)]),
      (''decrypt/invalid ciphertext/mode=:/invalid ciphertext=reinterpretAsFixedString(toUUID:'', [(Fail, issue_24029, None, None)]),
      (''encrypt_mysql/encryption/mode=:datatype=UUID:'', [(Fail, issue_24029, None, None)]),
      (''decrypt_mysql/decryption/mode=:datatype=UUID:'', [(Fail, issue_24029, None, None)]),
      (''decrypt_mysql/invalid ciphertext/mode=:/invalid ciphertext=reinterpretAsFixedString(toUUID:'', [(Fail, issue_24029, None, None)]),
      (''*/:cfb128:'', [(Fail, issue_40826, None, None)])]"

text \<open>\<open>aggregate_functions/regression.py\<close>\<close>

definition issue_43140 :: string where
  "issue_43140 = ''https://github.com/ClickHouse/ClickHouse/issues/43140''"

definition issue_47142 :: string where
  "issue_47142 = ''https://github.com/ClickHouse/ClickHouse/issues/47142''"

definition aggregate_functions_xfails :: xfail_table where
  "aggregate_functions_xfails =
     [(''/aggregate functions/singleValueOrNull/Map:'', [(Fail, issue_43140, None, None)]),
      (''/aggregate functions/singleValueOrNull/Array:'', [(Fail, issue_43140, None, None)]),
      (''/aggregate functions/singleValueOrNull/Tuple:'', [(Fail, issue_43140, None, None)]),
      (''/aggregate functions/welchTTest/datatypes/permutations/float64:'', [(Fail, ''https://github.com/ClickHouse/ClickHouse/issues/44511'', Some (Version ''>=22.6''), None)]),
      (''/aggregate functions/welchTTest/datatypes/permutations/nullable_float64_:'', [(Fail, ''https://github.com/ClickHouse/ClickHouse/issues/44511'', Some (Version ''>=22.6''), None)]),
      (''/aggregate functions/welchTTest/datatypes/permutations/lowcardinality_nullable_float64__:'', [(Fail, ''https://github.com/ClickHouse/ClickHouse/issues/44511'', Some (Version ''>=22.6''), None)]),
      (''/aggregate functions/welchTTest/datatypes/permutations/lowcardinality_float64_:'', [(Fail, ''https://github.com/ClickHouse/ClickHouse/issues/44511'', Some (Version ''>=22.6''), None)]),
      (''/aggregate functions/studentTTest/datatypes/permutations/float64:'', [(Fail, ''https://github.com/ClickHouse/ClickHouse/issues/44511'', Some (Version ''>=22.6''), None)]),
      (''/aggregate functions/studentTTest/datatypes/permutations/nullable_float64_:'', [(Fail, ''https://github.com/ClickHouse/ClickHouse/issues/44511'', Some (Version ''>=22.6''), None)]),
      (''/aggregate functions/studentTTest/datatypes/permutations/lowcardinality_nullable_float64__:'', [(Fail, ''https://github.com/ClickHouse/ClickHouse/issues/44511'', Some (Version ''>=22.6''), None)]),
      (''/aggregate functions/studentTTest/datatypes/permutations/lowcardinality_float64_:'', [(Fail, ''https://github.com/ClickHouse/ClickHouse/issues/44511'', Some (Version ''>=22.6''), None)]),
      (''/aggregate functions/quantileTDigestWeighted/datatypes/permutations/date:'', [(Fail, ''DECIMAL_OVERFLOW error that needs to be investigated'', None, None)]),
      (''/aggregate functions/quantileTDigestWeighted/datatypes/permutations/:_date_:'', [(Fail, ''DECIMAL_OVERFLOW error that needs to be investigated'', None, None)]),
      (''/aggregate functions/state/singleValueOrNullState/:'', [(Fail, issue_47142, Some (Version ''>=23''), Some (''.*Exception: Nested type [^'' @ [CHR 0x5C] @ ''n]+ cannot be inside Nullable type.*''))])]"

text \<open>\<open>base_58/regression.py\<close>\<close>

definition base_58_xfails :: xfail_table where
  "base_58_xfails =
     [(''alias input/alias instead of table and column'', [(Fail, ''not implemented'', None, None)])]"

text \<open>\<open>clickhouse_keeper/regression.py\<close>\<close>

definition clickhouse_keeper_xfails :: xfail_table where
  "clickhouse_keeper_xfails =
     [('':/:/:/:/:cipher ECDHE-ECDSA-AES256-GCM-SHA384 should work'', [(Fail, ''not supported by SSL library'', None, None)]),
      ('':/:/:/:/:cipher ECDHE-ECDSA-AES128-GCM-SHA256 should work'', [(Fail, ''not supported by SSL library'', None, None)]),
      ('':/:/:/:/:/:cipher ECDHE-ECDSA-AES256-GCM-SHA384 should work'', [(Fail, ''not supported by SSL library'', None, None)]),
      ('':/:/:/:/:/:cipher ECDHE-ECDSA-AES128-GCM-SHA256 should work'', [(Fail, ''not supported by SSL library'', None, None)]),
      ('':/:/:cipher ECDHE-ECDSA-AES256-GCM-SHA384 should work'', [(Fail, ''not supported by SSL library'', None, None)]),
      ('':/:/:cipher ECDHE-ECDSA-AES128-GCM-SHA256 should work'', [(Fail, ''not supported by SSL library'', None, None)]),
      (''fips/server/tcp connection/:/:/just disabling TLSv1.1 suite connection should work'', [(Fail, ''needs to be reviewed'', None, None)]),
      (''fips/server/:/tcp connection/:/:/just disabling TLSv1.1 suite connection should work'', [(Fail, ''needs to be reviewed'', None, None)]),
      (''fips/:/:/:/just disabling TLSv1.1 suite connection should work'', [(Fail, ''needs to be reviewed'', None, None)]),
      ('':/:/just disabling TLSv1.1 suite connection should work'', [(Fail, ''needs to be reviewed'', None, None)]),
      (''fips/clickhouse client/:/:/: should be rejected'', [(Fail, ''https://github.com/ClickHouse/ClickHouse/issues/45445'', None, None)]),
      (''fips/:/:/connection with at least one FIPS compatible cipher should work, ciphers: ECDHE-ECDSA-AES256-GCM-SHA384 :'', [(Fail, ''not supported by SSL library'', None, None)]),
      (''fips/:/:/connection with at least one FIPS compatible cipher should work, ciphers: ECDHE-ECDSA-AES128-GCM-SHA256 :'', [(Fail, ''not supported by SSL library'', None, None)]),
      (''ports ssl fips/:/:/:cipher ECDHE-ECDSA-AES256-GCM-SHA384 should work'', [(Fail, ''not supported by SSL library'', None, None)]),
      (''ports ssl fips/:/:/:cipher ECDHE-ECDSA-AES128-GCM-SHA256 should work'', [(Fail, ''not supported by SSL library'', None, None)]),
      (''ports ssl fips/:/:/just disabling TLSv1.1 suite connection should work'', [(Fail, ''needs to be reviewed'', None, None)])]"

text \<open>\<open>data_types/regression.py\<close>\<close>

definition data_types_xfails :: xfail_table where
  "data_types_xfails =
     [(''map/table map with key integer/Int:'', [(Fail, ''https://github.com/ClickHouse/ClickHouse/issues/21032'', None, None)]),
      (''map/table map with value integer/Int:'', [(Fail, ''https://github.com/ClickHouse/ClickHouse/issues/21032'', None, None)]),
      (''map/table map with key integer/UInt256'', [(Fail, ''https://github.com/ClickHouse/ClickHouse/issues/21031'', None, None)]),
      (''map/table map with value integer/UInt256'', [(Fail, ''https://github.com/ClickHouse/ClickHouse/issues/21031'', None, None)]),
      (''map/select map with key integer/Int64'', [(Fail, ''https://github.com/ClickHouse/ClickHouse/issues/21030'', None, None)]),
      (''map/select map with value integer/Int64'', [(Fail, ''https://github.com/ClickHouse/ClickHouse/issues/21030'', None, None)]),
      (''map/cast tuple of two arrays to map/string -> int'', [(Fail, ''https://github.com/ClickHouse/ClickHouse/issues/21029'', None, None)]),
      (''map/mapcontains/null key in map'', [(Fail, ''https://github.com/ClickHouse/ClickHouse/issues/21028'', None, None)]),
      (''map/mapcontains/null key not in map'', [(Fail, ''https://github.com/ClickHouse/ClickHouse/issues/21028'', None, None)]),
      (''map/mapkeys/null key not in map'', [(Fail, ''https://github.com/ClickHouse/ClickHouse/issues/21028'', None, None)]),
      (''map/mapkeys/null key in map'', [(Fail, ''https://github.com/ClickHouse/ClickHouse/issues/21028'', None, None)]),
      (''map/mapcontains/select nullable key'', [(Fail, ''https://github.com/ClickHouse/ClickHouse/issues/21026'', None, None)]),
      (''map/mapkeys/select keys from column'', [(Fail, ''https://github.com/ClickHouse/ClickHouse/issues/21026'', None, None)]),
      (''map/table map select key with value string/LowCardinality:'', [(Fail, ''https://github.com/ClickHouse/ClickHouse/issues/21406'', None, None)]),
      (''map/table map select key with key string/FixedString'', [(Fail, ''https://github.com/ClickHouse/ClickHouse/issues/21406'', None, None)]),
      (''map/table map select key with key string/Nullable'', [(Fail, ''https://github.com/ClickHouse/ClickHouse/issues/21406'', None, None)]),
      (''map/table map select key with key string/Nullable(NULL)'', [(Fail, ''https://github.com/ClickHouse/ClickHouse/issues/21026'', None, None)]),
      (''map/table map select key with key string/LowCardinality:'', [(Fail, ''https://github.com/ClickHouse/ClickHouse/issues/21406'', None, None)]),
      (''map/table map select key with key integer/Int:'', [(Fail, ''https://github.com/ClickHouse/ClickHouse/issues/21032'', None, None)]),
      (''map/table map select key with key integer/UInt256'', [(Fail, ''https://github.com/ClickHouse/ClickHouse/issues/21031'', None, None)]),
      (''map/table map select key with key integer/toNullable'', [(Fail, ''https://github.com/ClickHouse/ClickHouse/issues/21406'', None, None)]),
      (''map/table map select key with key integer/toNullable(NULL)'', [(Fail, ''https://github.com/ClickHouse/ClickHouse/issues/21026'', None, None)]),
      (''map/select map with key integer/Int128'', [(Fail, ''large Int128 as key not supported'', None, None)]),
      (''map/select map with key integer/Int256'', [(Fail, ''large Int256 as key not supported'', None, None)]),
      (''map/select map with key integer/UInt256'', [(Fail, ''large UInt256 as key not supported'', None, None)]),
      (''map/select map with key integer/toNullable'', [(Fail, ''Nullable type as key not supported'', None, None)]),
      (''map/select map with key integer/toNullable(NULL)'', [(Fail, ''Nullable type as key not supported'', None, None)]),
      (''map/select map with key string/Nullable'', [(Fail, ''Nullable type as key not supported'', None, None)]),
      (''map/select map with key string/Nullable(NULL)'', [(Fail, ''Nullable type as key not supported'', None, None)]),
      (''map/table map queries/select map with nullable value'', [(Fail, ''Nullable value not supported'', None, None)]),
      (''map/table map with key integer/toNullable'', [(Fail, ''Nullable type as key not supported'', None, None)]),
      (''map/table map with key integer/toNullable(NULL)'', [(Fail, ''Nullable type as key not supported'', None, None)]),
      (''map/table map with key string/Nullable'', [(Fail, ''Nullable type as key not supported'', None, None)]),
      (''map/table map with key string/Nullable(NULL)'', [(Fail, ''Nullable type as key not supported'', None, None)]),
      (''map/table map with key string/LowCardinality(String)'', [(Fail, ''LowCardinality(String) as key not supported'', None, None)]),
      (''map/table map with key string/LowCardinality(String) cast from String'', [(Fail, ''LowCardinality(String) as key not supported'', None, None)]),
      (''map/table map with key string/LowCardinality(String) for key and value'', [(Fail, ''LowCardinality(String) as key not supported'', None, None)]),
      (''map/table map with key string/LowCardinality(FixedString)'', [(Fail, ''LowCardinality(FixedString) as key not supported'', None, None)]),
      (''map/table map with value string/LowCardinality(String) for key and value'', [(Fail, ''LowCardinality(String) as key not supported'', None, None)]),
      (''map/table map with duplicated keys/Map(Int64, String))'', [(Fail, ''new bug due to JSON changes'', None, None)]),
      (''map/table map with key integer/UInt64'', [(Fail, ''new bug due to JSON changes'', None, None)]),
      (''map/table map with value integer/UInt64'', [(Fail, ''new bug due to JSON changes'', None, None)]),
      (''map/:/:'', [(Fail, ''debug'', None, None)])]"

definition data_types_ffails :: ffail_table where
  "data_types_ffails =
     [(''/clickhouse/data types/map/table map unsupported types/nullable map'', XFail, ''type supported in 21.12'', Some (Version ''>=21.12'')),
      (''/clickhouse/data types/map/table map unsupported types/map with nothing type for key and value'', XFail, ''type supported in 21.12'', Some (Version ''>=21.12'')),
      (''/clickhouse/data types/map/table map invalid key/integer when key is string'', XFail, ''type supported in 21.12'', Some (Version ''>=21.12''))]"

text \<open>\<open>datetime64_extended_range/regression.py\<close>\<close>

definition datetime64_extended_range_xfails :: xfail_table where
  "datetime64_extended_range_xfails =
     [(''type conversion/to int 8 16 32 64 128 256/:'', [(Fail, ''https://github.com/ClickHouse/ClickHouse/issues/16581#issuecomment-804360350'', None, None)]),
      (''type conversion/to uint 8 16 32 64 256/:'', [(Fail, ''https://github.com/ClickHouse/ClickHouse/issues/16581#issuecomment-804360350'', None, None)]),
      (''non existent time/leap seconds/:'', [(Fail, ''https://github.com/ClickHouse/ClickHouse/issues/17079#issuecomment-783396589'', None, None)]),
      (''date time funcs/date diff/:'', [(Fail, ''https://github.com/ClickHouse/ClickHouse/issues/22824'', None, None)]),
      (''date time funcs/format date time/:'', [(Fail, ''https://github.com/ClickHouse/ClickHouse/issues/22852'', None, None)]),
      (''date time funcs/time slot/:'', [(Fail, ''https://github.com/ClickHouse/ClickHouse/issues/22854'', None, None)]),
      (''date time funcs/to monday/:'', [(Fail, ''https://github.com/ClickHouse/ClickHouse/issues/22854'', None, None)]),
      (''date time funcs/time slots/:'', [(Fail, ''https://github.com/ClickHouse/ClickHouse/issues/16260'', None, None)]),
      (''date time funcs/to relative :/:'', [(Fail, ''https://github.com/ClickHouse/ClickHouse/issues/22927#issuecomment-816574952'', None, None)]),
      (''date time funcs/to start of :/:'', [(Fail, ''https://github.com/ClickHouse/ClickHouse/issues/22928'', None, None)]),
      (''date time funcs/to unix timestamp/:'', [(Fail, ''https://github.com/ClickHouse/ClickHouse/issues/22929'', None, None)]),
      (''date time funcs/to week/:'', [(Fail, ''https://github.com/ClickHouse/ClickHouse/issues/22930'', None, None)]),
      (''date time funcs/to year week/:'', [(Fail, ''https://github.com/ClickHouse/ClickHouse/issues/22948'', None, None)]),
      (''type conversion/to unix timestamp64 */:'', [(Fail, ''https://github.com/ClickHouse/ClickHouse/issues/22959'', None, None)]),
      (''type conversion/from unix timestamp64 */:'', [(Fail, ''https://github.com/ClickHouse/ClickHouse/issues/22959'', None, None)]),
      (''reference times/:'', [(Fail, ''check procedure unclear'', None, None)]),
      (''generic/transform/:'', [(Fail, ''https://github.com/ClickHouse/ClickHouse/issues/32387'', None, None)]),
      (''format conversion/arrow format/:'', [(Fail, ''https://github.com/ClickHouse/ClickHouse/issues/34831'', None, None)]),
      (''type conversion/to datetime/:'', [(Fail, ''needs to be investigated'', None, None)])]"

definition datetime64_extended_range_ffails :: ffail_table where
  "datetime64_extended_range_ffails =
     [(''type conversion/to date32/:'', XFail, ''toDate32 not implemented before 21.10'', Some (Version ''<21.10''))]"

text \<open>\<open>disk_level_encryption/regression.py\<close>\<close>

definition disk_level_encryption_xfails :: xfail_table where
  "disk_level_encryption_xfails =
     [(''memory disk/memory disk'', [(Fail, ''not supported'', None, None)]),
      (''wide access permission/wide permission'', [(Fail, ''not implemented'', None, None)]),
      (''multi volume policy'', [(Fail, ''https://github.com/ClickHouse/ClickHouse/pull/30664'', None, None)]),
      (''encryption at rest/corner case check'', [(Fail, ''https://github.com/ClickHouse/ClickHouse/issues/38381'', None, None)])]"

definition disk_level_encryption_ffails :: ffail_table where
  "disk_level_encryption_ffails =
     [(''default path/default path'', XError, ''https://github.com/ClickHouse/ClickHouse/issues/29072'', None),
      (''memory disk'', Skip, ''not implemented in versions >= 23'', Some (Version ''>=23''))]"

text \<open>\<open>dns/regression.py\<close>\<close>

definition dns_xfails :: xfail_table where
  "dns_xfails =
     [(''lookup'', [(Fail, ''https://github.com/ClickHouse/ClickHouse/issues/17202'', None, None)])]"

text \<open>\<open>kerberos/regression.py\<close>\<close>

definition kerberos_xfails :: xfail_table where
  "kerberos_xfails =
     [(''config/principal and realm specified/:'', [(Fail, ''https://github.com/ClickHouse/ClickHouse/issues/26197'', None, None)])]"

text \<open>\<open>ldap/authentication/regression.py\<close>\<close>

definition issue_51323 :: string where
  "issue_51323 = ''https://github.com/ClickHouse/ClickHouse/issues/51323''"

definition ldap_authentication_xfails :: xfail_table where
  "ldap_authentication_xfails =
     [((''connection protocols/tls/tls_require_cert='' @ [CHR 0x27] @ ''try'' @ [CHR 0x27]), [(Fail, (''can'' @ [CHR 0x27] @ ''t be tested with self-signed certificates''), None, None)]),
      ((''connection protocols/tls/tls_require_cert='' @ [CHR 0x27] @ ''demand'' @ [CHR 0x27]), [(Fail, (''can'' @ [CHR 0x27] @ ''t be tested with self-signed certificates''), None, None)]),
      ((''connection protocols/starttls/tls_require_cert='' @ [CHR 0x27] @ ''try'' @ [CHR 0x27]), [(Fail, (''can'' @ [CHR 0x27] @ ''t be tested with self-signed certificates''), None, None)]),
      ((''connection protocols/starttls/tls_require_cert='' @ [CHR 0x27] @ ''demand'' @ [CHR 0x27]), [(Fail, (''can'' @ [CHR 0x27] @ ''t be tested with self-signed certificates''), None, None)]),
      (''connection protocols/tls require cert default demand'', [(Fail, (''can'' @ [CHR 0x27] @ ''t be tested with self-signed certificates''), None, None)]),
      (''connection protocols/starttls with custom port'', [(Fail, ''it seems that starttls is not enabled by default on custom plain-text ports in LDAP server'', None, None)]),
      (''connection protocols/tls cipher suite'', [(Fail, (''can'' @ [CHR 0x27] @ ''t get it to work''), None, None)]),
      (''user authentications/:/verification cooldown/verification cooldown reset when invalid password is provided'', [(Fail, issue_51323, None, None)]),
      (''user authentications/:/verification cooldown/:'', [(Fail, issue_51323, Some (Version ''>=23''), None)])]"

text \<open>\<open>ldap/external_user_directory/regression.py\<close>\<close>

definition ldap_external_user_directory_xfails :: xfail_table where
  "ldap_external_user_directory_xfails =
     [((''connection protocols/tls/tls_require_cert='' @ [CHR 0x27] @ ''try'' @ [CHR 0x27]), [(Fail, (''can'' @ [CHR 0x27] @ ''t be tested with self-signed certificates''), None, None)]),
      ((''connection protocols/tls/tls_require_cert='' @ [CHR 0x27] @ ''demand'' @ [CHR 0x27]), [(Fail, (''can'' @ [CHR 0x27] @ ''t be tested with self-signed certificates''), None, None)]),
      ((''connection protocols/starttls/tls_require_cert='' @ [CHR 0x27] @ ''try'' @ [CHR 0x27]), [(Fail, (''can'' @ [CHR 0x27] @ ''t be tested with self-signed certificates''), None, None)]),
      ((''connection protocols/starttls/tls_require_cert='' @ [CHR 0x27] @ ''demand'' @ [CHR 0x27]), [(Fail, (''can'' @ [CHR 0x27] @ ''t be tested with self-signed certificates''), None, None)]),
      (''connection protocols/tls require cert default demand'', [(Fail, (''can'' @ [CHR 0x27] @ ''t be tested with self-signed certificates''), None, None)]),
      (''connection protocols/starttls with custom port'', [(Fail, ''it seems that starttls is not enabled by default on custom plain-text ports in LDAP server'', None, None)]),
      (''connection protocols/tls cipher suite'', [(Fail, (''can'' @ [CHR 0x27] @ ''t get it to work''), None, None)]),
      (''user authentications/:verification cooldown:/:'', [(Fail, issue_51323, Some (Version ''>=23''), None)]),
      (''user authentications/verification cooldown:/:'', [(Fail, issue_51323, Some (Version ''>=23''), None)])]"

definition ldap_external_user_directory_ffails :: ffail_table where
  "ldap_external_user_directory_ffails =
     [(''user authentications/verification cooldown performance/:'', Skip, ''causes timeout on 21.8'', Some (Both (Version ''>=21.8'') (Version ''<21.9''))),
      (''/external user directory/restart/parallel login'', XFail, ''fails on 23.3'', Some (Version ''>=23''))]"

text \<open>\<open>ldap/role_mapping/regression.py\<close>\<close>

definition ldap_role_mapping_xfails :: xfail_table where
  "ldap_role_mapping_xfails =
     [(''mapping/roles removed and added in parallel'', [(Fail, ''known bug'', None, None)]),
      (''user dn detection/mapping/roles removed and added in parallel'', [(Fail, ''known bug'', None, None)]),
      (''cluster secret/external user directory/:/:/cluster with secret/ldap user/:mapped True/select using mapped role/with privilege on source and distributed'', [(Fail, ''https://github.com/ClickHouse/ClickHouse/issues/34130'', None, None)]),
      (''user dn detection/mapping/add new role not present'', [(Error, ''https://github.com/ClickHouse/ClickHouse/issues/41380'', None, None)]),
      (''user dn detection/mapping/map role when ldap user belongs to large number of groups'', [(Fail, ''https://github.com/ClickHouse/ClickHouse/issues/42276'', Some (Version ''<22.11''), None)]),
      (''mapping/add new role not present'', [(Error, ''https://github.com/ClickHouse/ClickHouse/issues/41380'', None, None)]),
      (''mapping/map role when ldap user belongs to large number of groups'', [(Fail, ''https://github.com/ClickHouse/ClickHouse/issues/42276'', None, None)])]"

definition ldap_role_mapping_ffails :: ffail_table where
  "ldap_role_mapping_ffails =
     [(''cluster secret'', Skip, ''feature available on 20.10+'', Some (Version ''<20.10''))]"

text \<open>\<open>lightweight_delete/regression.py\<close>\<close>

definition lightweight_delete_xfails :: xfail_table where
  "lightweight_delete_xfails =
     [(''views/materialized view'', [(Fail, ''not implemented'', None, None)]),
      (''views/live view'', [(Fail, ''not implemented'', None, None)]),
      (''views/window view'', [(Fail, ''not implemented'', None, None)]),
      (''efficient physical data removal/delete and check size of the table'', [(Fail, ''Does not match space requirements.'', None, None)]),
      (''s3/s3'', [(Fail, ''not implemented'', None, None)]),
      (''projections/simple projection'', [(Fail, ''engine type not supported.'', None, None)]),
      (''replicated tables concurrent deletes/:/:'', [(Fail, ''engine type not supported.'', None, None)]),
      (''replicated table with concurrent alter and delete/:'', [(Fail, ''engine type not supported'', None, None)]),
      (''replicated table with alter after delete on single node/:/:'', [(Fail, ''engine type not supported.'', None, None)]),
      (''distributed tables/:'', [(Fail, ''engine type not supported.'', None, None)]),
      (''replication queue/:/replication queue'', [(Fail, ''engine type not supported.'', None, None)]),
      (''replicated tables/:/:'', [(Fail, ''engine type not supported.'', None, None)]),
      (''performance/performance large number of partitions'', [(Fail, ''https://github.com/ClickHouse/ClickHouse/issues/39870'', None, None)]),
      (''zookeeper load/load zookeeper'', [(Fail, ''https://github.com/ClickHouse/ClickHouse/issues/39870'', None, None)]),
      (''load/:'', [(Fail, ''https://github.com/ClickHouse/ClickHouse/issues/39870'', None, None)]),
      (''drop empty part/drop empty part/'', [(Fail, ''https://github.com/ClickHouse/ClickHouse/issues/49909'', None, None)]),
      (''concurrent alter and delete/:/concurrent delete attach detach partition/'', [(Fail, ''https://github.com/ClickHouse/ClickHouse/issues/50922'', None, None)])]"

text \<open>\<open>parquet/regression.py\<close>\<close>

definition parquet_xfails :: xfail_table where
  "parquet_xfails =
     [(''chunked array'', [(Fail, ''Not supported'', None, None)]),
      (''gcs'', [(Fail, ''Not implemented'', None, None)]),
      (''/parquet/encoding/dictionary/*'', [(Fail, ''datetime different on export and import, that needs to be investigated'', None, None)]),
      (''/parquet/encoding/plain/*'', [(Fail, ''datetime different on export and import, needs to be investigated'', None, None)]),
      (''/parquet/complex/nestedstruct/*'', [(Fail, ''datetime different on export and import, needs to be investigated'', None, None)]),
      (''/parquet/complex/largestruct3/*'', [(Fail, ''datetime different on export and import, needs to be investigated'', None, None)]),
      (''/parquet/compression/snappyplain/*'', [(Fail, ''datetime different on export and import, needs to be investigated'', None, None)]),
      (''/parquet/datatypes/manydatatypes/*'', [(Fail, ''datetime different on export and import, needs to be investigated'', None, None)]),
      (''/parquet/datatypes/timestamp?/*'', [(Fail, ''datetime different on export and import, needs to be investigated'', None, None)]),
      (''/parquet/datatypes/json/*'', [(Fail, ''datetime different on export and import, needs to be investigated'', None, None)]),
      (''/parquet/datatypes/arrowtimestamp/*'', [(Fail, ''datetime different on export and import, needs to be investigated'', None, None)]),
      (''/parquet/datatypes/arrowtimestampms/*'', [(Fail, ''datetime different on export and import, needs to be investigated'', None, None)]),
      (''/parquet/datatypes/stringtypes/*'', [(Fail, ''datetime different on export and import, needs to be investigated'', None, None)]),
      (''/parquet/encoding/plainrlesnappy/*'', [(Fail, ''datetime different on export and import, needs to be investigated'', None, None)]),
      (''/parquet/datatypes/negativeint64/*'', [(Fail, ''datetime different on export and import, needs to be investigated'', None, None)]),
      (''/parquet/datatypes/nameswithemoji/*'', [(Fail, (''DB::Exception: Expected not empty name: While processing ``: While processing SELECT `'' @ [CHR 0xC3, CHR 0xB6] @ ''n'' @ [CHR 0xC3, CHR 0xAB] @ ''`, ``, `'' @ [CHR 0xF0, CHR 0x9F, CHR 0xA6, CHR 0x86] @ ''` FROM file''), None, None)]),
      (''/parquet/compression/snappyrle/*'', [(Fail, ''Getting an error that encoding is not supported. Probably error occurs because of Delta Encoding (DELTA_BINARY_PACKED)'', None, None)]),
      (''/parquet/complex/largestruct/*'', [(Fail, ''Getting an error that encoding is not supported. Probably error occurs because of Delta Encoding (DELTA_BINARY_PACKED)'', None, None)]),
      (''/parquet/datatypes/decimalwithfilter2/*'', [(Fail, ''Getting an error that encoding is not supported. error occurs because of Delta Encoding (DELTA_BINARY_PACKED)'', None, None)]),
      (''/parquet/datatypes/sparkv2?/*'', [(Fail, ''Getting an error that encoding is not supported. error occurs because of Delta Encoding (DELTA_BINARY_PACKED)'', None, None)]),
      (''/parquet/datatypes/h2oai/*'', [(Fail, ''Nullable(String) turns into LowCardinality(Nullable(String)) after import -> export process'', None, None)]),
      (''/parquet/complex/tuplewithdatetime/*'', [(Fail, ''Getting an error that encoding is not supported. error occurs because of Delta Encoding (DELTA_BINARY_PACKED)'', None, None)]),
      (''/parquet/encoding/deltabytearray?/*'', [(Fail, ''Getting an error that encoding is not supported. error occurs because of DELTA_BYTE_ARRAY encoding'', None, None)]),
      (''/parquet/encoding/deltalengthbytearray/*'', [(Fail, ''Getting an error that encoding is not supported. error occurs because of DELTA_LENGTH_BYTE_ARRAY encoding'', None, None)]),
      (''/parquet/encoding/rleboolean/*'', [(Fail, ''Getting an error that encoding is not supported.'', None, None)])]"

definition parquet_ffails :: ffail_table where
  "parquet_ffails =
     [(''/parquet/compression/brotli'', Skip, ''Not implemented before 23.3'', Some (Version ''<23.3'')),
      (''/parquet/*/*/insert into function auto cast types/*'', Skip, ''Datatype issues before 23.3'', Some (Version ''<23.3'')),
      (''/parquet/*/*/select from function auto cast types/*'', Skip, ''Datatype issues before 23.3'', Some (Version ''<23.3'')),
      (''/parquet/*/*/select from function manual cast types/*'', Skip, ''Datatype issues before 23.3'', Some (Version ''<23.3'')),
      (''/parquet/aws s3/s3/*/function/select from function manual cast types/*'', Skip, ''Datatype issues before 23.3'', Some (Version ''<23.3''))]"

text \<open>\<open>rbac/regression.py\<close>\<close>

definition issue_14091 :: string where
  "issue_14091 = ''https://github.com/ClickHouse/ClickHouse/issues/14091''"

definition issue_14149 :: string where
  "issue_14149 = ''https://github.com/ClickHouse/ClickHouse/issues/14149''"

definition issue_14224 :: string where
  "issue_14224 = ''https://github.com/ClickHouse/ClickHouse/issues/14224''"

definition issue_14418 :: string where
  "issue_14418 = ''https://github.com/ClickHouse/ClickHouse/issues/14418''"

definition issue_14451 :: string where
  "issue_14451 = ''https://github.com/ClickHouse/ClickHouse/issues/14451''"

definition issue_14674 :: string where
  "issue_14674 = ''https://github.com/ClickHouse/ClickHouse/issues/14674''"

definition issue_14810 :: string where
  "issue_14810 = ''https://github.com/ClickHouse/ClickHouse/issues/14810''"

definition issue_14566 :: string where
  "issue_14566 = ''https://github.com/ClickHouse/ClickHouse/issues/14566''"

definition issue_15165 :: string where
  "issue_15165 = ''https://github.com/ClickHouse/ClickHouse/issues/15165''"

definition issue_16403 :: string where
  "issue_16403 = ''https://github.com/ClickHouse/ClickHouse/issues/16403''"

definition issue_17653 :: string where
  "issue_17653 = ''https://github.com/ClickHouse/ClickHouse/issues/17653''"

definition issue_17146 :: string where
  "issue_17146 = ''https://github.com/ClickHouse/ClickHouse/issues/17146''"

definition issue_17147 :: string where
  "issue_17147 = ''https://github.com/ClickHouse/ClickHouse/issues/17147''"

definition issue_17655 :: string where
  "issue_17655 = ''https://github.com/ClickHouse/ClickHouse/issues/17655''"

definition issue_18110 :: string where
  "issue_18110 = ''https://github.com/ClickHouse/ClickHouse/issues/18110''"

definition issue_21083 :: string where
  "issue_21083 = ''https://github.com/ClickHouse/ClickHouse/issues/21083''"

definition issue_21084 :: string where
  "issue_21084 = ''https://github.com/ClickHouse/ClickHouse/issues/21084''"

definition issue_25413 :: string where
  "issue_25413 = ''https://github.com/ClickHouse/ClickHouse/issues/25413''"

definition issue_26746 :: string where
  "issue_26746 = ''https://github.com/ClickHouse/ClickHouse/issues/26746''"

definition issue_37389 :: string where
  "issue_37389 = ''https://github.com/ClickHouse/ClickHouse/issues/37389''"

definition issue_37580 :: string where
  "issue_37580 = ''https://github.com/ClickHouse/ClickHouse/issues/37580''"

definition issue_38716 :: string where
  "issue_38716 = ''https://github.com/ClickHouse/ClickHouse/issues/38716''"

definition pull_47002 :: string where
  "pull_47002 = ''https://github.com/ClickHouse/ClickHouse/pull/47002''"

definition rbac_xfails :: xfail_table where
  "rbac_xfails =
     [(''syntax/show create quota/I show create quota current'', [(Fail, ''https://github.com/ClickHouse/ClickHouse/issues/12495'', None, None)]),
      (''views/:/create with subquery privilege granted directly or via role/:'', [(Fail, issue_14091, None, None)]),
      (''views/:/create with join query privilege granted directly or via role/:'', [(Fail, issue_14091, None, None)]),
      (''views/:/create with union query privilege granted directly or via role/:'', [(Fail, issue_14091, None, None)]),
      (''views/:/create with join union subquery privilege granted directly or via role/:'', [(Fail, issue_14091, None, None)]),
      (''views/:/create with nested views privilege granted directly or via role/:'', [(Fail, issue_14091, None, None)]),
      (''views/view/select with join query privilege granted directly or via role/:'', [(Fail, issue_14149, None, None)]),
      (''views/view/select with join union subquery privilege granted directly or via role/:'', [(Fail, issue_14149, None, None)]),
      (''views/view/select with nested views privilege granted directly or via role/:'', [(Fail, issue_14149, None, None)]),
      (''views/live view/refresh with privilege granted directly or via role/:'', [(Fail, issue_14224, None, None)]),
      (''views/live view/refresh with privilege revoked directly or from role/:'', [(Fail, issue_14224, None, None)]),
      (''views/live view/select:'', [(Fail, issue_14418, None, None)]),
      (''views/live view/select:/:'', [(Fail, issue_14418, None, None)]),
      (''views/materialized view/select with:'', [(Fail, issue_14451, None, None)]),
      (''views/materialized view/select with:/:'', [(Fail, issue_14451, None, None)]),
      (''views/materialized view/modify query:'', [(Fail, issue_14674, None, None)]),
      (''views/materialized view/modify query:/:'', [(Fail, issue_14674, None, None)]),
      (''views/materialized view/insert on source table privilege granted directly or via role/:'', [(Fail, issue_14810, None, None)]),
      (''privileges/alter ttl/table_type=:/user with some privileges'', [(Fail, issue_14566, None, None)]),
      (''privileges/alter ttl/table_type=:/role with some privileges'', [(Fail, issue_14566, None, None)]),
      (''privileges/alter ttl/table_type=:/user with privileges on cluster'', [(Fail, issue_14566, None, None)]),
      (''privileges/alter ttl/table_type=:/user with privileges from user with grant option'', [(Fail, issue_14566, None, None)]),
      (''privileges/alter ttl/table_type=:/user with privileges from role with grant option'', [(Fail, issue_14566, None, None)]),
      (''privileges/alter ttl/table_type=:/role with privileges from user with grant option'', [(Fail, issue_14566, None, None)]),
      (''privileges/alter ttl/table_type=:/role with privileges from role with grant option'', [(Fail, issue_14566, None, None)]),
      (''privileges/distributed table/:/special cases/insert with table on source table of materialized view:'', [(Fail, issue_14810, None, None)]),
      ((''privileges/distributed table/cluster tests/cluster='' @ [CHR 0x27] @ ''sharded*''), [(Fail, issue_15165, None, None)]),
      (''privileges/distributed table/cluster tests/cluster=:/special cases/insert with table on source table of materialized view privilege granted directly or via role/:'', [(Fail, issue_14810, None, None)]),
      (''views/materialized view/select from implicit target table privilege granted directly or via role/select from implicit target table, privilege granted directly'', [(Fail, ''.inner table is not created as expected'', None, None)]),
      (''views/materialized view/insert on target table privilege granted directly or via role/insert on target table, privilege granted through a role'', [(Fail, ''.inner table is not created as expected'', None, None)]),
      (''views/materialized view/select from implicit target table privilege granted directly or via role/select from implicit target table, privilege granted through a role'', [(Fail, ''.inner table is not created as expected'', None, None)]),
      (''views/materialized view/insert on target table privilege granted directly or via role/insert on target table, privilege granted directly'', [(Fail, ''.inner table is not created as expected'', None, None)]),
      (''views/materialized view/select from source table privilege granted directly or via role/select from implicit target table, privilege granted directly'', [(Fail, ''.inner table is not created as expected'', None, None)]),
      (''views/materialized view/select from source table privilege granted directly or via role/select from implicit target table, privilege granted through a role'', [(Fail, ''.inner table is not created as expected'', None, None)]),
      (''privileges/alter move/:/:/:/:/move partition to implicit target table of a materialized view'', [(Fail, ''.inner table is not created as expected'', None, None)]),
      (''privileges/alter move/:/:/:/:/user without ALTER MOVE PARTITION privilege/'', [(Fail, issue_16403, None, None)]),
      (''privileges/alter move/:/:/:/:/user with revoked ALTER MOVE PARTITION privilege/'', [(Fail, issue_16403, None, None)]),
      (''privileges/create table/create with join query privilege granted directly or via role/:'', [(Fail, issue_17653, None, None)]),
      (''privileges/create table/create with join union subquery privilege granted directly or via role/:'', [(Fail, issue_17653, None, None)]),
      (''privileges/create table/create with nested tables privilege granted directly or via role/:'', [(Fail, issue_17653, None, None)]),
      (''privileges/kill mutation/no privilege/kill mutation on cluster'', [(Fail, issue_17146, None, None)]),
      (''privileges/kill query/privilege granted directly or via role/:/'', [(Fail, issue_17147, None, None)]),
      (''privileges/show dictionaries/:/check privilege/:/exists/EXISTS with privilege'', [(Fail, issue_17655, None, None)]),
      (''privileges/public tables/sensitive tables'', [(Fail, issue_18110, None, None)]),
      (''privileges/: row policy/nested live:'', [(Fail, issue_21083, None, None)]),
      (''privileges/: row policy/nested mat:'', [(Fail, issue_21084, None, None)]),
      (''privileges/show dictionaries/:/check privilege/check privilege=SHOW DICTIONARIES/show dict/SHOW DICTIONARIES with privilege'', [(Fail, ''new bug'', None, None)]),
      (''privileges/show dictionaries/:/check privilege/check privilege=CREATE DICTIONARY/show dict/SHOW DICTIONARIES with privilege'', [(Fail, ''new bug'', None, None)]),
      (''privileges/show dictionaries/:/check privilege/check privilege=DROP DICTIONARY/show dict/SHOW DICTIONARIES with privilege'', [(Fail, ''new bug'', None, None)]),
      (''privileges/kill mutation/:/:/KILL ALTER : without privilege'', [(Fail, issue_25413, None, None)]),
      (''privileges/kill mutation/:/:/KILL ALTER : with revoked privilege'', [(Fail, issue_25413, None, None)]),
      (''privileges/kill mutation/:/:/KILL ALTER : with revoked ALL privilege'', [(Fail, issue_25413, None, None)]),
      (''privileges/create table/create with subquery privilege granted directly or via role/create with subquery, privilege granted directly'', [(Fail, issue_26746, None, None)]),
      (''privileges/create table/create with subquery privilege granted directly or via role/create with subquery, privilege granted through a role'', [(Fail, issue_26746, None, None)]),
      (''views/live view/create with join subquery privilege granted directly or via role/create with join subquery, privilege granted directly'', [(Fail, issue_26746, None, None)]),
      (''views/live view/create with join subquery privilege granted directly or via role/create with join subquery, privilege granted through a role'', [(Fail, issue_26746, None, None)]),
      (''privileges/table functions/cluster'', [(Fail, issue_37389, None, None)]),
      (''privileges/table functions/remote'', [(Fail, issue_37389, None, None)]),
      (''privileges/create row policy/remote'', [(Fail, issue_37580, None, None)]),
      (''privileges/system drop replica/:/drop replica/check privilege:/:'', [(Fail, issue_38716, None, None)]),
      (''privileges/orphaned role'', [(Fail, pull_47002, None, None)])]"

definition rbac_xflags :: xflag_table where
  "rbac_xflags =
     [((''privileges/alter index/table_type='' @ [CHR 0x27] @ ''ReplicatedVersionedCollapsingMergeTree-sharded_cluster'' @ [CHR 0x27] @ ''/role with privileges from role with grant option/granted=:/I try to ALTER INDEX with given privileges/I check order by when privilege is granted''), SKIP, 0)]"

definition rbac_ffails :: ffail_table where
  "rbac_ffails =
     [(''/rbac/privileges/sources/HDFS*'', Skip, ''Not supportted in ARM builds'', Some (Machine ''aarch64'')),
      (''/rbac/privileges/system drop cache/compiled expression cache*'', Skip, ''Not supportted in ARM builds'', Some (Machine ''aarch64'')),
      ((''rbac/privileges/:/table_type='' @ [CHR 0x27] @ ''ReplicatedReplacingMergeTree-sharded_cluster''), Skip, ''Causes clickhouse timeout on 21.10'', Some (Both (Version ''>=21.10'') (Version ''<21.11''))),
      (''rbac/views'', Skip, ''Does not work on clickhouse 21.09'', Some (Both (Version ''>=21.9'') (Version ''<21.10''))),
      (''rbac/privileges/system merges'', XFail, ''Does not work on clickhouse 21.8'', Some (Version ''<21.9'')),
      (''rbac/privileges/system ttl merges'', XFail, ''Does not work on clickhouse 21.8'', Some (Version ''<21.9'')),
      (''rbac/privileges/system moves'', XFail, ''Does not work on clickhouse 21.8'', Some (Version ''<21.9'')),
      (''rbac/privileges/system sends'', XFail, ''Does not work on clickhouse 21.8'', Some (Version ''<21.9'')),
      (''rbac/privileges/system fetches'', XFail, ''Does not work on clickhouse 21.8'', Some (Version ''<21.9'')),
      (''rbac/privileges/system replication queues'', XFail, ''Does not work on clickhouse 21.8'', Some (Version ''<21.9'')),
      (''/rbac/privileges/row policy/:'', XFail, ''Does not work on clickhouse 22.8 https://github.com/ClickHouse/ClickHouse/issues/40956'', Some (Version ''>=22.8'')),
      (''/rbac/privileges/system restart disk'', Skip, ''No longer supported'', Some (Version ''>=23.2''))]"

text \<open>\<open>s3/regression.py\<close>\<close>

definition s3_xfails :: xfail_table where
  "s3_xfails =
     [('':/compression/:'', [(Fail, ''compression fails when two commands are run consecutively'', None, None)]),
      (''table function/GCS/multipart'', [(Fail, ''GCS multi-part upload and download does not work'', None, None)]),
      (''table function/GCS/wildcard/:'', [(Fail, ''GCS path wildcards do not work'', None, None)]),
      ('':/generic url'', [(Fail, ''not yet supported'', None, None)]),
      ('':/:/remote host filter'', [(Fail, ''remote host filter does not work with disk storage'', None, None)]),
      (''disk invalid/GCS'', [(Fail, ''Google Cloud Storage does not work with disk storage'', None, None)]),
      ('':zero copy replication/alter'', [(Fail, ''https://github.com/ClickHouse/ClickHouse/issues/22516'', None, None)]),
      ('':zero copy replication/alter repeat'', [(Fail, ''https://github.com/ClickHouse/ClickHouse/issues/22516'', None, None)]),
      ('':zero copy replication/ttl move'', [(Fail, ''https://github.com/ClickHouse/ClickHouse/issues/22679'', None, None)]),
      ('':zero copy replication/ttl delete'', [(Fail, ''https://github.com/ClickHouse/ClickHouse/issues/22679'', None, None)]),
      ('':zero copy replication/GCS'', [(Fail, ''Google Cloud Storage does not work with disk storage'', None, None)]),
      ('':zero copy replication/delete'', [(Fail, ''Under investigation'', None, None)]),
      (''aws s3 zero copy replication/:'', [(Fail, ''Under investigation'', None, None)]),
      (''minio backup/:/alter freeze'', [(Fail, ''External disks do not create backups'', None, None)]),
      (''minio disk/environment credentials/:'', [(Fail, ''AWS S3 credentials not set for minio tests.'', None, None)]),
      (''gcs disk/environment credentials/:'', [(Fail, ''AWS S3 credentials not set for gcs tests.'', None, None)]),
      ('': backup/:/metadata non restorable schema'', [(Fail, ''Under investigation'', None, None)]),
      (''aws s3 backup/:/:'', [(Fail, ''https://github.com/ClickHouse/ClickHouse/issues/30510'', None, None)]),
      ('':/s3 disk/metadata restore two tables'', [(Fail, ''https://github.com/ClickHouse/ClickHouse/issues/30527'', None, None)]),
      (''minio zero copy replication/performance alter'', [(Error, ''Unstable test'', None, None), (Fail, ''Unstable test'', None, None)]),
      (''minio zero copy replication/performance select'', [(Error, ''Unstable test'', None, None), (Fail, ''Unstable test'', None, None)]),
      (''gcs table function/wildcard/:'', [(Fail, ''Fixed by https://github.com/ClickHouse/ClickHouse/pull/37344'', None, None)]),
      ('': disk/delete/delete one row'', [(Fail, ''Bug that needs to be investigated'', None, None)]),
      (''gcs disk/delete/gcs truncate err log'', [(Fail, ''Exception appears in error log but not in ClickHouse.'', None, None)]),
      (''aws s3 table function/ssec/:'', [(Fail, ''https://altinity.atlassian.net/browse/CH-241'', None, None)]),
      (''aws s3 table function/ssec/:/:'', [(Fail, ''https://altinity.atlassian.net/browse/CH-241'', None, None)]),
      (''aws s3 table function/ssec encryption check'', [(Fail, ''https://altinity.atlassian.net/browse/CH-242'', None, None)]),
      ('': disk/low cardinality offset'', [(Fail, ''https://github.com/ClickHouse/ClickHouse/pull/44875'', None, None)])]"

definition s3_ffails :: ffail_table where
  "s3_ffails =
     [(''minio disk/environment credentials'', Skip, ''timeout'', None),
      (''gcs disk/environment credentials'', Skip, ''timeout'', None),
      (''aws s3 backup'', Skip, ''timeout, https://github.com/ClickHouse/ClickHouse/issues/30510'', None),
      (''gcs backup'', Skip, ''timeout, https://github.com/ClickHouse/ClickHouse/issues/30510'', None),
      (''aws s3 disk/ssec'', Skip, ''SSEC option with disk not working'', None),
      (''aws s3 table function/ssec encryption check'', Skip, ''SSEC currently not working. Timeout'', None),
      ('': backup/:/metadata:'', XFail, ''Under development for 22.8 and newer.'', Some (Version ''>=22.8'')),
      ('':disk/cache*'', XFail, ''Under development for 22.8 and newer.'', Some (Version ''>=22.8''))]"

text \<open>\<open>selects/regression.py\<close>\<close>

definition selects_xfails :: xfail_table where
  "selects_xfails =
     [(''final/force/general/without experimental analyzer/select join clause/*'', [(Fail, (''doesn'' @ [CHR 0x27] @ ''t work in clickhouse https://github.com/ClickHouse/ClickHouse/issues/8655''), None, None)]),
      (''final/modifier'', [(Fail, ''not implemented'', None, None)]),
      (''final/force/general/with experimental analyzer/simple select group by/*'', [(Fail, ''group by conflict analyzer'', None, None)]),
      (''final/force/general/with experimental analyzer/simple select count/simple select count/distr_*'', [(Fail, ''column fail for distributed tables'', None, None)]),
      (''final/force/general/with experimental analyzer/simple select as/simple select as/distr_*'', [(Fail, ''column fail for distributed tables'', None, None)]),
      (''final/force/general/with experimental analyzer/simple select limit/simple select limit/distr_*'', [(Fail, ''column fail for distributed tables'', None, None)]),
      (''final/force/general/with experimental analyzer/simple select limit by/simple select limit by/distr_*'', [(Fail, ''column fail for distributed tables'', None, None)]),
      (''final/force/general/with experimental analyzer/simple select distinct/simple select distinct/distr_*'', [(Fail, ''column fail for distributed tables'', None, None)]),
      (''final/force/general/with experimental analyzer/simple select where/simple select where/distr_*'', [(Fail, ''column fail for distributed tables'', None, None)]),
      (''final/force/general/with experimental analyzer/select multiple join clause select/AggregatingMergeTree*'', [(Fail, ''AggregatingFunction problem with analyzer'', None, None)]),
      (''final/force/general/with experimental analyzer/select nested join clause select/AggregatingMergeTree*'', [(Fail, ''AggregatingFunction problem with analyzer'', None, None)]),
      (''final/force/general/with experimental analyzer/select nested subquery/select nested subquery/distr_*'', [(Fail, ''column fail for distributed tables'', None, None)]),
      (''final/force/general/with experimental analyzer/select where subquery/select where subquery/distr_*'', [(Fail, ''column fail for distributed tables'', None, None)]),
      (''final/force/general/with experimental analyzer/select subquery/select subquery/distr_*'', [(Fail, ''column fail for distributed tables'', None, None)])]"

text \<open>\<open>ssl_keeper/regression.py\<close>\<close>

definition ssl_keeper_xfails :: xfail_table where
  "ssl_keeper_xfails =
     [(''ssl keeper/FIPS SSL/openssl check/port:%%%%/connection using FIPS compatible cipher ECDHE-ECDSA-AES128-GCM-SHA256 should work'', [(Fail, ''not supported by SSL library'', None, None)]),
      (''/ssl keeper/FIPS SSL/openssl check/port:%%%%/connection using FIPS compatible cipher ECDHE-ECDSA-AES256-GCM-SHA384 should work'', [(Fail, ''not supported by SSL library'', None, None)])]"

text \<open>\<open>ssl_server/regression.py\<close>\<close>

definition ssl_server_xfails :: xfail_table where
  "ssl_server_xfails =
     [(''ssl context/enable ssl with server key passphrase'', [(Fail, ''https://github.com/ClickHouse/ClickHouse/issues/35950'', None, None)]),
      (''ssl context/enable ssl no server key passphrase dynamically'', [(Fail, ''https://github.com/ClickHouse/ClickHouse/issues/35950'', None, None)]),
      (''ssl context/enable ssl with server key passphrase dynamically'', [(Fail, ''https://github.com/ClickHouse/ClickHouse/issues/35950'', None, None)]),
      ('':/:/:/:/:cipher ECDHE-ECDSA-AES256-GCM-SHA384 should work'', [(Fail, ''not supported by SSL library'', None, None)]),
      ('':/:/:/:/:cipher ECDHE-ECDSA-AES128-GCM-SHA256 should work'', [(Fail, ''not supported by SSL library'', None, None)]),
      ('':/:/:/:/:/:cipher ECDHE-ECDSA-AES256-GCM-SHA384 should work'', [(Fail, ''not supported by SSL library'', None, None)]),
      ('':/:/:/:/:/:cipher ECDHE-ECDSA-AES128-GCM-SHA256 should work'', [(Fail, ''not supported by SSL library'', None, None)]),
      ('':/:/:cipher ECDHE-ECDSA-AES256-GCM-SHA384 should work'', [(Fail, ''not supported by SSL library'', None, None)]),
      ('':/:/:cipher ECDHE-ECDSA-AES128-GCM-SHA256 should work'', [(Fail, ''not supported by SSL library'', None, None)]),
      (''fips/server/tcp connection/:/:/just disabling TLSv1.1 suite connection should work'', [(Fail, ''needs to be reviewed'', None, None)]),
      (''fips/server/:/tcp connection/:/:/just disabling TLSv1.1 suite connection should work'', [(Fail, ''needs to be reviewed'', None, None)]),
      (''fips/:/:/:/just disabling TLSv1.1 suite connection should work'', [(Fail, ''needs to be reviewed'', None, None)]),
      ('':/:/just disabling TLSv1.1 suite connection should work'', [(Fail, ''needs to be reviewed'', None, None)]),
      (''fips/clickhouse client/:/:/: should be rejected'', [(Fail, ''https://github.com/ClickHouse/ClickHouse/issues/45445'', None, None)]),
      (''fips/:/:/connection with at least one FIPS compatible cipher should work, ciphers: ECDHE-ECDSA-AES256-GCM-SHA384 :'', [(Fail, ''not supported by SSL library'', None, None)]),
      (''fips/:/:/connection with at least one FIPS compatible cipher should work, ciphers: ECDHE-ECDSA-AES128-GCM-SHA256 :'', [(Fail, ''not supported by SSL library'', None, None)]),
      (''zookeepe:/fips/ECDHE-ECDSA-AES128-GCM-SHA256'', [(Fail, ''SSLV3_ALERT_HANDSHAKE_FAILURE'', None, Some ''.*SSLV3_ALERT_HANDSHAKE_FAILURE.*'')]),
      (''zookeepe:/fips/ECDHE-ECDSA-AES256-GCM-SHA384'', [(Fail, ''SSLV3_ALERT_HANDSHAKE_FAILURE'', None, Some ''.*SSLV3_ALERT_HANDSHAKE_FAILURE.*'')]),
      (''zookeepe:/fips/AES128-GCM-SHA256'', [(Fail, ''SSLV3_ALERT_HANDSHAKE_FAILURE'', None, Some ''.*SSLV3_ALERT_HANDSHAKE_FAILURE.*'')]),
      (''zookeepe:/fips/AES256-GCM-SHA384'', [(Fail, ''SSLV3_ALERT_HANDSHAKE_FAILURE'', None, Some ''.*SSLV3_ALERT_HANDSHAKE_FAILURE.*'')])]"

definition ssl_server_ffails :: ffail_table where
  "ssl_server_ffails =
     [(''check certificate/system certificates'', Skip, ''supported on >=22.8'', Some (Version ''<22.8'')),
      (''check certificate/show certificate'', Skip, ''supported on >=22.8'', Some (Version ''<22.8'')),
      (''ssl context/enable ssl no server key passphrase dynamically'', Skip, ''supported on >=22.3'', Some (Version ''<22.3'')),
      (''ssl context/enable ssl with server key passphrase dynamically'', Skip, ''supported on >=22.3'', Some (Version ''<22.3''))]"

text \<open>\<open>tiered_storage/regression.py\<close>\<close>

definition tiered_storage_xfails :: xfail_table where
  "tiered_storage_xfails =
     [('':/manual move with downtime/*/all paths should start with :'', [(Fail, ''https://altinity.atlassian.net/browse/CH-124'', None, None)]),
      ('':/ttl moves/alter with existing parts'', [(Fail, ''not yet supported'', None, None)]),
      ('':/ttl moves/alter policy and ttl with existing parts'', [(Fail, ''not yet supported'', None, None)]),
      ('':/ttl moves/alter with merge'', [(Fail, ''not yet supported'', None, None)]),
      ('':/ttl moves/materialize ttl'', [(Error, ''not yet supported'', None, None)]),
      ('':/ttl moves/mutation update column in ttl'', [(Error, ''not yet supported'', None, None)]),
      ('':/double move while select'', [(Fail, ''not yet supported'', None, None)]),
      ('':/background move/concurrent read'', [(Fail, ''known issue'', None, None)]),
      ('':/disk space bytes'', [(Fail, ''not yet supported'', None, None)]),
      ('':/attach or replace partition different policies'', [(Fail, ''known issue'', None, None)]),
      ('':/ttl moves/alter column in ttl/*'', [(Fail, ''https://github.com/ClickHouse/ClickHouse/issues/39808'', None, None)]),
      ('':/ttl moves/delete'', [(Fail, ''https://github.com/ClickHouse/ClickHouse/issues/50060'', None, None)]),
      ('':/ttl moves/defaults to delete'', [(Fail, ''https://github.com/ClickHouse/ClickHouse/issues/50060'', None, None)])]"

definition tiered_storage_ffails :: ffail_table where
  "tiered_storage_ffails =
     [('':/ttl moves/alter with merge'', XFail, ''bug, test gets stuck'', None),
      (''/tiered storage/with s3amazon/alter table policy'', XFail, ''Investigating'', None)]"

text \<open>\<open>window_functions/regression.py\<close>\<close>

definition window_functions_xfails :: xfail_table where
  "window_functions_xfails =
     [(''tests/:/frame clause/range frame/between expr following and expr following without order by error'', [(Fail, ''invalid error message'', None, None)]),
      (''tests/:/frame clause/range frame/between expr following and expr preceding without order by error'', [(Fail, ''invalid error message'', None, None)]),
      (''tests/:/frame clause/range frame/between expr following and current row without order by error'', [(Fail, ''invalid error message'', None, None)]),
      (''tests/:/frame clause/range frame/between expr following and current row zero special case'', [(Fail, ''known bug'', None, None)]),
      (''tests/:/frame clause/range frame/between expr following and expr preceding with order by zero special case'', [(Fail, ''known bug'', None, None)]),
      (''tests/:/funcs/lag/anyOrNull with column value as offset'', [(Fail, ''column values are not supported as offset'', None, None)]),
      (''tests/:/funcs/lead/subquery as offset'', [(Fail, ''subquery is not supported as offset'', None, None)]),
      (''tests/:/frame clause/range frame/between current row and unbounded following modifying named window'', [(Fail, ''range with named window is not supported'', None, None)]),
      (''tests/:/frame clause/range overflow/negative overflow with Int16'', [(Fail, ''exception on conversion'', None, None)]),
      (''tests/:/frame clause/range overflow/positive overflow with Int16'', [(Fail, ''exception on conversion'', None, None)]),
      (''tests/:/misc/subquery expr preceding'', [(Fail, ''subquery is not supported as offset'', None, None)]),
      (''tests/:/frame clause/range errors/error negative preceding offset'', [(Fail, ''https://github.com/ClickHouse/ClickHouse/issues/22442'', None, None)]),
      (''tests/:/frame clause/range errors/error negative following offset'', [(Fail, ''https://github.com/ClickHouse/ClickHouse/issues/22442'', None, None)]),
      (''tests/:/misc/window functions in select expression'', [(Fail, ''not supported, https://github.com/ClickHouse/ClickHouse/issues/19857'', None, None)]),
      (''tests/:/misc/window functions in subquery'', [(Fail, ''not supported, https://github.com/ClickHouse/ClickHouse/issues/19857'', None, None)]),
      (''tests/:/misc/in view'', [(Fail, ''bug, https://github.com/ClickHouse/ClickHouse/issues/26001'', None, None)]),
      (''tests/:/frame clause/range frame/order by decimal'', [(Fail, (''Exception: The RANGE OFFSET frame for '' @ [CHR 0x27] @ ''DB::ColumnDecimal<DB::Decimal<long> >'' @ [CHR 0x27] @ '' ORDER BY column is not implemented''), None, None)]),
      (''tests/:/frame clause/range frame/with nulls'', [(Fail, (''DB::Exception: The RANGE OFFSET frame for '' @ [CHR 0x27] @ ''DB::ColumnNullable'' @ [CHR 0x27] @ '' ORDER BY column is not implemented''), None, None)]),
      ((''tests/:/aggregate funcs/aggregate funcs over rows frame/func='' @ [CHR 0x27] @ ''mannWhitneyUTest(salary, 1)'' @ [CHR 0x27]), [(Fail, ''need to investigate'', None, None)]),
      ((''tests/:/aggregate funcs/aggregate funcs over rows frame/func='' @ [CHR 0x27] @ ''rankCorr(salary, 0.5)'' @ [CHR 0x27]), [(Fail, ''need to investigate'', None, None)]),
      (''tests/distributed/misc/query with order by and one window'', [(Fail, ''https://github.com/ClickHouse/ClickHouse/issues/23902'', None, None)]),
      (''tests/distributed/over clause/empty named window'', [(Fail, ''https://github.com/ClickHouse/ClickHouse/issues/23902'', None, None)]),
      (''tests/distributed/over clause/empty'', [(Fail, ''https://github.com/ClickHouse/ClickHouse/issues/23902'', None, None)]),
      (''tests/distributed/over clause/adhoc window'', [(Fail, ''https://github.com/ClickHouse/ClickHouse/issues/23902'', None, None)]),
      (''tests/distributed/frame clause/range datetime/:'', [(Fail, ''https://github.com/ClickHouse/ClickHouse/issues/23902'', None, None)]),
      (''tests/distributed/frame clause/range frame/between expr preceding and expr following with partition by same column twice'', [(Fail, ''https://github.com/ClickHouse/ClickHouse/issues/23902'', None, None)]),
      (''tests/:/funcs/leadInFrame/explicit default value'', [(Fail, ''https://github.com/ClickHouse/ClickHouse/issues/25057'', None, None)]),
      (''tests/:/funcs/leadInFrame/with nulls'', [(Fail, ''https://github.com/ClickHouse/ClickHouse/issues/25057'', None, None)]),
      (''tests/:/funcs/leadInFrame/default offset'', [(Fail, ''https://github.com/ClickHouse/ClickHouse/issues/23902'', None, None)]),
      (''tests/:/funcs/lagInFrame/explicit default value'', [(Fail, ''https://github.com/ClickHouse/ClickHouse/issues/25057'', None, None)]),
      (''tests/:/funcs/lagInFrame/with nulls'', [(Fail, ''https://github.com/ClickHouse/ClickHouse/issues/25057'', None, None)]),
      (''tests/:/funcs/lagInFrame/default offset'', [(Fail, ''https://github.com/ClickHouse/ClickHouse/issues/23902'', None, None)]),
      (''tests/:/time decayed funcs/exponentialTimeDecayed:/check decay length with INTERVAL'', [(Fail, ''not supported and should return an error'', None, None)]),
      (''tests/:/non-negative derivative func/check intervals/valid/:'', [(Fail, ''bug, LOGICAL_ERROR that needs to be investigated'', None, None)]),
      (''tests/:/non-negative derivative func/valid metric types/:'', [(Fail, ''bug, LOGICAL_ERROR that needs to be investigated'', None, None)]),
      (''tests/:/non-negative derivative func/valid timestamp types/:'', [(Fail, ''bug, LOGICAL_ERROR that needs to be investigated'', None, None)]),
      (''tests/:/non-negative derivative func/check one row per partition'', [(Fail, ''bug, LOGICAL_ERROR that needs to be investigated'', None, None)]),
      (''tests/:/non-negative derivative func/check over windows/:'', [(Fail, ''bug, LOGICAL_ERROR that needs to be investigated'', None, None)]),
      (''tests/:/funcs/last value/partition by window/using last_value'', [(Fail, ''23.2 fail https://github.com/ClickHouse/ClickHouse/issues/49461'', Some (Version ''>=23.2''), None)]),
      (''tests/:/funcs/last value/partition by window/using anyLast:'', [(Fail, ''23.2 fail https://github.com/ClickHouse/ClickHouse/issues/49461'', Some (Version ''>=23.2''), None)]),
      (''/window functions/tests/:/time decayed funcs/exponentialTimeDecayed:/:/:'', [(Fail, ''not working correctly on 22.3'', Some (Version ''<22.8''), None)])]"

definition window_functions_ffails :: ffail_table where
  "window_functions_ffails =
     [(''tests/:/datatypes/low cardinality'', Skip, ''Server crashes on 21.9 and 21.10'', Some (Both (Version ''>=21.9'') (Version ''<21.11''))),
      (''tests/:/aggregate funcs/avgWeighted/:'', Skip, ''Server crashes on 21.9'', Some (Both (Version ''>=21.9'') (Version ''<21.10''))),
      (''tests/:/time decayed funcs'', Skip, ''Not implemented before 21.11'', Some (Version ''<21.11'')),
      (''tests/:/non-negative derivative func'', Skip, ''Not implemented before 22.6'', Some (Version ''<22.6''))]"

text \<open>\<open>regression.py\<close>\<close>

definition all_suites_ffails :: ffail_table where
  "all_suites_ffails =
     [(''s3'', Skip, ''Required inputs are not specified, must be launch seperately.'', None),
      (''tiered_storage'', Skip, ''Required inputs are not specified, must be launch seperately.'', None)]"

section \<open>All tables\<close>

definition xfail_tables :: "(string \<times> xfail_table) list" where
  "xfail_tables =
     [(''aes_encryption'', aes_encryption_xfails),
      (''aggregate_functions'', aggregate_functions_xfails),
      (''base_58'', base_58_xfails),
      (''clickhouse_keeper'', clickhouse_keeper_xfails),
      (''data_types'', data_types_xfails),
      (''datetime64_extended_range'', datetime64_extended_range_xfails),
      (''disk_level_encryption'', disk_level_encryption_xfails),
      (''dns'', dns_xfails),
      (''kerberos'', kerberos_xfails),
      (''ldap_authentication'', ldap_authentication_xfails),
      (''ldap_external_user_directory'', ldap_external_user_directory_xfails),
      (''ldap_role_mapping'', ldap_role_mapping_xfails),
      (''lightweight_delete'', lightweight_delete_xfails),
      (''parquet'', parquet_xfails),
      (''rbac'', rbac_xfails),
      (''s3'', s3_xfails),
      (''selects'', selects_xfails),
      (''ssl_keeper'', ssl_keeper_xfails),
      (''ssl_server'', ssl_server_xfails),
      (''tiered_storage'', tiered_storage_xfails),
      (''window_functions'', window_functions_xfails)]"

definition ffail_tables :: "(string \<times> ffail_table) list" where
  "ffail_tables =
     [(''data_types'', data_types_ffails),
      (''datetime64_extended_range'', datetime64_extended_range_ffails),
      (''disk_level_encryption'', disk_level_encryption_ffails),
      (''ldap_external_user_directory'', ldap_external_user_directory_ffails),
      (''ldap_role_mapping'', ldap_role_mapping_ffails),
      (''parquet'', parquet_ffails),
      (''rbac'', rbac_ffails),
      (''s3'', s3_ffails),
      (''ssl_server'', ssl_server_ffails),
      (''tiered_storage'', tiered_storage_ffails),
      (''window_functions'', window_functions_ffails),
      (''all_suites'', all_suites_ffails)]"

section \<open>What a condition promises\<close>

text \<open>A constraint read as an operator and numbers.\<close>

definition constraint :: "string \<Rightarrow> operator \<times> nat list" where
  "constraint v =
     (if startswith v ''=='' then Eq_Eq else if startswith v ''>='' then Ge else if startswith v ''<='' then Le
      else if startswith v ''='' then Eq else if startswith v ''>'' then Gt else Lt,
      map (\<lambda>x. case py_int x of None \<Rightarrow> 0 | Some i \<Rightarrow> nat i) (py_split ''.'' (without_operators v)))"

fun well_formed :: "condition \<Rightarrow> bool" where
  "well_formed (Version v) \<longleftrightarrow> (case constraint v of (r, ns) \<Rightarrow> ns \<noteq> [] \<and> operator_text r @ dotted ns [] = v)"
| "well_formed (Machine m) \<longleftrightarrow> True"
| "well_formed (Both a b) \<longleftrightarrow> well_formed a \<and> well_formed b"

text \<open>The meaning of a condition for the numbers of a version.\<close>

fun condition_spec :: "string \<Rightarrow> nat list \<Rightarrow> condition \<Rightarrow> bool" where
  "condition_spec machine ms (Version v) \<longleftrightarrow>
     (case constraint v of (r, ns) \<Rightarrow> operator_holds r ms (take (length ms) ns))"
| "condition_spec machine ms (Machine m) \<longleftrightarrow> machine = m"
| "condition_spec machine ms (Both a b) \<longleftrightarrow> condition_spec machine ms a \<and> condition_spec machine ms b"

definition applies_spec :: "string \<Rightarrow> nat list \<Rightarrow> condition option \<Rightarrow> bool" where
  "applies_spec machine ms w = (case w of None \<Rightarrow> True | Some c \<Rightarrow> condition_spec machine ms c)"

fun selected :: "string \<Rightarrow> nat list \<Rightarrow> ffail_table \<Rightarrow> (string \<times> test_result) list" where
  "selected machine ms [] = []"
| "selected machine ms ((p, r, why, w) # tbl) =
     (if applies_spec machine ms w then [(p, r)] else []) @ selected machine ms tbl"

definition xfail_ok :: "xfail_table \<Rightarrow> bool" where
  "xfail_ok tbl = list_all (\<lambda>(p, es). list_all (\<lambda>(r, why, w, msg). pred_option well_formed w) es) tbl"

definition ffail_ok :: "ffail_table \<Rightarrow> bool" where
  "ffail_ok tbl = list_all (\<lambda>(p, r, why, w). pred_option well_formed w) tbl"

lemma condition_holds_dotted:
  assumes "ms \<noteq> []" and "\<And>x. x \<in> set sfx \<Longrightarrow> CHR ''.'' \<notin> set x" and "sfx \<noteq> [] \<longrightarrow> \<not> isnumeric (hd sfx)"
    and "well_formed c"
  shows "condition_holds machine (Some (dotted ms sfx)) c = Inr (condition_spec machine ms c)"
  using assms(4)
proof (induction c)
  case (Version v)
  then show ?case
    using check_clickhouse_version_dotted [OF assms(1) _ assms(2,3), of "snd (constraint v)" "fst (constraint v)"]
    by (simp split: prod.splits)
qed (simp_all split: bool.splits)

lemma applies_dotted:
  assumes "ms \<noteq> []" and "\<And>x. x \<in> set sfx \<Longrightarrow> CHR ''.'' \<notin> set x" and "sfx \<noteq> [] \<longrightarrow> \<not> isnumeric (hd sfx)"
    and "pred_option well_formed w"
  shows "applies machine (Some (dotted ms sfx)) w = Inr (applies_spec machine ms w)"
  using condition_holds_dotted [OF assms(1-3)] assms(4) by (cases w) (simp_all add: applies_def applies_spec_def)

lemma forced_dotted:
  assumes "ms \<noteq> []" and "\<And>x. x \<in> set sfx \<Longrightarrow> CHR ''.'' \<notin> set x" and "sfx \<noteq> [] \<longrightarrow> \<not> isnumeric (hd sfx)"
    and "ffail_ok tbl"
  shows "forced machine (Some (dotted ms sfx)) tbl =
    Inr (selected machine ms tbl)"
  using assms(4)
proof (induction tbl)
  case (Cons e tbl)
  then show ?case using applies_dotted [OF assms(1-3)] by (cases e) (simp add: ffail_ok_def)
qed simp

text \<open>Every constraint of every table is an operator and dotted numbers.\<close>

lemma well_formed_versions:
  "well_formed (Version ''<20.10'')" "well_formed (Version ''<21.10'')" "well_formed (Version ''<21.11'')"
  "well_formed (Version ''<21.9'')" "well_formed (Version ''<22.11'')" "well_formed (Version ''<22.3'')"
  "well_formed (Version ''<22.6'')" "well_formed (Version ''<22.8'')" "well_formed (Version ''<23.3'')"
  "well_formed (Version ''>=21.10'')" "well_formed (Version ''>=21.12'')" "well_formed (Version ''>=21.8'')"
  "well_formed (Version ''>=21.9'')" "well_formed (Version ''>=22.6'')" "well_formed (Version ''>=22.8'')"
  "well_formed (Version ''>=23'')" "well_formed (Version ''>=23.2'')"
  by code_simp+

lemmas xfail_table_defs =
  aes_encryption_xfails_def aggregate_functions_xfails_def base_58_xfails_def clickhouse_keeper_xfails_def
  data_types_xfails_def datetime64_extended_range_xfails_def disk_level_encryption_xfails_def dns_xfails_def
  kerberos_xfails_def ldap_authentication_xfails_def ldap_external_user_directory_xfails_def
  ldap_role_mapping_xfails_def lightweight_delete_xfails_def parquet_xfails_def rbac_xfails_def s3_xfails_def
  selects_xfails_def ssl_keeper_xfails_def ssl_server_xfails_def tiered_storage_xfails_def
  window_functions_xfails_def

lemmas ffail_table_defs =
  data_types_ffails_def datetime64_extended_range_ffails_def disk_level_encryption_ffails_def
  ldap_external_user_directory_ffails_def ldap_role_mapping_ffails_def parquet_ffails_def rbac_ffails_def
  s3_ffails_def ssl_server_ffails_def tiered_storage_ffails_def window_functions_ffails_def all_suites_ffails_def

lemma ffail_tables_ok: "list_all (\<lambda>(nm, tbl). ffail_ok tbl) ffail_tables"
  by (simp add: ffail_tables_def ffail_table_defs ffail_ok_def well_formed_versions del: well_formed.simps(1))

lemma xfail_tables_ok: "list_all (\<lambda>(nm, tbl). xfail_ok tbl) xfail_tables"
  by (simp add: xfail_tables_def xfail_table_defs xfail_ok_def well_formed_versions del: well_formed.simps(1))

lemma constraint_simps:
  "constraint ''<21.9'' = (Lt, [21, 9])" "constraint ''>=21.9'' = (Ge, [21, 9])" "constraint ''<21.10'' = (Lt, [21, 10])"
  "constraint ''>=21.10'' = (Ge, [21, 10])" "constraint ''<21.11'' = (Lt, [21, 11])" "constraint ''>=22.8'' = (Ge, [22, 8])"
  "constraint ''>=23.2'' = (Ge, [23, 2])"
  by code_simp+

section \<open>Properties\<close>

text \<open>
  C17. The conditions of all tables mean what they say: for every server version of dotted numbers, with or
  without a suffix, no condition raises, and a table forces exactly the results whose constraints hold of the numbers and the
  machine; an expected failure applies under the same reading of its condition.
\<close>

theorem tables_refine:
  assumes "ms \<noteq> []" and "\<And>x. x \<in> set sfx \<Longrightarrow> CHR ''.'' \<notin> set x" and "sfx \<noteq> [] \<longrightarrow> \<not> isnumeric (hd sfx)"
  shows "(\<forall>(nm, tbl) \<in> set ffail_tables. forced machine (Some (dotted ms sfx)) tbl =
      Inr (selected machine ms tbl)) \<and>
    (\<forall>(nm, tbl) \<in> set xfail_tables. \<forall>(p, es) \<in> set tbl. \<forall>(r, why, w, msg) \<in> set es.
      applies machine (Some (dotted ms sfx)) w = Inr (applies_spec machine ms w))"
proof (intro conjI ballI)
  fix t assume "t \<in> set ffail_tables"
  with ffail_tables_ok have "ffail_ok (snd t)" by (auto simp: list_all_iff)
  then show "case t of (nm, tbl) \<Rightarrow> forced machine (Some (dotted ms sfx)) tbl =
      Inr (selected machine ms tbl)"
    using forced_dotted [OF assms] by (cases t) simp
next
  fix t assume "t \<in> set xfail_tables"
  with xfail_tables_ok have "xfail_ok (snd t)" by (auto simp: list_all_iff)
  then show "case t of (nm, tbl) \<Rightarrow> \<forall>(p, es) \<in> set tbl. \<forall>(r, why, w, msg) \<in> set es.
      applies machine (Some (dotted ms sfx)) w = Inr (applies_spec machine ms w)"
    using applies_dotted [OF assms] by (cases t) (fastforce simp: xfail_ok_def list_all_iff)
qed

theorem tables_refine_witness:
  "forced ''x86_64'' (Some (dotted [23, 3, 1] [''altinitystable''])) tiered_storage_ffails =
     Inr [('':/ttl moves/alter with merge'', XFail), (''/tiered storage/with s3amazon/alter table policy'', XFail)]"
proof -
  have "(''tiered_storage'', tiered_storage_ffails) \<in> set ffail_tables" by (simp add: ffail_tables_def)
  with tables_refine [of "[23, 3, 1]" "[''altinitystable'']" "''x86_64''"]
  have "forced ''x86_64'' (Some (dotted [23, 3, 1] [''altinitystable''])) tiered_storage_ffails =
      Inr (selected ''x86_64'' [23, 3, 1] tiered_storage_ffails)"
    by (fastforce simp: isnumeric_def is_numeric_char_def is_digit_def)
  then show ?thesis by (simp add: tiered_storage_ffails_def applies_spec_def)
qed

text \<open>
  C39. What the access control suite forces, by version: before 21.9 six tests of system privileges are expected to fail, on 21.9 the
  views are skipped, on 21.10 the tests of one table engine, then nothing up to 22.8, from 22.8 on the row
  policies are expected to fail and from 23.2 on the restart of disks is skipped; on an ARM machine two more tests are skipped on all
  versions. The windows are disjoint, and a server is in exactly one of them.
\<close>

theorem rbac_forced_windows:
  assumes "2 \<le> length ms" and "\<And>x. x \<in> set sfx \<Longrightarrow> CHR ''.'' \<notin> set x" and "sfx \<noteq> [] \<longrightarrow> \<not> isnumeric (hd sfx)"
  shows "forced machine (Some (dotted ms sfx)) rbac_ffails = Inr (
    (if machine = ''aarch64'' then
       [(''/rbac/privileges/sources/HDFS*'', Skip),
        (''/rbac/privileges/system drop cache/compiled expression cache*'', Skip)] else []) @
    (if ms < [21, 9] then
       map (\<lambda>p. (''rbac/privileges/system '' @ p, XFail))
         [''merges'', ''ttl merges'', ''moves'', ''sends'', ''fetches'', ''replication queues'']
     else if ms < [21, 10] then [(''rbac/views'', Skip)]
     else if ms < [21, 11] then
       [(''rbac/privileges/:/table_type='' @ [CHR 0x27] @ ''ReplicatedReplacingMergeTree-sharded_cluster'', Skip)]
     else if ms < [22, 8] then []
     else if ms < [23, 2] then [(''/rbac/privileges/row policy/:'', XFail)]
     else [(''/rbac/privileges/row policy/:'', XFail), (''/rbac/privileges/system restart disk'', Skip)]))"
proof -
  have numbers: "take (length ms) [a, b] = [a, b]" for a b :: nat using assms(1) by simp
  have "ms \<noteq> []" using assms(1) by auto
  moreover have "ffail_ok rbac_ffails"
    using ffail_tables_ok by (auto simp: ffail_tables_def)
  ultimately have forced: "forced machine (Some (dotted ms sfx)) rbac_ffails =
      Inr (selected machine ms rbac_ffails)"
    using forced_dotted [OF _ assms(2,3)] by blast
  define lt where "lt ns \<longleftrightarrow> ms < ns" for ns
  have specs: "condition_spec machine ms (Version ''<21.9'') = lt [21, 9]" "condition_spec machine ms (Version ''>=21.9'') = (\<not> lt [21, 9])"
    "condition_spec machine ms (Version ''<21.10'') = lt [21, 10]" "condition_spec machine ms (Version ''>=21.10'') = (\<not> lt [21, 10])"
    "condition_spec machine ms (Version ''<21.11'') = lt [21, 11]" "condition_spec machine ms (Version ''>=22.8'') = (\<not> lt [22, 8])"
    "condition_spec machine ms (Version ''>=23.2'') = (\<not> lt [23, 2])"
    by (simp_all add: constraint_simps numbers lt_def not_less)
  have selected: "selected machine ms rbac_ffails =
      (if machine = ''aarch64'' then [(''/rbac/privileges/sources/HDFS*'', Skip)] else []) @
      (if machine = ''aarch64'' then [(''/rbac/privileges/system drop cache/compiled expression cache*'', Skip)] else []) @
      (if \<not> lt [21, 10] \<and> lt [21, 11] then
         [(''rbac/privileges/:/table_type='' @ [CHR 0x27] @ ''ReplicatedReplacingMergeTree-sharded_cluster'', Skip)] else []) @
      (if \<not> lt [21, 9] \<and> lt [21, 10] then [(''rbac/views'', Skip)] else []) @
      concat (map (\<lambda>p. if lt [21, 9] then [(''rbac/privileges/system '' @ p, XFail)] else [])
         [''merges'', ''ttl merges'', ''moves'', ''sends'', ''fetches'', ''replication queues'']) @
      (if \<not> lt [22, 8] then [(''/rbac/privileges/row policy/:'', XFail)] else []) @
      (if \<not> lt [23, 2] then [(''/rbac/privileges/system restart disk'', Skip)] else [])"
    by (simp add: rbac_ffails_def applies_spec_def specs del: condition_spec.simps(1))
  have "lt [21, 9] \<Longrightarrow> lt [21, 10]" "lt [21, 10] \<Longrightarrow> lt [21, 11]" "lt [21, 11] \<Longrightarrow> lt [22, 8]" "lt [22, 8] \<Longrightarrow> lt [23, 2]"
    unfolding lt_def by (erule less_trans, simp)+
  then show ?thesis unfolding forced selected lt_def [symmetric]
    by (cases "lt [21, 9]"; cases "lt [21, 10]"; cases "lt [21, 11]"; cases "lt [22, 8]"; cases "lt [23, 2]") simp_all
qed

theorem rbac_forced_windows_witness:
  "forced ''aarch64'' (Some ''22.8.11.altinitystable'') rbac_ffails =
    Inr [(''/rbac/privileges/sources/HDFS*'', Skip), (''/rbac/privileges/system drop cache/compiled expression cache*'', Skip),
      (''/rbac/privileges/row policy/:'', XFail)]"
proof -
  have "dotted [22, 8, 11] [''altinitystable''] = ''22.8.11.altinitystable''" by code_simp
  then show ?thesis
    using rbac_forced_windows [of "[22, 8, 11]" "[''altinitystable'']" "''aarch64''"]
    by (simp add: isnumeric_def is_numeric_char_def is_digit_def)
qed

end
