(* ===== verification/Parquet_Files.thy ===== *)
theory Parquet_Files
  imports Tables Cluster_State
begin

text \<open>
  \<open>parquet/data/test_file_generators.py\<close>: the program that makes the Parquet files of the suite and the text from
  which the suite reads the columns of its table. The Arrow library is an argument; the types and values handed to it
  are data. Reading the text back, which \<open>parquet/regression.py\<close> does with \<open>eval\<close>, is here too, so that both sides
  of the file can be compared.
\<close>

section \<open>Arrow types and values\<close>

text \<open>What the functions of \<open>pyarrow\<close> that name types are called with.\<close>

datatype arrow =
    Abool | Auint nat | Aint nat | Afloat32 | Afloat64 | Adate32 | Atimestamp string | Astring | Abinary
  | Alist arrow | Astruct "(string \<times> arrow) list" | Amap arrow arrow

text \<open>The values of the columns; a floating point number is the text of its literal.\<close>

datatype pvalue = VBool bool | VInt int | VFloat string | VStr string | VList "pvalue list" | VTuple "pvalue list"

definition pyarrow_types :: "(string, arrow) pydict" where
  "pyarrow_types =
     [(''bool'', Abool), (''uint8'', Auint 8), (''int8'', Aint 8), (''uint16'', Auint 16), (''int16'', Aint 16),
      (''uint32'', Auint 32), (''int32'', Aint 32), (''uint64'', Auint 64), (''int64'', Aint 64),
      (''float'', Afloat32), (''double'', Afloat64), (''date32'', Adate32), (''timestamp'', Atimestamp ''s''),
      (''string'', Astring), (''binary'', Abinary)]"

definition data_types_and_values :: "(string, pvalue list) pydict" where
  "data_types_and_values =
     [(''bool'', [VBool True, VBool False, VBool True]),
      (''uint8'', [VInt 0, VInt 255, VInt 128]),
      (''int8'', [VInt (-128), VInt 127, VInt 101]),
      (''uint16'', [VInt 0, VInt 65535, VInt 32767]),
      (''int16'', [VInt (-32768), VInt 32767, VInt 10101]),
      (''uint32'', [VInt 0, VInt 4294967295, VInt 101010101]),
      (''int32'', [VInt (-2147483648), VInt 2147483647, VInt 10101010]),
      (''uint64'', [VInt 0, VInt 18446744073709551615, VInt 1010101010101010]),
      (''int64'', [VInt (-9223372036854775808), VInt 9223372036854775807, VInt 1010101010101010]),
      (''float'', [VFloat ''-3.4028235e38'', VFloat ''3.4028235e38'', VInt 10101010]),
      (''double'', [VFloat ''-1.7976909999999999e308'', VFloat ''1.7976909999999999e308'', VFloat ''5.6e266'']),
      (''date32'', [VInt 0, VInt 65535, VInt 10]),
      (''timestamp'', [VInt 0, VFloat ''4.29496e09'', VInt 10]),
      (''string'', [VStr (quoted []),
         VStr (quoted (''abcdefghijklmnopqrstuvwxyzABCDEFGHIJKLMNOPQRTUVWXYZ!@#$%^&*()_-=+[]'' @ [CHR 0x5C] @ ''{'' @
           [CHR 0x5C] @ ''}'' @ [CHR 0x5C] @ ''|'' @ [CHR 0x5C] @ ''/?<>,.:;~`'')),
         VStr (quoted ''hello'')]),
      (''binary'', [VStr ''1'', VStr ''0'', VStr ''111100111111''])]"

definition pq_to_ch_types :: "(string, string) pydict" where
  "pq_to_ch_types =
     [(''bool'', ''UInt8()''), (''uint8'', ''UInt8()''), (''int8'', ''Int8()''), (''uint16'', ''UInt16()''),
      (''int16'', ''Int16()''), (''uint32'', ''UInt32()''), (''int32'', ''Int32()''), (''uint64'', ''UInt64()''),
      (''int64'', ''Int64()''), (''float'', ''Float32()''), (''double'', ''Float64()''), (''timestamp'', ''DateTime()''),
      (''date32'', ''Date()''), (''string'', ''String()''), (''binary'', ''String()'')]"

section \<open>Making the columns\<close>

text \<open>The three variables of \<open>generate_parquet_test_files\<close> that its loops fill.\<close>

record generated =
  value_dict :: "(string, pvalue list) pydict"
  schema :: "(string \<times> arrow) list"
  ch_table_def :: "string list"

text \<open>The three statements that add a column.\<close>

definition add_generated :: "string \<Rightarrow> pvalue list \<Rightarrow> arrow \<Rightarrow> string \<Rightarrow> (generated, unit) eff" where
  "add_generated nm rows ty def = modifyE (\<lambda>g. g\<lparr>value_dict := AList.update nm rows (value_dict g),
     schema := schema g @ [(nm, ty)], ch_table_def := ch_table_def g @ [nm @ '' '' @ def]\<rparr>)"

text \<open>The body of the inner loop, for the type of the keys and the type of the values of a map.\<close>

definition add_maps :: "string \<Rightarrow> pvalue list \<Rightarrow> string \<times> pvalue list \<Rightarrow> (generated, unit) eff" where
  "add_maps type values = (\<lambda>(inner_key, inner_values).
     bindE (getitem pyarrow_types type) (\<lambda>aty. bindE (getitem pyarrow_types inner_key) (\<lambda>ai.
     bindE (getitem pq_to_ch_types type) (\<lambda>ct. bindE (getitem pq_to_ch_types inner_key) (\<lambda>ci.
     seqE (add_generated (''map_'' @ type @ ''_'' @ inner_key)
       (map (\<lambda>value. VList (map (\<lambda>inner_value. VTuple [value, inner_value]) inner_values)) values)
       (Amap aty ai) (''Map('' @ ct @ '','' @ ci @ '')''))
     (seqE (add_generated (''list_map_'' @ type @ ''_'' @ inner_key)
       (map (\<lambda>value. VList (map (\<lambda>inner_value. VList [VTuple [value, inner_value]]) inner_values)) values)
       (Alist (Amap aty ai)) (''Array(Map('' @ ct @ '','' @ ci @ ''))''))
     (seqE (add_generated (''map_'' @ type @ ''_list_'' @ inner_key)
       (map (\<lambda>value. VList (map (\<lambda>inner_value. VTuple [value, VList [inner_value]]) inner_values)) values)
       (Amap aty (Alist ai)) (''Map('' @ ct @ '', Array('' @ ci @ ''))''))
     (add_generated (''map_'' @ type @ ''_struct_'' @ inner_key)
       (map (\<lambda>value. VList (map (\<lambda>inner_value. VTuple [value, VTuple [inner_value]]) inner_values)) values)
       (Amap aty (Astruct [(''a'', ai)])) (''Map('' @ ct @ '', Tuple(['' @ ci @ '']))'')))))))))"

definition add_columns :: "string \<times> pvalue list \<Rightarrow> (generated, unit) eff" where
  "add_columns = (\<lambda>(type, values).
     bindE (getitem pyarrow_types type) (\<lambda>aty. bindE (getitem pq_to_ch_types type) (\<lambda>ct.
     seqE (add_generated type values aty ct)
     (seqE (add_generated (''list_'' @ type) (map (\<lambda>value. VList [value]) values) (Alist aty) (''Array('' @ ct @ '')''))
     (seqE (add_generated (''list_struct_'' @ type) (map (\<lambda>value. VList [VTuple [value]]) values)
       (Alist (Astruct [(''a'', aty)])) (''Array(Tuple(['' @ ct @ '']))''))
     (whenE (type \<notin> set [''float'', ''double'', ''timestamp''])
       (forE data_types_and_values (add_maps type values))))))))"

text \<open>The column with all types. The text of its type has its first two brackets in the wrong order.\<close>

definition add_struct :: "(generated, unit) eff" where
  "add_struct =
     bindE (mapE (getitem pq_to_ch_types) (dict_keys data_types_and_values)) (\<lambda>cts.
       add_generated ''struct''
         (map (\<lambda>i. VTuple (map (\<lambda>(type, values). values ! i) data_types_and_values)) [0..<3])
         (Astruct pyarrow_types) (''Tuple[('' @ py_join '','' cts @ ''])''))"

definition build_columns :: "(generated, unit) eff" where
  "build_columns = seqE (forE data_types_and_values add_columns) add_struct"

text \<open>The files: the text, and the table of the library written once per compression.\<close>

record ('w, 't) arrow_library =
  write_text :: "string \<Rightarrow> string \<Rightarrow> ('w, unit) eff"
  make_table :: "(string, pvalue list) pydict \<Rightarrow> (string \<times> arrow) list \<Rightarrow> ('w, 't) eff"
  write_table :: "'t \<Rightarrow> string \<Rightarrow> string \<Rightarrow> ('w, unit) eff"

definition compressions :: "string list" where
  "compressions = [''NONE'', ''SNAPPY'', ''GZIP'', ''BROTLI'', ''LZ4'', ''ZSTD'']"

definition generate_parquet_test_files :: "('w, 't) arrow_library \<Rightarrow> ('w, unit) eff" where
  "generate_parquet_test_files pa =
     (case build_columns \<lparr>value_dict = [], schema = [], ch_table_def = []\<rparr> of
        (Raise e, g) \<Rightarrow> raise e
      | (OutOfFuel, g) \<Rightarrow> out_of_fuel
      | (Return _, g) \<Rightarrow>
          seqE (write_text pa ''clickhouse_table_def.txt'' (py_join ''.'' (ch_table_def g)))
          (bindE (make_table pa (value_dict g) (schema g)) (\<lambda>tab.
             forE compressions (\<lambda>compression. write_table pa tab (''data_'' @ compression @ ''.Parquet'') compression))))"

section \<open>Reading the columns\<close>

text \<open>
  \<open>eval\<close> on the texts of types: calls of the classes of \<open>helpers/datatypes.py\<close> with calls and lists as arguments. The brackets of a text
  are matched first, as Python's tokenizer does. Other kinds of expressions do not occur and are refused.
\<close>

datatype pyexpr = Call string "pyexpr list" | ListExpr "pyexpr list"

fun closes :: "char \<Rightarrow> char" where
  "closes c = (if c = CHR ''('' then CHR '')'' else if c = CHR ''['' then CHR '']'' else CHR ''}'')"

fun brackets_match :: "char list \<Rightarrow> string \<Rightarrow> bool" where
  "brackets_match stack [] \<longleftrightarrow> stack = []"
| "brackets_match stack (c # cs) \<longleftrightarrow>
     (if c \<in> set ''([{'' then brackets_match (closes c # stack) cs
      else if c \<in> set '')]}'' then (case stack of [] \<Rightarrow> False | d # ds \<Rightarrow> d = c \<and> brackets_match ds cs)
      else brackets_match stack cs)"

definition name_char :: "char \<Rightarrow> bool" where
  "name_char c \<longleftrightarrow> is_digit c \<or> c = CHR ''_'' \<or> (CHR ''a'' \<le> c \<and> c \<le> CHR ''z'') \<or> (CHR ''A'' \<le> c \<and> c \<le> CHR ''Z'')"

definition skip_spaces :: "string \<Rightarrow> string" where
  "skip_spaces s = dropWhile (\<lambda>c. c = CHR '' '') s"

fun parse_expr :: "nat \<Rightarrow> string \<Rightarrow> (pyexpr \<times> string) option"
  and parse_args :: "nat \<Rightarrow> char \<Rightarrow> string \<Rightarrow> (pyexpr list \<times> string) option" where
  "parse_expr 0 s = None"
| "parse_expr (Suc n) s = (case skip_spaces s of
     [] \<Rightarrow> None
   | c # cs \<Rightarrow>
       if c = CHR ''['' then map_option (\<lambda>(es, r). (ListExpr es, r)) (parse_args n (CHR '']'') cs)
       else if \<not> name_char c \<or> is_digit c then None
       else (case skip_spaces (dropWhile name_char (c # cs)) of
           [] \<Rightarrow> None
         | d # ds \<Rightarrow> if d = CHR ''('' then map_option (\<lambda>(es, r). (Call (takeWhile name_char (c # cs)) es, r)) (parse_args n (CHR '')'') ds)
             else None))"
| "parse_args 0 close s = None"
| "parse_args (Suc n) close s = (case skip_spaces s of
     [] \<Rightarrow> None
   | c # cs \<Rightarrow>
       if c = close then Some ([], cs)
       else (case parse_expr n (c # cs) of
           None \<Rightarrow> None
         | Some (e, r) \<Rightarrow> (case skip_spaces r of
             [] \<Rightarrow> None
           | d # ds \<Rightarrow> if d = close then Some ([e], ds)
               else if d = CHR '','' then map_option (\<lambda>(es, r). (e # es, r)) (parse_args n close ds)
               else None)))"

text \<open>The value of an expression is a type or a list of types; arguments are evaluated from left to right.\<close>

datatype pyobj = TypeObj dtype | ListObj "dtype list"

definition plain_classes :: "(string, dtype) pydict" where
  "plain_classes =
     [(''UInt8'', UInt8), (''UInt16'', UInt16), (''UInt32'', UInt32), (''UInt64'', UInt64), (''Int8'', Int8), (''Int16'', Int16),
      (''Int32'', Int32), (''Int64'', Int64), (''Float32'', Float32), (''Float64'', Float64), (''Date'', Date),
      (''DateTime'', DateTime), (''String'', String)]"

definition call_class :: "string \<Rightarrow> pyobj list \<Rightarrow> exn + pyobj" where
  "call_class nm args = (case map_of plain_classes nm of
     Some d \<Rightarrow> if args = [] then Inr (TypeObj d) else Inl (TypeError (nm @ ''.__init__() takes 1 positional argument''))
   | None \<Rightarrow>
       (case args of
          [TypeObj t] \<Rightarrow> if nm = ''Array'' then Inr (TypeObj (Array t)) else if nm = ''Nullable'' then Inr (TypeObj (Nullable t))
            else if nm = ''LowCardinality'' then Inr (TypeObj (LowCardinality t)) else Inl (NameError nm)
        | [ListObj ts] \<Rightarrow> if nm = ''Tuple'' then Inr (TypeObj (Tuple ts)) else Inl (NameError nm)
        | [TypeObj k, TypeObj v] \<Rightarrow> if nm = ''Map'' then Inr (TypeObj (Map k v)) else Inl (NameError nm)
        | _ \<Rightarrow> Inl (NameError nm)))"

fun type_objects :: "pyobj list \<Rightarrow> exn + dtype list" where
  "type_objects [] = Inr []"
| "type_objects (TypeObj d # os) = map_sum id ((#) d) (type_objects os)"
| "type_objects (ListObj ds # os) = Inl (TypeError ''a list is not a type'')"

fun eval_expr :: "pyexpr \<Rightarrow> exn + pyobj" and eval_list :: "pyexpr list \<Rightarrow> exn + pyobj list" where
  "eval_expr (Call nm es) = (case eval_list es of Inl e \<Rightarrow> Inl e | Inr os \<Rightarrow> call_class nm os)"
| "eval_expr (ListExpr es) = (case eval_list es of Inl e \<Rightarrow> Inl e | Inr os \<Rightarrow> map_sum id ListObj (type_objects os))"
| "eval_list [] = Inr []"
| "eval_list (x # xs) = (case eval_expr x of Inl e \<Rightarrow> Inl e | Inr v \<Rightarrow> map_sum id ((#) v) (eval_list xs))"

definition eval_type :: "string \<Rightarrow> exn + dtype" where
  "eval_type s =
     (if \<not> brackets_match [] s then Inl (SyntaxError ''closing parenthesis does not match opening parenthesis'')
      else case parse_expr (length s) s of
        Some (e, r) \<Rightarrow>
          if skip_spaces r \<noteq> [] then Inl (SyntaxError ''invalid syntax'')
          else (case eval_expr e of
              Inl x \<Rightarrow> Inl x
            | Inr (TypeObj d) \<Rightarrow> Inr d
            | Inr (ListObj ds) \<Rightarrow> Inl (TypeError ''a list is not a type''))
      | None \<Rightarrow> Inl (SyntaxError ''invalid syntax''))"

text \<open>\<open>name, datatype = column.split(" ", 1)\<close> and \<open>Column(datatype=eval(datatype), name=name)\<close>\<close>

definition read_column :: "(string \<Rightarrow> 'r rng) \<Rightarrow> string \<Rightarrow> ('s, 'r column) eff" where
  "read_column seeded column = (case py_split1 '' '' column of
     [nm, text] \<Rightarrow> (case eval_type text of Inl e \<Rightarrow> raise e | Inr d \<Rightarrow> ret (Column seeded d (Some nm)))
   | _ \<Rightarrow> raise (ValueError ''not enough values to unpack''))"

definition read_columns :: "(string \<Rightarrow> 'r rng) \<Rightarrow> string \<Rightarrow> ('s, 'r column list) eff" where
  "read_columns seeded output = mapE (read_column seeded) (py_split ''.'' (py_strip output))"

section \<open>The columns that are meant\<close>

text \<open>
  A column is a kind of type over one or two of the fifteen simple types. Its name, its rows, its Arrow type and the text
  of its ClickHouse type follow from the kind.
\<close>

abbreviation type_keys :: "string list" where
  "type_keys \<equiv> dict_keys data_types_and_values"

definition arrow_of :: "string \<Rightarrow> arrow" where
  "arrow_of t = the (map_of pyarrow_types t)"

definition rows_of :: "string \<Rightarrow> pvalue list" where
  "rows_of t = the (map_of data_types_and_values t)"

definition ch_text :: "string \<Rightarrow> string" where
  "ch_text t = the (map_of pq_to_ch_types t)"

datatype kind =
    Plain string | ListOf string | ListStruct string | MapOf string string | ListMap string string
  | MapList string string | MapStruct string string

definition kinds_of :: "string \<Rightarrow> kind list" where
  "kinds_of t = [Plain t, ListOf t, ListStruct t] @
     (if t \<notin> set [''float'', ''double'', ''timestamp'']
      then concat (map (\<lambda>u. [MapOf t u, ListMap t u, MapList t u, MapStruct t u]) type_keys) else [])"

definition column_kinds :: "kind list" where
  "column_kinds = concat (map kinds_of type_keys)"

fun kind_tokens :: "kind \<Rightarrow> string list" where
  "kind_tokens (Plain t) = [t]"
| "kind_tokens (ListOf t) = [''list'', t]"
| "kind_tokens (ListStruct t) = [''list'', ''struct'', t]"
| "kind_tokens (MapOf t u) = [''map'', t, u]"
| "kind_tokens (ListMap t u) = [''list'', ''map'', t, u]"
| "kind_tokens (MapList t u) = [''map'', t, ''list'', u]"
| "kind_tokens (MapStruct t u) = [''map'', t, ''struct'', u]"

definition kind_name :: "kind \<Rightarrow> string" where
  "kind_name k = py_join ''_'' (kind_tokens k)"

fun kind_arrow :: "kind \<Rightarrow> arrow" where
  "kind_arrow (Plain t) = arrow_of t"
| "kind_arrow (ListOf t) = Alist (arrow_of t)"
| "kind_arrow (ListStruct t) = Alist (Astruct [(''a'', arrow_of t)])"
| "kind_arrow (MapOf t u) = Amap (arrow_of t) (arrow_of u)"
| "kind_arrow (ListMap t u) = Alist (Amap (arrow_of t) (arrow_of u))"
| "kind_arrow (MapList t u) = Amap (arrow_of t) (Alist (arrow_of u))"
| "kind_arrow (MapStruct t u) = Amap (arrow_of t) (Astruct [(''a'', arrow_of u)])"

fun kind_text :: "kind \<Rightarrow> string" where
  "kind_text (Plain t) = ch_text t"
| "kind_text (ListOf t) = ''Array('' @ ch_text t @ '')''"
| "kind_text (ListStruct t) = ''Array(Tuple(['' @ ch_text t @ '']))''"
| "kind_text (MapOf t u) = ''Map('' @ ch_text t @ '','' @ ch_text u @ '')''"
| "kind_text (ListMap t u) = ''Array(Map('' @ ch_text t @ '','' @ ch_text u @ ''))''"
| "kind_text (MapList t u) = ''Map('' @ ch_text t @ '', Array('' @ ch_text u @ ''))''"
| "kind_text (MapStruct t u) = ''Map('' @ ch_text t @ '', Tuple(['' @ ch_text u @ '']))''"

fun kind_rows :: "kind \<Rightarrow> pvalue list" where
  "kind_rows (Plain t) = rows_of t"
| "kind_rows (ListOf t) = map (\<lambda>v. VList [v]) (rows_of t)"
| "kind_rows (ListStruct t) = map (\<lambda>v. VList [VTuple [v]]) (rows_of t)"
| "kind_rows (MapOf t u) = map (\<lambda>v. VList (map (\<lambda>w. VTuple [v, w]) (rows_of u))) (rows_of t)"
| "kind_rows (ListMap t u) = map (\<lambda>v. VList (map (\<lambda>w. VList [VTuple [v, w]]) (rows_of u))) (rows_of t)"
| "kind_rows (MapList t u) = map (\<lambda>v. VList (map (\<lambda>w. VTuple [v, VList [w]]) (rows_of u))) (rows_of t)"
| "kind_rows (MapStruct t u) = map (\<lambda>v. VList (map (\<lambda>w. VTuple [v, VTuple [w]]) (rows_of u))) (rows_of t)"

definition generated_of :: "kind list \<Rightarrow> generated" where
  "generated_of ks = \<lparr>value_dict = map (\<lambda>k. (kind_name k, kind_rows k)) ks, schema = map (\<lambda>k. (kind_name k, kind_arrow k)) ks,
     ch_table_def = map (\<lambda>k. kind_name k @ '' '' @ kind_text k) ks\<rparr>"

text \<open>The ClickHouse type that an Arrow type is read as.\<close>

fun arrow_type :: "arrow \<Rightarrow> dtype" where
  "arrow_type Abool = UInt8"
| "arrow_type (Auint n) = (if n = 8 then UInt8 else if n = 16 then UInt16 else if n = 32 then UInt32 else UInt64)"
| "arrow_type (Aint n) = (if n = 8 then Int8 else if n = 16 then Int16 else if n = 32 then Int32 else Int64)"
| "arrow_type Afloat32 = Float32"
| "arrow_type Afloat64 = Float64"
| "arrow_type Adate32 = Date"
| "arrow_type (Atimestamp u) = DateTime"
| "arrow_type Astring = String"
| "arrow_type Abinary = String"
| "arrow_type (Alist a) = Array (arrow_type a)"
| "arrow_type (Astruct fs) = Tuple (map (\<lambda>(f, a). arrow_type a) fs)"
| "arrow_type (Amap k v) = Map (arrow_type k) (arrow_type v)"

section \<open>Lemmas\<close>

subsection \<open>The simple types\<close>

lemma type_keys_eq:
  "type_keys = [''bool'', ''uint8'', ''int8'', ''uint16'', ''int16'', ''uint32'', ''int32'', ''uint64'', ''int64'', ''float'', ''double'',
     ''date32'', ''timestamp'', ''string'', ''binary'']"
  by (simp add: dict_keys_def data_types_and_values_def)

lemma type_keys_induct [consumes 1, case_names bool uint8 int8 uint16 int16 uint32 int32 uint64 int64 float double date32 timestamp string binary]:
  assumes "t \<in> set type_keys" and "P ''bool''" "P ''uint8''" "P ''int8''" "P ''uint16''" "P ''int16''" "P ''uint32''" "P ''int32''"
    "P ''uint64''" "P ''int64''" "P ''float''" "P ''double''" "P ''date32''" "P ''timestamp''" "P ''string''" "P ''binary''"
  shows "P t"
  using assms unfolding type_keys_eq by auto

lemma getitem_arrow: "t \<in> set type_keys \<Longrightarrow> getitem pyarrow_types t = ret (arrow_of t)"
  by (induct t rule: type_keys_induct) (simp_all add: getitem_def arrow_of_def pyarrow_types_def)

lemma getitem_text: "t \<in> set type_keys \<Longrightarrow> getitem pq_to_ch_types t = ret (ch_text t)"
  by (induct t rule: type_keys_induct) (simp_all add: getitem_def ch_text_def pq_to_ch_types_def)

lemma items_eq: "data_types_and_values = map (\<lambda>t. (t, rows_of t)) type_keys"
  unfolding type_keys_eq by (simp add: rows_of_def data_types_and_values_def)

lemma token_chars: "t \<in> set type_keys \<Longrightarrow> CHR ''_'' \<notin> set t \<and> CHR ''.'' \<notin> set t \<and> CHR '' '' \<notin> set t"
  by (induct t rule: type_keys_induct) simp_all

subsection \<open>Names are not shared\<close>

fun kind_over :: "string list \<Rightarrow> kind \<Rightarrow> bool" where
  "kind_over ts (Plain t) \<longleftrightarrow> t \<in> set ts"
| "kind_over ts (ListOf t) \<longleftrightarrow> t \<in> set ts"
| "kind_over ts (ListStruct t) \<longleftrightarrow> t \<in> set ts"
| "kind_over ts (MapOf t u) \<longleftrightarrow> t \<in> set ts \<and> u \<in> set ts"
| "kind_over ts (ListMap t u) \<longleftrightarrow> t \<in> set ts \<and> u \<in> set ts"
| "kind_over ts (MapList t u) \<longleftrightarrow> t \<in> set ts \<and> u \<in> set ts"
| "kind_over ts (MapStruct t u) \<longleftrightarrow> t \<in> set ts \<and> u \<in> set ts"

lemma column_kinds_over: "k \<in> set column_kinds \<Longrightarrow> kind_over type_keys k"
  by (auto simp: column_kinds_def kinds_of_def split: if_splits)

lemma tokens_split: "kind_over type_keys k \<Longrightarrow> py_split ''_'' (kind_name k) = kind_tokens k"
  unfolding kind_name_def by (rule py_split_char_join; cases k) (auto dest: token_chars)

lemma kind_tokens_inj: "kind_tokens k = kind_tokens k' \<Longrightarrow> k = k'"
  by (cases k; cases k'; simp)

lemma kind_name_inj: "inj_on kind_name (set column_kinds)"
  by (rule inj_onI) (metis column_kinds_over kind_tokens_inj tokens_split)

lemma distinct_concat_map:
  assumes "distinct xs" and "\<And>x. x \<in> set xs \<Longrightarrow> distinct (f x)"
    and "\<And>x y. x \<noteq> y \<Longrightarrow> set (f x) \<inter> set (f y) = {}"
  shows "distinct (concat (map f xs))"
  using assms(1,2) by (induction xs) (use assms(3) in fastforce)+

lemma distinct_column_kinds: "distinct column_kinds"
proof -
  have keys: "distinct type_keys" by (simp add: type_keys_eq)
  have "distinct (kinds_of t)" for t
    unfolding kinds_of_def using distinct_concat_map [OF keys, of "\<lambda>u. [MapOf t u, ListMap t u, MapList t u, MapStruct t u]"]
    by auto
  then show ?thesis unfolding column_kinds_def
    by (intro distinct_concat_map [OF keys]) (auto simp: kinds_of_def)
qed

lemma struct_not_a_name: "k \<in> set column_kinds \<Longrightarrow> kind_name k \<noteq> ''struct''"
proof
  assume k: "k \<in> set column_kinds" and "kind_name k = ''struct''"
  then have "kind_tokens k = [''struct'']"
    using tokens_split [OF column_kinds_over [OF k]] by (simp add: py_split_char_none)
  moreover have "''struct'' \<notin> set type_keys" by (simp add: type_keys_eq)
  ultimately show False using column_kinds_over [OF k] by (cases k) auto
qed

subsection \<open>The loops add the columns of all kinds\<close>

definition add_kind :: "kind \<Rightarrow> (generated, unit) eff" where
  "add_kind k = add_generated (kind_name k) (kind_rows k) (kind_arrow k) (kind_text k)"

lemma seqE_ret_unit: "seqE m (ret ()) = (m :: ('s, unit) eff)"
  by (rule ext) (auto simp: effect_defs split: prod.splits outcome.splits)

lemma forE_concat: "forE (concat xss) f = forE xss (\<lambda>xs. forE xs f)"
  by (induction xss) (simp_all add: forE_append)

lemma forE_map: "forE (map g xs) f = forE xs (\<lambda>x. f (g x))"
  by (induction xs) simp_all

lemma forE_cong: "(\<And>x. x \<in> set xs \<Longrightarrow> f x = g x) \<Longrightarrow> forE xs f = forE xs g"
  by (induction xs) simp_all

lemma add_maps_kinds:
  assumes "t \<in> set type_keys" and "u \<in> set type_keys"
  shows "add_maps t (rows_of t) (u, rows_of u) = forE [MapOf t u, ListMap t u, MapList t u, MapStruct t u] add_kind"
  using assms by (simp add: add_maps_def getitem_arrow getitem_text add_kind_def kind_name_def seqE_ret_unit)

lemma add_columns_kinds:
  assumes "t \<in> set type_keys"
  shows "add_columns (t, rows_of t) = forE (kinds_of t) add_kind"
proof -
  have "forE data_types_and_values (add_maps t (rows_of t)) =
      forE type_keys (\<lambda>u. forE [MapOf t u, ListMap t u, MapList t u, MapStruct t u] add_kind)"
    by (subst items_eq) (simp only: forE_map, rule forE_cong, rule add_maps_kinds [OF assms])
  then show ?thesis
    using assms by (simp add: add_columns_def getitem_arrow getitem_text kinds_of_def whenE_def forE_concat forE_map
        add_kind_def kind_name_def seqE_ret_unit seqE_assoc)
qed

lemma build_columns_kinds: "forE data_types_and_values add_columns = forE column_kinds add_kind"
proof -
  have "forE data_types_and_values add_columns = forE type_keys (\<lambda>t. forE (kinds_of t) add_kind)"
    by (subst items_eq) (simp only: forE_map, rule forE_cong, rule add_columns_kinds)
  then show ?thesis by (simp add: column_kinds_def forE_concat forE_map)
qed

lemma update_new: "k \<notin> fst ` set d \<Longrightarrow> AList.update k v d = d @ [(k, v)]"
  by (induction d) auto

lemma forE_add_kind:
  "distinct (map kind_name (ks0 @ ks)) \<Longrightarrow> forE ks add_kind (generated_of ks0) = (Return (), generated_of (ks0 @ ks))"
proof (induction ks arbitrary: ks0)
  case (Cons k ks)
  then have "add_kind k (generated_of ks0) = (Return (), generated_of (ks0 @ [k]))"
    by (auto simp: add_kind_def add_generated_def modifyE_def generated_of_def update_new image_image)
  then show ?case using Cons.IH [of "ks0 @ [k]"] Cons.prems by (simp add: seqE_step)
qed (simp add: ret_def)

definition struct_rows :: "pvalue list" where
  "struct_rows = map (\<lambda>i. VTuple (map (\<lambda>(type, values). values ! i) data_types_and_values)) [0..<3]"

definition struct_text :: string where
  "struct_text = ''Tuple[('' @ py_join '','' (map ch_text type_keys) @ ''])''"

lemma mapE_ret: "(\<And>x. x \<in> set xs \<Longrightarrow> f x = ret (g x)) \<Longrightarrow> mapE f xs = ret (map g xs)"
  by (induction xs) simp_all

lemma build_columns_eq:
  "build_columns \<lparr>value_dict = [], schema = [], ch_table_def = []\<rparr> =
     (Return (), let g = generated_of column_kinds in
        \<lparr>value_dict = value_dict g @ [(''struct'', struct_rows)], schema = schema g @ [(''struct'', Astruct pyarrow_types)],
         ch_table_def = ch_table_def g @ [''struct '' @ struct_text]\<rparr>)"
proof -
  let ?g = "generated_of column_kinds"
  have "distinct (map kind_name column_kinds)"
    using distinct_column_kinds kind_name_inj by (simp add: distinct_map)
  from forE_add_kind [of "[]", simplified, OF this]
  have loop: "forE data_types_and_values add_columns \<lparr>value_dict = [], schema = [], ch_table_def = []\<rparr> = (Return (), ?g)"
    unfolding build_columns_kinds by (simp add: generated_of_def)
  have new: "''struct'' \<notin> fst ` set (value_dict ?g)"
    using struct_not_a_name by (fastforce simp: generated_of_def)
  have texts: "mapE (getitem pq_to_ch_types) type_keys = ret (map ch_text type_keys)"
    by (rule mapE_ret) (rule getitem_text)
  have "add_struct ?g = (Return (), ?g\<lparr>value_dict := value_dict ?g @ [(''struct'', struct_rows)],
      schema := schema ?g @ [(''struct'', Astruct pyarrow_types)], ch_table_def := ch_table_def ?g @ [''struct '' @ struct_text]\<rparr>)"
    unfolding add_struct_def texts
    by (simp add: add_generated_def modifyE_def update_new [OF new] struct_rows_def struct_text_def)
  then show ?thesis unfolding build_columns_def using loop by (simp add: seqE_step generated_of_def Let_def)
qed

subsection \<open>The texts of types are read back\<close>

lemma name_char_letter: "name_char c \<Longrightarrow> c \<notin> set ''()[]{}, .''"
  by (auto simp: name_char_def is_digit_def)

lemma skip_spaces_simps [simp]:
  "skip_spaces [] = []" "skip_spaces (CHR '' '' # s) = skip_spaces s" "c \<noteq> CHR '' '' \<Longrightarrow> skip_spaces (c # s) = c # s"
  by (simp_all add: skip_spaces_def)

lemma parse_call:
  assumes "nm \<noteq> []" and "list_all name_char nm" and "\<not> is_digit (hd nm)"
  shows "parse_expr (Suc n) (nm @ CHR ''('' # s) = map_option (\<lambda>(es, r). (Call nm es, r)) (parse_args n (CHR '')'') s)"
proof -
  obtain c cs where nm: "nm = c # cs" using assms(1) by (cases nm) auto
  have "name_char c" "c \<noteq> CHR '' ''" "c \<noteq> CHR ''[''" using assms(2) nm name_char_letter by auto
  moreover have "\<not> name_char (CHR ''('')" by (auto dest: name_char_letter)
  then have "takeWhile name_char (nm @ CHR ''('' # s) = nm" "dropWhile name_char (nm @ CHR ''('' # s) = CHR ''('' # s"
    using assms(2) by (simp_all add: list_all_iff)
  ultimately show ?thesis using assms(3) unfolding nm by simp
qed

lemma parse_list: "parse_expr (Suc n) (CHR ''['' # s) = map_option (\<lambda>(es, r). (ListExpr es, r)) (parse_args n (CHR '']'') s)"
  by simp

lemma parse_args_close: "close \<noteq> CHR '' '' \<Longrightarrow> parse_args (Suc n) close (close # r) = Some ([], r)"
  by simp

lemma parse_args_space: "parse_args (Suc n) close (CHR '' '' # s) = parse_args (Suc n) close s"
  by simp

lemma parse_args_last:
  assumes "parse_expr n s = Some (e, close # r)" and "s \<noteq> []" and "hd s \<noteq> close" and "hd s \<noteq> CHR '' ''" and "close \<noteq> CHR '' ''"
  shows "parse_args (Suc n) close s = Some ([e], r)"
  using assms by (cases s) simp_all

lemma parse_args_more:
  assumes "parse_expr n s = Some (e, CHR '','' # r)" and "s \<noteq> []" and "hd s \<noteq> close" and "hd s \<noteq> CHR '' ''" and "close \<noteq> CHR '',''"
  shows "parse_args (Suc n) close s = map_option (\<lambda>(es, r). (e # es, r)) (parse_args n close r)"
  using assms by (cases s) simp_all

lemma brackets_match_name: "list_all name_char nm \<Longrightarrow> brackets_match st (nm @ s) = brackets_match st s"
proof (induction nm)
  case (Cons c nm)
  then have "c \<notin> set ''()[]{}, .''" by (intro name_char_letter) simp
  with Cons show ?case by simp
qed simp

text \<open>The class of a simple type.\<close>

definition ch_class :: "string \<Rightarrow> string" where
  "ch_class t = takeWhile name_char (ch_text t)"

lemma ch_class_eq:
  assumes "t \<in> set type_keys"
  shows "ch_text t = ch_class t @ ''()''" "ch_class t \<noteq> []" "list_all name_char (ch_class t)" "\<not> is_digit (hd (ch_class t))"
    "map_of plain_classes (ch_class t) = Some (arrow_type (arrow_of t))"
  using assms by (induct t rule: type_keys_induct) (code_simp+)

lemma parse_base:
  assumes "t \<in> set type_keys"
  shows "parse_expr (Suc (Suc n)) (ch_text t @ r) = Some (Call (ch_class t) [], r)"
  using parse_call [OF ch_class_eq(2,3,4) [OF assms], of "Suc n" "CHR '')'' # r"] ch_class_eq(1) [OF assms]
  by (simp add: parse_args_close del: parse_expr.simps parse_args.simps)

lemma base_start:
  assumes "t \<in> set type_keys"
  shows "ch_text t @ r \<noteq> []" "hd (ch_text t @ r) \<notin> set ''()[]{}, .''"
proof -
  obtain c cs where c: "ch_class t = c # cs" "name_char c" using ch_class_eq(2,3) [OF assms] by (cases "ch_class t") auto
  then show "ch_text t @ r \<noteq> []" "hd (ch_text t @ r) \<notin> set ''()[]{}, .''"
    using name_char_letter [OF c(2)] by (simp_all add: ch_class_eq(1) [OF assms])
qed

lemma parse_base_args:
  assumes "t \<in> set type_keys" and "close \<in> set '')]''"
  shows "parse_args (Suc (Suc (Suc n))) close (ch_text t @ close # r) = Some ([Call (ch_class t) []], r)"
    and "parse_args (Suc (Suc (Suc n))) close (ch_text t @ CHR '','' # r) =
      map_option (\<lambda>(es, r). (Call (ch_class t) [] # es, r)) (parse_args (Suc (Suc n)) close r)"
  using assms base_start [OF assms(1)]
  by (auto simp del: parse_expr.simps parse_args.simps intro!: parse_args_last parse_args_more parse_base)

lemma parse_class:
  "parse_expr (Suc n) (''Array('' @ s) = map_option (\<lambda>(es, r). (Call ''Array'' es, r)) (parse_args n (CHR '')'') s)"
  "parse_expr (Suc n) (''Tuple('' @ s) = map_option (\<lambda>(es, r). (Call ''Tuple'' es, r)) (parse_args n (CHR '')'') s)"
  "parse_expr (Suc n) (''Map('' @ s) = map_option (\<lambda>(es, r). (Call ''Map'' es, r)) (parse_args n (CHR '')'') s)"
proof -
  have names: "list_all name_char ''Array''" "list_all name_char ''Tuple''" "list_all name_char ''Map''"
    "\<not> is_digit (CHR ''A'')" "\<not> is_digit (CHR ''T'')" "\<not> is_digit (CHR ''M'')"
    by code_simp+
  show "parse_expr (Suc n) (''Array('' @ s) = map_option (\<lambda>(es, r). (Call ''Array'' es, r)) (parse_args n (CHR '')'') s)"
    using parse_call [of "''Array''" n s] names by simp
  show "parse_expr (Suc n) (''Tuple('' @ s) = map_option (\<lambda>(es, r). (Call ''Tuple'' es, r)) (parse_args n (CHR '')'') s)"
    using parse_call [of "''Tuple''" n s] names by simp
  show "parse_expr (Suc n) (''Map('' @ s) = map_option (\<lambda>(es, r). (Call ''Map'' es, r)) (parse_args n (CHR '')'') s)"
    using parse_call [of "''Map''" n s] names by simp
qed

text \<open>An argument that is itself a call or a list with one argument.\<close>

lemma parse_one_tuple:
  assumes "t \<in> set type_keys"
  shows "parse_expr (Suc (Suc (Suc (Suc (Suc (Suc n)))))) (''Tuple(['' @ ch_text t @ ''])'' @ r) =
    Some (Call ''Tuple'' [ListExpr [Call (ch_class t) []]], r)"
proof -
  have "parse_expr (Suc (Suc (Suc (Suc n)))) (CHR ''['' # ch_text t @ '']'' @ CHR '')'' # r) = Some (ListExpr [Call (ch_class t) []], CHR '')'' # r)"
    using parse_base_args(1) [OF assms, of "CHR '']''" n "CHR '')'' # r"] by (simp add: parse_list del: parse_expr.simps parse_args.simps)
  then have "parse_args (Suc (Suc (Suc (Suc (Suc n))))) (CHR '')'') (CHR ''['' # ch_text t @ '']'' @ CHR '')'' # r) =
      Some ([ListExpr [Call (ch_class t) []]], r)"
    by (rule parse_args_last) simp_all
  then show ?thesis using parse_class(2) [of "Suc (Suc (Suc (Suc (Suc n))))" "CHR ''['' # ch_text t @ '']'' @ CHR '')'' # r"] by simp
qed

lemma parse_one_array:
  assumes "t \<in> set type_keys"
  shows "parse_expr (Suc (Suc (Suc (Suc n)))) (''Array('' @ ch_text t @ '')'' @ r) = Some (Call ''Array'' [Call (ch_class t) []], r)"
  using parse_class(1) [of "Suc (Suc (Suc n))" "ch_text t @ CHR '')'' # r"] parse_base_args(1) [OF assms, of "CHR '')''" n r]
  by (simp del: parse_expr.simps parse_args.simps)

lemma parse_one_map:
  assumes "t \<in> set type_keys" and "u \<in> set type_keys"
  shows "parse_expr (Suc (Suc (Suc (Suc (Suc n))))) (''Map('' @ ch_text t @ '','' @ ch_text u @ '')'' @ r) =
    Some (Call ''Map'' [Call (ch_class t) [], Call (ch_class u) []], r)"
  using parse_class(3) [of "Suc (Suc (Suc (Suc n)))" "ch_text t @ CHR '','' # ch_text u @ CHR '')'' # r"]
    parse_base_args(2) [OF assms(1), of "CHR '')''" "Suc n" "ch_text u @ CHR '')'' # r"] parse_base_args(1) [OF assms(2), of "CHR '')''" n r]
  by (simp del: parse_expr.simps parse_args.simps)

lemma parse_array_of:
  assumes "parse_expr n s = Some (e, CHR '')'' # r)" and "s \<noteq> []" and "hd s \<notin> set ''()[]{}, .''"
  shows "parse_expr (Suc (Suc n)) (''Array('' @ s) = Some (Call ''Array'' [e], r)"
  using parse_class(1) [of "Suc n" s] parse_args_last [OF assms(1,2)] assms(3) by simp

lemma parse_map_of:
  assumes "t \<in> set type_keys" and "parse_expr (Suc n) s = Some (e, CHR '')'' # r)" and "s \<noteq> []" and "hd s \<notin> set ''()[]{}, .''"
  shows "parse_expr (Suc (Suc (Suc (Suc n)))) (''Map('' @ ch_text t @ '', '' @ s) = Some (Call ''Map'' [Call (ch_class t) [], e], r)"
  using parse_class(3) [of "Suc (Suc (Suc n))" "ch_text t @ CHR '','' # CHR '' '' # s"]
    parse_base_args(2) [OF assms(1), of "CHR '')''" n "CHR '' '' # s"] parse_args_last [OF assms(2,3)] assms(4)
  by (simp add: parse_args_space del: parse_expr.simps parse_args.simps)

fun kind_expr :: "kind \<Rightarrow> pyexpr" where
  "kind_expr (Plain t) = Call (ch_class t) []"
| "kind_expr (ListOf t) = Call ''Array'' [Call (ch_class t) []]"
| "kind_expr (ListStruct t) = Call ''Array'' [Call ''Tuple'' [ListExpr [Call (ch_class t) []]]]"
| "kind_expr (MapOf t u) = Call ''Map'' [Call (ch_class t) [], Call (ch_class u) []]"
| "kind_expr (ListMap t u) = Call ''Array'' [Call ''Map'' [Call (ch_class t) [], Call (ch_class u) []]]"
| "kind_expr (MapList t u) = Call ''Map'' [Call (ch_class t) [], Call ''Array'' [Call (ch_class u) []]]"
| "kind_expr (MapStruct t u) = Call ''Map'' [Call (ch_class t) [], Call ''Tuple'' [ListExpr [Call (ch_class u) []]]]"

text \<open>Eleven steps are enough for every text but the short ones, for which two are.\<close>

lemma parse_kind:
  assumes "kind_over type_keys k"
  shows "parse_expr ((case k of Plain _ \<Rightarrow> 2 | _ \<Rightarrow> 11) + n) (kind_text k) = Some (kind_expr k, [])"
proof -
  note fuel = numeral_eq_Suc pred_numeral_simps add_Suc
  show ?thesis
  proof (cases k)
    case (Plain t)
    then show ?thesis using assms parse_base [of t n "[]"] by (simp add: fuel del: parse_expr.simps)
  next
    case (ListOf t)
    then show ?thesis using assms parse_one_array [of t "7 + n" "[]"] by (simp add: fuel del: parse_expr.simps)
  next
    case (ListStruct t)
    then show ?thesis using assms parse_array_of [OF parse_one_tuple [of t "3 + n" "'')''"]] by (simp add: fuel del: parse_expr.simps)
  next
    case (MapOf t u)
    then show ?thesis using assms parse_one_map [of t u "6 + n" "[]"] by (simp add: fuel del: parse_expr.simps)
  next
    case (ListMap t u)
    then show ?thesis using assms parse_array_of [OF parse_one_map [of t u "4 + n" "'')''"]] by (simp add: fuel del: parse_expr.simps)
  next
    case (MapList t u)
    then show ?thesis using assms parse_map_of [of t, OF _ parse_one_array [of u "4 + n" "'')''"]] by (simp add: fuel del: parse_expr.simps)
  next
    case (MapStruct t u)
    then show ?thesis using assms parse_map_of [of t, OF _ parse_one_tuple [of u "2 + n" "'')''"]] by (simp add: fuel del: parse_expr.simps)
  qed
qed

lemma eval_class: "t \<in> set type_keys \<Longrightarrow> eval_expr (Call (ch_class t) []) = Inr (TypeObj (arrow_type (arrow_of t)))"
  by (simp add: call_class_def ch_class_eq)

lemma eval_kind:
  assumes "kind_over type_keys k"
  shows "eval_expr (kind_expr k) = Inr (TypeObj (arrow_type (kind_arrow k)))"
proof -
  have "map_of plain_classes ''Array'' = None" "map_of plain_classes ''Tuple'' = None" "map_of plain_classes ''Map'' = None"
    by (simp_all add: plain_classes_def)
  with assms show ?thesis
    by (cases k) (auto simp: eval_class [simplified] call_class_def [of "''Array''"] call_class_def [of "''Tuple''"] call_class_def [of "''Map''"])
qed

lemma brackets_match_text: "t \<in> set type_keys \<Longrightarrow> brackets_match st (ch_text t @ s) = brackets_match st s"
  by (simp add: ch_class_eq(1) brackets_match_name [OF ch_class_eq(3)])

lemma brackets_match_kind: "kind_over type_keys k \<Longrightarrow> brackets_match [] (kind_text k)"
  using brackets_match_text [of _ _ "[]"] by (cases k) (auto simp: brackets_match_text)

lemma kind_text_length:
  assumes "kind_over type_keys k"
  shows "(case k of Plain _ \<Rightarrow> 2 | _ \<Rightarrow> 11) \<le> length (kind_text k)"
proof -
  have "6 \<le> length (ch_text t)" if "t \<in> set type_keys" for t
    using that by (induct t rule: type_keys_induct) (simp_all add: ch_text_def pq_to_ch_types_def)
  with assms show ?thesis by (cases k) fastforce+
qed

lemma eval_type_kind:
  assumes "kind_over type_keys k"
  shows "eval_type (kind_text k) = Inr (arrow_type (kind_arrow k))"
proof -
  obtain n where "length (kind_text k) = (case k of Plain _ \<Rightarrow> 2 | _ \<Rightarrow> 11) + n"
    using kind_text_length [OF assms] le_Suc_ex by blast
  then have "parse_expr (length (kind_text k)) (kind_text k) = Some (kind_expr k, [])"
    using parse_kind [OF assms, of n] by simp
  then show ?thesis using brackets_match_kind [OF assms] eval_kind [OF assms] by (simp add: eval_type_def)
qed

subsection \<open>The whole text\<close>

lemma py_split1_char: "c \<notin> set a \<Longrightarrow> py_split1 [c] (a @ [c] @ b) = [a, b]"
proof -
  assume "c \<notin> set a"
  then have "find_sep [c] (a @ c # b) = Some (a, b)" by (induction a) auto
  then show ?thesis by (simp add: py_split1_def)
qed

lemma kind_name_chars: "kind_over type_keys k \<Longrightarrow> CHR ''.'' \<notin> set (kind_name k) \<and> CHR '' '' \<notin> set (kind_name k)"
  by (cases k) (auto simp: kind_name_def dest: token_chars)

lemma ch_text_chars: "t \<in> set type_keys \<Longrightarrow> CHR ''.'' \<notin> set (ch_text t)"
  by (induct t rule: type_keys_induct) (simp_all add: ch_text_def pq_to_ch_types_def)

lemma kind_text_chars: "kind_over type_keys k \<Longrightarrow> CHR ''.'' \<notin> set (kind_text k)"
  by (cases k) (auto simp: ch_text_chars)

lemma read_column_kind:
  assumes "kind_over type_keys k"
  shows "read_column seeded (kind_name k @ '' '' @ kind_text k) = ret (Column seeded (arrow_type (kind_arrow k)) (Some (kind_name k)))"
  using py_split1_char [of "CHR '' ''" "kind_name k" "kind_text k"] kind_name_chars [OF assms]
  by (simp add: read_column_def eval_type_kind [OF assms])

lemma read_column_struct:
  "read_column seeded (''struct '' @ struct_text) = raise (SyntaxError ''closing parenthesis does not match opening parenthesis'')"
proof -
  have "\<not> brackets_match [] struct_text" by code_simp
  then have "eval_type struct_text = Inl (SyntaxError ''closing parenthesis does not match opening parenthesis'')"
    unfolding eval_type_def by simp
  moreover have "py_split1 '' '' (''struct '' @ struct_text) = [''struct'', struct_text]"
    using py_split1_char [of "CHR '' ''" "''struct''" struct_text] by simp
  ultimately show ?thesis unfolding read_column_def by simp
qed

lemma mapE_map: "mapE f (map h xs) = mapE (\<lambda>x. f (h x)) xs"
  by (induction xs) simp_all

lemma mapE_raise_last:
  "(\<And>x. x \<in> set xs \<Longrightarrow> f (h x) = ret (g x)) \<Longrightarrow> f y = raise e \<Longrightarrow> mapE f (map h xs @ [y]) = raise e"
  by (induction xs) simp_all

text \<open>The text of definitions is not changed by \<open>strip\<close> and falls apart into them.\<close>

lemma last_py_join: "xs \<noteq> [] \<Longrightarrow> last xs \<noteq> [] \<Longrightarrow> py_join sep xs \<noteq> [] \<and> last (py_join sep xs) = last (last xs)"
  by (induction sep xs rule: py_join.induct) auto

lemma column_kinds_Cons: "\<exists>ks. column_kinds = Plain ''bool'' # ks"
  by (simp add: column_kinds_def type_keys_eq kinds_of_def)

lemma definitions_split:
  assumes "xs = map (\<lambda>k. kind_name k @ '' '' @ kind_text k) column_kinds @ ys" and "\<And>y. y \<in> set ys \<Longrightarrow> CHR ''.'' \<notin> set y"
    and "last (last xs) = CHR '')''" and "last xs \<noteq> []"
  shows "py_split ''.'' (py_strip (py_join ''.'' xs)) = xs"
proof -
  obtain ks where ks: "column_kinds = Plain ''bool'' # ks" using column_kinds_Cons by blast
  then obtain zs where xs: "xs = (''bool '' @ ch_text ''bool'') # zs" unfolding assms(1) ks by (simp add: kind_name_def)
  then have "hd (py_join ''.'' xs) = CHR ''b''" "py_join ''.'' xs \<noteq> []" by (cases zs; simp)+
  moreover have "last (py_join ''.'' xs) = CHR '')''" using last_py_join [of xs "''.''"] assms(3,4) xs by simp
  moreover have "\<not> is_space (CHR ''b'')" "\<not> is_space (CHR '')'')" by code_simp+
  ultimately have "py_strip (py_join ''.'' xs) = py_join ''.'' xs" by (intro py_strip_id) simp_all
  moreover have "CHR ''.'' \<notin> set x" if "x \<in> set xs" for x
    using that assms(1,2) kind_name_chars kind_text_chars column_kinds_over by auto
  then have "py_split ''.'' (py_join ''.'' xs) = xs" using xs by (intro py_split_char_join) auto
  ultimately show ?thesis by simp
qed

lemma kind_text_last: "kind_over type_keys k \<Longrightarrow> kind_text k \<noteq> [] \<and> last (kind_text k) = CHR '')''"
  by (cases k) (auto simp: ch_class_eq(1))

lemma read_columns_kinds:
  "read_columns seeded (py_join ''.'' (ch_table_def (generated_of column_kinds))) =
     ret (map (\<lambda>k. Column seeded (arrow_type (kind_arrow k)) (Some (kind_name k))) column_kinds)"
proof -
  let ?xs = "map (\<lambda>k. kind_name k @ '' '' @ kind_text k) column_kinds"
  have ne: "column_kinds \<noteq> []" using column_kinds_Cons by auto
  then have "kind_over type_keys (last column_kinds)" by (intro column_kinds_over) simp
  from kind_text_last [OF this] ne have "last (last ?xs) = CHR '')''" "last ?xs \<noteq> []" by (simp_all add: last_map)
  from definitions_split [of ?xs "[]", OF _ _ this] have "py_split ''.'' (py_strip (py_join ''.'' ?xs)) = ?xs" by simp
  moreover have "mapE (read_column seeded) ?xs =
      ret (map (\<lambda>k. Column seeded (arrow_type (kind_arrow k)) (Some (kind_name k))) column_kinds)"
    unfolding mapE_map by (rule mapE_ret) (rule read_column_kind, rule column_kinds_over)
  ultimately show ?thesis by (simp add: read_columns_def generated_of_def)
qed

lemma read_columns_struct:
  "read_columns seeded (py_join ''.'' (ch_table_def (generated_of column_kinds) @ [''struct '' @ struct_text])) =
     raise (SyntaxError ''closing parenthesis does not match opening parenthesis'')"
proof -
  let ?xs = "map (\<lambda>k. kind_name k @ '' '' @ kind_text k) column_kinds" and ?y = "''struct '' @ struct_text"
  have "CHR ''.'' \<notin> set ?y \<and> last ?y = CHR '')''" by code_simp
  then have split: "py_split ''.'' (py_strip (py_join ''.'' (?xs @ [?y]))) = ?xs @ [?y]"
    by (intro definitions_split [of _ "[?y]"]) simp_all
  have "mapE (read_column seeded) (?xs @ [?y]) = raise (SyntaxError ''closing parenthesis does not match opening parenthesis'')"
    by (rule mapE_raise_last [where f = "read_column seeded" and h = "\<lambda>k. kind_name k @ '' '' @ kind_text k"])
      (rule read_column_kind, rule column_kinds_over, assumption, rule read_column_struct)
  with split show ?thesis by (simp add: read_columns_def generated_of_def)
qed

section \<open>Properties\<close>

text \<open>
  C16. What the generator writes and the suite reads. The three variables describe the same columns: the names are those of the
  schema in its order and no two columns share one. The text without its last definition is read
  back as these columns, each with the ClickHouse type of its Arrow type. But the text that is really written ends with a definition
  whose brackets do not match, so a suite that reads a newly generated file ends with a \<open>SyntaxError\<close>.
\<close>

theorem parquet_definition_roundtrip:
  "\<exists>g. build_columns \<lparr>value_dict = [], schema = [], ch_table_def = []\<rparr> = (Return (), g) \<and>
     dict_keys (value_dict g) = map fst (schema g) \<and> distinct (map fst (schema g)) \<and>
     read_columns seeded (py_join ''.'' (butlast (ch_table_def g))) s =
       (Return (map (\<lambda>(nm, ty). Column seeded (arrow_type ty) (Some nm)) (butlast (schema g))), s) \<and>
     (\<exists>rest. generate_parquet_test_files pa =
       seqE (write_text pa ''clickhouse_table_def.txt'' (py_join ''.'' (ch_table_def g))) rest) \<and>
     read_columns seeded (py_join ''.'' (ch_table_def g)) s =
       (Raise (SyntaxError ''closing parenthesis does not match opening parenthesis''), s)"
proof -
  let ?k = "generated_of column_kinds"
  let ?g = "\<lparr>value_dict = value_dict ?k @ [(''struct'', struct_rows)], schema = schema ?k @ [(''struct'', Astruct pyarrow_types)],
         ch_table_def = ch_table_def ?k @ [''struct '' @ struct_text]\<rparr>"
  have build: "build_columns \<lparr>value_dict = [], schema = [], ch_table_def = []\<rparr> = (Return (), ?g)"
    using build_columns_eq by (simp only: Let_def)
  have "dict_keys (value_dict ?g) = map fst (schema ?g)" by (simp add: dict_keys_def generated_of_def)
  moreover have "map fst (schema ?k) = map kind_name column_kinds" by (simp add: generated_of_def)
  moreover have "''struct'' \<notin> kind_name ` set column_kinds" using struct_not_a_name by (metis imageE)
  ultimately have "distinct (map fst (schema ?g))" "dict_keys (value_dict ?g) = map fst (schema ?g)"
    using distinct_column_kinds kind_name_inj by (simp_all add: distinct_map)
  moreover have "map (\<lambda>(nm, ty). Column seeded (arrow_type ty) (Some nm)) (schema ?k) =
      map (\<lambda>k. Column seeded (arrow_type (kind_arrow k)) (Some (kind_name k))) column_kinds"
    by (simp add: generated_of_def)
  then have "read_columns seeded (py_join ''.'' (butlast (ch_table_def ?g))) s =
      (Return (map (\<lambda>(nm, ty). Column seeded (arrow_type ty) (Some nm)) (butlast (schema ?g))), s)"
    by (simp add: read_columns_kinds ret_def)
  moreover have "\<exists>rest. generate_parquet_test_files pa =
      seqE (write_text pa ''clickhouse_table_def.txt'' (py_join ''.'' (ch_table_def ?g))) rest"
    unfolding generate_parquet_test_files_def build by auto
  moreover have "read_columns seeded (py_join ''.'' (ch_table_def ?g)) s =
      (Raise (SyntaxError ''closing parenthesis does not match opening parenthesis''), s)"
    by (simp only: generated.simps read_columns_struct raise_def)
  ultimately show ?thesis using build by blast
qed

text \<open>Values that fit an Arrow type; floating point numbers fit the types for them and the time stamps.\<close>

fun conforms :: "arrow \<Rightarrow> pvalue \<Rightarrow> bool" where
  "conforms Abool (VBool b) = True"
| "conforms (Auint n) (VInt i) = (0 \<le> i \<and> i < 2 ^ n)"
| "conforms (Aint n) (VInt i) = (- (2 ^ (n - 1)) \<le> i \<and> i < 2 ^ (n - 1))"
| "conforms Afloat32 (VInt i) = (\<bar>i\<bar> \<le> 2 ^ 24)"
| "conforms Afloat32 (VFloat x) = True"
| "conforms Afloat64 (VFloat x) = True"
| "conforms Adate32 (VInt i) = (- (2 ^ 31) \<le> i \<and> i < 2 ^ 31)"
| "conforms (Atimestamp u) (VInt i) = (- (2 ^ 63) \<le> i \<and> i < 2 ^ 63)"
| "conforms (Atimestamp u) (VFloat x) = True"
| "conforms Astring (VStr s) = True"
| "conforms Abinary (VStr s) = True"
| "conforms (Alist a) (VList vs) = list_all (conforms a) vs"
| "conforms (Astruct fs) (VTuple vs) = list_all2 (\<lambda>(f, a) v. conforms a v) fs vs"
| "conforms (Amap k v) (VList vs) = list_all (\<lambda>x. case x of VTuple [a, b] \<Rightarrow> conforms k a \<and> conforms v b | _ \<Rightarrow> False) vs"
| "conforms _ _ = False"

lemma rows_conform:
  assumes "t \<in> set type_keys"
  shows "length (rows_of t) = 3" "list_all (conforms (arrow_of t)) (rows_of t)"
  using assms by (induct t rule: type_keys_induct)
    (simp_all add: rows_of_def arrow_of_def data_types_and_values_def pyarrow_types_def)

lemma kind_rows_conform:
  assumes "kind_over type_keys k"
  shows "length (kind_rows k) = 3 \<and> list_all (conforms (kind_arrow k)) (kind_rows k)"
  using assms rows_conform by (cases k) (auto simp: list_all_iff)

lemma struct_rows_conform: "length struct_rows = 3 \<and> list_all (conforms (Astruct pyarrow_types)) struct_rows"
  by (simp add: struct_rows_def data_types_and_values_def pyarrow_types_def upt_rec)

text \<open>
  C24. The table handed to the Arrow library is well typed: every column has three rows, and each of its values, nested
  ones included, fits the type that the schema gives to the column of that name; integers lie in the range of their width.
\<close>

theorem parquet_rows_conform:
  "\<exists>g. build_columns \<lparr>value_dict = [], schema = [], ch_table_def = []\<rparr> = (Return (), g) \<and>
     list_all2 (\<lambda>(nm, rows) (nm', ty). nm = nm' \<and> length rows = 3 \<and> list_all (conforms ty) rows) (value_dict g) (schema g)"
proof -
  have "list_all2 (\<lambda>(nm, rows) (nm', ty). nm = nm' \<and> length rows = 3 \<and> list_all (conforms ty) rows)
      (value_dict (generated_of column_kinds)) (schema (generated_of column_kinds))"
    using kind_rows_conform [OF column_kinds_over] by (auto simp: generated_of_def list_all2_map1 list_all2_map2 list_all2_same)
  then show ?thesis unfolding build_columns_eq using struct_rows_conform by (auto simp: Let_def intro!: list_all2_appendI)
qed

end
