(* ===== verification/Parquet_Suite.thy ===== *)
theory Parquet_Suite
  imports Parquet_Files Storage_Suites
begin

text \<open>
  \<open>parquet/regression.py\<close>: the columns of the table come from a file of a node, the types that the tests need are
  checked to be there, the features run in a pool and then once per storage. With it the
  server of files that the tests talk to, \<open>parquet/data/local_app.py\<close>, and the scripts that run parts of the suite for S3 by hand,
  \<open>s3/ec2_regression.py\<close>, \<open>s3/manual_ec2_regression.py\<close> and \<open>s3/manual_aws_s3.py\<close>.
\<close>

section \<open>The suite\<close>

definition parquet_suite :: suite where
  "parquet_suite = \<lparr>su_env = ByFolder, su_nodes = three_nodes, su_fuzzer = False, su_gate = NoGate, su_pool = Some 2,
     su_stress = False, su_parallel = False, su_node = None,
     su_features = map (\<lambda>f. ''parquet.tests.'' @ f)
       [''file'', ''query'', ''int_list_multiple_chunks'', ''url'', ''mysql'', ''postgresql'', ''remote'', ''chunked_array'', ''broken'',
        ''encoding'', ''compression'', ''datatypes'', ''complex_datatypes'', ''indexing'', ''cache'', ''glob'', ''rowgroups'']\<rparr>"

text \<open>\<open>parquet_test_columns\<close> of \<open>parquet/tests/common.py\<close>, and the classes that have to be provided.\<close>

definition parquet_test_columns :: "dtype list" where
  "parquet_test_columns =
     [Boolean, UInt8, Int8, UInt16, Int16, UInt32, Int32, UInt64, Int64, Float32, Float64, Decimal128 38, Date, DateTime,
      String, FixedString 51]"

definition necessary_classes :: "string list" where
  "necessary_classes =
     [''UInt8'', ''Int8'', ''UInt16'', ''UInt32'', ''UInt64'', ''Int16'', ''Int32'', ''Int64'', ''Float32'', ''Float64'', ''Date'',
      ''DateTime'', ''String'', ''Decimal128'', ''Array'', ''Tuple'', ''Map'', ''Nullable'', ''LowCardinality'']"

text \<open>\<open>type(datatype)\<close>, by the name of the class.\<close>

fun class_name :: "dtype \<Rightarrow> string" where
  "class_name (Decimal32 _) = ''Decimal32''"
| "class_name (Decimal64 _) = ''Decimal64''"
| "class_name (Decimal128 _) = ''Decimal128''"
| "class_name (Decimal256 _) = ''Decimal256''"
| "class_name (DateTime64 _ _) = ''DateTime64''"
| "class_name (FixedString _) = ''FixedString''"
| "class_name Boolean = ''Boolean''"
| "class_name (Nullable _) = ''Nullable''"
| "class_name (LowCardinality _) = ''LowCardinality''"
| "class_name (Tuple _) = ''Tuple''"
| "class_name (Map _ _) = ''Map''"
| "class_name (Array _) = ''Array''"
| "class_name d = type_name (attrs d)"

definition parquet_table_columns :: "'w os \<Rightarrow> (string \<Rightarrow> 'r rng) \<Rightarrow> ('w, 'r column list) ceff" where
  "parquet_table_columns os seeded =
     bindE (node_command os ''clickhouse1'' ''cat /var/lib/test_files/clickhouse_table_def.txt'' default_args)
       (\<lambda>r. read_columns seeded (cmd_output r))"

definition check_classes :: "(string \<Rightarrow> 'r rng) \<Rightarrow> ('w, unit) ceff" where
  "check_classes seeded =
     bindE (getE context_version) (\<lambda>v. case generate_all_column_types seeded v (Some parquet_test_columns) of
       Inl e \<Rightarrow> raise e
     | Inr columns \<Rightarrow> forE necessary_classes (\<lambda>n.
         whenE (n \<notin> set (map (class_name \<circ> column_type) columns))
           (raise (TestFail (''Common code did not provide <class '' @ quoted (''helpers.datatypes.'' @ n) @ ''>'')))))"

text \<open>\<open>with Pool(2) as executor: ...; join()\<close>: here the tests are waited for only when all of them could be started.\<close>

definition parquet_pool :: "'w runner \<Rightarrow> tcontext \<Rightarrow> ('w, unit) ceff" where
  "parquet_pool rn ctx =
     seqE (open_pool rn 2) (finallyE
       (seqE (forE (su_features parquet_suite) (\<lambda>f. start_test rn f ctx)) (join_tests rn)) (close_pool rn))"

text \<open>The features on a storage; \<open>boto\<close> makes the client of the library for Amazon's service.\<close>

definition parquet_aws :: "(string \<Rightarrow> string \<Rightarrow> ('w, unit) ceff) \<Rightarrow> 'w tester \<Rightarrow> storage_args \<Rightarrow> ('w, unit) ceff" where
  "parquet_aws boto tester s =
     bindE (required ''AWS S3 access key needs to be set'' (aws_s3_access_key s)) (\<lambda>access_key.
     bindE (required ''AWS S3 key id needs to be set'' (aws_s3_key_id s)) (\<lambda>key_id.
     bindE (required ''AWS S3 bucket needs to be set'' (aws_s3_bucket s)) (\<lambda>bucket.
     bindE (required ''AWS S3 region needs to be set'' (aws_s3_region s)) (\<lambda>region.
     seqE (boto key_id access_key)
       (tester ''parquet.tests.s3'' ''feature''
         [(''storage'', ''aws_s3''), (''aws_s3_bucket'', bucket),
          (''uri'', ''https://s3.'' @ region @ ''.amazonaws.com/'' @ bucket @ ''/data/parquet/''),
          (''access_key_id'', key_id), (''secret_access_key'', access_key)])))))"

definition parquet_minio :: "'w minio \<Rightarrow> 'w tester \<Rightarrow> ('w, unit) ceff" where
  "parquet_minio mc tester =
     seqE (inW (start_minio mc 30))
       (tester ''parquet.tests.s3'' ''feature''
         [(''storage'', ''minio''), (''uri'', ''http://minio:9001/root/data/parquet/''),
          (''access_key_id'', ''minio''), (''secret_access_key'', ''minio123'')])"

definition parquet_storages :: "(string \<Rightarrow> string \<Rightarrow> ('w, unit) ceff) \<Rightarrow> 'w minio \<Rightarrow> 'w tester \<Rightarrow> storage_args \<Rightarrow> ('w, unit) ceff" where
  "parquet_storages boto mc tester s = (case storages s of
     None \<Rightarrow> ret ()
   | Some chosen \<Rightarrow>
       seqE (whenE (''aws_s3'' \<in> set chosen) (parquet_aws boto tester s))
       (seqE (whenE (''minio'' \<in> set chosen) (parquet_minio mc tester))
         (whenE (''gcs'' \<in> set chosen) (raise (TestFail ''GCS not implemented'')))))"

definition parquet_body :: "'w os \<Rightarrow> (string \<Rightarrow> 'r rng) \<Rightarrow> (string \<Rightarrow> string \<Rightarrow> ('w, unit) ceff) \<Rightarrow> 'w minio \<Rightarrow> 'w tester \<Rightarrow> 'w runner \<Rightarrow>
    call \<Rightarrow> storage_args \<Rightarrow> tcontext \<Rightarrow> ('w, unit) ceff" where
  "parquet_body os seeded boto mc tester rn a s ctx =
     seqE (bindE (parquet_table_columns os seeded) (\<lambda>columns. ret ()))
     (seqE (check_classes seeded)
     (seqE (parquet_pool rn (suite_context parquet_suite a ctx))
       (parquet_storages boto mc tester s)))"

definition parquet_regression :: "'w os \<Rightarrow> 'w host \<Rightarrow> (string \<Rightarrow> 'r rng) \<Rightarrow> (string \<Rightarrow> string \<Rightarrow> ('w, unit) ceff) \<Rightarrow> 'w minio \<Rightarrow> 'w tester \<Rightarrow>
    'w runner \<Rightarrow> string \<Rightarrow> call \<Rightarrow> storage_args \<Rightarrow> tcontext \<Rightarrow> ('w, unit) ceff" where
  "parquet_regression os h seeded boto mc tester rn dir a s ctx =
     seqE (suite_setup parquet_suite a)
       (with_cluster os h (module_init h dir parquet_suite a) (parquet_body os seeded boto mc tester rn a s ctx))"

section \<open>The server of files\<close>

text \<open>
  The handlers of the routes, on the files of the machine: a file that is read or the error of the library that sends it, and a file to which the
  data of a request is appended, made when it is not there.
\<close>

definition app_path :: "string \<Rightarrow> string" where
  "app_path file_name = ''/var/lib/app_files/'' @ file_name"

definition app_read_file :: "string \<Rightarrow> ((string, string) pydict, string) eff" where
  "app_read_file file_name = bindE (getE (\<lambda>fs. map_of fs (app_path file_name))) (\<lambda>x. case x of
     None \<Rightarrow> raise (OSError ''No such file or directory'') | Some d \<Rightarrow> ret d)"

definition app_write_file :: "string \<Rightarrow> string \<Rightarrow> ((string, string) pydict, string) eff" where
  "app_write_file file_name request_data =
     seqE (modifyE (\<lambda>fs. AList.update (app_path file_name)
        ((case map_of fs (app_path file_name) of None \<Rightarrow> [] | Some d \<Rightarrow> d) @ request_data) fs)) (ret [])"

section \<open>Scripts for manual runs\<close>

text \<open>
  The first script reads the names \<open>aws_s3_access_key\<close>, \<open>aws_s3_key_id\<close> and \<open>nodes\<close>, which are not parameters of its function. \<open>ec2_globals\<close> has those of them
  that the module defines or imports: none.
\<close>

definition ec2_globals :: "(string, string option) pydict" where
  "ec2_globals = []"

definition global_name :: "(string, 'v) pydict \<Rightarrow> string \<Rightarrow> ('s, 'v) eff" where
  "global_name globals x = (case map_of globals x of None \<Rightarrow> raise (NameError x) | Some v \<Rightarrow> ret v)"

definition ec2_init :: "call \<Rightarrow> (string, string) pydict \<Rightarrow> init_args" where
  "ec2_init a env = \<lparr>i_local = call_local a, i_binary_path = call_binary a, i_odbc_bridge_path = None,
     i_configs_dir = None, i_nodes = Some three_nodes, i_docker_compose = ''docker-compose'',
     i_project_dir = None, i_compose_file = ''docker-compose.yml'', i_environ = Some env,
     i_thread_fuzzer = False, i_collect_service_logs = False, i_use_zookeeper_nodes = False\<rparr>"

definition ec2_regression :: "'w os \<Rightarrow> 'w host \<Rightarrow> 'w runner \<Rightarrow> (string, string) pydict \<Rightarrow> call \<Rightarrow> string \<Rightarrow> string \<Rightarrow> string \<Rightarrow> string \<Rightarrow> tcontext \<Rightarrow>
    ('w, unit) ceff" where
  "ec2_regression os h rn env a access_key key_id session_token region ctx =
     bindE (global_name ec2_globals ''aws_s3_access_key'') (\<lambda>x.
     seqE (whenE (x = None) (raise (TestFail ''AWS S3 access key needs to be set'')))
     (bindE (global_name ec2_globals ''aws_s3_key_id'') (\<lambda>y.
     seqE (whenE (y = None) (raise (TestFail ''AWS S3 key id needs to be set'')))
     (bindE (global_name ec2_globals ''nodes'') (\<lambda>_.
       with_cluster os h (ec2_init a [(''S3_AMAZON_ACCESS_KEY'', access_key), (''S3_AMAZON_KEY_ID'', key_id),
           (''AWS_REGION'', region), (''AWS_SESSION_TOKEN'', session_token)])
         (seqE (forE [''AWS_ACCESS_KEY_ID'', ''AWS_SECRET_ACCESS_KEY'', ''AWS_SESSION_TOKEN'', ''AWS_REGION'']
            (\<lambda>v. assertE (truthy (map_of env v)) (v @ '' env variable must be defined'')))
          (run_test rn ''s3.tests.ec2'' ctx)))))))"

definition manual_ec2_regression :: "'w os \<Rightarrow> 'w host \<Rightarrow> 'w runner \<Rightarrow> call \<Rightarrow> string \<Rightarrow> string \<Rightarrow> tcontext \<Rightarrow> ('w, unit) ceff" where
  "manual_ec2_regression os h rn a access_key key_id ctx =
     with_cluster os h (ec2_init a [(''S3_AMAZON_ACCESS_KEY'', access_key), (''S3_AMAZON_KEY_ID'', key_id)])
       (run_test rn ''s3.tests.manual_ec2'' ctx)"

text \<open>The token is typed in before the cluster is started.\<close>

definition manual_aws_suite :: suite where
  "manual_aws_suite = \<lparr>su_env = Fixed ''s3_env'', su_nodes = three_nodes, su_fuzzer = False, su_gate = NoGate, su_pool = None,
     su_stress = False, su_parallel = False, su_node = None, su_features = [''s3.tests.iam_auth'']\<rparr>"

definition manual_aws_regression :: "'w os \<Rightarrow> 'w host \<Rightarrow> ('w, string) ceff \<Rightarrow> 'w tester \<Rightarrow> string \<Rightarrow> call \<Rightarrow> (string, string) pydict \<Rightarrow>
    ('w, unit) ceff" where
  "manual_aws_regression os h input_token tester dir a options =
     bindE input_token (\<lambda>token.
       with_cluster os h ((module_init h dir manual_aws_suite a)\<lparr>i_collect_service_logs := False\<rparr>)
         (tester ''s3.tests.iam_auth'' ''feature'' (options @ [(''aws_s3_web_identity_token'', token)])))"

section \<open>Facts\<close>

interpretation parquet: cluster_module os h "\<lambda>(seeded, boto, mc, tester, rn, dir, a, s, ctx). suite_setup parquet_suite a"
  "\<lambda>(seeded, boto, mc, tester, rn, dir, a, s, ctx). module_init h dir parquet_suite a"
  "\<lambda>(seeded, boto, mc, tester, rn, dir, a, s, ctx). parquet_body os seeded boto mc tester rn a s ctx"
  "\<lambda>(seeded, boto, mc, tester, rn, dir, a, s, ctx). parquet_regression os h seeded boto mc tester rn dir a s ctx"
  by unfold_locales (auto simp: parquet_regression_def)

text \<open>The server of files gives back what was sent to it, in the order of the requests, and keeps other files.\<close>

lemma app_write_read:
  "\<exists>fs'. app_write_file f d fs = (Return [], fs') \<and>
     app_read_file f fs' = (Return ((case map_of fs (app_path f) of None \<Rightarrow> [] | Some old \<Rightarrow> old) @ d), fs') \<and>
     (\<forall>g. g \<noteq> f \<longrightarrow> app_read_file g fs' = map_prod id (\<lambda>_. fs') (app_read_file g fs))"
  by (auto simp: app_write_file_def app_read_file_def effect_defs map_of_dict_update app_path_def split: option.splits)

lemma read_column_state: "read_column seeded x s = (r, s') \<Longrightarrow> s' = s"
  by (auto simp: read_column_def effect_defs split: list.splits sum.splits)

lemma read_columns_Return:
  assumes "read_columns seeded output s = (Return cols, s')"
  shows "s' = s \<and> length cols = length (py_split ''.'' (py_strip output))"
proof -
  have "mapE (read_column seeded) xs t = (Return cs, s') \<Longrightarrow> s' = t \<and> length cs = length xs" for xs cs t
  proof (induction xs arbitrary: cs t)
    case (Cons x xs)
    then show ?case by (auto simp: bindE_Return_iff dest!: read_column_state Cons.IH)
  qed (simp add: ret_def)
  with assms show ?thesis by (simp add: read_columns_def)
qed

lemma low_card_Inl: "check_clickhouse_version ''<22.4'' v = Inl e \<Longrightarrow> generate_low_card_datatypes v (Boolean # ds) = Inl e"
  by (simp add: DataType_def)

lemma low_card_Inr:
  assumes "check_clickhouse_version ''<22.4'' v = Inr old"
  shows "\<exists>low. generate_low_card_datatypes v ds = Inr low \<and> (Boolean \<in> set ds \<longrightarrow> LowCardinality Boolean \<in> set low)"
  using assms by (induction ds) (auto simp: Let_def DataType_def split: sum.splits)

lemma parquet_test_columns_Cons: "\<exists>ds. parquet_test_columns = Boolean # ds"
  by (simp add: parquet_test_columns_def)

lemma all_classes:
  assumes "LowCardinality Boolean \<in> set low" and "n \<in> set necessary_classes"
  shows "n \<in> class_name ` set (all_test_datatypes parquet_test_columns low)"
proof -
  let ?ds = "all_test_datatypes parquet_test_columns low"
  obtain ts where "Tuple ts \<in> set ?ds" by (auto simp: all_test_datatypes_def Let_def generate_tuple_datatype_def)
  moreover have "set parquet_test_columns \<subseteq> set ?ds" "Nullable UInt8 \<in> set ?ds" "Array UInt8 \<in> set ?ds" "LowCardinality Boolean \<in> set ?ds"
    using assms(1) by (auto simp: all_test_datatypes_def Let_def generate_nullable_datatypes_def generate_array_datatypes_def
        parquet_test_columns_def)
  moreover have "Map UInt8 UInt8 \<in> set ?ds"
    by (auto simp: all_test_datatypes_def Let_def generate_map_datatypes_def parquet_test_columns_def UInt_init_def Int_init_def DataType_def)
  moreover have "set [UInt8, Int8, UInt16, UInt32, UInt64, Int16, Int32, Int64, Float32, Float64, Date, DateTime, String, Decimal128 38] \<subseteq>
      set parquet_test_columns" by (simp add: parquet_test_columns_def)
  ultimately have "set ([UInt8, Int8, UInt16, UInt32, UInt64, Int16, Int32, Int64, Float32, Float64, Date, DateTime, String, Decimal128 38] @
      [Array UInt8, Tuple ts, Map UInt8 UInt8, Nullable UInt8, LowCardinality Boolean]) \<subseteq> set ?ds" (is "set ?ws \<subseteq> _") by simp blast
  moreover have "necessary_classes = map class_name ?ws"
    by (simp add: necessary_classes_def UInt_init_def Int_init_def DataType_def Float_init_def Date_init_def String_init_def)
  ultimately show ?thesis using assms(2) by (metis (no_types) image_mono image_set subsetD)
qed

text \<open>
  The types that the tests need are always provided: the check of the suite fails only when the version of the
  server cannot be read.
\<close>

lemma check_classes_passes:
  fixes c :: "'w cluster"
  shows "check_classes seeded c = (case check_clickhouse_version ''<22.4'' (context_version c) of Inl e \<Rightarrow> (Raise e, c) | Inr old \<Rightarrow> (Return (), c))"
proof (cases "check_clickhouse_version ''<22.4'' (context_version c)")
  case (Inl e)
  obtain ds where ds: "parquet_test_columns = Boolean # ds" using parquet_test_columns_Cons by blast
  have "generate_all_column_types seeded (context_version c) (Some parquet_test_columns) = Inl e"
    unfolding generate_all_column_types_def ds using low_card_Inl [OF Inl, of "ds @ generate_nullable_datatypes (Boolean # ds)"]
    by (simp add: Let_def del: generate_low_card_datatypes.simps)
  then show ?thesis using Inl by (simp add: check_classes_def bindE_getE raise_def)
next
  case (Inr old)
  have bool: "Boolean \<in> set parquet_test_columns" by (simp add: parquet_test_columns_def)
  let ?in = "parquet_test_columns @ generate_nullable_datatypes parquet_test_columns"
  obtain low where low: "generate_low_card_datatypes (context_version c) ?in = Inr low" "LowCardinality Boolean \<in> set low"
    using low_card_Inr [OF Inr, of ?in] bool by auto
  then have "generate_all_column_types seeded (context_version c) (Some parquet_test_columns) =
      Inr (map (\<lambda>d. Column seeded d None) (all_test_datatypes parquet_test_columns low))"
    using bool by (auto simp: generate_all_column_types_def split: list.splits)
  moreover have "class_name \<circ> column_type \<circ> (\<lambda>d. Column seeded d None) = class_name"
    by (simp add: fun_eq_iff Column_def Let_def)
  moreover have "forE ns (\<lambda>n. whenE (n \<notin> class_name ` set (all_test_datatypes parquet_test_columns low)) (raise (e n))) =
      (ret () :: ('w, unit) ceff)" if "set ns \<subseteq> set necessary_classes" for ns e
    using that all_classes [OF low(2)] by (induction ns) (simp_all add: whenE_def)
  ultimately show ?thesis using Inr by (simp add: check_classes_def bindE_getE image_comp ret_def)
qed

lemma check_classes_code [code]:
  "check_classes seeded = bindE (getE context_version) (\<lambda>v. case check_clickhouse_version ''<22.4'' v of Inl e \<Rightarrow> raise e | Inr old \<Rightarrow> ret ())"
  by (rule ext) (simp add: check_classes_passes bindE_getE raise_def ret_def split: sum.splits)

section \<open>Properties\<close>

lemma parquet_storages_Return:
  assumes "parquet_storages boto mc tester s c = (Return (), c')" and "storages s = Some chosen"
  shows "''gcs'' \<notin> set chosen" and "''aws_s3'' \<in> set chosen \<Longrightarrow>
    aws_s3_access_key s \<noteq> None \<and> aws_s3_key_id s \<noteq> None \<and> aws_s3_bucket s \<noteq> None \<and> aws_s3_region s \<noteq> None"
  using assms by (auto simp: parquet_storages_def parquet_aws_def seqE_Return_iff bindE_Return_iff whenE_def required_def
      split: if_splits option.splits)

text \<open>
  C21. A run of the Parquet suite that ends normally has done its parts in order on a running cluster: every definition in
  the file of the node was read as a column; all features were started in the pool and then waited for; for
  the storages that were asked for no credential was missing, and the storage that is not implemented was not among them; the clean-up of
  the cluster came last and succeeded. The check of the types between them never stops a run that got that far.
\<close>

theorem parquet_regression_contract:
  assumes "parquet_regression os h seeded boto mc tester rn dir a s ctx c = (Return (), c')"
  shows "\<exists>c1 c2 r cols c3 c4 c5 c6 c7.
    cluster_init os h (module_init h dir parquet_suite a) (c\<lparr>context_version := call_version a\<rparr>) = (Return (), c1) \<and>
    cluster_enter os c1 = (Return (), c2) \<and> running c2 \<and>
    node_command os ''clickhouse1'' ''cat /var/lib/test_files/clickhouse_table_def.txt'' default_args c2 = (Return r, c3) \<and>
    read_columns seeded (cmd_output r) c3 = (Return cols, c3) \<and> length cols = length (py_split ''.'' (py_strip (cmd_output r))) \<and>
    open_pool rn 2 c3 = (Return (), c4) \<and>
    seqE (forE (su_features parquet_suite) (\<lambda>f. start_test rn f (suite_context parquet_suite a ctx))) (join_tests rn) c4 = (Return (), c5) \<and>
    close_pool rn c5 = (Return (), c6) \<and> parquet_storages boto mc tester s c6 = (Return (), c7) \<and>
    (\<forall>chosen. storages s = Some chosen \<longrightarrow> ''gcs'' \<notin> set chosen \<and> (''aws_s3'' \<in> set chosen \<longrightarrow>
       aws_s3_access_key s \<noteq> None \<and> aws_s3_key_id s \<noteq> None \<and> aws_s3_bucket s \<noteq> None \<and> aws_s3_region s \<noteq> None)) \<and>
    cluster_exit os h c7 = (Return (), c')"
proof -
  obtain c1 c2 c7 where init: "cluster_init os h (module_init h dir parquet_suite a) (c\<lparr>context_version := call_version a\<rparr>) = (Return (), c1)"
    and enter: "cluster_enter os c1 = (Return (), c2)" and body: "parquet_body os seeded boto mc tester rn a s ctx c2 = (Return (), c7)"
    and leave: "cluster_exit os h c7 = (Return (), c')"
    using parquet.entry_Return [of os h "(seeded, boto, mc, tester, rn, dir, a, s, ctx)"] assms
    by (auto simp: suite_setup_def early_gate_def parquet_suite_def seqE_modifyE ret_def)
  have "running c2" using enter unfolding cluster_enter_def by (auto elim!: up_Return)
  moreover obtain t r c3 cols d where cat: "node_command os ''clickhouse1'' ''cat /var/lib/test_files/clickhouse_table_def.txt'' default_args c2 = (Return r, c3)"
    and read: "read_columns seeded (cmd_output r) c3 = (Return cols, d)" and classes: "check_classes seeded d = (Return (), t)"
    and pool: "seqE (parquet_pool rn (suite_context parquet_suite a ctx)) (parquet_storages boto mc tester s) t = (Return (), c7)"
    using body unfolding parquet_body_def parquet_table_columns_def by (auto simp: seqE_Return_iff bindE_Return_iff)
  moreover have d: "d = c3" and len: "length cols = length (py_split ''.'' (py_strip (cmd_output r)))"
    using read_columns_Return [OF read] by simp_all
  moreover have t: "t = c3" using classes d unfolding check_classes_passes by (auto split: sum.splits)
  moreover obtain c4 c5 c6 where "open_pool rn 2 c3 = (Return (), c4)" "close_pool rn c5 = (Return (), c6)"
    "seqE (forE (su_features parquet_suite) (\<lambda>f. start_test rn f (suite_context parquet_suite a ctx))) (join_tests rn) c4 = (Return (), c5)"
    and st: "parquet_storages boto mc tester s c6 = (Return (), c7)"
    using pool unfolding parquet_pool_def t by (auto simp: seqE_Return_iff finallyE_Return_iff)
  moreover have "\<forall>chosen. storages s = Some chosen \<longrightarrow> ''gcs'' \<notin> set chosen \<and> (''aws_s3'' \<in> set chosen \<longrightarrow>
       aws_s3_access_key s \<noteq> None \<and> aws_s3_key_id s \<noteq> None \<and> aws_s3_bucket s \<noteq> None \<and> aws_s3_region s \<noteq> None)"
    using parquet_storages_Return [OF st] by blast
  ultimately show ?thesis using init enter leave read [unfolded d] by (intro exI conjI)
qed

definition parquet_reply :: "string \<Rightarrow> cmd_result option" where
  "parquet_reply cmd = (if startswith cmd ''cat /var/lib/test_files'' then Some \<lparr>cmd_output = ''a UInt8().b Array(String())'' @ newline, cmd_exitcode = 0\<rparr>
     else suite_reply cmd)"

definition no_storage :: storage_args where
  "no_storage = \<lparr>storages = None, minio_uri = [], minio_root_user = [], minio_root_password = [], aws_s3_bucket = None, aws_s3_region = None,
     aws_s3_key_id = None, aws_s3_access_key = None, gcs_uri = None, gcs_key_id = None, gcs_key_secret = None\<rparr>"

definition sim_rng :: "unit rng" where
  "sim_rng = \<lparr>randint = (\<lambda>a b. ret a), uniform = (\<lambda>a b. ret a)\<rparr>"

abbreviation parquet_run :: "unit outcome \<times> sim cluster" where
  "parquet_run \<equiv> parquet_regression (sim_os parquet_reply) sim_host (\<lambda>_. sim_rng) (\<lambda>_ _. ret ()) undefined (\<lambda>_ _ _. ret ()) sim_runner ''/r/parquet'' (sim_call None) no_storage no_context sim_cluster"

lemma parquet_runs: "fst parquet_run = Return ()"
  by code_simp

theorem parquet_regression_contract_witness:
  "\<exists>c2 r c3 cols. running c2 \<and>
     node_command (sim_os parquet_reply) ''clickhouse1'' ''cat /var/lib/test_files/clickhouse_table_def.txt'' default_args c2 = (Return r, c3) \<and>
     read_columns (\<lambda>_. sim_rng) (cmd_output r) c3 = (Return cols, c3) \<and> length cols = length (py_split ''.'' (py_strip (cmd_output r)))"
proof -
  have "parquet_run = (Return (), snd parquet_run)" using parquet_runs by (metis prod.collapse)
  from parquet_regression_contract [OF this] show ?thesis by (elim exE conjE) (intro exI conjI, assumption+)
qed

lemma ec2_name: "global_name ec2_globals x = raise (NameError x)"
  by (simp add: ec2_globals_def global_name_def)


end
