(* ===== verification/Ldap_Steps.thy ===== *)
theory Ldap_Steps
  imports Config_Steps
begin

text \<open>
  The steps that the three suites below \<open>ldap\<close> share: \<open>ldap/authentication/tests/common.py\<close> and the parts of the files of the
  same name in \<open>external_user_directory\<close> and \<open>role_mapping\<close> that manage the entries of an LDAP server, write the
  configuration of the server and try to log in. The default of the argument \<open>node\<close> is the node of the test
  context; the operations here take the name of the node that this gives.
\<close>

section \<open>Entries of the directory\<close>

text \<open>An entry is a dictionary of attributes: texts, numbers, and the list of object classes.\<close>

datatype attribute = Attr string | NumAttr int | ListAttr "string list"

type_synonym ldap_entry = "(string, attribute) pydict"

record ldap_user_args =
  u_cn :: string
  u_password :: string
  u_givenname :: "string option"
  u_homedirectory :: "string option"
  u_sn :: "string option"
  u_uid :: "string option"
  u_uidnumber :: "int option"

definition or_default :: "'a option \<Rightarrow> 'a \<Rightarrow> 'a" where
  "or_default x d = (case x of None \<Rightarrow> d | Some y \<Rightarrow> y)"

definition users_dn :: "string \<Rightarrow> string" where
  "users_dn cn = ''cn='' @ cn @ '',ou=users,dc=company,dc=com''"

definition groups_dn :: "string \<Rightarrow> string" where
  "groups_dn cn = ''cn='' @ cn @ '',ou=groups,dc=company,dc=com''"

definition user_entry :: "string \<Rightarrow> ldap_user_args \<Rightarrow> ldap_entry" where
  "user_entry nm a =
     [(''dn'', Attr (users_dn (u_cn a))),
      (''cn'', Attr (u_cn a)),
      (''gidnumber'', NumAttr 501),
      (''givenname'', Attr (or_default (u_givenname a) ''John'')),
      (''homedirectory'', Attr (or_default (u_homedirectory a) ''/home/users'')),
      (''objectclass'', ListAttr [''inetOrgPerson'', ''posixAccount'', ''top'']),
      (''sn'', Attr (or_default (u_sn a) ''User'')),
      (''uid'', Attr (or_default (u_uid a) (u_cn a))),
      (''uidnumber'', NumAttr (or_default (u_uidnumber a) 2000)),
      (''userpassword'', Attr (u_password a)),
      (''_server'', Attr nm)]"

text \<open>The counter for group numbers is advanced and not used: the entry of a group has no number.\<close>

definition group_entry :: "string \<Rightarrow> string \<Rightarrow> ldap_entry" where
  "group_entry nm cn =
     [(''dn'', Attr (groups_dn cn)),
      (''objectclass'', ListAttr [''top'', ''groupOfUniqueNames'']),
      (''uniquemember'', Attr ''cn=admin,dc=company,dc=com''),
      (''_server'', Attr nm)]"

text \<open>
  The lines of an entry: a key that starts with an underscore is left out, a list gives one line per element. The attribute with
  a list is \<open>objectclass\<close> in both kinds of entries; it is found by its name for users and by its type for groups.
\<close>

fun attribute_lines :: "string \<Rightarrow> attribute \<Rightarrow> string list" where
  "attribute_lines key (Attr v) = [key @ '': '' @ v]"
| "attribute_lines key (NumAttr i) = [key @ '': '' @ str_int i]"
| "attribute_lines key (ListAttr vs) = map (\<lambda>v. key @ '': '' @ v) vs"

definition entry_lines :: "ldap_entry \<Rightarrow> string list" where
  "entry_lines e = concat (map (\<lambda>(key, v). if startswith key ''_'' then [] else attribute_lines key v) e)"

definition ldif :: "ldap_entry \<Rightarrow> string" where
  "ldif e = py_join newline (entry_lines e)"

definition as_admin :: string where
  "as_admin = '' -x -H ldap://localhost -D '' @ dquoted ''cn=admin,dc=company,dc=com'' @ '' -w admin''"

definition ldapadd :: "string \<Rightarrow> string" where
  "ldapadd lines = ''echo -e '' @ dquoted lines @ '' | ldapadd'' @ as_admin"

definition ldapmodify :: "string \<Rightarrow> string" where
  "ldapmodify lines = ''echo -e '' @ dquoted lines @ '' | ldapmodify'' @ as_admin"

definition ldapdelete :: "string \<Rightarrow> string" where
  "ldapdelete dn = ''ldapdelete'' @ as_admin @ '' '' @ dquoted dn"

text \<open>\<open>f"{entry['dn']}"\<close> for an attribute that is a text or a number.\<close>

definition attribute_of :: "ldap_entry \<Rightarrow> string \<Rightarrow> ('s, string) eff" where
  "attribute_of e key = bindE (getitem e key) (\<lambda>v. case v of
     Attr s \<Rightarrow> ret s | NumAttr i \<Rightarrow> ret (str_int i) | ListAttr vs \<Rightarrow> ret (''['' @ py_join '', '' (map single_quoted vs) @ '']''))"

text \<open>\<open>if exitcode is not None: assert r.exitcode == exitcode, error()\<close>\<close>

definition expect_exitcode :: "int option \<Rightarrow> cmd_result \<Rightarrow> ('s, unit) eff" where
  "expect_exitcode exitcode r = (case exitcode of None \<Rightarrow> ret () | Some n \<Rightarrow> assertE (cmd_exitcode r = n) [])"

definition run_ldap :: "'w os \<Rightarrow> string \<Rightarrow> string \<Rightarrow> int option \<Rightarrow> ('w, unit) ceff" where
  "run_ldap os nm cmd exitcode = bindE (node_command os nm cmd default_args) (expect_exitcode exitcode)"

section \<open>Operations on the directory\<close>

definition add_user_to_ldap :: "'w os \<Rightarrow> string \<Rightarrow> ldap_user_args \<Rightarrow> ('w, ldap_entry) ceff" where
  "add_user_to_ldap os nm a =
     (let user = user_entry nm a in seqE (run_ldap os nm (ldapadd (ldif user)) (Some 0)) (ret user))"

definition delete_user_from_ldap :: "'w os \<Rightarrow> string \<Rightarrow> ldap_entry \<Rightarrow> int option \<Rightarrow> ('w, unit) ceff" where
  "delete_user_from_ldap os nm user exitcode =
     bindE (attribute_of user ''dn'') (\<lambda>dn. run_ldap os nm (ldapdelete dn) exitcode)"

definition change_user_password_in_ldap :: "'w os \<Rightarrow> string \<Rightarrow> ldap_entry \<Rightarrow> string \<Rightarrow> int option \<Rightarrow> ('w, unit) ceff" where
  "change_user_password_in_ldap os nm user new_password exitcode =
     bindE (attribute_of user ''dn'') (\<lambda>dn. run_ldap os nm (ldapmodify (py_join newline
       [''dn: '' @ dn, ''changetype: modify'', ''replace: userpassword'', ''userpassword: '' @ new_password])) exitcode)"

definition change_user_cn_in_ldap :: "'w os \<Rightarrow> string \<Rightarrow> ldap_entry \<Rightarrow> string \<Rightarrow> int option \<Rightarrow> ('w, ldap_entry) ceff" where
  "change_user_cn_in_ldap os nm user new_cn exitcode =
     bindE (attribute_of user ''dn'') (\<lambda>dn.
     seqE (run_ldap os nm (ldapmodify (''dn: '' @ dn @ newline @ ''changetype: modrdn'' @ newline @
         ''newrdn: cn = '' @ new_cn @ newline @ ''deleteoldrdn: 1'' @ newline)) exitcode)
       (ret (AList.update ''cn'' (Attr new_cn) (AList.update ''dn'' (Attr (users_dn new_cn)) user))))"

definition add_group_to_ldap :: "'w os \<Rightarrow> string \<Rightarrow> string \<Rightarrow> int option \<Rightarrow> ('w, ldap_entry) ceff" where
  "add_group_to_ldap os nm cn exitcode =
     (let grp = group_entry nm cn in seqE (run_ldap os nm (ldapadd (ldif grp)) exitcode) (ret grp))"

definition delete_group_from_ldap :: "'w os \<Rightarrow> string \<Rightarrow> ldap_entry \<Rightarrow> int option \<Rightarrow> ('w, unit) ceff" where
  "delete_group_from_ldap os nm grp exitcode =
     bindE (attribute_of grp ''dn'') (\<lambda>dn. run_ldap os nm (ldapdelete dn) exitcode)"

text \<open>\<open>add_user_to_group_in_ldap\<close> and \<open>delete_user_from_group_in_ldap\<close> differ in one word.\<close>

definition change_member :: "string \<Rightarrow> 'w os \<Rightarrow> string \<Rightarrow> ldap_entry \<Rightarrow> ldap_entry \<Rightarrow> int option \<Rightarrow> ('w, unit) ceff" where
  "change_member change os nm user grp exitcode =
     bindE (attribute_of grp ''dn'') (\<lambda>group_dn. bindE (attribute_of user ''dn'') (\<lambda>user_dn.
       run_ldap os nm (ldapmodify (py_join newline
         [''dn: '' @ group_dn, ''changetype: modify'', change @ '': uniquemember'', ''uniquemember: '' @ user_dn])) exitcode))"

definition add_user_to_group_in_ldap :: "'w os \<Rightarrow> string \<Rightarrow> ldap_entry \<Rightarrow> ldap_entry \<Rightarrow> int option \<Rightarrow> ('w, unit) ceff" where
  "add_user_to_group_in_ldap = change_member ''add''"

definition delete_user_from_group_in_ldap :: "'w os \<Rightarrow> string \<Rightarrow> ldap_entry \<Rightarrow> ldap_entry \<Rightarrow> int option \<Rightarrow> ('w, unit) ceff" where
  "delete_user_from_group_in_ldap = change_member ''delete''"

definition fix_ldap_permissions :: "'w os \<Rightarrow> string \<Rightarrow> int option \<Rightarrow> ('w, unit) ceff" where
  "fix_ldap_permissions os nm exitcode =
     (let admin = [CHR 0x5C, CHR 0x22] @ ''cn=admin,dc=company,dc=com'' @ [CHR 0x5C, CHR 0x22];
          lines = py_join newline
            [''dn: olcDatabase={1}mdb,cn=config'', ''changetype: modify'', ''delete: olcAccess'', ''-'', ''add: olcAccess'',
             ''olcAccess: to attrs=userPassword,shadowLastChange by self write by dn='' @ admin @ '' write by anonymous auth by * none'',
             ''olcAccess: to * by self write by dn='' @ admin @ '' read by users read by * none''] in
      run_ldap os nm (''echo -e '' @ dquoted lines @ '' | ldapmodify -Y EXTERNAL -Q -H ldapi:///'') exitcode)"

section \<open>Users and groups for a test\<close>

definition ldap_user :: "'w os \<Rightarrow> string \<Rightarrow> ldap_user_args \<Rightarrow> (ldap_entry \<Rightarrow> ('w, 'a) ceff) \<Rightarrow> ('w, 'a) ceff" where
  "ldap_user os nm a body = bindE (add_user_to_ldap os nm a) (\<lambda>user.
     finallyE (body user) (delete_user_from_ldap os nm user (Some 0)))"

text \<open>
  \<open>try: xs = []; for x in ...: xs.append(add(x)); yield xs; finally: for x in xs: remove(x)\<close>. When an addition raises, those
  before it are undone and the test does not run.
\<close>

fun collecting :: "('x \<Rightarrow> ('s, 'y) eff) \<Rightarrow> ('y \<Rightarrow> ('s, unit) eff) \<Rightarrow> ('y list \<Rightarrow> ('s, 'a) eff) \<Rightarrow> 'x list \<Rightarrow> 'y list \<Rightarrow> ('s, 'a) eff" where
  "collecting add remove body [] ys = finallyE (body ys) (forE ys remove)"
| "collecting add remove body (x # xs) ys =
     bindE (tryE (add x)) (\<lambda>r. case r of
       Inr y \<Rightarrow> collecting add remove body xs (ys @ [y])
     | Inl e \<Rightarrow> finallyE (raise e) (forE ys remove))"

definition ldap_users :: "'w os \<Rightarrow> string \<Rightarrow> ldap_user_args list \<Rightarrow> (ldap_entry list \<Rightarrow> ('w, 'a) ceff) \<Rightarrow> ('w, 'a) ceff" where
  "ldap_users os nm users body =
     collecting (add_user_to_ldap os nm) (\<lambda>u. delete_user_from_ldap os nm u (Some 0)) body users []"

definition add_ldap_groups :: "'w os \<Rightarrow> string \<Rightarrow> string list \<Rightarrow> (ldap_entry list \<Rightarrow> ('w, 'a) ceff) \<Rightarrow> ('w, 'a) ceff" where
  "add_ldap_groups os nm groups body =
     collecting (\<lambda>cn. add_group_to_ldap os nm cn (Some 0)) (\<lambda>g. delete_group_from_ldap os nm g (Some 0)) body groups []"

section \<open>Configuration of the server\<close>

text \<open>
  The tree of a configuration: a section below the element \<open>yandex\<close> that starts with a comment with the unique identifier. The
  values of a server are texts; a text that is missing is \<open>None\<close>.
\<close>

definition ldap_tree :: "string \<Rightarrow> string \<Rightarrow> xml list \<Rightarrow> xml" where
  "ldap_tree sect comment elems =
     append_child (Element ''yandex'') (foldl append_child (append_child (Element sect) (Comment comment)) elems)"

definition ldap_content :: "string \<Rightarrow> string \<Rightarrow> string \<Rightarrow> xml list \<Rightarrow> string \<Rightarrow> string \<Rightarrow> string \<Rightarrow> config" where
  "ldap_content uid sect comment elems config_d_dir config_file preprocessed =
     \<lparr>config_content = xml_with_utf8 @ tostring (xml_indent 0 ''  '' (ldap_tree sect (comment @ '' '' @ uid) elems)),
      config_path = path_join config_d_dir config_file, config_name = config_file, config_uid = uid,
      config_preprocessed_name = preprocessed\<rparr>"

definition server_element :: "string \<times> (string, string) pydict \<Rightarrow> xml" where
  "server_element = (\<lambda>(nm, server). foldl (\<lambda>x (key, v). xml_append x key v) (Element nm) server)"

definition create_ldap_servers_config_content ::
  "string \<Rightarrow> (string, (string, string) pydict) pydict \<Rightarrow> string \<Rightarrow> string \<Rightarrow> config" where
  "create_ldap_servers_config_content uid servers config_d_dir config_file =
     ldap_content uid ''ldap_servers'' ''LDAP servers'' (map server_element servers) config_d_dir config_file ''config.xml''"

definition user_element :: "(string, string) pydict \<Rightarrow> ('s, xml) eff" where
  "user_element user =
     bindE (getitem user ''username'') (\<lambda>username. bindE (getitem user ''server'') (\<lambda>server.
       ret (append_child (Element username) (xml_append (Element ''ldap'') ''server'' server))))"

definition create_ldap_users_config_content ::
  "string \<Rightarrow> (string, string) pydict list \<Rightarrow> string \<Rightarrow> string \<Rightarrow> ('s, config) eff" where
  "create_ldap_users_config_content uid users config_d_dir config_file =
     bindE (mapE user_element users) (\<lambda>elems.
       ret (ldap_content uid ''users'' ''LDAP users'' elems config_d_dir config_file ''users.xml''))"

definition roles_element :: "string option list option \<Rightarrow> xml" where
  "roles_element roles_entry =
     foldl (\<lambda>x role. xml_append x role []) (Element ''roles'') (List.map_filter id (or_default roles_entry []))"

definition directory_element :: "string option list \<times> string option list option list \<Rightarrow> xml" where
  "directory_element = (\<lambda>(servers, roles_entries).
     foldl append_child
       (foldl (\<lambda>x server. xml_append x ''server'' server) (Element ''ldap'') (List.map_filter id servers))
       (map roles_element roles_entries))"

definition create_entries_ldap_external_user_directory_config_content ::
  "string \<Rightarrow> (string option list \<times> string option list option list) list \<Rightarrow> string \<Rightarrow> string \<Rightarrow> config" where
  "create_entries_ldap_external_user_directory_config_content uid entries config_d_dir config_file =
     ldap_content uid ''user_directories'' ''LDAP external user directories'' (map directory_element entries)
       config_d_dir config_file ''config.xml''"

definition create_ldap_external_user_directory_config_content ::
  "string \<Rightarrow> string option \<Rightarrow> string option list option \<Rightarrow> string \<Rightarrow> string \<Rightarrow> config" where
  "create_ldap_external_user_directory_config_content uid server roles config_d_dir config_file =
     create_entries_ldap_external_user_directory_config_content uid [([server], [roles])] config_d_dir config_file"

text \<open>The variant with role mappings is built from entries; a role is an element without text.\<close>

definition role_mapping_entries :: "string option \<Rightarrow> string list option \<Rightarrow> (string, string) pydict list option \<Rightarrow> entries" where
  "role_mapping_entries server roles role_mappings =
     [(Key ''user_directories'', Dict [(Key ''ldap'', Entries (
         (if truthy server then [[(Key ''server'', Text (the server))]] else []) @
         (case roles of Some (r # rs) \<Rightarrow> [[(Key ''roles'', Entries (map (\<lambda>r. [(Key r, Dict [])]) (r # rs)))]] | _ \<Rightarrow> []) @
         map (\<lambda>role_mapping. [(Key ''role_mapping'', Dict (map (\<lambda>(key, v). (Key key, Text v)) role_mapping))])
           (or_default role_mappings [])))])]"

text \<open>\<open>ldap_servers\<close> and \<open>ldap_external_user_directory\<close>: the test runs with the configuration, added with the defaults of \<open>add_config\<close>.\<close>

definition config_defaults :: "bool \<Rightarrow> config_args" where
  "config_defaults restart = \<lparr>a_timeout = 300, a_restart = restart, a_modify = False, a_user = None, a_wait_healthy = True,
     a_check_preprocessed = True\<rparr>"

definition ldap_servers :: "'w os \<Rightarrow> 'w terminal \<Rightarrow> 'w host \<Rightarrow> string \<Rightarrow> string \<Rightarrow> (string, (string, string) pydict) pydict \<Rightarrow> bool \<Rightarrow>
    ('w, 'a) ceff \<Rightarrow> ('w, 'a) ceff" where
  "ldap_servers os tm h nm uid servers restart body =
     add_config os tm h nm (create_ldap_servers_config_content uid servers ''/etc/clickhouse-server/config.d'' ''ldap_servers.xml'')
       (config_defaults restart) body"

definition ldap_external_user_directory :: "'w os \<Rightarrow> 'w terminal \<Rightarrow> 'w host \<Rightarrow> string \<Rightarrow> string \<Rightarrow> string \<Rightarrow> string option \<Rightarrow>
    string option list option \<Rightarrow> bool \<Rightarrow> ('w, 'a) ceff \<Rightarrow> ('w, 'a) ceff" where
  "ldap_external_user_directory os tm h nm file_uid uid server roles restart body =
     add_config os tm h nm (create_ldap_external_user_directory_config_content uid server roles ''/etc/clickhouse-server/config.d''
         (''ldap_external_user_directory_'' @ file_uid @ ''.xml''))
       (config_defaults restart) body"

section \<open>Logging in\<close>

definition login_query :: "string \<Rightarrow> string \<Rightarrow> seconds \<Rightarrow> query_args" where
  "login_query username password timeout =
     default_query\<lparr>q_settings := [(''user'', username), (''password'', password)], q_timeout := Some timeout\<rparr>"

definition login_accepted :: "int option \<Rightarrow> string option \<Rightarrow> cmd_result \<Rightarrow> bool" where
  "login_accepted exitcode message r \<longleftrightarrow>
     cmd_exitcode r = or_default exitcode 0 \<and> (case message of None \<Rightarrow> True | Some m \<Rightarrow> str_in m (cmd_output r))"

fun login_loop :: "'w os \<Rightarrow> string \<Rightarrow> query_args \<Rightarrow> int option \<Rightarrow> string option \<Rightarrow> nat \<Rightarrow> nat \<Rightarrow> seconds \<Rightarrow> ('w, unit) ceff" where
  "login_loop os nm q exitcode message timeout 0 start_time = out_of_fuel"
| "login_loop os nm q exitcode message timeout (Suc n) start_time =
     bindE (query os nm ''SELECT 1'' 5 (q\<lparr>q_no_checks := True\<rparr>)) (\<lambda>r.
     if login_accepted exitcode message r then ret ()
     else bindE (clock os) (\<lambda>t.
       if t - start_time > of_nat timeout then raise (TestFail (''timeout '' @ str_nat timeout @ '' trying to login''))
       else login_loop os nm q exitcode message timeout n start_time))"

definition login_and_execute_query :: "'w os \<Rightarrow> string \<Rightarrow> string \<Rightarrow> string \<Rightarrow> int option \<Rightarrow> string option \<Rightarrow> nat \<Rightarrow> bool \<Rightarrow> ('w, unit) ceff" where
  "login_and_execute_query os nm username password exitcode message timeout poll =
     (let q = login_query username password (of_nat timeout) in
      if poll then bindE (clock os) (login_loop os nm q exitcode message timeout (fuel os))
      else seqE (query os nm ''SELECT 1'' 5 (q\<lparr>q_exitcode := Some (or_default exitcode 0), q_message := message\<rparr>)) (ret ()))"

section \<open>What the directory does\<close>

text \<open>Texts that the shell takes as they are between double quotes.\<close>

definition shell_text :: "string \<Rightarrow> bool" where
  "shell_text s \<longleftrightarrow> list_all (\<lambda>c. c \<notin> {CHR 0x22, CHR ''$'', CHR 0x60, CHR 0x5C, CHR ''!''}) s"

text \<open>
  \<open>dir\<close> has the names of the entries. A command for the directory is answered; \<open>ldapadd\<close> ends with zero when it has added an entry that was
  not there and changes nothing otherwise; \<open>ldapdelete\<close> removes an entry that is there.
\<close>

definition ldap_law :: "'w os \<Rightarrow> shell \<Rightarrow> ('w \<Rightarrow> string set) \<Rightarrow> bool" where
  "ldap_law os sh dir \<longleftrightarrow>
     (\<forall>dn rest t w. shell_text (dn @ rest) \<and> CHR 0x0A \<notin> set dn \<longrightarrow>
        (\<exists>r w'. run os sh (ldapadd (''dn: '' @ dn @ newline @ rest)) t w = (Return r, w') \<and>
           (if cmd_exitcode r = 0 then dn \<notin> dir w \<and> dir w' = insert dn (dir w) else dir w' = dir w))) \<and>
     (\<forall>dn t w. shell_text dn \<and> dn \<in> dir w \<longrightarrow>
        (\<exists>r w'. run os sh (ldapdelete dn) t w = (Return r, w') \<and> cmd_exitcode r = 0 \<and> dir w' = dir w - {dn}))"

text \<open>An effect that ends and leaves the invariant \<open>I\<close> and the \<open>keys\<close> as they are.\<close>

definition leaves :: "('s \<Rightarrow> bool) \<Rightarrow> ('s \<Rightarrow> 'k) \<Rightarrow> ('s, 'a) eff \<Rightarrow> bool" where
  "leaves I keys m \<longleftrightarrow> (\<forall>t r t'. I t \<and> m t = (r, t') \<longrightarrow> r \<noteq> OutOfFuel \<and> I t' \<and> keys t' = keys t)"

lemma leavesD: "leaves I keys m \<Longrightarrow> I t \<Longrightarrow> m t = (r, t') \<Longrightarrow> r \<noteq> OutOfFuel \<and> I t' \<and> keys t' = keys t"
  unfolding leaves_def by blast

text \<open>
  The contract of things that are added and removed one by one: under \<open>law\<close>, adding ends with a new key or leaves the
  keys as they are, and removing what is there succeeds.
\<close>

locale registry =
  fixes law :: bool
    and inv :: "'s \<Rightarrow> bool"
    and keys :: "'s \<Rightarrow> string set"
    and key :: "'y \<Rightarrow> string"
    and given :: "'x \<Rightarrow> bool"
    and good :: "'y \<Rightarrow> bool"
    and add :: "'x \<Rightarrow> ('s, 'y) eff"
    and remove :: "'y \<Rightarrow> ('s, unit) eff"
  assumes add_law: "\<lbrakk>law; inv s; given x\<rbrakk> \<Longrightarrow> \<exists>r s'. add x s = (r, s') \<and> inv s' \<and>
      (case r of Return y \<Rightarrow> good y \<and> key y \<notin> keys s \<and> keys s' = insert (key y) (keys s) | Raise e \<Rightarrow> keys s' = keys s | OutOfFuel \<Rightarrow> False)"
    and remove_law: "\<lbrakk>law; inv s; good y; key y \<in> keys s\<rbrakk> \<Longrightarrow>
      \<exists>s'. remove y s = (Return (), s') \<and> inv s' \<and> keys s' = keys s - {key y}"
begin

lemma removes_every:
  assumes law and "inv s" and "\<forall>y \<in> set ys. good y" and "key ` set ys \<subseteq> keys s" and "distinct (map key ys)"
  shows "\<exists>s'. forE ys remove s = (Return (), s') \<and> inv s' \<and> keys s' = keys s - key ` set ys"
  using assms(2-)
proof (induction ys arbitrary: s)
  case (Cons y ys)
  obtain t where t: "remove y s = (Return (), t)" "inv t" "keys t = keys s - {key y}"
    using remove_law [OF \<open>law\<close> Cons.prems(1), of y] Cons.prems(2,3) by auto
  then have "key ` set ys \<subseteq> keys t" using Cons.prems(3,4) t(3) by (force simp: image_iff)
  with Cons.IH [OF t(2)] Cons.prems(2,4)
  obtain s' where "forE ys remove t = (Return (), s')" "inv s'" "keys s' = keys t - key ` set ys" by auto
  then show ?case using t by (intro exI [of _ s']) (auto simp: seqE_step)
qed simp

text \<open>
  What was added for a test is removed after it, in every case: when an addition fails the test does not run and the keys are those of before;
  otherwise the test runs with all that was added, and loses nothing else at its end.
\<close>

lemma collecting_outcome:
  assumes law
    and body: "\<And>zs t r t'. inv t \<Longrightarrow> \<forall>z \<in> set zs. good z \<Longrightarrow> key ` set zs \<subseteq> keys t \<Longrightarrow> body zs t = (r, t') \<Longrightarrow>
      r \<noteq> OutOfFuel \<and> inv t' \<and> key ` set zs \<subseteq> keys t'"
    and "inv s" and "\<forall>x \<in> set xs. given x" and "\<forall>y \<in> set ys. good y" and "distinct (map key ys)"
    and "keys s = B \<union> key ` set ys" and "key ` set ys \<inter> B = {}"
    and "collecting add remove body xs ys s = (r, s')"
  shows "inv s' \<and> ((\<exists>e. r = Raise e \<and> keys s' = B) \<or>
    (\<exists>zs t t'. length zs = length ys + length xs \<and> (\<forall>z \<in> set zs. good z) \<and> key ` set zs \<inter> B = {} \<and> inv t \<and>
       keys t = B \<union> key ` set zs \<and> body zs t = (r, t') \<and> keys s' = keys t' - key ` set zs))"
  using assms(3-)
proof (induction xs arbitrary: s ys)
  case Nil
  obtain q t where q: "body ys s = (q, t)" by fastforce
  have "key ` set ys \<subseteq> keys s" using Nil.prems(5) by simp
  with body [OF Nil.prems(1,3) this q] have t: "q \<noteq> OutOfFuel" "inv t" "key ` set ys \<subseteq> keys t" by auto
  obtain u where "forE ys remove t = (Return (), u)" "inv u" "keys u = keys t - key ` set ys"
    using removes_every [OF \<open>law\<close> t(2) Nil.prems(3) t(3) Nil.prems(4)] by blast
  moreover from this(1) have "r = q \<and> s' = u" using Nil.prems(7) q t(1) by (cases q) (auto simp: finallyE_def)
  ultimately show ?case using Nil.prems q by (intro conjI disjI2 exI [of _ ys] exI [of _ s] exI [of _ t]) auto
next
  case (Cons x xs)
  obtain q t where q: "add x s = (q, t)" "inv t" and added: "(case q of Return y \<Rightarrow> good y \<and> key y \<notin> keys s \<and> keys t = insert (key y) (keys s)
      | Raise e \<Rightarrow> keys t = keys s | OutOfFuel \<Rightarrow> False)"
    using add_law [OF \<open>law\<close> Cons.prems(1), of x] Cons.prems(2) by auto
  show ?case
  proof (cases q)
    case (Return y)
    with added have y: "good y" "key y \<notin> keys s" "keys t = insert (key y) (keys s)" by simp_all
    have rest: "collecting add remove body xs (ys @ [y]) t = (r, s')"
      using Cons.prems(7) q(1) Return by (simp add: tryE_def bindE_def)
    have "keys t = B \<union> key ` set (ys @ [y])" "key ` set (ys @ [y]) \<inter> B = {}" "distinct (map key (ys @ [y]))"
      using Cons.prems y by auto
    from Cons.IH [OF q(2) _ _ this(3,1,2) rest] Cons.prems(2,3) y(1) show ?thesis by simp
  next
    case (Raise e)
    with added Cons.prems(5) have sub: "key ` set ys \<subseteq> keys t" and "keys t = B \<union> key ` set ys" by auto
    moreover obtain u where "forE ys remove t = (Return (), u)" "inv u" "keys u = keys t - key ` set ys"
      using removes_every [OF \<open>law\<close> q(2) Cons.prems(3) sub Cons.prems(4)] by blast
    moreover from this(1) have "r = Raise e \<and> s' = u"
      using Cons.prems(7) q(1) Raise by (simp add: tryE_def bindE_def finallyE_def raise_def)
    ultimately show ?thesis using Cons.prems(6) by auto
  qed (use added in simp)
qed

text \<open>In particular the keys are the same before and after, when the test leaves them as it finds them.\<close>

lemma scope_outcome:
  assumes law and "inv s" and "\<forall>x \<in> set xs. given x" and body: "\<And>zs. leaves inv keys (body zs)"
    and run: "collecting add remove body xs [] s = (r, s')"
  shows "inv s' \<and> keys s' = keys s \<and> ((\<exists>e. r = Raise e) \<or>
    (\<exists>zs t t'. length zs = length xs \<and> inv t \<and> keys t = keys s \<union> key ` set zs \<and> body zs t = (r, t')))"
proof -
  have "inv s' \<and> ((\<exists>e. r = Raise e \<and> keys s' = keys s) \<or>
    (\<exists>zs t t'. length zs = length ([] :: 'y list) + length xs \<and> (\<forall>z \<in> set zs. good z) \<and> key ` set zs \<inter> keys s = {} \<and> inv t \<and>
       keys t = keys s \<union> key ` set zs \<and> body zs t = (r, t') \<and> keys s' = keys t' - key ` set zs))"
    by (rule collecting_outcome [OF assms(1) _ assms(2,3) _ _ _ _ run]) (use leavesD [OF body] in simp_all)
  then consider e where "inv s'" "r = Raise e" "keys s' = keys s"
    | zs t t' where "inv s'" "length zs = length xs" "key ` set zs \<inter> keys s = {}" "inv t" "keys t = keys s \<union> key ` set zs" "body zs t = (r, t')"
      "keys s' = keys t' - key ` set zs"
    by auto
  then show ?thesis
  proof cases
    case 2
    then have "keys s' = keys s" using leavesD [OF body 2(4,6)] by auto
    with 2 show ?thesis by blast
  qed simp
qed

lemma scope_leaves:
  assumes law and "\<forall>x \<in> set xs. given x" and "\<And>zs. leaves inv keys (body zs)"
  shows "leaves inv keys (collecting add remove body xs [])"
  unfolding leaves_def
proof (intro allI impI, elim conjE)
  fix t r t' assume "inv t" "collecting add remove body xs [] t = (r, t')"
  from scope_outcome [OF assms(1) this(1) assms(2,3) this(2)] show "r \<noteq> OutOfFuel \<and> inv t' \<and> keys t' = keys t"
    using leavesD [OF assms(3)] by fast
qed

end

section \<open>Users and groups as registries\<close>

text \<open>A command without checks returns what the shell of the test answers.\<close>

lemma node_command_answers:
  assumes "attached os nm sh c" and "same_thread os" and "run os sh cmd None (world c) = (Return r, w)"
  shows "node_command os nm cmd default_args c = (Return r, c\<lparr>world := w\<rparr>) \<and> attached os nm sh (c\<lparr>world := w\<rparr>)"
proof -
  have "run_in os sh cmd None c = (Return r, c\<lparr>world := w\<rparr>)" using assms(3) by (simp add: run_in_def inW_def)
  then have "closing_on_timeout os (Some nm) (run_in os sh cmd None) c = (Return r, c\<lparr>world := w\<rparr>)"
    by (simp add: closing_on_timeout_def catchE_def)
  then have "node_command os nm cmd default_args c = (Return r, c\<lparr>world := w\<rparr>)"
    unfolding node_command_def command_def bindE_def [of "case _ of _ \<Rightarrow> _"]
    by (simp add: default_args_def bash_attached [OF assms(1)] bindE_step check_command_def expected_messages_def)
  moreover have "arg_bash default_args = None" by (simp add: default_args_def)
  from node_command_attached [OF assms(1,2) this calculation] have "attached os nm sh (c\<lparr>world := w\<rparr>)" by blast
  ultimately show ?thesis by blast
qed

lemma run_ldap_answers:
  assumes "attached os nm sh c" and "same_thread os" and "run os sh cmd None (world c) = (Return r, w)"
  shows "run_ldap os nm cmd (Some 0) c = (if cmd_exitcode r = 0 then Return () else Raise (AssertionError []), c\<lparr>world := w\<rparr>)"
  using node_command_answers [OF assms] by (simp add: run_ldap_def bindE_step expect_exitcode_def raise_def)

definition dn_of :: "ldap_entry \<Rightarrow> string" where
  "dn_of e = (case map_of e ''dn'' of Some (Attr dn) \<Rightarrow> dn | _ \<Rightarrow> [])"

text \<open>The entry has a name that the shell takes as it is, and its lines start with it.\<close>

definition plain_entry :: "ldap_entry \<Rightarrow> bool" where
  "plain_entry e \<longleftrightarrow> (case map_of e ''dn'' of
     Some (Attr dn) \<Rightarrow> shell_text dn \<and> CHR 0x0A \<notin> set dn \<and> shell_text (ldif e) \<and> startswith (ldif e) (''dn: '' @ dn @ newline)
   | _ \<Rightarrow> False)"

lemma plain_entryE:
  assumes "plain_entry e"
  obtains dn rest where "map_of e ''dn'' = Some (Attr dn)" "dn_of e = dn" "ldif e = ''dn: '' @ dn @ newline @ rest"
    "shell_text dn" "shell_text (ldif e)" "CHR 0x0A \<notin> set dn"
  using assms by (auto simp: plain_entry_def dn_of_def startswith_iff split: option.splits attribute.splits)

lemma shell_text_append [simp]: "shell_text (a @ b) \<longleftrightarrow> shell_text a \<and> shell_text b"
  by (simp add: shell_text_def)

lemma add_entry_law:
  assumes "ldap_law os sh dir" and "same_thread os" and "attached os nm sh c" and "plain_entry e"
  shows "\<exists>r c'. seqE (run_ldap os nm (ldapadd (ldif e)) (Some 0)) (ret e) c = (r, c') \<and> attached os nm sh c' \<and>
    (case r of Return y \<Rightarrow> plain_entry y \<and> dn_of y \<notin> dir (world c) \<and> dir (world c') = insert (dn_of y) (dir (world c))
     | Raise x \<Rightarrow> dir (world c') = dir (world c) | OutOfFuel \<Rightarrow> False)"
proof -
  obtain rest where lines: "ldif e = ''dn: '' @ dn_of e @ newline @ rest" and ok: "shell_text (dn_of e @ rest)" "CHR 0x0A \<notin> set (dn_of e)"
    using assms(4) by (elim plain_entryE) (simp add: shell_text_def)
  obtain r w where run: "run os sh (ldapadd (ldif e)) None (world c) = (Return r, w)"
    and dir: "if cmd_exitcode r = 0 then dn_of e \<notin> dir (world c) \<and> dir w = insert (dn_of e) (dir (world c)) else dir w = dir (world c)"
    using assms(1) ok unfolding ldap_law_def lines by blast
  have "attached os nm sh (c\<lparr>world := w\<rparr>)" using node_command_answers [OF assms(3,2) run] by blast
  then show ?thesis using run_ldap_answers [OF assms(3,2) run] dir assms(4)
    by (cases "cmd_exitcode r = 0") (auto simp: seqE_def bindE_def)
qed

lemma delete_entry_law:
  assumes "ldap_law os sh dir" and "same_thread os" and "attached os nm sh c" and "plain_entry e" and "dn_of e \<in> dir (world c)"
  shows "\<exists>c'. bindE (attribute_of e ''dn'') (\<lambda>dn. run_ldap os nm (ldapdelete dn) (Some 0)) c = (Return (), c') \<and>
    attached os nm sh c' \<and> dir (world c') = dir (world c) - {dn_of e}"
proof -
  obtain dn where dn: "map_of e ''dn'' = Some (Attr dn)" "dn_of e = dn" "shell_text dn"
    using assms(4) by (elim plain_entryE)
  obtain r w where run: "run os sh (ldapdelete dn) None (world c) = (Return r, w)" and "cmd_exitcode r = 0" "dir w = dir (world c) - {dn}"
    using assms(1,5) dn unfolding ldap_law_def by blast
  moreover have "attached os nm sh (c\<lparr>world := w\<rparr>)" using node_command_answers [OF assms(3,2) run] by blast
  ultimately show ?thesis using run_ldap_answers [OF assms(3,2) run] dn by (simp add: attribute_of_def getitem_def)
qed

interpretation ldap_user_registry: registry "ldap_law os sh dir \<and> same_thread os" "attached os nm sh" "\<lambda>c. dir (world c)" dn_of
  "\<lambda>a. plain_entry (user_entry nm a)" plain_entry "add_user_to_ldap os nm" "\<lambda>u. delete_user_from_ldap os nm u (Some 0)"
  for os sh dir nm
  using add_entry_law [of os sh dir nm] delete_entry_law [of os sh dir nm]
  by unfold_locales (auto simp: add_user_to_ldap_def delete_user_from_ldap_def Let_def)

interpretation ldap_group_registry: registry "ldap_law os sh dir \<and> same_thread os" "attached os nm sh" "\<lambda>c. dir (world c)" dn_of
  "\<lambda>cn. plain_entry (group_entry nm cn)" plain_entry "\<lambda>cn. add_group_to_ldap os nm cn (Some 0)" "\<lambda>g. delete_group_from_ldap os nm g (Some 0)"
  for os sh dir nm
  using add_entry_law [of os sh dir nm] delete_entry_law [of os sh dir nm]
  by unfold_locales (auto simp: add_group_to_ldap_def delete_group_from_ldap_def Let_def)

section \<open>Properties\<close>

text \<open>
  C8. Users and groups that a test adds to an LDAP server are gone after it, however it ends: if every command for the server is
  answered and the test itself leaves the directory as it finds it, the directory after the scopes has exactly the
  entries it had before, also when one of the users or groups existed already and could not be added, or the test raised. A normal end means that the
  test ran with all of them present.
\<close>

theorem ldap_directory_restored:
  assumes "ldap_law os sh dir" and "same_thread os" and "attached os nm sh c"
    and "\<forall>a \<in> set users. plain_entry (user_entry nm a)" and "\<forall>cn \<in> set groups. plain_entry (group_entry nm cn)"
    and test: "\<And>us gs. leaves (attached os nm sh) (\<lambda>c. dir (world c)) (body us gs)"
    and run: "ldap_users os nm users (\<lambda>us. add_ldap_groups os nm groups (body us)) c = (r, c')"
  shows "dir (world c') = dir (world c) \<and> r \<noteq> OutOfFuel \<and>
    (\<forall>x. r = Return x \<longrightarrow> (\<exists>us gs t t'. length us = length users \<and> length gs = length groups \<and>
       dir (world t) = dir (world c) \<union> dn_of ` set (us @ gs) \<and> body us gs t = (Return x, t')))"
proof -
  let ?inv = "attached os nm sh" and ?dir = "\<lambda>c. dir (world c)" and ?groups = "\<lambda>us. add_ldap_groups os nm groups (body us)"
  have law: "ldap_law os sh dir \<and> same_thread os" using assms(1,2) by simp
  have groups: "leaves ?inv ?dir (?groups us)" for us
    unfolding add_ldap_groups_def by (rule ldap_group_registry.scope_leaves [OF law assms(5) test])
  note users = ldap_user_registry.scope_outcome [OF law assms(3,4) groups run [unfolded ldap_users_def]]
  have inside: "\<exists>gs u u'. length gs = length groups \<and> ?dir u = ?dir t \<union> dn_of ` set gs \<and> body us gs u = (Return x, u')"
    if "?inv t" "?groups us t = (Return x, t')" for us t x t'
    using ldap_group_registry.scope_outcome [OF law that(1) assms(5) test that(2) [unfolded add_ldap_groups_def]] by blast
  have "\<exists>us gs t t'. length us = length users \<and> length gs = length groups \<and>
       ?dir t = ?dir c \<union> dn_of ` set (us @ gs) \<and> body us gs t = (Return x, t')" if r: "r = Return x" for x
  proof -
    obtain us t t' where us: "length us = length users" "?inv t" "?dir t = ?dir c \<union> dn_of ` set us" "?groups us t = (Return x, t')"
      using users unfolding r by auto
    from inside [OF us(2,4)] obtain gs u u' where "length gs = length groups" "?dir u = ?dir t \<union> dn_of ` set gs" "body us gs u = (Return x, u')"
      by blast
    with us(1,3) show ?thesis by (intro exI [of _ us] exI [of _ gs] exI [of _ u] exI [of _ u']) (simp add: Un_assoc image_Un)
  qed
  moreover have "r \<noteq> OutOfFuel"
    using leavesD [OF ldap_user_registry.scope_leaves [OF law assms(4) groups] assms(3) run [unfolded ldap_users_def]] by simp
  moreover have "?dir c' = ?dir c" using users by (elim conjE)
  ultimately show ?thesis by (intro conjI allI impI)
qed

text \<open>A directory for the witness: the world is the list of its names.\<close>

definition dir_reply :: "string \<Rightarrow> string list \<Rightarrow> int \<times> string list" where
  "dir_reply cmd dns =
     (if startswith cmd (''echo -e '' @ [CHR 0x22] @ ''dn: '') then
        (let dn = takeWhile (\<lambda>c. c \<noteq> CHR 0x0A) (drop 13 cmd) in if dn \<in> set dns then (68, dns) else (0, dn # dns))
      else if startswith cmd (''ldapdelete'' @ as_admin @ '' '' @ [CHR 0x22]) then
        (let dn = butlast (drop (length (''ldapdelete'' @ as_admin) + 2) cmd) in if dn \<in> set dns then (0, removeAll dn dns) else (32, dns))
      else (0, dns))"

definition dir_os :: "string list os" where
  "dir_os = \<lparr>
     open_shell = (\<lambda>_ _. ret 0), enter_shell = (\<lambda>_. ret ()), child_alive = (\<lambda>_ _. False), send = (\<lambda>_ _. ret ()),
     base_exit = (\<lambda>_. ret ()), set_timeout = (\<lambda>_ _. ret ()),
     run = (\<lambda>sh cmd _ w. case dir_reply cmd w of (code, w') \<Rightarrow> (Return \<lparr>cmd_output = [], cmd_exitcode = code\<rparr>, w')),
     now = (\<lambda>_. 0), sleep = (\<lambda>_. ret ()), current_thread = (\<lambda>_. ''main''), thread_names = (\<lambda>_. [''main'']),
     path_exists = (\<lambda>_ _. True), remove_path = (\<lambda>_. ret ()), make_dir = (\<lambda>_. ret ()), make_dirs = (\<lambda>_. ret ()),
     temp_file_name = (\<lambda>_. ret ''/tmp/query''), uuid1 = ret ''uuid'', retries = (\<lambda>_ _ body. body 0),
     retry = (\<lambda>_ m. m), fuel = 1\<rparr>"

definition dir_cluster :: "string list cluster" where
  "dir_cluster = \<lparr>bash_pool = [((''main'', ''openldap1''), 7)], ctl_shell = None, lock_held = False, environ = [],
     binary_path = None, odbc_bridge_path = None, configs_dir = ''configs'', is_local = True,
     cluster_nodes = [(''openldap'', [''openldap1''])], docker_compose = ''dc'', project_dir = ''env'',
     thread_fuzzer = False, running = True, collect_service_logs = False, use_zookeeper_nodes = False,
     context_version = None, default_query_settings = [], world = [groups_dn ''staff'']\<rparr>"

definition sim_ldap_user :: "string \<Rightarrow> ldap_user_args" where
  "sim_ldap_user cn = \<lparr>u_cn = cn, u_password = ''secret'', u_givenname = None, u_homedirectory = None, u_sn = None, u_uid = None, u_uidnumber = None\<rparr>"

lemma dir_laws: "ldap_law dir_os 7 set" "same_thread dir_os" "attached dir_os ''openldap1'' 7 dir_cluster"
proof -
  have "takeWhile (\<lambda>c. c \<noteq> CHR 0x0A) (dn @ CHR 0x0A # rest) = dn" if "CHR 0x0A \<notin> set dn" for dn rest
    using that by (induction dn) auto
  then show "ldap_law dir_os 7 set"
    by (auto simp: ldap_law_def dir_os_def dir_reply_def ldapadd_def ldapdelete_def dquoted_def newline_def Let_def)
qed (auto simp: same_thread_def attached_def dir_os_def dir_cluster_def split: prod.splits)

lemma sim_entries_plain: "plain_entry (user_entry ''openldap1'' (sim_ldap_user ''ann''))" "plain_entry (group_entry ''openldap1'' ''staff'')"
  by code_simp+

theorem ldap_directory_restored_witness:
  "set (world (snd (ldap_users dir_os ''openldap1'' [sim_ldap_user ''ann'']
      (\<lambda>us. add_ldap_groups dir_os ''openldap1'' [''staff''] (\<lambda>gs. ret ())) dir_cluster))) = {groups_dn ''staff''}"
proof -
  let ?run = "ldap_users dir_os ''openldap1'' [sim_ldap_user ''ann''] (\<lambda>us. add_ldap_groups dir_os ''openldap1'' [''staff''] (\<lambda>gs. ret ())) dir_cluster"
  have "leaves (attached dir_os ''openldap1'' 7) (\<lambda>c. set (world c)) (ret ())" by (auto simp: leaves_def)
  with ldap_directory_restored [OF dir_laws, of "[sim_ldap_user ''ann'']" "[''staff'']" "\<lambda>us gs. ret ()" "fst ?run" "snd ?run"] sim_entries_plain
  have "set (world (snd ?run)) = set (world dir_cluster)" by simp
  then show ?thesis by (simp add: dir_cluster_def)
qed

section \<open>What the configuration says\<close>

lemma foldl_append_child: "foldl append_child (Xml g ats tx ta ch) cs = Xml g ats tx ta (ch @ cs)"
  by (induction cs arbitrary: ch) auto

lemma foldl_xml_append: "foldl (\<lambda>x (k, v). xml_append x k v) (Xml g ats tx ta ch) d =
    Xml g ats tx ta (ch @ map (\<lambda>(k, v). set_text v (Element k)) d)"
  by (induction d arbitrary: ch) (auto simp: xml_append_def)

text \<open>
  The configuration of LDAP servers, comment and indentation included, reads back as the dictionary of the servers, and its text has the unique
  identifier that \<open>add_config\<close> waits for.
\<close>

lemma read_server_element: "d \<noteq> [] \<Longrightarrow> read_xml (server_element (nm, d)) = [((nm, []), PDict (map (\<lambda>(k, v). ((k, []), PText v)) d))]"
proof -
  have "concat (map (read_xml \<circ> (\<lambda>(k, v). Xml (Tag k) [] (Some v) None [])) d) = map (\<lambda>(k, v). ((k, []), PText v)) d"
    by (induction d) auto
  then show "d \<noteq> [] \<Longrightarrow> ?thesis" by (simp add: server_element_def Element_def foldl_xml_append)
qed

lemma ldap_servers_roundtrip:
  assumes "list_all (\<lambda>(nm, d). d \<noteq> []) servers"
  shows "read_xml (xml_indent 0 ''  '' (ldap_tree ''ldap_servers'' comment (map server_element servers))) =
    [((''yandex'', []), PDict [((''ldap_servers'', []),
       PDict (map (\<lambda>(nm, d). ((nm, []), PDict (map (\<lambda>(k, v). ((k, []), PText v)) d))) servers))])]"
proof -
  have "concat (map (read_xml \<circ> server_element) servers) =
      map (\<lambda>(nm, d). ((nm, []), PDict (map (\<lambda>(k, v). ((k, []), PText v)) d))) servers"
    using assms by (induction servers) (auto simp: read_server_element)
  then show ?thesis unfolding read_indent by (simp add: ldap_tree_def Element_def Comment_def foldl_append_child)
qed

lemma indented_comment:
  "\<exists>tx ta ta' cs. xml_indent level by (Xml g ats tx0 ta0 (Comment t # elems)) = Xml g ats tx ta (Xml CommentTag [] (Some t) ta' [] # cs)"
proof -
  obtain ta0' where "xml_indent (level + 1) ''  '' (Comment t) = Xml CommentTag [] (Some t) ta0' []"
    using indent_comment by blast
  then show ?thesis
    using dedent_last_head [of "indentation level by" CommentTag "[]" "Some t" ta0' "[]" "map (xml_indent (level + 1) ''  '') elems"]
    by (simp add: Let_def)
qed

lemma children_indent_one: "children_of (xml_indent level by (Xml g ats tx ta [x])) = dedent_last (indentation level by) [xml_indent (Suc level) ''  '' x]"
  by (simp add: Let_def)

lemma ldap_content_has_uid: "str_in uid (config_content (ldap_content uid sect comment elems config_d_dir config_file preprocessed))"
proof -
  let ?text = "comment @ '' '' @ uid" and ?tree = "ldap_tree sect (comment @ '' '' @ uid) elems"
  have tree: "?tree = Xml (Tag ''yandex'') [] None None [Xml (Tag sect) [] None None (Comment ?text # elems)]"
    by (simp add: ldap_tree_def Element_def foldl_append_child)
  obtain tx ta ta' cs where sect: "xml_indent (Suc 0) ''  '' (Xml (Tag sect) [] None None (Comment ?text # elems)) =
      Xml (Tag sect) [] tx ta (Xml CommentTag [] (Some ?text) ta' [] # cs)" (is "_ = Xml _ _ _ _ (?c # _)")
    using indented_comment by blast
  obtain ta2 where child: "children_of (xml_indent 0 ''  '' ?tree) = [Xml (Tag sect) [] tx ta2 (?c # cs)]"
    unfolding tree children_indent_one sect by (cases "blank ta") simp_all
  have "str_in uid (''<!--'' @ ?text @ ''-->'' @ tail_text ta')" by (intro str_in_appendI1 str_in_appendI2 str_in_self)
  then have "str_in uid (tostring ?c)" by (simp del: str_in.simps)
  then have inner: "str_in uid (tostring (Xml (Tag sect) [] tx ta2 (?c # cs)))"
    by (rule str_in_tostring_child [rotated 2]) (simp_all del: tostring.simps)
  have "tag_of (xml_indent 0 ''  '' ?tree) = Tag ''yandex''" unfolding tree by (simp add: Let_def)
  moreover have "Xml (Tag sect) [] tx ta2 (?c # cs) \<in> set (children_of (xml_indent 0 ''  '' ?tree))" unfolding child by simp
  ultimately have "str_in uid (tostring (xml_indent 0 ''  '' ?tree))" by (rule str_in_tostring_child [OF _ _ inner])
  then show ?thesis by (simp add: ldap_content_def str_in_appendI2 del: str_in.simps)
qed

section \<open>What a login means\<close>

text \<open>Polling for a login returns only after an answer with the expected exit code and message; it fails only after its timeout.\<close>

lemma login_loop_Return:
  "login_loop os nm q exitcode message timeout n start_time c = (Return (), c') \<Longrightarrow>
    \<exists>t r. query os nm ''SELECT 1'' 5 (q\<lparr>q_no_checks := True\<rparr>) t = (Return r, c') \<and> login_accepted exitcode message r"
  by (induction n arbitrary: c)
    (auto simp: bindE_Return_iff out_of_fuel_def clock_def split: if_splits)

end
