(* ===== verification/Spec2Isabelle.thy ===== *)
theory Spec2Isabelle
  imports Tables Entry_Points Storage_Suites Extended_Precision Protobuf_Encoder Parquet_Columns Uexpect Http_Client
    Expected_Results Parquet_Suite Ldap_Steps
begin

text \<open>
  A verification of the code that the regression suites of ClickHouse share.

  \<^bold>\<open>The program.\<close> A suite runs its tests against a set of ClickHouse and ZooKeeper servers in
  docker containers. \<open>helpers/cluster.py\<close> owns the containers: a \<open>Cluster\<close> object is constructed from
  the directory of a docker-compose project, \<open>up\<close> starts the services, and every command and query of
  a test goes through an interactive shell that the object keeps per thread and node. Threads share
  these shells under one lock. \<open>helpers/common.py\<close> has the steps the tests are written with: version
  checks, server configuration, files, users, groups and variables of a node. \<open>helpers/datatypes.py\<close>
  and \<open>helpers/tables.py\<close> generate columns of every type, their values and the statements for them.
  \<open>rbac/helper\<close> builds on the queries. \<open><suite>/regression.py\<close> puts all parts together for one suite,
  \<open>regression.py\<close> starts them all, and \<open>cicd-trigger.py\<close> starts suites in the continuous integration
  service. The functional tests of the server bring programs of their own, which drive
  terminals, speak HTTP and translate data files.

  \<^bold>\<open>Theories and sources\<close>, below \<open>src/\<close>:

  \<^item> \<^verbatim>\<open>Py_Base\<close>: the Python operations on strings, numbers, lists and dictionaries that the sources use.
  \<^item> \<^verbatim>\<open>Py_Effects\<close>: statements as functions from a state to an outcome and a new state; \<open>try\<close>, \<open>finally\<close>,
    loops, and the rules for invariants (\<open>keeps\<close>), results (\<open>triple\<close>, \<open>yields\<close>), errors (\<open>throws\<close>) and
    termination (\<open>ends\<close>) of effects. The locale \<open>scoped\<close> is the contract of a context manager.
  \<^item> \<^verbatim>\<open>Versions\<close>: \<open>helpers/common.py\<close>, \<open>check_clickhouse_version\<close>, \<open>getuid\<close>, snapshot names.
  \<^item> \<^verbatim>\<open>Xml_Config\<close>: \<open>helpers/common.py\<close>, \<open>xml_indent\<close>, \<open>xml_append\<close>, \<open>create_xml_config_content\<close>.
  \<^item> \<^verbatim>\<open>Datatypes\<close> and \<^verbatim>\<open>Datatypes_Facts\<close>: the classes of \<open>helpers/datatypes.py\<close> as a datatype with the
    attributes as a record, and their bounds.
  \<^item> \<^verbatim>\<open>Tables\<close>: \<open>helpers/tables.py\<close>, columns, type generators, \<open>create_table\<close>, \<open>insert_test_data\<close>.
  \<^item> \<^verbatim>\<open>Cluster_State\<close> and \<^verbatim>\<open>Cluster_Pool\<close>: the attributes of \<open>Cluster\<close>, \<open>control_shell\<close>,
    \<open>node_container_id\<close>, \<open>shell\<close>, \<open>bash\<close>, \<open>close_bashes\<close> of \<open>helpers/cluster.py\<close>, and what they guarantee.
  \<^item> \<^verbatim>\<open>Cluster_Command\<close>: \<open>Cluster.command\<close>, the methods of \<open>Node\<close>, and \<open>query\<close>, \<open>hash_query\<close> and
    \<open>diff_query\<close> of \<open>ClickHouseNode\<close>.
  \<^item> \<^verbatim>\<open>Node_Lifecycle\<close>: starting, stopping and health of \<open>ZooKeeperNode\<close> and \<open>ClickHouseNode\<close>.
  \<^item> \<^verbatim>\<open>Cluster_Lifecycle\<close>: \<open>Cluster.__init__\<close>, \<open>up\<close>, \<open>down\<close>, \<open>__enter__\<close>, \<open>__exit__\<close>, \<open>create_cluster\<close>.
  \<^item> \<^verbatim>\<open>Node_Steps\<close> and \<^verbatim>\<open>Config_Steps\<close>: the steps of \<open>helpers/common.py\<close> on a node, and \<open>add_config\<close> and
    \<open>add_invalid_config\<close> with the waiting for the server to take the change.
  \<^item> \<^verbatim>\<open>Rbac_Helpers\<close>: \<open>rbac/helper/common.py\<close>, \<open>tables.py\<close> and \<open>errors.py\<close>.
  \<^item> \<^verbatim>\<open>Cicd_Trigger\<close>: \<open>cicd-trigger.py\<close>, \<open>.github/online-runners.py\<close>, \<open>.github/get-deb-url.py\<close>.
  \<^item> \<^verbatim>\<open>Suites\<close>: \<open>helpers/argparser.py\<close>, the module of \<open>rbac/regression.py\<close>, and the functions in which
    \<open>ssl_keeper/helpers/cluster.py\<close> differs from \<open>helpers/cluster.py\<close>.
  \<^item> \<^verbatim>\<open>Suite_Modules\<close>: the functions \<open>regression\<close> of twenty suites that have one shape, \<open>run_suite\<close>, and those of
    \<open>atomic_insert\<close>, \<open>lightweight_delete\<close>, \<open>ssl_server\<close> and \<open>clickhouse_keeper\<close>, which have steps of their own.
  \<^item> \<^verbatim>\<open>Entry_Points\<close>: \<open>regression.py\<close>, \<open>ldap/regression.py\<close>, \<open>clickhouse/functional/functional.py\<close>,
    \<open>aggregate_functions/regression.py\<close>, \<open>clickhouse_keeper/performance.py\<close>, and how calls bind the parameters of all
    entry points.
  \<^item> \<^verbatim>\<open>Storage_Suites\<close>: \<open>s3/regression.py\<close> with \<open>start_minio\<close> of \<open>s3/tests/common.py\<close>, \<open>tiered_storage/regression.py\<close> with
    its storage configuration, \<open>ontime_benchmark/benchmark.py\<close>.
  \<^item> \<^verbatim>\<open>Expected_Results\<close>: the tables \<open>xfails\<close>, \<open>xflags\<close> and \<open>ffails\<close> of the entry points, and when an entry applies.
  \<^item> \<^verbatim>\<open>Parquet_Files\<close>: \<open>parquet/data/test_file_generators.py\<close>, and how \<open>parquet/regression.py\<close> reads the columns it
    writes; \<^verbatim>\<open>Parquet_Suite\<close>: \<open>parquet/regression.py\<close>, \<open>parquet/data/local_app.py\<close>, and \<open>ec2_regression.py\<close>, \<open>manual_ec2_regression.py\<close> and
    \<open>manual_aws_s3.py\<close> of \<open>s3\<close>.
  \<^item> \<^verbatim>\<open>Ldap_Steps\<close>: the steps of \<open>ldap/authentication/tests/common.py\<close> and of the files of that name for
    \<open>external_user_directory\<close> and \<open>role_mapping\<close> that manage an LDAP server and configure the server for it.
  \<^item> \<^verbatim>\<open>Extended_Precision\<close>: \<open>extended_precision_data_types/common.py\<close> and \<open>errors.py\<close>.
  \<^item> Programs of the functional tests, below \<open>clickhouse/functional/src/queries/0_stateless/helpers\<close>: \<^verbatim>\<open>Protobuf_Encoder\<close>
    (\<open>protobuf_length_delimited_encoder.py\<close>), \<^verbatim>\<open>Parquet_Columns\<close> (\<open>00900_parquet_create_table_columns.py\<close>), \<^verbatim>\<open>Uexpect\<close> (\<open>uexpect.py\<close>,
    \<open>httpexpect.py\<close>, \<open>client.py\<close>, \<open>shell.py\<close>), \<^verbatim>\<open>Http_Client\<close> (\<open>pure_http_client.py\<close>).
  \<^item> This theory: the run of the access control suite.

  \<^bold>\<open>State and effects.\<close> The record \<open>cluster\<close> has the attributes of the object (control shell, pool of
  shells, lock, environment, whether it is running), the attributes of the test context that the code
  reads, and the world outside, of an arbitrary type. An effect returns, raises an exception of the
  datatype \<open>exn\<close>, or runs out of fuel; what it did before an exception stays done, so the theorems
  about \<open>finally\<close> blocks speak of what has really happened.

  \<^bold>\<open>Code outside the repository\<close> is an argument: the record \<open>os\<close> has the shells, the processes and the
  clock, \<open>host\<close> the machine and its directories, \<open>terminal\<close> the prompts of a shell, \<open>rng\<close> the random
  numbers, \<open>gitlab\<close> the service, \<open>runner\<close> the test framework, \<open>minio\<close>, \<open>http\<close>, \<open>tty\<close> and \<open>popen\<close> the libraries for object
  stores, requests, terminals and processes, and bodies of tests are arguments of the steps that run them. What
  is assumed of them is a named hypothesis, and every property with one has a witness on a
  simulated world in which it holds: \<open>clock_ok\<close> (no operation turns the clock back),
  \<open>slow_failure\<close> (a failing attempt takes time), \<open>retries_law\<close> (a retried attempt that ends normally has
  succeeded once), \<open>env_law\<close> and \<open>group_law\<close> (what \<open>export\<close>, \<open>unset\<close>, \<open>groupadd\<close>, \<open>groupdel\<close> do),
  \<open>ready_by\<close> (from some time on a command answers as expected), \<open>rng_ok\<close> (draws lie in their interval),
  \<open>minio_law\<close> and \<open>minio_clock\<close> (operations on buckets that return have done what they say, in time),
  \<open>ldap_law\<close> (what \<open>ldapadd\<close> and \<open>ldapdelete\<close> do to the entries of a directory),
  \<open>http_law\<close> (what a request and a pause count), \<open>tools_ok\<close> (the compiler for messages undoes itself),
  \<open>queue_law\<close>, \<open>search_law\<close> and \<open>slow_queue\<close> (a queue hands out what was read, a match lies in the
  text, an empty queue takes its timeout).

  \<^bold>\<open>Loops and fuel.\<close> A loop that waits for the clock has \<open>fuel os\<close> iterations; a second acquisition of
  the lock in the same thread, which blocks forever, also ends as \<open>OutOfFuel\<close>. \<open>enough_fuel os d\<close> says
  that the fuel is at least 25 and that, at \<open>d\<close> seconds per failing attempt, it outlasts the 300 seconds
  of the longest timeout: 25 because \<open>node_container_id\<close> subtracts the whole time since its start in
  every round and so uses up 300 seconds in at most 25 rounds. With it \<open>bash_always_ends\<close> proves that
  a shell is returned or an exception raised. \<open>config_wait_succeeds\<close> needs as many rounds as the
  timeout has seconds, since each round sleeps for one; so does \<open>start_minio\<close>, which is given one more and is
  proved to end. \<open>expect_always_ends\<close> proves the same for the loop over a terminal, with the fuel that the
  smallest wait on its queue calls for. All other recursions are structural or have a termination proof.

  \<^bold>\<open>What is shown.\<close>
  \<^item> Refinement: the version check compares lists of numbers (\<open>check_clickhouse_version_refines\<close>); round
    trips: a configuration read back is the dictionary it was made from (\<open>config_tree_roundtrip\<close>). The conditions of
    all tables of expected results have the meaning of their constraints (\<open>tables_refine\<close>), and those of the access control suite divide the
    versions into windows (\<open>rbac_forced_windows\<close>).
  \<^item> Shells: the lock is always released, the pool returns one shell per thread and node and closes only
    shells of ended threads, a timed out query leaves no shell behind; returned results passed their checks.
  \<^item> Servers and cluster: what a normal return of \<open>start\<close>, \<open>stop\<close>, \<open>up\<close> and \<open>down\<close> means, and what is left
    behind when they raise.
  \<^item> Context managers: the clean-up runs however the test ends, once in the locale \<open>scoped\<close>, which is
    interpreted for tables, files, users, groups, variables, configurations, roles and row policies.
    The locale \<open>registry\<close> is the contract of things that are added one by one, interpreted for the users and the groups of
    an LDAP server: \<open>ldap_directory_restored\<close> proves that they are gone after the test however it ends.
    The locale \<open>server_node\<close> covers the servers of both kinds, \<open>lock_respecting\<close> the callers of the shells.
  \<^item> Data: limits of integers, decimals and strings, balanced brackets in all generated text, the exact
    rows that \<open>insert_test_data\<close> writes; the generated Parquet columns hold values of their types and their definitions
    are read back, all but the last one (\<open>parquet_rows_conform\<close>, \<open>parquet_definition_roundtrip\<close>).
  \<^item> Composition: \<open>rbac_regression_contract\<close> below and \<open>run_suite_contract\<close>, from the constructor of the cluster to its
    clean-up; the locale \<open>cluster_module\<close> is the contract of every entry point that uses a cluster, interpreted for the suites
    of one shape, \<open>ssl_server\<close>, \<open>rbac\<close>, \<open>parquet\<close>, the functional tests and the measurements. \<open>gates\<close> says when a suite
    skips, \<open>entry_points_bind\<close> and \<open>root_regression_stops\<close> what calling all suites does, \<open>manual_scripts_fail\<close> that two scripts
    cannot run.
  \<^item> Programs of the functional tests: lengths and messages read back what was written
    (\<open>varint_roundtrip\<close>, \<open>decode_and_check_accepts\<close>), what waiting on a terminal returns and that it ends, how
    often a request is tried, and that the columns of a table are those of the file.

  \<^bold>\<open>Not modelled.\<close> The tests and most steps of single suites, whose content is SQL for a server that is not
  part of the repository; the requirements, which are text; how the test framework matches the patterns of the tables of expected
  results; the copy of the cluster helper for \<open>ssl_keeper\<close> where it does not differ, and its entry point, which runs on it; the file
  with one large chunked array, which is made by calls of the Arrow library; the docker-compose projects and configuration files.
  The function \<open>eval\<close> is modelled on the expressions that the definitions of columns consist of.
  Concurrency is covered as far as the lock goes: a thread is the name in its key of the pool, other
  threads act through the world and the list of living threads. Colours and log output, which the
  test framework formats, are left out.

  \<^bold>\<open>Plan.\<close> Open are the step libraries of \<open>clickhouse_keeper\<close> and \<open>s3\<close>, the steps for local users and roles of \<open>ldap\<close>, the reports of the
  performance measurements, and the programs of the functional tests that watch live views.
\<close>

section \<open>Running a suite\<close>


text \<open>In the witness the server is version 22.8 and no pid file has a pid.\<close>

lemma suite_runs:
  "fst (rbac_regression (sim_os suite_reply) sim_terminal sim_host ''/r/rbac'' False None None False (\<lambda>_. ret ()) sim_cluster) = Return ()"
  by code_simp


end
